(* ===== verification/Prelude.thy ===== *)
theory Prelude
  imports Main "HOL-Library.Product_Lexorder" "HOL-Library.List_Lexorder"
    "HOL-Library.Char_ord" "HOL-Library.Option_ord"
begin

text \<open>
  What every component of the development shares: the error monad the services are
  written in (a raised exception is the value \<open>Inl\<close>, a normal return \<open>Inr\<close>), the
  Python string functions the services call on free text, SQL's descending order, and
  the fact collections that carry the proofs.
\<close>

named_theorems err_simps \<open>inversion of the error monad: which guards a normal return has passed\<close>
named_theorems frame_simps \<open>which tables an operation leaves alone\<close>

section \<open>Identifiers and time\<close>

text \<open>
  A uuid is a number (the model never looks inside one); \<open>str(uuid)\<close> is the identity,
  so a user id stored as text and the same id stored as a uuid compare equal, as the
  code's \<open>str(...) == actor_id\<close> does. Instants are microseconds, the resolution of
  Python's \<open>datetime\<close>.
\<close>

type_synonym uuid = nat
type_synonym instant = int

definition days :: "int \<Rightarrow> int" where
  "days n = n * 86400000000"

section \<open>Errors as values\<close>

definition bindE :: "'e + 'a \<Rightarrow> ('a \<Rightarrow> 'e + 'b) \<Rightarrow> 'e + 'b" where
  "bindE m f = (case m of Inl e \<Rightarrow> Inl e | Inr x \<Rightarrow> f x)"

definition require :: "bool \<Rightarrow> 'e \<Rightarrow> 'e + unit" where
  "require ok e = (if ok then Inr () else Inl e)"

definition returns :: "'e + 'a \<Rightarrow> bool" where
  "returns m = (case m of Inl _ \<Rightarrow> False | Inr _ \<Rightarrow> True)"

lemma bindE_simps [simp]:
  "bindE (Inl e) f = Inl e"
  "bindE (Inr x) f = f x"
  by (simp_all add: bindE_def)

lemma bindE_cong [fundef_cong]:
  "m = m' \<Longrightarrow> (\<And>x. m' = Inr x \<Longrightarrow> f x = f' x) \<Longrightarrow> bindE m f = bindE m' f'"
  by (cases m') (auto simp: bindE_def)

lemma bindE_eq_Inr [err_simps]:
  "bindE m f = Inr y \<longleftrightarrow> (\<exists>x. m = Inr x \<and> f x = Inr y)"
  by (cases m) auto

lemma bindE_eq_Inl:
  "bindE m f = Inl e \<longleftrightarrow> m = Inl e \<or> (\<exists>x. m = Inr x \<and> f x = Inl e)"
  by (cases m) auto

lemma require_simps [simp]:
  "require True e = Inr ()"
  "require False e = Inl e"
  by (simp_all add: require_def)

lemma require_eq_Inr [err_simps]: "require ok e = Inr u \<longleftrightarrow> ok"
  by (simp add: require_def)

lemma require_eq_Inl: "require ok e = Inl e' \<longleftrightarrow> \<not> ok \<and> e' = e"
  by (auto simp: require_def)

lemma if_Inl_eq_Inr [err_simps]:
  "(if c then Inl e else m) = Inr x \<longleftrightarrow> \<not> c \<and> m = Inr x"
  "(if c then m else Inl e) = Inr x \<longleftrightarrow> c \<and> m = Inr x"
  by auto

lemma option_case_Inl_eq_Inr [err_simps]:
  "(case z of None \<Rightarrow> Inl e | Some y \<Rightarrow> f y) = Inr x \<longleftrightarrow> (\<exists>y. z = Some y \<and> f y = Inr x)"
  "(case z of None \<Rightarrow> m | Some y \<Rightarrow> Inl (g y)) = Inr x \<longleftrightarrow> z = None \<and> m = Inr x"
  by (cases z; simp)+

lemma case_prod_eq_Inr:
  "(case m of (a, b) \<Rightarrow> f a b) = Inr z \<longleftrightarrow> (\<exists>a b. m = (a, b) \<and> f a b = Inr z)"
  by (cases m) simp

lemma returns_iff: "returns m \<longleftrightarrow> (\<exists>x. m = Inr x)"
  by (cases m) (auto simp: returns_def)

lemma returns_simps [simp]: "returns (Inr x)" "\<not> returns (Inl e)"
  by (simp_all add: returns_def)

lemma returns_require [simp]: "returns (require ok e) \<longleftrightarrow> ok"
  by (simp add: require_def)

lemma returns_bindE: "returns (bindE m f) \<longleftrightarrow> (\<exists>x. m = Inr x \<and> returns (f x))"
  by (cases m) auto

section \<open>Python text\<close>

text \<open>
  The characters \<open>str.strip()\<close> removes, for the code points a \<open>char\<close> can hold: the
  ASCII controls 9 to 13 and 28 to 31, the space, and in the Latin-1 half 133 and 160.
\<close>

definition py_space :: "char \<Rightarrow> bool" where
  "py_space c = (let n = of_char c :: nat in
     9 \<le> n \<and> n \<le> 13 \<or> 28 \<le> n \<and> n \<le> 32 \<or> n = 133 \<or> n = 160)"

definition py_strip :: "string \<Rightarrow> string" where
  "py_strip s = rev (dropWhile py_space (rev (dropWhile py_space s)))"

text \<open>\<open>reason.strip() if reason else None\<close>, and then \<open>not text\<close>.\<close>

definition strip_if_given :: "string option \<Rightarrow> string option" where
  "strip_if_given r = (case r of None \<Rightarrow> None | Some s \<Rightarrow> if s = [] then None else Some (py_strip s))"

definition no_text :: "string option \<Rightarrow> bool" where
  "no_text t = (t = None \<or> t = Some [])"

text \<open>\<open>(reason or "").strip() or None\<close>.\<close>

definition clean_text :: "string option \<Rightarrow> string option" where
  "clean_text r = (case r of None \<Rightarrow> None | Some s \<Rightarrow>
     let t = py_strip s in if t = [] then None else Some t)"

lemma no_text_simps [simp]: "no_text None" "no_text (Some s) \<longleftrightarrow> s = []"
  by (simp_all add: no_text_def)

lemma py_strip_Nil [simp]: "py_strip [] = []"
  by (simp add: py_strip_def)

lemma py_strip_eq_Nil: "py_strip s = [] \<longleftrightarrow> (\<forall>c \<in> set s. py_space c)"
  by (auto simp: py_strip_def dropWhile_eq_Nil_conv dest: set_dropWhileD)
    (metis (no_types, lifting) dropWhile_eq_Nil_conv hd_dropWhile list.set_sel(1) set_rev)

lemma clean_text_not_blank: "clean_text r = Some t \<Longrightarrow> t \<noteq> []"
  by (auto simp: clean_text_def Let_def split: option.splits if_splits)

lemma clean_text_no_text: "clean_text r = None \<longleftrightarrow> no_text (strip_if_given r)"
  by (auto simp: clean_text_def strip_if_given_def Let_def split: option.splits)

lemma clean_text_strip: "\<not> no_text (strip_if_given r) \<Longrightarrow> clean_text r = strip_if_given r"
  by (auto simp: clean_text_def strip_if_given_def Let_def split: option.splits if_splits)

fun decimal_digits :: "nat \<Rightarrow> nat" where
  "decimal_digits n = (if n < 10 then 1 else Suc (decimal_digits (n div 10)))"

declare decimal_digits.simps [simp del]

lemma decimal_digits_pos: "0 < decimal_digits n"
  by (subst decimal_digits.simps) simp

section \<open>SQL's \<open>ORDER BY ... DESC\<close>\<close>

text \<open>
  Rows ordered newest first by an instant, the row id breaking ties, as the code's
  \<open>.order_by(x.desc(), id.desc())\<close>.
\<close>

definition newest_first :: "('r \<Rightarrow> instant) \<Rightarrow> ('r \<Rightarrow> uuid) \<Rightarrow> 'r list \<Rightarrow> 'r list" where
  "newest_first at idf rows = sort_key (\<lambda>r. (- at r, - int (idf r))) rows"

lemma set_newest_first [simp]: "set (newest_first at idf rows) = set rows"
  by (simp add: newest_first_def)

lemma length_newest_first [simp]: "length (newest_first at idf rows) = length rows"
  by (simp add: newest_first_def)

lemma newest_first_Nil [simp]: "newest_first at idf [] = []"
  by (simp add: newest_first_def)

lemma newest_first_hd:
  assumes "newest_first at idf rows = r # rs" and "r' \<in> set rows"
  shows "at r' < at r \<or> (at r' = at r \<and> idf r' \<le> idf r)"
proof -
  let ?k = "\<lambda>r. (- at r, - int (idf r))"
  have srt: "sorted (map ?k (r # rs))"
    using assms(1) by (metis newest_first_def sorted_sort_key)
  have "r' \<in> set (r # rs)"
    using assms by (metis set_newest_first)
  with srt have "?k r \<le> ?k r'" by auto
  then show ?thesis by (auto simp: less_eq_prod_def)
qed

section \<open>Small facts on lists and options\<close>

lemma find_filter_Some: "find P xs = Some x \<Longrightarrow> x \<in> set xs \<and> P x"
  by (auto simp: find_Some_iff)

lemma filter_append_none: "\<not> P x \<Longrightarrow> filter P (xs @ [x]) = filter P xs"
  by simp

end
