(* ===== verification/Vocab.thy ===== *)
theory Vocab
  imports Prelude
begin

text \<open>
  The enumerations of the CRM (\<open>domain/entities/*_enums.py\<close>,
  \<open>platform/authentication/models.py\<close>), each with the function that gives a member's
  \<open>.value\<close>, and the exceptions the modelled services raise
  (\<open>app/modules/onboarding/exceptions.py\<close>) as one error type.
\<close>

section \<open>Roles\<close>

datatype user_role = ADMIN | COMPLIANCE | OPERATIONS | API_USER | DEVELOPER

type_synonym permission = "string \<times> string"

section \<open>The background check's vocabulary\<close>

datatype bc_state = NOT_STARTED | IN_REVIEW | CLEAR | MORE_INFO | FLAGGED | ON_HOLD

datatype bc_risk = LOW | MEDIUM | HIGH | CRITICAL

datatype decided_by_kind = MANUAL_KIND | AUTOMATED_KIND

datatype decision_source = MANUAL_SOURCE | RXIL_SOURCE

datatype evidence_kind = DOCUMENT | VERIFICATION_RESULT | SCREENING_ITEM

datatype proposal_outcome = APPROVED | REJECTED | WITHDRAWN

datatype cycle_kind = INITIAL | RE_KYC | RE_KYB | FULL

fun bc_value :: "bc_state \<Rightarrow> string" where
  "bc_value NOT_STARTED = ''NOT_STARTED''"
| "bc_value IN_REVIEW = ''IN_REVIEW''"
| "bc_value CLEAR = ''CLEAR''"
| "bc_value MORE_INFO = ''MORE_INFO''"
| "bc_value FLAGGED = ''FLAGGED''"
| "bc_value ON_HOLD = ''ON_HOLD''"

fun risk_value :: "bc_risk \<Rightarrow> string" where
  "risk_value LOW = ''LOW''"
| "risk_value MEDIUM = ''MEDIUM''"
| "risk_value HIGH = ''HIGH''"
| "risk_value CRITICAL = ''CRITICAL''"

fun outcome_value :: "proposal_outcome \<Rightarrow> string" where
  "outcome_value APPROVED = ''APPROVED''"
| "outcome_value REJECTED = ''REJECTED''"
| "outcome_value WITHDRAWN = ''WITHDRAWN''"

fun cycle_kind_value :: "cycle_kind \<Rightarrow> string" where
  "cycle_kind_value INITIAL = ''INITIAL''"
| "cycle_kind_value RE_KYC = ''RE_KYC''"
| "cycle_kind_value RE_KYB = ''RE_KYB''"
| "cycle_kind_value FULL = ''FULL''"

section \<open>Verification and screening\<close>

datatype verification_type =
  KYC | KYB | AML | CFT | SANCTIONS | PEP | ADVERSE_MEDIA | COMPANY_REGISTRY | UBO | GST | IEC
  | BANK_ACCOUNT | BUYER_CHECK | INVOICE_CHECK | INVOICE_DUPLICATION | SHIPMENT_CHECK
  | VESSEL_CHECK | INSURANCE

datatype verification_entity = EXPORTER | BUYER | DIRECTOR | INVOICE | VESSEL | SHIPMENT

datatype verification_status = V_PENDING | V_PASSED | V_FAILED | V_REVIEW

datatype review_status = R_ACCEPTED | R_REJECTED | R_ESCALATED

datatype screening_status = S_NEEDS_REVIEW | S_PASSED | S_FAILED | S_EXEMPT

datatype check_state = CHECK_PASSED | CHECK_FAILED | CHECK_MISSING | CHECK_PENDING

datatype scan_status = PENDING_SCAN | AVAILABLE | QUARANTINED | SCAN_FAILED

fun verification_type_value :: "verification_type \<Rightarrow> string" where
  "verification_type_value KYC = ''KYC''"
| "verification_type_value KYB = ''KYB''"
| "verification_type_value AML = ''AML''"
| "verification_type_value CFT = ''CFT''"
| "verification_type_value SANCTIONS = ''SANCTIONS''"
| "verification_type_value PEP = ''PEP''"
| "verification_type_value ADVERSE_MEDIA = ''ADVERSE_MEDIA''"
| "verification_type_value COMPANY_REGISTRY = ''COMPANY_REGISTRY''"
| "verification_type_value UBO = ''UBO''"
| "verification_type_value GST = ''GST''"
| "verification_type_value IEC = ''IEC''"
| "verification_type_value BANK_ACCOUNT = ''BANK_ACCOUNT''"
| "verification_type_value BUYER_CHECK = ''BUYER''"
| "verification_type_value INVOICE_CHECK = ''INVOICE''"
| "verification_type_value INVOICE_DUPLICATION = ''INVOICE_DUPLICATION''"
| "verification_type_value SHIPMENT_CHECK = ''SHIPMENT''"
| "verification_type_value VESSEL_CHECK = ''VESSEL''"
| "verification_type_value INSURANCE = ''INSURANCE''"

fun verification_status_value :: "verification_status \<Rightarrow> string" where
  "verification_status_value V_PENDING = ''PENDING''"
| "verification_status_value V_PASSED = ''PASSED''"
| "verification_status_value V_FAILED = ''FAILED''"
| "verification_status_value V_REVIEW = ''REVIEW''"

fun review_status_value :: "review_status \<Rightarrow> string" where
  "review_status_value R_ACCEPTED = ''ACCEPTED''"
| "review_status_value R_REJECTED = ''REJECTED''"
| "review_status_value R_ESCALATED = ''ESCALATED''"

fun screening_status_value :: "screening_status \<Rightarrow> string" where
  "screening_status_value S_NEEDS_REVIEW = ''NEEDS_REVIEW''"
| "screening_status_value S_PASSED = ''PASSED''"
| "screening_status_value S_FAILED = ''FAILED''"
| "screening_status_value S_EXEMPT = ''EXEMPT''"

lemma review_status_value_inject:
  "review_status_value a = review_status_value b \<longleftrightarrow> a = b"
  by (cases a; cases b) auto

lemma verification_status_value_inject:
  "verification_status_value a = verification_status_value b \<longleftrightarrow> a = b"
  by (cases a; cases b) auto

lemma screening_status_value_inject:
  "screening_status_value a = screening_status_value b \<longleftrightarrow> a = b"
  by (cases a; cases b) auto

lemma review_status_value_not_Nil [simp]: "review_status_value a \<noteq> []"
  by (cases a) auto

section \<open>The company record's vocabulary\<close>

datatype journey = LEAD | PROSPECT | CUSTOMER

datatype marker = MARKER_NONE | PAUSED | ENDED

datatype qualification_state = NOT_YET_REVIEWED | QUALIFIED | NOT_QUALIFIED

datatype conversation =
  NOT_CONTACTED | REACHING_OUT | SPOKE_TO_THEM | INTERESTED | NOT_NOW | READY_NOW

datatype pipeline_status = IN_PIPELINE | NOT_IN_PIPELINE

datatype identity_type = IN_PAN | FOREIGN_REG

fun journey_value :: "journey \<Rightarrow> string" where
  "journey_value LEAD = ''LEAD''"
| "journey_value PROSPECT = ''PROSPECT''"
| "journey_value CUSTOMER = ''CUSTOMER''"

fun marker_value :: "marker \<Rightarrow> string" where
  "marker_value MARKER_NONE = ''NONE''"
| "marker_value PAUSED = ''PAUSED''"
| "marker_value ENDED = ''ENDED''"

fun qualification_value :: "qualification_state \<Rightarrow> string" where
  "qualification_value NOT_YET_REVIEWED = ''NOT_YET_REVIEWED''"
| "qualification_value QUALIFIED = ''QUALIFIED''"
| "qualification_value NOT_QUALIFIED = ''NOT_QUALIFIED''"

fun conversation_value :: "conversation \<Rightarrow> string" where
  "conversation_value NOT_CONTACTED = ''NOT_CONTACTED''"
| "conversation_value REACHING_OUT = ''REACHING_OUT''"
| "conversation_value SPOKE_TO_THEM = ''SPOKE_TO_THEM''"
| "conversation_value INTERESTED = ''INTERESTED''"
| "conversation_value NOT_NOW = ''NOT_NOW''"
| "conversation_value READY_NOW = ''READY_NOW''"

fun pipeline_value :: "pipeline_status \<Rightarrow> string" where
  "pipeline_value IN_PIPELINE = ''IN_PIPELINE''"
| "pipeline_value NOT_IN_PIPELINE = ''NOT_IN_PIPELINE''"

section \<open>Deals and documents\<close>

datatype deal_stage = DEAL_OPEN | GATHERING_PAPERWORK | HANDED_OVER | DEAL_WITHDRAWN

fun deal_stage_value :: "deal_stage \<Rightarrow> string" where
  "deal_stage_value DEAL_OPEN = ''OPEN''"
| "deal_stage_value GATHERING_PAPERWORK = ''GATHERING_PAPERWORK''"
| "deal_stage_value HANDED_OVER = ''HANDED_OVER''"
| "deal_stage_value DEAL_WITHDRAWN = ''WITHDRAWN''"

datatype owner_kind = COMPANY_OWNER | DEAL_OWNER | BOTH_OWNERS

datatype document_category = ENTITY_KYC | COMPLIANCE_SCREENING | COMPANY_MARKET_REVIEW
  | PRE_SHIPMENT | SHIPPING | CUSTOMS_AND_REGULATORY | BUYER_PAPERS | BANKING | INSURANCE_PAPERS
  | OTHER_PAPERS

fun category_value :: "document_category \<Rightarrow> string" where
  "category_value ENTITY_KYC = ''ENTITY_KYC''"
| "category_value COMPLIANCE_SCREENING = ''COMPLIANCE_SCREENING''"
| "category_value COMPANY_MARKET_REVIEW = ''COMPANY_MARKET_REVIEW''"
| "category_value PRE_SHIPMENT = ''PRE_SHIPMENT''"
| "category_value SHIPPING = ''SHIPPING''"
| "category_value CUSTOMS_AND_REGULATORY = ''CUSTOMS_AND_REGULATORY''"
| "category_value BUYER_PAPERS = ''BUYER''"
| "category_value BANKING = ''BANKING''"
| "category_value INSURANCE_PAPERS = ''INSURANCE''"
| "category_value OTHER_PAPERS = ''OTHER''"

fun owner_kind_of :: "document_category \<Rightarrow> owner_kind" where
  "owner_kind_of ENTITY_KYC = COMPANY_OWNER"
| "owner_kind_of COMPLIANCE_SCREENING = COMPANY_OWNER"
| "owner_kind_of COMPANY_MARKET_REVIEW = COMPANY_OWNER"
| "owner_kind_of PRE_SHIPMENT = DEAL_OWNER"
| "owner_kind_of SHIPPING = DEAL_OWNER"
| "owner_kind_of CUSTOMS_AND_REGULATORY = DEAL_OWNER"
| "owner_kind_of BUYER_PAPERS = DEAL_OWNER"
| "owner_kind_of BANKING = BOTH_OWNERS"
| "owner_kind_of INSURANCE_PAPERS = BOTH_OWNERS"
| "owner_kind_of OTHER_PAPERS = BOTH_OWNERS"

definition category_allows :: "document_category \<Rightarrow> owner_kind \<Rightarrow> bool" where
  "category_allows c k \<longleftrightarrow> owner_kind_of c = BOTH_OWNERS \<or> owner_kind_of c = k"

section \<open>Exceptions\<close>

text \<open>
  One constructor per exception class the modelled operations raise, with the arguments
  a caller reads. \<open>MultipleResultsFound\<close>, \<open>RuntimeError\<close> and \<open>ValueError\<close> are the
  library's and Python's own.
\<close>

datatype (plugins only: size) crm_error =
    ExporterProfileNotFoundError uuid
  | BackgroundCheckMoveNotAllowedError uuid "bc_state option" bc_state
  | BackgroundCheckRoleNotAllowedError bc_state bc_state user_role
  | BackgroundCheckReasonRequiredError bc_state bc_state
  | BackgroundCheckRiskRequiredError uuid
  | BackgroundCheckRiskNotAllowedError bc_state bc_state
  | BackgroundCheckStateChangedError uuid bc_state bc_state
  | BackgroundCheckPrerequisitesUnmetError uuid "string list"
  | BackgroundCheckApprovalRequiredError bc_state bc_state
  | BackgroundCheckProposalOpenError uuid uuid
  | BackgroundCheckProposalNotFoundError uuid uuid
  | BackgroundCheckProposalResolvedError uuid proposal_outcome
  | BackgroundCheckProposalStaleError uuid string
  | BackgroundCheckProposalNotYoursError uuid bool
  | BackgroundCheckSelfApprovalError uuid
  | BackgroundCheckConflictOfInterestError uuid string
  | BackgroundCheckApproverRoleNotAllowedError user_role
  | HighRiskApprovalRequiredError uuid "bc_risk option"
  | CheckCycleRoleNotAllowedError user_role
  | CheckCycleNotAllowedError uuid bc_state
  | CheckCycleEmptyError uuid nat
  | ReviewAlreadyAssignedError uuid uuid
  | ReviewAssignedToOtherError uuid uuid
  | ReviewAssignNotAllowedError uuid
  | ReviewerIsRelationshipManagerError uuid
  | ReviewerNotEligibleError uuid string
  | ReviewNotAssignableError uuid bc_state
  | ReviewReasonRequiredError
  | RelationshipManagerChangedError uuid "uuid option" "uuid option"
  | RelationshipManagerRequiredError uuid string
  | RelationshipManagerAssignNotAllowedError "uuid option"
  | RelationshipManagerReasonRequiredError
  | RelationshipManagerNotEligibleError uuid string
  | InvalidMarkerTransitionError uuid marker marker
  | CompanyAlreadyInPipelineError uuid
  | CompanyNotInPipelineError uuid
  | ConversationNotAvailableError uuid journey
  | InvalidConversationTransitionError uuid conversation
  | ConversationCheckBackRequiredError uuid
  | ConversationCheckBackInPastError uuid int int
  | ConversationCheckBackNotAllowedError uuid conversation
  | QualificationClosedError uuid
  | QualificationCriterionNotFoundError string
  | QualificationCriterionExistsError string
  | ComplianceInputsBuyerNotFoundError uuid
  | DealNotFoundError uuid
  | DealTerminalError uuid deal_stage
  | DealTransitionNotAllowedError uuid deal_stage deal_stage
  | DealWithdrawalReasonRequiredError uuid
  | DealBuyerRequiredError uuid
  | DealHandoverBlockedError uuid string
  | DealCompanyNotFoundError uuid
  | DealCompanyNotReadyError uuid journey
  | DealReferenceTakenError uuid string
  | DealBuyerCompanyAlreadySetError uuid uuid
  | DealBuyerIsTheSellerError uuid uuid
  | GstRegistrationNotFoundError uuid
  | GstRegistrationNotThisCompanysError uuid uuid
  | GstRegistrationInactiveError uuid
  | PaymentTermNotFoundError uuid
  | DocumentTypeNotAllowedError document_category string
  | TradeRelationshipIsSelfError uuid
  | SanctionsHitNotFoundError uuid
  | SanctionsRunNotFoundError uuid
  | SanctionsTrueMatchRefusedError string
  | BankAccountNotFoundError uuid
  | BankAccountWrongStatusError uuid string string
  | BankAccountApprovalRefusedError string
  | VerificationResultNotReviewableError uuid
  | VerificationReviewStaleError uuid "uuid option"
  | VerificationBuyerDealClosedError uuid uuid deal_stage
  | ProviderCapabilityError string string
  | InvalidProviderPayloadError string
  | NotFoundError string
  | ValidationError string
  | RuntimeError string
  | ValueError string
  | MultipleResultsFound

text \<open>Results are compared when they are evaluated; two exceptions never are.\<close>

instantiation crm_error :: equal
begin

definition equal_crm_error :: "crm_error \<Rightarrow> crm_error \<Rightarrow> bool" where
  "equal_crm_error e e' \<longleftrightarrow> e = e'"

instance
  by standard (rule equal_crm_error_def)

end

declare equal_crm_error_def [code del]

end
