(* ===== verification/Store.thy ===== *)
theory Store
  imports Vocab
begin

text \<open>
  The tables the modelled services read and write, as one record of lists and maps, and
  the rows in them (\<open>domain/entities/*.py\<close>). A transaction is a function from this
  record to an error or a result and the next record: an exception rolls everything
  back (the caller keeps the old record), a normal return is the commit. Append-only
  tables are lists, oldest row first; the company table is a map from its key. Reading
  and writing within one transaction sees the transaction's own writes, as the session's
  autoflush provides.
\<close>

section \<open>Rows\<close>

record exporter_profile =
  customer_id :: uuid
  ep_name :: "string option"
  ep_country :: "string option"
  ep_pan :: "string option"
  ep_gstins :: "string list"
  ep_registration_number :: "string option"
  ep_default_term :: "uuid option"
  pipeline_st :: pipeline_status
  journey_of :: journey
  qualification_of :: qualification_state
  marker_of :: marker
  marker_reason :: "string option"
  conversation_of :: conversation
  check_back_on :: "int option"
  background_check :: bc_state
  bc_expires_at :: "instant option"
  reviewer_id :: "uuid option"
  reviewer_assigned_at :: "instant option"
  rm_user_id :: "uuid option"

record bc_decision =
  dn_id :: uuid
  dn_company :: uuid
  dn_from :: bc_state
  dn_to :: bc_state
  dn_decided_by :: uuid
  dn_decided_by_kind :: decided_by_kind
  dn_source :: decision_source
  dn_decided_at :: instant
  dn_reason :: "string option"
  dn_risk :: "bc_risk option"
  dn_supersedes :: "uuid option"
  dn_rules_version :: "string option"
  dn_cycle :: "uuid option"
  dn_proposal :: "uuid option"
  dn_approved_by :: "uuid option"
  dn_approved_at :: "instant option"
  dn_expires_at :: "instant option"

record bc_evidence =
  ev_decision :: uuid
  ev_kind :: evidence_kind
  ev_document :: "uuid option"
  ev_result :: "uuid option"
  ev_review :: "uuid option"
  ev_screening :: "uuid option"

record bc_proposal =
  pr_id :: uuid
  pr_company :: uuid
  pr_based_on :: uuid
  pr_from :: bc_state
  pr_to :: bc_state
  pr_risk :: "bc_risk option"
  pr_reason :: "string option"
  pr_fingerprint :: nat
  pr_evidence_count :: nat
  pr_cycle :: uuid
  pr_rules_version :: string
  pr_created_by :: uuid
  pr_created_at :: instant
  pr_source :: string

record bc_resolution =
  rs_id :: uuid
  rs_proposal :: uuid
  rs_proposed_by :: uuid
  rs_outcome :: proposal_outcome
  rs_reason :: "string option"
  rs_decision :: "uuid option"
  rs_created_by :: uuid
  rs_created_at :: instant
  rs_source :: string

text \<open>
  A reference kept as text is the text of a uuid or something else.
\<close>

datatype ref_text = UuidText uuid | OtherText string

record check_cycle =
  cc_id :: uuid
  cc_company :: uuid
  cc_number :: nat
  cc_kind :: cycle_kind
  cc_reason :: "string option"
  cc_started_at :: instant
  cc_rules_version :: "string option"
  cc_created_by :: uuid
  cc_source :: string
  cc_source_ref :: "ref_text option"

text \<open>
  A Python value as the dictionaries the program keeps hold it: \<open>normalized_result\<close> (a JSON
  object), a request's payload. A dictionary's entries are written in the order of their keys, so
  equal dictionaries are equal values; a number is the text it is written with.
\<close>

datatype py_value = PyNone | PyBool bool | PyNumber string | PyText string | PyTime instant
  | PyList "py_value list" | PyDict "(string \<times> py_value) list"

text \<open>A buyer's identity as it was when a check of it was recorded.\<close>

record buyer_identity =
  bi_buyer :: uuid
  bi_deal :: uuid
  bi_name :: string
  bi_country :: "string option"
  bi_registration_number :: "string option"
  bi_tax_id :: "string option"

record verification_row =
  vr_id :: uuid
  vr_type :: verification_type
  vr_entity_type :: verification_entity
  vr_entity_reference :: uuid
  vr_subject_company :: "uuid option"
  vr_provider :: string
  vr_provider_reference :: "string option"
  vr_status :: verification_status
  vr_risk_level :: "bc_risk option"
  vr_performed_at :: instant
  vr_valid_until :: "instant option"
  vr_created_at :: instant
  vr_normalized :: py_value
  vr_evidence_note :: "string option"
  vr_evidence_refs :: "(string \<times> ref_text) list"
  vr_snapshot :: "buyer_identity option"
  vr_cycle :: "uuid option"

record review_row =
  rv_id :: uuid
  rv_result :: uuid
  rv_status :: review_status
  rv_reviewed_by :: uuid
  rv_reviewed_at :: instant
  rv_note :: "string option"
  rv_supersedes :: "uuid option"

record screening_row =
  si_id :: uuid
  si_company :: uuid
  si_item_key :: string
  si_status :: screening_status
  si_reviewed_by :: uuid
  si_reviewed_at :: instant
  si_created_at :: instant
  si_cycle :: "uuid option"

record crm_document =
  doc_id :: uuid
  doc_company :: "uuid option"
  doc_deal :: "uuid option"
  doc_category :: document_category
  doc_type :: string
  doc_scan_status :: scan_status
  doc_uploaded_at :: instant

record staff_member =
  sm_id :: uuid
  sm_name :: string
  sm_role :: user_role
  sm_active :: bool

text \<open>
  The values a history row carries. \<open>from_status\<close> and \<open>to_status\<close> are text: a word,
  a user's id or a cycle's number. \<open>event_metadata\<close> is a JSON object; as
  \<open>{"source": source, **details}\<close> builds it, the later entry of a key stands.
\<close>

datatype hval = HText string | HUser uuid | HNumber nat

datatype dval = DNone | DText string | DId uuid | DNum nat | DBool bool | DTime instant
  | DTexts "string list" | DIds "uuid list"

record history_row =
  hr_company :: uuid
  hr_dimension :: string
  hr_deal :: "uuid option"
  hr_event_type :: string
  hr_from :: "hval option"
  hr_to :: hval
  hr_actor :: "uuid option"
  hr_reason :: "string option"
  hr_metadata :: "(string \<times> dval) list"

section \<open>The database and the environment\<close>

record crm_db =
  profiles :: "uuid \<Rightarrow> exporter_profile option"
  decisions :: "bc_decision list"
  evidence :: "bc_evidence list"
  proposals :: "bc_proposal list"
  resolutions :: "bc_resolution list"
  cycles :: "check_cycle list"
  verifications :: "verification_row list"
  reviews :: "review_row list"
  screenings :: "screening_row list"
  documents :: "crm_document list"
  buyers :: "uuid list"
  history :: "history_row list"
  staff :: "uuid \<Rightarrow> staff_member option"
  next_uuid :: uuid

text \<open>
  What a request brings from outside the tables: the server clock (\<open>clock.now()\<close>), the
  database's \<open>clock_timestamp()\<close>, the compliance settings, and the digest
  \<open>sha256(json.dumps(..., sort_keys=True))\<close> of a canonical document.
\<close>

record fingerprint_doc =
  fp_cycle :: "uuid option"
  fp_verifications :: "(uuid \<times> string \<times> uuid option \<times> string) list"
  fp_screening :: "(string \<times> uuid \<times> string) list"
  fp_documents :: "uuid list"

record crm_env =
  env_now :: instant
  env_db_now :: instant
  env_maker_checker :: bool
  env_clear_validity_days :: int
  env_sha256 :: "fingerprint_doc \<Rightarrow> nat"

section \<open>Rows of the company table\<close>

definition save_profile :: "exporter_profile \<Rightarrow> crm_db \<Rightarrow> crm_db" where
  "save_profile p db = db\<lparr>profiles := (profiles db)(customer_id p := Some p)\<rparr>"

text \<open>
  \<open>_lock_profile\<close> of \<open>BackgroundCheckService\<close> and \<open>ExporterProfileService\<close>: the company
  row \<open>FOR UPDATE\<close>, or the 404. The lock itself is the transaction's atomicity: two
  transactions on one company run one after the other.
\<close>

definition lock_profile :: "uuid \<Rightarrow> crm_db \<Rightarrow> crm_error + exporter_profile" where
  "lock_profile company_id db = (case profiles db company_id of
     None \<Rightarrow> Inl (ExporterProfileNotFoundError company_id)
   | Some p \<Rightarrow> Inr p)"

text \<open>\<open>uuid.uuid4()\<close>: an id no row has yet.\<close>

definition fresh_uuid :: "crm_db \<Rightarrow> uuid \<times> crm_db" where
  "fresh_uuid db = (next_uuid db, db\<lparr>next_uuid := Suc (next_uuid db)\<rparr>)"

definition keyed :: "crm_db \<Rightarrow> bool" where
  "keyed db \<longleftrightarrow> (\<forall>c p. profiles db c = Some p \<longrightarrow> customer_id p = c)"

lemma lock_profile_eq_Inr [err_simps]:
  "lock_profile c db = Inr p \<longleftrightarrow> profiles db c = Some p"
  by (simp add: lock_profile_def split: option.splits)

lemma save_profile_frame [simp]:
  "decisions (save_profile p db) = decisions db"
  "evidence (save_profile p db) = evidence db"
  "proposals (save_profile p db) = proposals db"
  "resolutions (save_profile p db) = resolutions db"
  "cycles (save_profile p db) = cycles db"
  "verifications (save_profile p db) = verifications db"
  "reviews (save_profile p db) = reviews db"
  "screenings (save_profile p db) = screenings db"
  "documents (save_profile p db) = documents db"
  "buyers (save_profile p db) = buyers db"
  "history (save_profile p db) = history db"
  "staff (save_profile p db) = staff db"
  "next_uuid (save_profile p db) = next_uuid db"
  by (simp_all add: save_profile_def)

lemma profiles_save_profile [simp]:
  "profiles (save_profile p db) = (profiles db)(customer_id p := Some p)"
  by (simp add: save_profile_def)

lemma keyed_save_profile: "keyed db \<Longrightarrow> keyed (save_profile p db)"
  by (simp add: keyed_def)

lemma keyedD: "keyed db \<Longrightarrow> profiles db c = Some p \<Longrightarrow> customer_id p = c"
  by (simp add: keyed_def)

section \<open>Staff\<close>

text \<open>
  \<open>platform/authentication/directory.py\<close>: one account, and the accounts of a list of
  ids with the absent and unknown ones left out.
\<close>

definition find_staff_member :: "crm_db \<Rightarrow> uuid \<Rightarrow> staff_member option" where
  "find_staff_member db user_id = staff db user_id"

definition staff_members :: "crm_db \<Rightarrow> uuid option list \<Rightarrow> (uuid \<Rightarrow> staff_member option)" where
  "staff_members db user_ids =
     (\<lambda>k. if Some k \<in> set user_ids then staff db k else None)"

definition member_name :: "(uuid \<Rightarrow> staff_member option) \<Rightarrow> uuid option \<Rightarrow> dval" where
  "member_name members k = (case k of None \<Rightarrow> DNone | Some u \<Rightarrow>
     (case members u of None \<Rightarrow> DNone | Some m \<Rightarrow> DText (sm_name m)))"

fun d_id :: "uuid option \<Rightarrow> dval" where
  "d_id None = DNone"
| "d_id (Some i) = DId i"

fun d_time :: "instant option \<Rightarrow> dval" where
  "d_time None = DNone"
| "d_time (Some t) = DTime t"

fun d_risk :: "bc_risk option \<Rightarrow> dval" where
  "d_risk None = DNone"
| "d_risk (Some r) = DText (risk_value r)"

end
