(* ===== verification/Chains.thy ===== *)
theory Chains
  imports Prelude
begin

text \<open>
  Append-only tables whose rows supersede one another, as the background-check decisions
  and the verification reviews do: each row names the row it replaces, and a subject's
  current row is the one nothing replaces. The interface \<open>version_log\<close> is what such a table
  promises; its lemmas say that a subject's rows form one line, that the row nothing replaces
  is the last, and that a row appended to the end keeps the line.
\<close>

fun linked :: "('r \<Rightarrow> uuid) \<Rightarrow> ('r \<Rightarrow> uuid option) \<Rightarrow> uuid option \<Rightarrow> 'r list \<Rightarrow> bool" where
  "linked idf prior prev [] = True"
| "linked idf prior prev (r # rs) = (prior r = prev \<and> linked idf prior (Some (idf r)) rs)"

definition chain_end :: "('r \<Rightarrow> uuid) \<Rightarrow> uuid option \<Rightarrow> 'r list \<Rightarrow> uuid option" where
  "chain_end idf prev rs = (if rs = [] then prev else Some (idf (last rs)))"

definition chained :: "('r \<Rightarrow> uuid) \<Rightarrow> ('r \<Rightarrow> uuid) \<Rightarrow> ('r \<Rightarrow> uuid option) \<Rightarrow> 'r list \<Rightarrow> bool" where
  "chained idf subj prior rows \<longleftrightarrow> distinct (map idf rows) \<and>
     (\<forall>c. linked idf prior None (filter (\<lambda>r. subj r = c) rows))"

lemma linked_append:
  "linked idf prior prev (rs @ [r]) \<longleftrightarrow>
     linked idf prior prev rs \<and> prior r = chain_end idf prev rs"
  by (induction rs arbitrary: prev) (auto simp: chain_end_def)

lemma linked_prior:
  assumes "linked idf prior prev rs" and "r \<in> set rs"
  shows "prior r = prev \<or> (\<exists>s \<in> set rs. prior r = Some (idf s))"
  using assms by (induction rs arbitrary: prev) auto

lemma linked_superseded:
  assumes "linked idf prior prev rs" and "r \<in> set rs" and "r \<noteq> last rs"
  shows "\<exists>s \<in> set rs. prior s = Some (idf r)"
  using assms
proof (induction rs arbitrary: prev)
  case (Cons a rs)
  show ?case
  proof (cases rs)
    case Nil
    with Cons.prems show ?thesis by simp
  next
    case (Cons b bs)
    with Cons.prems Cons.IH show ?thesis by (cases "r = a") auto
  qed
qed simp

lemma linked_last_free:
  assumes "linked idf prior prev rs" and "distinct (map idf rs)" and "rs \<noteq> []"
    and "prev \<noteq> Some (idf (last rs))" and "s \<in> set rs"
  shows "prior s \<noteq> Some (idf (last rs))"
  using assms
proof (induction rs arbitrary: prev)
  case (Cons a rs)
  show ?case
  proof (cases "rs = []")
    case True
    with Cons.prems show ?thesis by auto
  next
    case False
    with Cons.prems have "idf a \<noteq> idf (last rs)"
      by (metis (no_types, lifting) distinct.simps(2) image_eqI last_in_set list.set_map list.simps(9))
    with False Cons.prems Cons.IH [of "Some (idf a)"] show ?thesis by (cases "s = a") auto
  qed
qed simp

lemma chainedD_distinct: "chained idf subj prior rows \<Longrightarrow> distinct (map idf rows)"
  by (simp add: chained_def)

lemma chained_Nil [simp]: "chained idf subj prior []"
  by (simp add: chained_def)

lemma chained_append:
  assumes "chained idf subj prior rows" and "idf r \<notin> set (map idf rows)"
    and "prior r = chain_end idf None (filter (\<lambda>x. subj x = subj r) rows)"
  shows "chained idf subj prior (rows @ [r])"
  using assms by (auto simp: chained_def linked_append)

section \<open>The interface\<close>

locale version_log =
  fixes idf :: "'r \<Rightarrow> uuid" and subj :: "'r \<Rightarrow> uuid" and prior :: "'r \<Rightarrow> uuid option"
    and heads :: "'r list \<Rightarrow> uuid \<Rightarrow> 'r list"
  assumes heads_law: "heads rows c =
    filter (\<lambda>r. subj r = c \<and> (\<forall>s \<in> set rows. prior s \<noteq> Some (idf r))) rows"
begin

definition line :: "'r list \<Rightarrow> uuid \<Rightarrow> 'r list" where
  "line rows c = filter (\<lambda>r. subj r = c) rows"

lemma prior_same_subject:
  assumes "chained idf subj prior rows" and "s \<in> set rows" and "r \<in> set rows"
    and "prior s = Some (idf r)"
  shows "subj s = subj r"
proof -
  have "linked idf prior None (filter (\<lambda>x. subj x = subj s) rows)"
    using assms(1) by (simp add: chained_def)
  from linked_prior [OF this, of s] assms(2,4) obtain t
    where t: "t \<in> set rows" "subj t = subj s" "idf r = idf t" by auto
  moreover have "inj_on idf (set rows)"
    using assms(1) by (simp add: chained_def distinct_map)
  ultimately have "r = t"
    using assms(3) by (meson inj_onD)
  with \<open>subj t = subj s\<close> show ?thesis by simp
qed

lemma head_is_last:
  assumes "chained idf subj prior rows"
  shows "heads rows c = (if line rows c = [] then [] else [last (line rows c)])"
proof -
  let ?l = "line rows c"
  have lk: "linked idf prior None ?l" and dst: "distinct (map idf rows)"
    using assms by (auto simp: chained_def line_def)
  have "\<And>xs. distinct (map idf xs) \<Longrightarrow> distinct (map idf (filter (\<lambda>r. subj r = c) xs))"
    by (simp add: distinct_map_filter)
  then have dl: "distinct (map idf ?l)"
    using dst unfolding line_def by blast
  have free: "(\<forall>s \<in> set rows. prior s \<noteq> Some (idf r)) \<longleftrightarrow> r = last ?l"
    if r: "r \<in> set ?l" for r
  proof
    assume "\<forall>s \<in> set rows. prior s \<noteq> Some (idf r)"
    then show "r = last ?l"
      using linked_superseded [OF lk r] by (auto simp: line_def)
  next
    assume eq: "r = last ?l"
    show "\<forall>s \<in> set rows. prior s \<noteq> Some (idf r)"
    proof (intro ballI notI)
      fix s assume s: "s \<in> set rows" "prior s = Some (idf r)"
      from r have r': "r \<in> set rows" "subj r = c" by (auto simp: line_def)
      from prior_same_subject [OF assms s(1) r'(1) s(2)] s(1) r'(2)
      have "s \<in> set ?l" by (simp add: line_def)
      with linked_last_free [OF lk dl _ _ this] s(2) eq r show False by fastforce
    qed
  qed
  have "heads rows c = filter (\<lambda>r. r = last ?l) ?l"
    unfolding heads_law using free by (auto simp: line_def intro!: filter_cong)
  also have "\<dots> = (if ?l = [] then [] else [last ?l])"
  proof (cases "?l = []")
    case False
    then have "?l = butlast ?l @ [last ?l]" by simp
    moreover have "distinct ?l" using dl by (simp add: distinct_map)
    ultimately have "last ?l \<notin> set (butlast ?l)"
      by (metis distinct_butlast not_distinct_conv_prefix)
    then have "filter (\<lambda>r. r = last ?l) (butlast ?l) = []"
      by (auto simp: filter_empty_conv)
    then have "filter (\<lambda>r. r = last ?l) (butlast ?l @ [last ?l]) = [last ?l]"
      by simp
    then show ?thesis using False by simp
  qed simp
  finally show ?thesis .
qed

lemma at_most_one_head: "chained idf subj prior rows \<Longrightarrow> length (heads rows c) \<le> 1"
  by (simp add: head_is_last)

lemma head_in: "r \<in> set (heads rows c) \<Longrightarrow> r \<in> set rows \<and> subj r = c"
  by (auto simp: heads_law)

lemma line_append: "line (rows @ [r]) c = line rows c @ (if subj r = c then [r] else [])"
  by (simp add: line_def)

lemma append_head:
  assumes "chained idf subj prior rows" and "idf r \<notin> set (map idf rows)"
    and "prior r = map_option idf (case heads rows (subj r) of [] \<Rightarrow> None | h # _ \<Rightarrow> Some h)"
  shows "chained idf subj prior (rows @ [r])"
proof -
  have "chain_end idf None (line rows (subj r)) =
      map_option idf (case heads rows (subj r) of [] \<Rightarrow> None | h # _ \<Rightarrow> Some h)"
    by (simp add: head_is_last [OF assms(1)] chain_end_def)
  then show ?thesis
    using assms by (intro chained_append) (simp_all add: line_def)
qed

end

end
