(* ===== verification/Compliance_Inputs.thy ===== *)
theory Compliance_Inputs
  imports Store Chains
begin

text \<open>
  The seam between verification and screening and the background check:
  \<open>domain/compliance_inputs.py\<close> and \<open>application/compliance_inputs.py\<close> (what a decision
  may rely on, scoped to the company's current check cycle), the cycle read rules of
  \<open>check_cycle_repository.py\<close>, and the pure rule \<open>check_state\<close> of
  \<open>domain/compliance_facts.py\<close>.
\<close>

section \<open>The seam's types\<close>

record verification_input =
  vi_id :: uuid
  vi_type :: verification_type
  vi_entity_type :: verification_entity
  vi_provider :: string
  vi_status :: verification_status
  vi_risk_level :: "bc_risk option"
  vi_performed_at :: instant
  vi_is_placeholder :: bool
  vi_latest_review_id :: "uuid option"
  vi_latest_review_status :: "review_status option"
  vi_latest_reviewed_at :: "instant option"
  vi_evidence_document_ids :: "uuid list"
  vi_cycle :: "uuid option"

record screening_item_input =
  sin_key :: string
  sin_row :: "uuid option"
  sin_status :: "screening_status option"
  sin_reviewed_by :: "uuid option"
  sin_reviewed_at :: "instant option"
  sin_cycle :: "uuid option"

record company_compliance_inputs =
  ci_company :: uuid
  ci_catalogue :: "string list"
  ci_screening :: "screening_item_input list"
  ci_verifications :: "verification_input list"
  ci_current_cycle :: "uuid option"

text \<open>\<open>SCREENING_CATALOGUE\<close> of \<open>screening_review_service.py\<close>: the seven keys in display order.\<close>

definition SCREENING_CATALOGUE :: "string list" where
  "SCREENING_CATALOGUE = [''address-physical'', ''business-consistency'', ''payment-purpose'',
     ''bank-statements-reviewed'', ''suspicious-bank-indicators'', ''exception-approval'',
     ''exception-evidence'']"

section \<open>Cycles\<close>

text \<open>
  \<open>list_for_company\<close> and \<open>current_for_company\<close>: the company's cycles, cycle 1 first, and
  the highest-numbered one.
\<close>

definition cycles_of :: "crm_db \<Rightarrow> uuid \<Rightarrow> check_cycle list" where
  "cycles_of db company_id = sort_key cc_number (filter (\<lambda>c. cc_company c = company_id) (cycles db))"

definition current_cycle :: "crm_db \<Rightarrow> uuid \<Rightarrow> check_cycle option" where
  "current_cycle db company_id =
     (case rev (cycles_of db company_id) of [] \<Rightarrow> None | c # _ \<Rightarrow> Some c)"

definition initial_cycle :: "crm_db \<Rightarrow> uuid \<Rightarrow> check_cycle option" where
  "initial_cycle db company_id = (case cycles_of db company_id of [] \<Rightarrow> None | c # _ \<Rightarrow> Some c)"

text \<open>
  The legacy read rule: a row with no cycle id belongs to cycle 1; with no cycle row at
  all, every row is read.
\<close>

definition in_cycle :: "check_cycle option \<Rightarrow> uuid option \<Rightarrow> bool" where
  "in_cycle cycle stored = (case cycle of None \<Rightarrow> True
     | Some c \<Rightarrow> if cc_number c = 1 then stored = Some (cc_id c) \<or> stored = None
                 else stored = Some (cc_id c))"

definition resolved_cycle_id :: "uuid option \<Rightarrow> check_cycle option \<Rightarrow> uuid option" where
  "resolved_cycle_id stored initial = (case stored of Some i \<Rightarrow> Some i
     | None \<Rightarrow> (case initial of Some c \<Rightarrow> Some (cc_id c) | None \<Rightarrow> None))"

section \<open>Rows about a company\<close>

definition is_placeholder_result :: "py_value \<Rightarrow> string option \<Rightarrow> bool" where
  "is_placeholder_result normalized provider_reference \<longleftrightarrow>
     (case normalized of PyDict kvs \<Rightarrow> map_of kvs ''stub'' = Some (PyBool True) | _ \<Rightarrow> False) \<and>
     no_text provider_reference"

definition subject_company_of ::
  "verification_entity \<Rightarrow> uuid \<Rightarrow> uuid option \<Rightarrow> uuid option" where
  "subject_company_of entity_type entity_reference subject_company_id =
     (case subject_company_id of Some c \<Rightarrow> Some c
      | None \<Rightarrow> if entity_type = EXPORTER then Some entity_reference else None)"

definition about_company :: "uuid \<Rightarrow> verification_row \<Rightarrow> bool" where
  "about_company company_id r \<longleftrightarrow>
     vr_subject_company r = Some company_id \<or>
     (vr_subject_company r = None \<and> vr_entity_type r = EXPORTER \<and>
      vr_entity_reference r = company_id)"

text \<open>\<open>about_company\<close> is \<open>subject_company_of\<close> as a query.\<close>

lemma about_company_iff:
  "about_company c r \<longleftrightarrow>
     subject_company_of (vr_entity_type r) (vr_entity_reference r) (vr_subject_company r) = Some c"
  by (auto simp: about_company_def subject_company_of_def split: option.splits)

section \<open>Reading the inputs\<close>

definition document_ids :: "(string \<times> ref_text) list \<Rightarrow> uuid list" where
  "document_ids refs = List.map_filter (\<lambda>(typ, ref). if typ = ''document'' then
       (case ref of UuidText i \<Rightarrow> Some i | OtherText _ \<Rightarrow> None) else None) refs"

text \<open>The head of a result's review chain: the review no other review supersedes.\<close>

definition review_heads :: "crm_db \<Rightarrow> review_row list" where
  "review_heads db = filter (\<lambda>r. \<forall>l \<in> set (reviews db). rv_supersedes l \<noteq> Some (rv_id r)) (reviews db)"

definition head_by_result :: "crm_db \<Rightarrow> uuid \<Rightarrow> review_row option" where
  "head_by_result db result_id = find (\<lambda>r. rv_result r = result_id) (rev (review_heads db))"

definition make_verification_input ::
  "verification_row \<Rightarrow> review_row option \<Rightarrow> uuid option \<Rightarrow> verification_input" where
  "make_verification_input r head cycle_id =
     \<lparr>vi_id = vr_id r, vi_type = vr_type r, vi_entity_type = vr_entity_type r,
      vi_provider = vr_provider r, vi_status = vr_status r, vi_risk_level = vr_risk_level r,
      vi_performed_at = vr_performed_at r,
      vi_is_placeholder = is_placeholder_result (vr_normalized r) (vr_provider_reference r),
      vi_latest_review_id = map_option rv_id head,
      vi_latest_review_status = map_option rv_status head,
      vi_latest_reviewed_at = map_option rv_reviewed_at head,
      vi_evidence_document_ids = document_ids (vr_evidence_refs r),
      vi_cycle = cycle_id\<rparr>"

definition verification_inputs ::
  "crm_db \<Rightarrow> verification_row list \<Rightarrow> check_cycle option \<Rightarrow> verification_input list" where
  "verification_inputs db rows initial = map (\<lambda>r. make_verification_input r
       (head_by_result db (vr_id r))
       (if initial \<noteq> None then resolved_cycle_id (vr_cycle r) initial else vr_cycle r)) rows"

definition screening_item :: "string \<Rightarrow> screening_row option \<Rightarrow> check_cycle option \<Rightarrow> screening_item_input" where
  "screening_item item_key row initial = (case row of
     None \<Rightarrow> \<lparr>sin_key = item_key, sin_row = None, sin_status = None, sin_reviewed_by = None,
              sin_reviewed_at = None, sin_cycle = None\<rparr>
   | Some r \<Rightarrow> \<lparr>sin_key = item_key, sin_row = Some (si_id r), sin_status = Some (si_status r),
              sin_reviewed_by = Some (si_reviewed_by r), sin_reviewed_at = Some (si_reviewed_at r),
              sin_cycle = resolved_cycle_id (si_cycle r) initial\<rparr>)"

definition verification_order :: "verification_row list \<Rightarrow> verification_row list" where
  "verification_order rows =
     sort_key (\<lambda>r. (- vr_performed_at r, - vr_created_at r, - int (vr_id r))) rows"

definition latest_screening ::
  "crm_db \<Rightarrow> uuid \<Rightarrow> check_cycle option \<Rightarrow> string \<Rightarrow> screening_row option" where
  "latest_screening db company_id current key =
     (case newest_first si_created_at si_id
        (filter (\<lambda>r. si_company r = company_id \<and> in_cycle current (si_cycle r) \<and> si_item_key r = key)
           (screenings db))
      of [] \<Rightarrow> None | r # _ \<Rightarrow> Some r)"

definition company_inputs :: "uuid \<Rightarrow> crm_db \<Rightarrow> crm_error + company_compliance_inputs" where
  "company_inputs company_id db = (case profiles db company_id of
     None \<Rightarrow> Inl (ExporterProfileNotFoundError company_id)
   | Some _ \<Rightarrow>
     (let current = current_cycle db company_id;
          initial = initial_cycle db company_id;
          rows = verification_order
            (filter (\<lambda>r. about_company company_id r \<and> in_cycle current (vr_cycle r))
               (verifications db))
      in Inr \<lparr>ci_company = company_id,
              ci_catalogue = SCREENING_CATALOGUE,
              ci_screening = map (\<lambda>key. screening_item key
                 (latest_screening db company_id current key) initial) SCREENING_CATALOGUE,
              ci_verifications = verification_inputs db rows initial,
              ci_current_cycle = map_option cc_id current\<rparr>))"

definition buyer_checks :: "uuid \<Rightarrow> crm_db \<Rightarrow> crm_error + verification_input list" where
  "buyer_checks deal_buyer_id db =
     (if deal_buyer_id \<in> set (buyers db)
      then Inr (verification_inputs db (verification_order
             (filter (\<lambda>r. vr_entity_type r = BUYER \<and> vr_entity_reference r = deal_buyer_id)
                (verifications db))) None)
      else Inl (ComplianceInputsBuyerNotFoundError deal_buyer_id))"

section \<open>The state of one kind of check\<close>

fun check_state :: "verification_input list \<Rightarrow> verification_type \<Rightarrow> check_state" where
  "check_state [] verification_type = CHECK_MISSING"
| "check_state (check # rest) verification_type =
     (if vi_type check \<noteq> verification_type \<or> vi_is_placeholder check
      then check_state rest verification_type
      else if vi_status check = V_PASSED then CHECK_PASSED
      else if vi_status check = V_FAILED then CHECK_FAILED
      else if vi_status check = V_REVIEW \<and> vi_latest_review_status check = Some R_ACCEPTED
           then CHECK_PASSED
      else if vi_status check = V_REVIEW \<and> vi_latest_review_status check = Some R_REJECTED
           then CHECK_FAILED
      else CHECK_PENDING)"

text \<open>The table of the module docstring, as a function of the deciding result alone.\<close>

definition state_of_result :: "verification_input \<Rightarrow> check_state" where
  "state_of_result v = (case vi_status v of
     V_PASSED \<Rightarrow> CHECK_PASSED | V_FAILED \<Rightarrow> CHECK_FAILED | V_PENDING \<Rightarrow> CHECK_PENDING
   | V_REVIEW \<Rightarrow> (case vi_latest_review_status v of
        Some R_ACCEPTED \<Rightarrow> CHECK_PASSED | Some R_REJECTED \<Rightarrow> CHECK_FAILED | _ \<Rightarrow> CHECK_PENDING))"

definition deciding_result :: "verification_input list \<Rightarrow> verification_type \<Rightarrow> verification_input option" where
  "deciding_result vs t = find (\<lambda>v. vi_type v = t \<and> \<not> vi_is_placeholder v) vs"

lemma check_state_deciding:
  "check_state vs t = (case deciding_result vs t of None \<Rightarrow> CHECK_MISSING | Some v \<Rightarrow> state_of_result v)"
proof (induction vs t rule: check_state.induct)
  case (1 t)
  then show ?case by (simp add: deciding_result_def)
next
  case (2 check rest t)
  show ?case
  proof (cases "vi_type check \<noteq> t \<or> vi_is_placeholder check")
    case True
    with 2 show ?thesis by (auto simp: deciding_result_def)
  next
    case False
    then show ?thesis
      by (cases "vi_status check")
        (auto simp: deciding_result_def state_of_result_def split: option.splits review_status.splits)
  qed
qed

definition legacy_clear_expiry :: "instant \<Rightarrow> instant" where
  "legacy_clear_expiry decided_at = decided_at + days 365"

definition is_current :: "instant option \<Rightarrow> instant \<Rightarrow> bool" where
  "is_current expires_at now = (case expires_at of None \<Rightarrow> False | Some e \<Rightarrow> now < e)"

section \<open>Facts about the reads\<close>

lemma company_inputs_eq_Inr:
  "returns (company_inputs c db) \<longleftrightarrow> profiles db c \<noteq> None"
  by (auto simp: company_inputs_def Let_def split: option.splits)

lemma company_inputs_fields:
  assumes "company_inputs c db = Inr i"
  shows "ci_company i = c" "ci_catalogue i = SCREENING_CATALOGUE"
    "map sin_key (ci_screening i) = SCREENING_CATALOGUE"
    "ci_current_cycle i = map_option cc_id (current_cycle db c)"
  using assms
  by (auto simp: company_inputs_def Let_def screening_item_def comp_def
      split: option.splits intro!: map_idI)

lemma latest_screening_Some:
  assumes "latest_screening db c cur k = Some r"
  shows "r \<in> set (screenings db)" "si_company r = c" "in_cycle cur (si_cycle r)" "si_item_key r = k"
proof -
  from assms obtain rs where
    "newest_first si_created_at si_id
       (filter (\<lambda>r. si_company r = c \<and> in_cycle cur (si_cycle r) \<and> si_item_key r = k) (screenings db))
     = r # rs"
    by (auto simp: latest_screening_def split: list.splits)
  then have "r \<in> set (filter (\<lambda>r. si_company r = c \<and> in_cycle cur (si_cycle r) \<and> si_item_key r = k)
      (screenings db))"
    by (metis list.set_intros(1) set_newest_first)
  then show "r \<in> set (screenings db)" "si_company r = c" "in_cycle cur (si_cycle r)" "si_item_key r = k"
    by auto
qed

text \<open>The inputs depend on no table a decision writes but the cycles.\<close>

lemma company_inputs_cong:
  assumes "profiles db' c = None \<longleftrightarrow> profiles db c = None" "cycles db' = cycles db"
    "verifications db' = verifications db" "reviews db' = reviews db" "screenings db' = screenings db"
  shows "company_inputs c db' = company_inputs c db"
  using assms
  by (auto simp: company_inputs_def Let_def current_cycle_def initial_cycle_def cycles_of_def
      verification_inputs_def head_by_result_def review_heads_def latest_screening_def
      split: option.splits)

section \<open>The reviews as a chain\<close>

text \<open>
  \<open>verification_review\<close> is a version log too: a review of a result supersedes the result's
  previous one. While it is chained, the head the inputs read is the result's last review.
\<close>

definition heads_of_result :: "review_row list \<Rightarrow> uuid \<Rightarrow> review_row list" where
  "heads_of_result rows result_id = filter (\<lambda>r. rv_result r = result_id \<and>
     (\<forall>l \<in> set rows. rv_supersedes l \<noteq> Some (rv_id r))) rows"

interpretation review_log: version_log rv_id rv_result rv_supersedes heads_of_result
  by unfold_locales (simp add: heads_of_result_def)

lemma find_single: "filter P xs = [x] \<Longrightarrow> find P (rev xs) = Some x"
proof -
  have f: "find P ys = (case filter P ys of [] \<Rightarrow> None | y # _ \<Rightarrow> Some y)" for ys
    by (induction ys) auto
  assume "filter P xs = [x]"
  then have "filter P (rev xs) = [x]" by (simp add: rev_filter [symmetric])
  then show ?thesis by (simp add: f)
qed

lemma head_by_result_last:
  assumes "chained rv_id rv_result rv_supersedes (reviews db)"
  shows "head_by_result db v = (let l = filter (\<lambda>r. rv_result r = v) (reviews db)
     in if l = [] then None else Some (last l))"
proof -
  have h: "heads_of_result (reviews db) v = filter (\<lambda>r. rv_result r = v) (review_heads db)"
    by (simp add: heads_of_result_def review_heads_def conj_commute)
  note l = review_log.head_is_last [OF assms, of v, unfolded h review_log.line_def]
  show ?thesis
  proof (cases "filter (\<lambda>r. rv_result r = v) (reviews db) = []")
    case True
    with l have "\<forall>r \<in> set (rev (review_heads db)). rv_result r \<noteq> v" by (auto simp: filter_empty_conv)
    then have "find (\<lambda>r. rv_result r = v) (rev (review_heads db)) = None" by (simp add: find_None_iff)
    with True show ?thesis by (simp add: head_by_result_def)
  next
    case False
    with l find_single [of "\<lambda>r. rv_result r = v" "review_heads db"] show ?thesis
      by (simp add: head_by_result_def Let_def)
  qed
qed

end
