(* ===== verification/Decision_Log.thy ===== *)
theory Decision_Log
  imports Compliance_Inputs Chains
begin

text \<open>
  The append-only tables behind the background check and their readers:
  \<open>background_check_decision_repository.py\<close>, \<open>background_check_proposal_repository.py\<close>,
  the writes of \<open>check_cycle_repository.py\<close>, \<open>application/background_check_reader.py\<close> and
  \<open>application/compliance_facts.py\<close>.
\<close>

section \<open>Decisions\<close>

text \<open>
  The chain head: the company's decisions no other decision supersedes, of which
  \<open>scalar_one_or_none\<close> accepts at most one.
\<close>

definition unsuperseded :: "bc_decision list \<Rightarrow> uuid \<Rightarrow> bc_decision list" where
  "unsuperseded ds company_id = filter (\<lambda>d. dn_company d = company_id \<and>
     (\<forall>s \<in> set ds. dn_supersedes s \<noteq> Some (dn_id d))) ds"

definition latest_for_company :: "uuid \<Rightarrow> crm_db \<Rightarrow> crm_error + bc_decision option" where
  "latest_for_company company_id db = (case unsuperseded (decisions db) company_id of
     [] \<Rightarrow> Inr None
   | [d] \<Rightarrow> Inr (Some d)
   | _ \<Rightarrow> Inl MultipleResultsFound)"

definition record_decision_rows :: "bc_decision \<Rightarrow> bc_evidence list \<Rightarrow> crm_db \<Rightarrow> crm_db" where
  "record_decision_rows d rows db =
     db\<lparr>decisions := decisions db @ [d],
        evidence := evidence db @ map (\<lambda>r. r\<lparr>ev_decision := dn_id d\<rparr>) rows\<rparr>"

definition decisions_of :: "crm_db \<Rightarrow> uuid \<Rightarrow> bc_decision list" where
  "decisions_of db company_id = filter (\<lambda>d. dn_company d = company_id) (decisions db)"

section \<open>Proposals\<close>

definition resolution_of :: "crm_db \<Rightarrow> uuid \<Rightarrow> bc_resolution option" where
  "resolution_of db proposal_id = find (\<lambda>r. rs_proposal r = proposal_id) (resolutions db)"

definition open_proposals :: "crm_db \<Rightarrow> uuid \<Rightarrow> bc_proposal list" where
  "open_proposals db company_id =
     filter (\<lambda>p. pr_company p = company_id \<and> resolution_of db (pr_id p) = None) (proposals db)"

definition open_for_company :: "crm_db \<Rightarrow> uuid \<Rightarrow> bc_proposal option" where
  "open_for_company db company_id =
     (case newest_first pr_created_at pr_id (open_proposals db company_id) of
        [] \<Rightarrow> None | p # _ \<Rightarrow> Some p)"

definition get_proposal_for_company ::
  "crm_db \<Rightarrow> uuid \<Rightarrow> uuid \<Rightarrow> (bc_proposal \<times> bc_resolution option) option" where
  "get_proposal_for_company db company_id proposal_id =
     (case find (\<lambda>p. pr_id p = proposal_id \<and> pr_company p = company_id) (proposals db) of
        None \<Rightarrow> None | Some p \<Rightarrow> Some (p, resolution_of db proposal_id))"

definition add_proposal :: "bc_proposal \<Rightarrow> crm_db \<Rightarrow> crm_db" where
  "add_proposal p db = db\<lparr>proposals := proposals db @ [p]\<rparr>"

definition add_resolution :: "bc_resolution \<Rightarrow> crm_db \<Rightarrow> crm_db" where
  "add_resolution r db = db\<lparr>resolutions := resolutions db @ [r]\<rparr>"

section \<open>Cycles\<close>

definition CYCLE_SOURCE_FIRST_INPUT :: string where
  "CYCLE_SOURCE_FIRST_INPUT = ''FIRST_INPUT''"

definition current_or_initial ::
  "uuid \<Rightarrow> uuid \<Rightarrow> string option \<Rightarrow> instant \<Rightarrow> crm_db \<Rightarrow> check_cycle \<times> crm_db" where
  "current_or_initial company_id actor_id source_ref at db = (case current_cycle db company_id of
     Some c \<Rightarrow> (c, db)
   | None \<Rightarrow>
     (let (cid, db) = fresh_uuid db;
          c = \<lparr>cc_id = cid, cc_company = company_id, cc_number = 1, cc_kind = INITIAL,
               cc_reason = None, cc_started_at = at, cc_rules_version = None,
               cc_created_by = actor_id, cc_source = CYCLE_SOURCE_FIRST_INPUT,
               cc_source_ref = map_option OtherText source_ref\<rparr>
      in (c, db\<lparr>cycles := cycles db @ [c]\<rparr>)))"

definition add_next_cycle ::
  "uuid \<Rightarrow> check_cycle \<Rightarrow> cycle_kind \<Rightarrow> string \<Rightarrow> uuid \<Rightarrow> string \<Rightarrow> ref_text option \<Rightarrow> string \<Rightarrow>
   instant \<Rightarrow> crm_db \<Rightarrow> check_cycle \<times> crm_db" where
  "add_next_cycle company_id previous kind reason actor_id source source_ref rules_version at db =
     (let (cid, db) = fresh_uuid db;
          c = \<lparr>cc_id = cid, cc_company = company_id, cc_number = Suc (cc_number previous),
               cc_kind = kind, cc_reason = Some reason, cc_started_at = at,
               cc_rules_version = Some rules_version, cc_created_by = actor_id,
               cc_source = source, cc_source_ref = source_ref\<rparr>
      in (c, db\<lparr>cycles := cycles db @ [c]\<rparr>))"

section \<open>The company's standing\<close>

record bc_standing =
  st_company :: uuid
  st_value :: bc_state
  st_risk :: "bc_risk option"
  st_latest_decision :: "uuid option"
  st_clearing_decision :: "uuid option"
  st_decided_at :: "instant option"
  st_expires_at :: "instant option"

definition st_is_clear :: "bc_standing \<Rightarrow> bool" where
  "st_is_clear s \<longleftrightarrow> st_value s = CLEAR"

definition is_clear_and_current :: "bc_standing \<Rightarrow> instant \<Rightarrow> bool" where
  "is_clear_and_current s now \<longleftrightarrow>
     st_is_clear s \<and> (case st_expires_at s of None \<Rightarrow> False | Some e \<Rightarrow> now < e)"

definition clear_expiry :: "instant \<Rightarrow> instant option \<Rightarrow> instant" where
  "clear_expiry decided_at stored =
     (case stored of Some e \<Rightarrow> e | None \<Rightarrow> legacy_clear_expiry decided_at)"

definition latest_risk :: "uuid \<Rightarrow> crm_db \<Rightarrow> bc_risk option" where
  "latest_risk company_id db =
     (case newest_first dn_decided_at dn_id
        (filter (\<lambda>d. dn_company d = company_id \<and> dn_risk d \<noteq> None) (decisions db))
      of [] \<Rightarrow> None | d # _ \<Rightarrow> dn_risk d)"

definition standing :: "uuid \<Rightarrow> crm_db \<Rightarrow> crm_error + bc_standing" where
  "standing company_id db = (case profiles db company_id of
     None \<Rightarrow> Inl (ExporterProfileNotFoundError company_id)
   | Some p \<Rightarrow>
     bindE (latest_for_company company_id db) (\<lambda>latest.
     let value = background_check p;
         clearing = (case latest of None \<Rightarrow> None
           | Some d \<Rightarrow> if value = CLEAR \<and> dn_to d = CLEAR then Some d else None)
     in Inr \<lparr>st_company = company_id, st_value = value, st_risk = latest_risk company_id db,
             st_latest_decision = map_option dn_id latest,
             st_clearing_decision = map_option dn_id clearing,
             st_decided_at = map_option dn_decided_at latest,
             st_expires_at = map_option (\<lambda>d. clear_expiry (dn_decided_at d) (dn_expires_at d)) clearing\<rparr>))"

section \<open>A party's compliance facts\<close>

record party_compliance_facts =
  pf_background_check :: bc_state
  pf_is_clear :: bool
  pf_clear_expires_at :: "instant option"
  pf_is_clear_current :: bool
  pf_sanctions :: check_state
  pf_aml :: check_state

definition facts_for_company :: "uuid \<Rightarrow> instant \<Rightarrow> crm_db \<Rightarrow> crm_error + party_compliance_facts" where
  "facts_for_company company_id now db =
     bindE (standing company_id db) (\<lambda>s.
     bindE (company_inputs company_id db) (\<lambda>inputs.
     Inr \<lparr>pf_background_check = st_value s, pf_is_clear = st_is_clear s,
          pf_clear_expires_at = st_expires_at s, pf_is_clear_current = is_clear_and_current s now,
          pf_sanctions = check_state (ci_verifications inputs) SANCTIONS,
          pf_aml = check_state (ci_verifications inputs) AML\<rparr>))"

definition facts_for_legacy_buyer :: "uuid \<Rightarrow> instant \<Rightarrow> crm_db \<Rightarrow> crm_error + party_compliance_facts" where
  "facts_for_legacy_buyer deal_buyer_id now db =
     bindE (buyer_checks deal_buyer_id db) (\<lambda>checks.
     Inr \<lparr>pf_background_check = NOT_STARTED, pf_is_clear = False, pf_clear_expires_at = None,
          pf_is_clear_current = False, pf_sanctions = check_state checks SANCTIONS,
          pf_aml = check_state checks AML\<rparr>)"

section \<open>What the writers leave alone\<close>

lemma record_decision_rows_frame [simp]:
  "profiles (record_decision_rows d rows db) = profiles db"
  "decisions (record_decision_rows d rows db) = decisions db @ [d]"
  "proposals (record_decision_rows d rows db) = proposals db"
  "resolutions (record_decision_rows d rows db) = resolutions db"
  "cycles (record_decision_rows d rows db) = cycles db"
  "verifications (record_decision_rows d rows db) = verifications db"
  "reviews (record_decision_rows d rows db) = reviews db"
  "screenings (record_decision_rows d rows db) = screenings db"
  "documents (record_decision_rows d rows db) = documents db"
  "buyers (record_decision_rows d rows db) = buyers db"
  "history (record_decision_rows d rows db) = history db"
  "staff (record_decision_rows d rows db) = staff db"
  "next_uuid (record_decision_rows d rows db) = next_uuid db"
  by (simp_all add: record_decision_rows_def)

lemma current_or_initial_frame [frame_simps]:
  assumes "current_or_initial c a r t db = (cy, db')"
  shows "profiles db' = profiles db" "decisions db' = decisions db" "evidence db' = evidence db"
    "proposals db' = proposals db" "resolutions db' = resolutions db"
    "verifications db' = verifications db" "reviews db' = reviews db"
    "screenings db' = screenings db" "documents db' = documents db" "buyers db' = buyers db"
    "history db' = history db" "staff db' = staff db" "next_uuid db \<le> next_uuid db'"
  using assms
  by (auto simp: current_or_initial_def fresh_uuid_def Let_def split: option.splits)

lemma open_proposals_cong:
  "proposals db' = proposals db \<Longrightarrow> resolutions db' = resolutions db \<Longrightarrow>
   open_proposals db' c = open_proposals db c"
  by (simp add: open_proposals_def resolution_of_def)

lemma open_for_company_None: "open_for_company db c = None \<longleftrightarrow> open_proposals db c = []"
proof -
  have "newest_first pr_created_at pr_id (open_proposals db c) = [] \<longleftrightarrow> open_proposals db c = []"
    by (metis length_0_conv length_newest_first)
  then show ?thesis by (auto simp: open_for_company_def split: list.splits)
qed

lemma open_for_company_Some:
  assumes "open_for_company db c = Some p"
  shows "p \<in> set (proposals db)" "pr_company p = c" "resolution_of db (pr_id p) = None"
proof -
  from assms obtain ps where "newest_first pr_created_at pr_id (open_proposals db c) = p # ps"
    by (auto simp: open_for_company_def split: list.splits)
  then have "p \<in> set (open_proposals db c)"
    by (metis list.set_intros(1) set_newest_first)
  then show "p \<in> set (proposals db)" "pr_company p = c" "resolution_of db (pr_id p) = None"
    by (auto simp: open_proposals_def)
qed

lemma current_cycle_in:
  assumes "current_cycle db c = Some cy"
  shows "cy \<in> set (cycles db)" "cc_company cy = c"
proof -
  from assms obtain r where "rev (cycles_of db c) = cy # r"
    by (auto simp: current_cycle_def split: list.splits)
  then have "cy \<in> set (cycles_of db c)"
    by (metis list.set_intros(1) set_rev)
  then show "cy \<in> set (cycles db)" "cc_company cy = c"
    by (auto simp: cycles_of_def)
qed

section \<open>The decisions as a chain\<close>

text \<open>
  \<open>background_check_decision\<close> is a version log: a decision supersedes its company's previous
  one. So while the table is chained, \<open>scalar_one_or_none\<close> never meets two rows, and the row it
  returns is the company's last decision.
\<close>

interpretation decision_log: version_log dn_id dn_company dn_supersedes unsuperseded
  by unfold_locales (simp add: unsuperseded_def)

abbreviation decisions_chained :: "bc_decision list \<Rightarrow> bool" where
  "decisions_chained \<equiv> chained dn_id dn_company dn_supersedes"

lemma decisions_of_line: "decisions_of db c = decision_log.line (decisions db) c"
  by (simp add: decisions_of_def decision_log.line_def)

lemma latest_of_chain:
  assumes "decisions_chained (decisions db)"
  shows "latest_for_company c db =
    Inr (if decisions_of db c = [] then None else Some (last (decisions_of db c)))"
  by (simp add: latest_for_company_def decision_log.head_is_last [OF assms] decisions_of_line)

lemma latest_for_company_in:
  assumes "latest_for_company c db = Inr (Some d)"
  shows "d \<in> set (decisions db)" "dn_company d = c"
  using assms decision_log.head_in [of d "decisions db" c]
  by (auto simp: latest_for_company_def split: list.splits)

lemma append_decision_chained:
  assumes "decisions_chained (decisions db)" and "dn_id d \<notin> dn_id ` set (decisions db)"
    and "latest_for_company (dn_company d) db = Inr prev" and "dn_supersedes d = map_option dn_id prev"
  shows "decisions_chained (decisions db @ [d])"
  using assms decision_log.head_is_last [OF assms(1), of "dn_company d"]
  by (intro decision_log.append_head) (auto simp: latest_for_company_def split: if_splits)

end
