(* ===== verification/History.thy ===== *)
theory History
  imports Store
begin

text \<open>
  The shared history writer, \<open>application/history_service.py\<close>: one append-only row per
  change, flushed in the caller's transaction and never committed by it. Every gauge of
  the company writes through it.
\<close>

section \<open>Checking a column\<close>

definition MAX_DIMENSION :: nat where "MAX_DIMENSION = 32"
definition MAX_VALUE :: nat where "MAX_VALUE = 64"
definition MAX_SOURCE :: nat where "MAX_SOURCE = 100"

definition require_text :: "string \<Rightarrow> nat \<Rightarrow> crm_error + string" where
  "require_text value max_length = (let cleaned = py_strip value in
     if cleaned = [] then Inl (ValidationError ''history row requires a non-empty value'')
     else if length cleaned > max_length
     then Inl (ValidationError ''history row value is too long for its column'')
     else Inr cleaned)"

text \<open>A user's id is the 36 characters of a uuid, a cycle's number its decimal digits.\<close>

definition require_value :: "hval \<Rightarrow> nat \<Rightarrow> crm_error + hval" where
  "require_value v max_length = (case v of
     HText s \<Rightarrow> bindE (require_text s max_length) (\<lambda>t. Inr (HText t))
   | HUser u \<Rightarrow> bindE (require (36 \<le> max_length) (ValidationError ''too long'')) (\<lambda>_. Inr v)
   | HNumber n \<Rightarrow> bindE (require (decimal_digits n \<le> max_length) (ValidationError ''too long''))
       (\<lambda>_. Inr v))"

section \<open>Writing a row\<close>

definition record_history ::
  "uuid \<Rightarrow> string \<Rightarrow> hval option \<Rightarrow> hval \<Rightarrow> uuid option \<Rightarrow> string \<Rightarrow> string option \<Rightarrow>
   uuid option \<Rightarrow> string option \<Rightarrow> (string \<times> dval) list \<Rightarrow> crm_db \<Rightarrow> crm_error + crm_db" where
  "record_history company_id dimension from_value to_value actor_id source reason deal_id
     event_type details db =
   bindE (require_text dimension MAX_DIMENSION) (\<lambda>dimension.
   bindE (require_value to_value MAX_VALUE) (\<lambda>to_value.
   bindE (require_text source MAX_SOURCE) (\<lambda>source.
   bindE (case from_value of None \<Rightarrow> Inr None
          | Some v \<Rightarrow> bindE (require_value v MAX_VALUE) (\<lambda>v. Inr (Some v))) (\<lambda>from_value.
   let resolved_event_type = (case event_type of Some t \<Rightarrow> if t = [] then
             dimension @ (if from_value \<noteq> None then ''_transition'' else ''_initial'') else t
         | None \<Rightarrow> dimension @ (if from_value \<noteq> None then ''_transition'' else ''_initial''))
   in Inr (db\<lparr>history := history db @
        [\<lparr>hr_company = company_id, hr_dimension = dimension, hr_deal = deal_id,
          hr_event_type = resolved_event_type, hr_from = from_value, hr_to = to_value,
          hr_actor = actor_id, hr_reason = reason,
          hr_metadata = (''source'', DText source) # details\<rparr>]\<rparr>)))))"

section \<open>What the writer promises\<close>

text \<open>
  A caller relies on three laws: a row that is written is the last row and names the
  company, the dimension and the values; earlier rows stay; nothing but the history
  table changes.
\<close>

lemma require_text_eq_Inr:
  "require_text v n = Inr t \<longleftrightarrow> t = py_strip v \<and> t \<noteq> [] \<and> length t \<le> n"
  by (auto simp: require_text_def Let_def)

lemma record_history_shape:
  assumes "record_history c dim f t a src r d ev det db = Inr db'"
  obtains row where "db' = db\<lparr>history := history db @ [row]\<rparr>"
    and "hr_company row = c" and "hr_dimension row = py_strip dim"
    and "hr_actor row = a" and "hr_reason row = r" and "hr_deal row = d"
    and "hr_metadata row = (''source'', DText (py_strip src)) # det"
  using assms by (auto simp: record_history_def err_simps require_text_eq_Inr Let_def)

lemma record_history_frame [frame_simps]:
  assumes "record_history c dim f t a src r d ev det db = Inr db'"
  shows "profiles db' = profiles db" "decisions db' = decisions db" "evidence db' = evidence db"
    "proposals db' = proposals db" "resolutions db' = resolutions db" "cycles db' = cycles db"
    "verifications db' = verifications db" "reviews db' = reviews db"
    "screenings db' = screenings db" "documents db' = documents db" "buyers db' = buyers db"
    "staff db' = staff db" "next_uuid db' = next_uuid db"
  using assms by (auto elim!: record_history_shape)

text \<open>A row's words are constants of the code, so whether the columns hold them computes.\<close>

lemma record_history_returns:
  "returns (record_history c dim f t a src r d ev det db) \<longleftrightarrow>
     returns (require_text dim MAX_DIMENSION) \<and> returns (require_value t MAX_VALUE) \<and>
     returns (require_text src MAX_SOURCE) \<and>
     (case f of None \<Rightarrow> True | Some v \<Rightarrow> returns (require_value v MAX_VALUE))"
  by (cases "require_text dim MAX_DIMENSION"; cases "require_value t MAX_VALUE";
      cases "require_text src MAX_SOURCE"; cases f;
      cases "require_value (the f) MAX_VALUE"; simp add: record_history_def Let_def)

text \<open>A row that fits its columns, and the row that is then written.\<close>

definition good_source :: "string \<Rightarrow> bool" where
  "good_source src \<longleftrightarrow> returns (require_text src MAX_SOURCE)"

definition fits :: "string \<Rightarrow> hval option \<Rightarrow> hval \<Rightarrow> string \<Rightarrow> bool" where
  "fits dim f t src \<longleftrightarrow> returns (require_text dim MAX_DIMENSION) \<and> returns (require_value t MAX_VALUE) \<and>
     good_source src \<and> (case f of None \<Rightarrow> True | Some v \<Rightarrow> returns (require_value v MAX_VALUE))"

fun stripped :: "hval \<Rightarrow> hval" where
  "stripped (HText s) = HText (py_strip s)"
| "stripped (HUser u) = HUser u"
| "stripped (HNumber n) = HNumber n"

definition made_row ::
  "uuid \<Rightarrow> string \<Rightarrow> hval option \<Rightarrow> hval \<Rightarrow> uuid option \<Rightarrow> string \<Rightarrow> string option \<Rightarrow>
   uuid option \<Rightarrow> string option \<Rightarrow> (string \<times> dval) list \<Rightarrow> history_row" where
  "made_row c dim f t a src r d ev det =
     \<lparr>hr_company = c, hr_dimension = py_strip dim, hr_deal = d,
      hr_event_type = (case ev of Some (x # xs) \<Rightarrow> x # xs
        | _ \<Rightarrow> py_strip dim @ (if f \<noteq> None then ''_transition'' else ''_initial'')),
      hr_from = map_option stripped f, hr_to = stripped t, hr_actor = a, hr_reason = r,
      hr_metadata = (''source'', DText (py_strip src)) # det\<rparr>"

lemma returns_require_text: "returns (require_text s n) \<longleftrightarrow> py_strip s \<noteq> [] \<and> length (py_strip s) \<le> n"
  by (simp add: require_text_def Let_def)

lemma require_value_stripped: "returns (require_value v n) \<Longrightarrow> require_value v n = Inr (stripped v)"
  by (cases v) (auto simp: require_value_def require_text_def Let_def require_def split: if_splits)

lemma record_history_fits:
  assumes "fits dim f t src"
  shows "record_history c dim f t a src r d ev det db =
    Inr (db\<lparr>history := history db @ [made_row c dim f t a src r d ev det]\<rparr>)"
proof -
  have dim: "require_text dim MAX_DIMENSION = Inr (py_strip dim)"
    and src: "require_text src MAX_SOURCE = Inr (py_strip src)"
    using assms by (simp_all add: fits_def good_source_def require_text_eq_Inr returns_require_text)
  have t: "require_value t MAX_VALUE = Inr (stripped t)"
    using assms by (simp add: fits_def require_value_stripped)
  have f: "(case f of None \<Rightarrow> Inr None
      | Some v \<Rightarrow> bindE (require_value v MAX_VALUE) (\<lambda>v. Inr (Some v))) = Inr (map_option stripped f)"
    using assms by (auto simp: fits_def require_value_stripped split: option.splits)
  show ?thesis
    unfolding record_history_def dim src t f made_row_def
    by (cases ev) (auto split: list.splits)
qed

lemma fits_words:
  "returns (require_text dim MAX_DIMENSION) \<Longrightarrow> good_source src \<Longrightarrow>
   returns (require_value t MAX_VALUE) \<Longrightarrow> returns (require_value f MAX_VALUE) \<Longrightarrow> fits dim (Some f) t src"
  by (simp add: fits_def)

lemma require_value_HUser [simp]: "require_value (HUser u) MAX_VALUE = Inr (HUser u)"
  by (simp add: require_value_def MAX_VALUE_def)

section \<open>Writing the locked company row\<close>

text \<open>
  What a method on the locked row may do: replace that row and append history rows, and
  nothing else.
\<close>

definition profile_write :: "uuid \<Rightarrow> exporter_profile \<Rightarrow> crm_db \<Rightarrow> crm_db \<Rightarrow> bool" where
  "profile_write c p db db' \<longleftrightarrow>
     (\<exists>rows. db' = db\<lparr>profiles := (profiles db)(c \<mapsto> p), history := history db @ rows\<rparr>)"

lemma profile_write_frame:
  assumes "profile_write c p db db'"
  shows "profiles db' = (profiles db)(c \<mapsto> p)" "decisions db' = decisions db"
    "evidence db' = evidence db" "proposals db' = proposals db" "resolutions db' = resolutions db"
    "cycles db' = cycles db" "verifications db' = verifications db" "reviews db' = reviews db"
    "screenings db' = screenings db" "documents db' = documents db" "buyers db' = buyers db"
    "staff db' = staff db" "next_uuid db' = next_uuid db"
  using assms by (auto simp: profile_write_def)

lemma profile_write_history:
  "profile_write c p db db' \<Longrightarrow> \<exists>rows. history db' = history db @ rows"
  by (auto simp: profile_write_def)

lemma profile_write_trans:
  assumes "profile_write c p db db1" and "profile_write c p' db1 db2"
  shows "profile_write c p' db db2"
  using assms by (auto simp: profile_write_def)

lemma profile_write_refl:
  "profiles db c = Some p \<Longrightarrow> profile_write c p db db"
  by (auto simp: profile_write_def fun_upd_idem intro!: exI [of _ "[]"])

lemma profile_write_save: "customer_id p = c \<Longrightarrow> profile_write c p db (save_profile p db)"
  by (auto simp: profile_write_def save_profile_def intro!: exI [of _ "[]"])

lemma profile_write_record:
  assumes "record_history c' dim f t a src r d ev det db = Inr db'" and "profiles db c = Some p"
  shows "profile_write c p db db'"
  using assms by (auto simp: profile_write_def fun_upd_idem elim!: record_history_shape)

lemma profile_write_save_record:
  assumes "record_history c' dim f t a src r d ev det (save_profile p db) = Inr db'"
    and "customer_id p = c"
  shows "profile_write c p db db'"
proof -
  have "profiles (save_profile p db) c = Some p" using assms(2) by simp
  from profile_write_trans [OF profile_write_save profile_write_record [OF assms(1) this], OF assms(2)]
  show ?thesis .
qed

text \<open>The contract of such a method, and what any caller of it may conclude.\<close>

locale row_writer =
  fixes step :: "exporter_profile \<Rightarrow> crm_db \<Rightarrow> crm_error + exporter_profile \<times> crm_db"
  assumes same_key: "step p db = Inr (p', db') \<Longrightarrow> customer_id p' = customer_id p"
    and writes_row: "step p db = Inr (p', db') \<Longrightarrow> profiles db (customer_id p) = Some p \<Longrightarrow>
      profile_write (customer_id p) p' db db'"
begin

lemma frame:
  assumes "step p db = Inr (p', db')" and "profiles db (customer_id p) = Some p"
  shows "profiles db' = (profiles db)(customer_id p \<mapsto> p')" "decisions db' = decisions db"
    "evidence db' = evidence db" "proposals db' = proposals db" "resolutions db' = resolutions db"
    "cycles db' = cycles db" "verifications db' = verifications db" "reviews db' = reviews db"
    "screenings db' = screenings db" "documents db' = documents db" "buyers db' = buyers db"
    "staff db' = staff db" "next_uuid db' = next_uuid db"
  using profile_write_frame [OF writes_row [OF assms]] by auto

lemma saved:
  assumes "step p db = Inr (p', db')" and "profiles db (customer_id p) = Some p"
  shows "profiles db' (customer_id p') = Some p'"
  unfolding frame(1) [OF assms] same_key [OF assms(1)] by simp

lemma keeps_keyed:
  assumes "step p db = Inr (p', db')" and "profiles db (customer_id p) = Some p" and "keyed db"
  shows "keyed db'"
  using assms(3) same_key [OF assms(1)] unfolding keyed_def frame(1) [OF assms(1,2)]
  by (metis map_upd_Some_unfold)

lemma others_untouched:
  assumes "step p db = Inr (p', db')" and "profiles db (customer_id p) = Some p"
    and "c \<noteq> customer_id p"
  shows "profiles db' c = profiles db c"
  unfolding frame(1) [OF assms(1,2)] using assms(3) by simp

end

end
