(* ===== verification/World.thy ===== *)
theory World
  imports Decision_Log History
begin

text \<open>
  The rest of the CRM's tables, around the company tables of \<open>Store\<close>: deals and their buyers
  (\<open>domain/entities/deal.py\<close>, \<open>deal_buyer.py\<close>), GST registrations, contacts, payment terms,
  required documents, trade relationships, sanctions screenings
  (\<open>domain/entities/sanctions.py\<close>) and the audit log. A service that writes company tables and
  its own in one transaction is a function on this record.
\<close>

section \<open>Deals\<close>

text \<open>
  A \<open>Decimal\<close> as Python keeps it: its digits and how many of them follow the point. An amount in
  a request keeps the places it was written with; the \<open>Numeric(18, 2)\<close> column gives two back. The
  API refuses a negative amount.
\<close>

type_synonym decimal = "nat \<times> nat"

fun stored_amount :: "decimal \<Rightarrow> decimal" where
  "stored_amount (n, k) = (if k \<le> 2 then (n * 10 ^ (2 - k), 2)
     else ((n + 5 * 10 ^ (k - 3)) div 10 ^ (k - 2), 2))"

record deal_buyer =
  db_id :: uuid
  db_name :: string
  db_country :: "string option"
  db_registration_number :: "string option"
  db_tax_id :: "string option"
  db_contact_email :: "string option"
  db_contact_phone :: "string option"

text \<open>A payment term version, and its kind's number of days.\<close>

record payment_term =
  pt_id :: uuid
  pt_code :: string
  pt_version :: nat
  pt_label :: string
  pt_kind :: string
  pt_days :: "int option"
  pt_active :: bool
  pt_is_current :: bool

text \<open>
  \<open>_Handover.as_snapshot()\<close>: the buyer's six fields, the ids of the deal's documents, the
  terms, and when it was taken. \<open>snapshot_source\<close> is \<open>taken_at_handover\<close> for every snapshot
  the service writes.
\<close>

record buyer_details =
  bd_name :: "string option"
  bd_country :: "string option"
  bd_registration_number :: "string option"
  bd_tax_id :: "string option"
  bd_contact_email :: "string option"
  bd_contact_phone :: "string option"

record handover_terms =
  ht_value :: "decimal option"
  ht_currency :: "string option"
  ht_payment_term :: "payment_term option"
  ht_override_reason :: "string option"

record handover_snapshot =
  hv_buyer :: "buyer_details option"
  hv_buyer_company :: "uuid option"
  hv_documents :: "uuid list"
  hv_terms :: handover_terms
  hv_source :: string
  hv_at :: instant

record deal_row =
  dl_id :: uuid
  dl_company :: uuid
  dl_reference :: string
  dl_stage :: deal_stage
  dl_withdrawal_reason :: "string option"
  dl_handed_over_at :: "instant option"
  dl_buyer_company :: "uuid option"
  dl_snapshot :: "handover_snapshot option"
  dl_branch :: "uuid option"
  dl_value :: "decimal option"
  dl_currency :: "string option"
  dl_term :: "uuid option"
  dl_override_reason :: "string option"
  dl_buyer :: "deal_buyer option"

record gstin_row =
  gs_id :: uuid
  gs_company :: uuid
  gs_gstin :: string
  gs_active :: bool
  gs_flagged :: bool
  gs_state_name :: "string option"
  gs_state_code :: "string option"

datatype contact_status = CONTACT_ACTIVE | CONTACT_INACTIVE | LEFT_COMPANY

record contact_row =
  ct_id :: uuid
  ct_company :: uuid
  ct_name :: string
  ct_is_director :: bool
  ct_is_ubo :: bool
  ct_is_primary :: bool
  ct_status :: contact_status

record doc_requirement =
  rq_category :: document_category
  rq_type :: string
  rq_version :: nat
  rq_active :: bool
  rq_created_by :: "uuid option"
  rq_source :: string

record trade_relationship =
  tr_id :: uuid
  tr_seller :: uuid
  tr_buyer :: uuid
  tr_created_by :: "uuid option"
  tr_source :: string
  tr_source_ref :: "ref_text option"

section \<open>Sanctions screenings\<close>

datatype subject_type = SUBJECT_COMPANY | SUBJECT_DIRECTOR | SUBJECT_UBO

datatype disposition = HIT_OPEN | FALSE_POSITIVE | TRUE_MATCH_PROPOSED | TRUE_MATCH | ESCALATED

record sanctions_list =
  sl_id :: uuid
  sl_code :: string
  sl_name :: string
  sl_active :: bool
  sl_mandatory :: bool
  sl_version_date :: int
  sl_is_current :: bool

record sanctions_run =
  sr_id :: uuid
  sr_company :: uuid
  sr_subject_type :: subject_type
  sr_subject_name :: string
  sr_subject_reference :: "uuid option"
  sr_cycle :: "uuid option"
  sr_performed_by :: uuid
  sr_performed_at :: instant
  sr_provider :: string
  sr_provider_reference :: "string option"
  sr_created_at :: instant
  sr_search_terms :: "(string \<times> py_value) list"
  sr_note :: "string option"
  sr_lists :: "(string \<times> int) list"

record sanctions_hit =
  sh_id :: uuid
  sh_run :: uuid
  sh_list_code :: string
  sh_matched_name :: string
  sh_list_entry :: "string option"
  sh_score :: "int option"

record hit_disposition =
  hd_id :: uuid
  hd_hit :: uuid
  hd_disposition :: disposition
  hd_reason :: "string option"
  hd_decided_by :: uuid
  hd_decided_at :: instant
  hd_approved_by :: "uuid option"
  hd_supersedes :: "uuid option"

record audit_event =
  ae_event :: string
  ae_actor :: uuid
  ae_payload :: "(string \<times> dval) list"

section \<open>Qualification\<close>

datatype criterion_kind = YES_NO | NUMBER_THRESHOLD | ALLOWED_VALUES

datatype threshold_comparison = AT_LEAST | AT_MOST

datatype criterion_result = RESULT_PASS | RESULT_FAIL | RESULT_UNKNOWN

datatype outcome_value = OUTCOME_QUALIFIED | OUTCOME_NOT_QUALIFIED

datatype qualification_source = QS_MANUAL | QS_IMPORT | QS_RXIL | QS_AUTOMATED

datatype auto_source = AS_IEC_VERIFICATION | AS_YEARS_ESTABLISHED | AS_INDUSTRY | AS_EXPORT_MARKETS
  | AS_TRADE_HISTORY | AS_DEAL_VALUE

text \<open>Thresholds and confidences are decimals: a number of ten-thousandths here.\<close>

record criterion_row =
  cr_id :: uuid
  cr_key :: string
  cr_version :: nat
  cr_label :: string
  cr_kind :: criterion_kind
  cr_comparison :: "threshold_comparison option"
  cr_threshold :: "int option"
  cr_unit :: "string option"
  cr_allowed_values :: "string list option"
  cr_required :: bool
  cr_active :: bool
  cr_auto_source :: "string option"
  cr_created_by :: "uuid option"

record qualification_result =
  qr_id :: uuid
  qr_company :: uuid
  qr_criterion :: uuid
  qr_result :: criterion_result
  qr_observed :: "string option"
  qr_source :: qualification_source
  qr_decided_by_kind :: decided_by_kind
  qr_evidence_note :: "string option"
  qr_evidence_refs :: "(string \<times> string) list"
  qr_reason :: "string option"
  qr_confidence :: "int option"
  qr_recorded_by :: "uuid option"
  qr_recorded_at :: instant

record qualification_outcome =
  qo_id :: uuid
  qo_company :: uuid
  qo_outcome :: outcome_value
  qo_reason_codes :: "string list"
  qo_note :: "string option"
  qo_suggested :: outcome_value
  qo_results :: "uuid list"
  qo_source :: qualification_source
  qo_decided_by_kind :: decided_by_kind
  qo_supersedes :: "uuid option"
  qo_decided_by :: "uuid option"
  qo_decided_at :: instant

section \<open>The record of all tables\<close>

record crm_world =
  crm :: crm_db
  deals :: "deal_row list"
  registrations :: "gstin_row list"
  contacts :: "contact_row list"
  payment_terms :: "payment_term list"
  requirements :: "doc_requirement list"
  relationships :: "trade_relationship list"
  sanctions_lists :: "sanctions_list list"
  sanctions_runs :: "sanctions_run list"
  sanctions_hits :: "sanctions_hit list"
  dispositions :: "hit_disposition list"
  audit_log :: "audit_event list"
  criteria :: "criterion_row list"
  qualification_results :: "qualification_result list"
  qualification_outcomes :: "qualification_outcome list"

text \<open>A new id, taken from the same supply as the company tables' ids.\<close>

definition world_uuid :: "crm_world \<Rightarrow> uuid \<times> crm_world" where
  "world_uuid w = (let (i, db) = fresh_uuid (crm w) in (i, w\<lparr>crm := db\<rparr>))"

definition find_deal :: "crm_world \<Rightarrow> uuid \<Rightarrow> deal_row option" where
  "find_deal w deal_id = find (\<lambda>d. dl_id d = deal_id) (deals w)"

definition save_deal :: "deal_row \<Rightarrow> crm_world \<Rightarrow> crm_world" where
  "save_deal d w = w\<lparr>deals := map (\<lambda>x. if dl_id x = dl_id d then d else x) (deals w)\<rparr>"

text \<open>A history row written in a transaction of the wider record.\<close>

definition world_history ::
  "uuid \<Rightarrow> string \<Rightarrow> hval option \<Rightarrow> hval \<Rightarrow> uuid option \<Rightarrow> string \<Rightarrow> string option \<Rightarrow>
   uuid option \<Rightarrow> string option \<Rightarrow> (string \<times> dval) list \<Rightarrow> crm_world \<Rightarrow> crm_error + crm_world" where
  "world_history company_id dimension from_value to_value actor_id source reason deal_id event_type
     details w =
   bindE (record_history company_id dimension from_value to_value actor_id source reason deal_id
       event_type details (crm w)) (\<lambda>db. Inr (w\<lparr>crm := db\<rparr>))"

text \<open>
  \<open>_lock_profile\<close> of \<open>ConversationService\<close> and \<open>QualificationService\<close>: a company that is not
  being sold to has neither gauge.
\<close>

definition lock_in_pipeline :: "uuid \<Rightarrow> crm_db \<Rightarrow> crm_error + exporter_profile" where
  "lock_in_pipeline company_id db = bindE (lock_profile company_id db) (\<lambda>p.
     bindE (require (pipeline_st p \<noteq> NOT_IN_PIPELINE) (CompanyNotInPipelineError company_id)) (\<lambda>_. Inr p))"

lemma returns_require_then [simp]: "returns (bindE (require b e) f) \<longleftrightarrow> b \<and> returns (f ())"
  by (cases b) auto

lemma pipeline_in: "pipeline_st p \<noteq> NOT_IN_PIPELINE \<longleftrightarrow> pipeline_st p = IN_PIPELINE"
  by (cases "pipeline_st p") auto

lemma lock_in_pipeline_returns:
  "returns (bindE (lock_in_pipeline c db) f) \<longleftrightarrow>
     (\<exists>p. profiles db c = Some p \<and> pipeline_st p = IN_PIPELINE \<and> returns (f p))"
proof (cases "profiles db c")
  case (Some p)
  then show ?thesis by (cases "pipeline_st p") (simp_all add: lock_in_pipeline_def lock_profile_def)
qed (simp add: lock_in_pipeline_def lock_profile_def)

lemma lock_in_pipeline_Inr [err_simps]:
  "lock_in_pipeline c db = Inr p \<longleftrightarrow> profiles db c = Some p \<and> pipeline_st p \<noteq> NOT_IN_PIPELINE"
  by (auto simp: lock_in_pipeline_def err_simps)

lemma find_deal_Some: "find_deal w i = Some d \<Longrightarrow> d \<in> set (deals w) \<and> dl_id d = i"
  by (auto simp: find_deal_def dest: find_filter_Some)

lemma find_deal_unique:
  assumes "distinct (map dl_id (deals w))" and "d \<in> set (deals w)"
  shows "find_deal w (dl_id d) = Some d"
proof -
  have "find (\<lambda>x. dl_id x = dl_id d) ds = Some d"
    if "distinct (map dl_id ds)" "d \<in> set ds" for ds
    using that by (induction ds) (auto simp: image_iff)
  with assms show ?thesis by (simp add: find_deal_def)
qed

lemma save_deal_ids: "map dl_id (deals (save_deal d w)) = map dl_id (deals w)"
  by (simp add: save_deal_def)

lemma save_deal_frame [simp]:
  "crm (save_deal d w) = crm w"
  "registrations (save_deal d w) = registrations w"
  "contacts (save_deal d w) = contacts w"
  "payment_terms (save_deal d w) = payment_terms w"
  "requirements (save_deal d w) = requirements w"
  "relationships (save_deal d w) = relationships w"
  "sanctions_runs (save_deal d w) = sanctions_runs w"
  "sanctions_hits (save_deal d w) = sanctions_hits w"
  "dispositions (save_deal d w) = dispositions w"
  by (simp_all add: save_deal_def)

lemma set_save_deal:
  "x \<in> set (deals (save_deal d w)) \<Longrightarrow> x = d \<or> x \<in> set (deals w) \<and> dl_id x \<noteq> dl_id d"
  by (auto simp: save_deal_def)

lemma world_history_shape:
  assumes "world_history c dim f t a src r d ev det w = Inr w'"
  obtains row where "w' = w\<lparr>crm := (crm w)\<lparr>history := history (crm w) @ [row]\<rparr>\<rparr>"
  using assms by (auto simp: world_history_def err_simps elim!: record_history_shape)

end
