(* ===== verification/Calendar.thy ===== *)
theory Calendar
  imports Prelude
begin

text \<open>
  Python's text and dates where a message is built from them: \<open>str.join\<close>, \<open>str.lower\<close>,
  \<open>str.split\<close>, the decimal digits of a number, and \<open>datetime.date().isoformat()\<close> of an
  instant, which counts microseconds from 1970-01-01 in UTC.
\<close>

section \<open>Text\<close>

fun py_join :: "string \<Rightarrow> string list \<Rightarrow> string" where
  "py_join sep [] = []"
| "py_join sep [x] = x"
| "py_join sep (x # y # ys) = x @ sep @ py_join sep (y # ys)"

text \<open>\<open>str.lower()\<close> on the code points a \<open>char\<close> holds.\<close>

definition py_lower :: "string \<Rightarrow> string" where
  "py_lower s = map (\<lambda>c. let n = of_char c :: nat in
     if 65 \<le> n \<and> n \<le> 90 \<or> 192 \<le> n \<and> n \<le> 222 \<and> n \<noteq> 215 then char_of (n + 32) else c) s"

function py_split :: "string \<Rightarrow> string list" where
  "py_split s = (let t = dropWhile py_space s in
     if t = [] then [] else takeWhile (\<lambda>c. \<not> py_space c) t # py_split (dropWhile (\<lambda>c. \<not> py_space c) t))"
  by auto
termination
proof (relation "measure length")
  fix s t
  assume t: "t = dropWhile py_space s" "t \<noteq> []"
  then have "\<not> py_space (hd t)" by (metis hd_dropWhile)
  with t(2) have "length (dropWhile (\<lambda>c. \<not> py_space c) t) < length t"
    by (cases t) (auto intro: le_imp_less_Suc length_dropWhile_le)
  also have "length t \<le> length s" by (simp add: t(1) length_dropWhile_le)
  finally show "(dropWhile (\<lambda>c. \<not> py_space c) t, s) \<in> measure length" by simp
qed simp

declare py_split.simps [simp del]

definition normalised_name :: "string \<Rightarrow> string" where
  "normalised_name s = py_join '' '' (py_split (py_lower s))"

section \<open>Numbers\<close>

definition digit_char :: "nat \<Rightarrow> char" where
  "digit_char n = char_of (48 + n)"

fun nat_text :: "nat \<Rightarrow> string" where
  "nat_text n = (if n < 10 then [digit_char n] else nat_text (n div 10) @ [digit_char (n mod 10)])"

declare nat_text.simps [simp del]

definition padded :: "nat \<Rightarrow> nat \<Rightarrow> string" where
  "padded w n = (let s = nat_text n in replicate (w - length s) (CHR ''0'') @ s)"

section \<open>Dates\<close>

text \<open>
  The proleptic Gregorian calendar, as a count of days from 1970-01-01: eras of 400 years
  of 146097 days that begin on 1 March.
\<close>

definition civil_of_days :: "int \<Rightarrow> int \<times> int \<times> int" where
  "civil_of_days d =
    (let z = d + 719468;
         era = z div 146097;
         doe = z - era * 146097;
         yoe = (doe - doe div 1460 + doe div 36524 - doe div 146096) div 365;
         doy = doe - (365 * yoe + yoe div 4 - yoe div 100);
         mp = (5 * doy + 2) div 153;
         dd = doy - (153 * mp + 2) div 5 + 1;
         m = (if mp < 10 then mp + 3 else mp - 9)
     in (yoe + era * 400 + (if m \<le> 2 then 1 else 0), m, dd))"

definition date_of :: "instant \<Rightarrow> int" where
  "date_of t = t div days 1"

definition iso_date :: "int \<Rightarrow> string" where
  "iso_date d = (let (y, m, dd) = civil_of_days d
     in padded 4 (nat y) @ ''-'' @ padded 2 (nat m) @ ''-'' @ padded 2 (nat dd))"

lemma iso_date_samples:
  "iso_date 0 = ''1970-01-01''" "iso_date 20454 = ''2026-01-01''" "iso_date 11016 = ''2000-02-29''"
  "iso_date (date_of (days 20454 - 1)) = ''2025-12-31''"
  by code_simp+

lemma py_join_Nil_iff: "(\<forall>x \<in> set xs. x \<noteq> []) \<Longrightarrow> py_join sep xs = [] \<longleftrightarrow> xs = []"
  by (cases xs rule: remdups_adj.cases) auto

end
