(* ===== verification/Conversation.thy ===== *)
theory Conversation
  imports World Calendar
begin

text \<open>
  The conversation gauge, \<open>application/conversation_service.py\<close>: any value may follow any other
  from \<open>PROSPECT\<close> onward, \<open>NOT_NOW\<close> alone carries a reason and a date to check back on, and
  opening a deal sets \<open>READY_NOW\<close>.
\<close>

section \<open>The rules\<close>

definition GAUGED_JOURNEYS :: "journey list" where "GAUGED_JOURNEYS = [PROSPECT, CUSTOMER]"
definition CONVERSATION_NEEDS_REASON :: "conversation list" where "CONVERSATION_NEEDS_REASON = [NOT_NOW]"
definition NEEDS_CHECK_BACK :: "conversation list" where "NEEDS_CHECK_BACK = [NOT_NOW]"

definition CONVERSATIONS :: "conversation list" where
  "CONVERSATIONS = [NOT_CONTACTED, REACHING_OUT, SPOKE_TO_THEM, INTERESTED, NOT_NOW, READY_NOW]"

record conversation_move =
  cm_to :: conversation
  cm_reason_required :: bool
  cm_check_back_required :: bool

definition conversation_moves :: "conversation \<Rightarrow> journey \<Rightarrow> conversation_move list" where
  "conversation_moves current j =
     (if j \<notin> set GAUGED_JOURNEYS then []
      else map (\<lambda>v. \<lparr>cm_to = v, cm_reason_required = (v \<in> set CONVERSATION_NEEDS_REASON),
             cm_check_back_required = (v \<in> set NEEDS_CHECK_BACK)\<rparr>)
           (filter (\<lambda>v. v \<noteq> current) CONVERSATIONS))"

record conversation_view =
  cw_company :: uuid
  cw_conversation :: conversation
  cw_check_back_on :: "int option"
  cw_journey :: journey
  cw_moves :: "conversation_move list"

definition get_conversation :: "uuid \<Rightarrow> crm_db \<Rightarrow> crm_error + conversation_view" where
  "get_conversation company_id db = bindE (lock_profile company_id db) (\<lambda>p.
     Inr \<lparr>cw_company = company_id, cw_conversation = conversation_of p,
          cw_check_back_on = check_back_on p, cw_journey = journey_of p,
          cw_moves = conversation_moves (conversation_of p) (journey_of p)\<rparr>)"

section \<open>Moving the gauge\<close>

definition d_date :: "int option \<Rightarrow> dval" where
  "d_date d = (case d of None \<Rightarrow> DNone | Some n \<Rightarrow> DText (iso_date n))"

definition record_conversation ::
  "uuid \<Rightarrow> conversation \<Rightarrow> conversation \<Rightarrow> uuid option \<Rightarrow> string option \<Rightarrow> string \<Rightarrow> int option \<Rightarrow>
   uuid option \<Rightarrow> (string \<times> dval) list \<Rightarrow> crm_db \<Rightarrow> crm_error + crm_db" where
  "record_conversation company_id from_value to_value actor_id reason source check_back deal_id details db =
     record_history company_id ''conversation'' (Some (HText (conversation_value from_value)))
       (HText (conversation_value to_value)) actor_id source reason deal_id None
       ((''check_back_on'', d_date check_back) # details) db"

text \<open>The date a check-back is compared with is the server clock's own, in UTC.\<close>

definition set_conversation ::
  "crm_env \<Rightarrow> uuid \<Rightarrow> conversation \<Rightarrow> string option \<Rightarrow> int option \<Rightarrow> uuid option \<Rightarrow> crm_db \<Rightarrow>
   crm_error + exporter_profile \<times> crm_db" where
  "set_conversation env company_id v reason check_back actor_id db =
   bindE (lock_in_pipeline company_id db) (\<lambda>p.
   let from_value = conversation_of p in
   bindE (require (journey_of p \<in> set GAUGED_JOURNEYS)
     (ConversationNotAvailableError company_id (journey_of p))) (\<lambda>_.
   bindE (require (v \<noteq> from_value) (InvalidConversationTransitionError company_id from_value)) (\<lambda>_.
   let cleaned_reason = clean_text reason in
   bindE (require (\<not> (v \<in> set CONVERSATION_NEEDS_REASON \<and> cleaned_reason = None))
     (ValidationError ''a reason is required to set the conversation'')) (\<lambda>_.
   bindE (if v \<in> set NEEDS_CHECK_BACK
          then (case check_back of
              None \<Rightarrow> Inl (ConversationCheckBackRequiredError company_id)
            | Some d \<Rightarrow> require (date_of (env_now env) \<le> d)
                (ConversationCheckBackInPastError company_id d (date_of (env_now env))))
          else require (check_back = None) (ConversationCheckBackNotAllowedError company_id v)) (\<lambda>_.
   let p = p\<lparr>conversation_of := v, check_back_on := (if v \<in> set NEEDS_CHECK_BACK then check_back else None)\<rparr>
   in bindE (record_conversation company_id from_value v actor_id cleaned_reason
        ''conversation_service.set_conversation'' (check_back_on p) None [] (save_profile p db)) (\<lambda>db.
      Inr (p, db)))))))"

definition mark_ready_now_for_opened_deal ::
  "uuid \<Rightarrow> uuid \<Rightarrow> uuid option \<Rightarrow> crm_db \<Rightarrow> crm_error + crm_db" where
  "mark_ready_now_for_opened_deal company_id deal_id actor_id db =
   bindE (lock_in_pipeline company_id db) (\<lambda>p.
   let from_value = conversation_of p in
   if from_value = READY_NOW then Inr db
   else let p = p\<lparr>conversation_of := READY_NOW, check_back_on := None\<rparr>
   in record_conversation company_id from_value READY_NOW actor_id None
        ''conversation_service.mark_ready_now_for_opened_deal'' None (Some deal_id)
        [(''cause'', DText ''deal_opened'')] (save_profile p db))"

section \<open>What a move leaves behind\<close>

text \<open>\<open>ck_exporter_profile_conversation_check_back\<close>: the date stands exactly with \<open>NOT_NOW\<close>.\<close>

definition conversation_checks :: "exporter_profile \<Rightarrow> bool" where
  "conversation_checks p \<longleftrightarrow> (conversation_of p = NOT_NOW \<longleftrightarrow> check_back_on p \<noteq> None)"

lemma set_conversation_effect:
  assumes "set_conversation env c v reason d a db = Inr (p', db')" and "keyed db"
  obtains p where "profiles db c = Some p" and "journey_of p \<noteq> LEAD" and "pipeline_st p = IN_PIPELINE"
    and "conversation_of p \<noteq> v"
    and "p' = p\<lparr>conversation_of := v, check_back_on := (if v = NOT_NOW then d else None)\<rparr>"
    and "conversation_checks p'" and "profile_write c p' db db'"
proof -
  from assms(1) obtain p where p: "profiles db c = Some p" and g: "journey_of p \<in> set GAUGED_JOURNEYS"
      "pipeline_st p \<noteq> NOT_IN_PIPELINE" "v \<noteq> conversation_of p"
    and cb: "if v \<in> set NEEDS_CHECK_BACK then d \<noteq> None else d = None"
    and p': "p' = p\<lparr>conversation_of := v, check_back_on := (if v \<in> set NEEDS_CHECK_BACK then d else None)\<rparr>"
    and h: "record_conversation c (conversation_of p) v a (clean_text reason)
        ''conversation_service.set_conversation'' (check_back_on p') None [] (save_profile p' db) = Inr db'"
    by (auto simp: set_conversation_def Let_def err_simps split: if_splits option.splits)
  have "customer_id p' = c" using keyedD [OF assms(2) p] p' by simp
  from profile_write_save_record [OF h [unfolded record_conversation_def] this]
  have "profile_write c p' db db'" .
  moreover have "conversation_checks p'"
    using cb p' by (auto simp: conversation_checks_def NEEDS_CHECK_BACK_def split: if_splits)
  ultimately show thesis
    using p g p' by (intro that [of p])
      (auto simp: NEEDS_CHECK_BACK_def GAUGED_JOURNEYS_def pipeline_in)
qed

lemma mark_ready_effect:
  assumes "mark_ready_now_for_opened_deal c i a db = Inr db'" and "keyed db"
  obtains p p' where "profiles db c = Some p" and "pipeline_st p = IN_PIPELINE"
    and "p' = p \<and> conversation_of p = READY_NOW \<or> p' = p\<lparr>conversation_of := READY_NOW, check_back_on := None\<rparr>"
    and "profile_write c p' db db'"
proof -
  from assms(1) obtain p where p: "profiles db c = Some p" and g: "pipeline_st p \<noteq> NOT_IN_PIPELINE"
    and h: "conversation_of p = READY_NOW \<and> db' = db \<or>
      record_conversation c (conversation_of p) READY_NOW a None
        ''conversation_service.mark_ready_now_for_opened_deal'' None (Some i)
        [(''cause'', DText ''deal_opened'')]
        (save_profile (p\<lparr>conversation_of := READY_NOW, check_back_on := None\<rparr>) db) = Inr db'"
    by (auto simp: mark_ready_now_for_opened_deal_def Let_def err_simps split: if_splits)
  have k: "customer_id p = c" by (rule keyedD [OF assms(2) p])
  have pl: "pipeline_st p = IN_PIPELINE" using g by (cases "pipeline_st p") auto
  from h show thesis
  proof (elim disjE conjE)
    assume r: "conversation_of p = READY_NOW" and "db' = db"
    then have "profile_write c p db db'" using profile_write_refl [OF p] by simp
    from that [OF p pl _ this] r show thesis by simp
  next
    assume w: "record_conversation c (conversation_of p) READY_NOW a None
        ''conversation_service.mark_ready_now_for_opened_deal'' None (Some i)
        [(''cause'', DText ''deal_opened'')]
        (save_profile (p\<lparr>conversation_of := READY_NOW, check_back_on := None\<rparr>) db) = Inr db'"
    have "profile_write c (p\<lparr>conversation_of := READY_NOW, check_back_on := None\<rparr>) db db'"
      by (rule profile_write_save_record [OF w [unfolded record_conversation_def]]) (simp add: k)
    from that [OF p pl _ this] show thesis by simp
  qed
qed

text \<open>The screen offers exactly the values the service accepts, given what each asks for.\<close>

lemma conversation_value_fits: "returns (require_value (HText (conversation_value v)) MAX_VALUE)"
  by (induction v) (code_simp+)

lemma conversation_words: "returns (require_text ''conversation'' MAX_DIMENSION)"
  "good_source ''conversation_service.set_conversation''"
  "good_source ''conversation_service.mark_ready_now_for_opened_deal''"
  by code_simp+

lemmas conversation_fits = fits_words [OF conversation_words(1) _ conversation_value_fits
    conversation_value_fits]

lemma set_conversation_returns:
  "returns (set_conversation env c v reason d a db) \<longleftrightarrow>
     (\<exists>p. profiles db c = Some p \<and> pipeline_st p = IN_PIPELINE \<and>
        (\<exists>m \<in> set (conversation_moves (conversation_of p) (journey_of p)). cm_to m = v \<and>
           (cm_reason_required m \<longrightarrow> clean_text reason \<noteq> None) \<and>
           (if cm_check_back_required m then \<exists>x. d = Some x \<and> date_of (env_now env) \<le> x else d = None)))"
proof -
  have rc: "returns (bindE (record_conversation c u v a r ''conversation_service.set_conversation'' cb None [] db0)
      (\<lambda>db. Inr (p, db)))" for u r cb db0 and p :: exporter_profile
    by (simp add: record_conversation_def record_history_fits [OF conversation_fits [OF conversation_words(2)]])
  have all: "v \<in> set CONVERSATIONS" by (cases v) (simp_all add: CONVERSATIONS_def)
  have step: "returns (bindE m (\<lambda>u. k)) \<longleftrightarrow> returns m \<and> returns k" for m :: "crm_error + unit" and k :: "crm_error + 'b"
    by (cases m) auto
  show ?thesis
    unfolding set_conversation_def lock_in_pipeline_returns Let_def returns_require_then step rc
    using all by (auto simp: rc conversation_moves_def split: option.splits)
qed

end
