(* ===== verification/Deal_Documents.thy ===== *)
theory Deal_Documents
  imports World
begin

text \<open>
  Which paperwork a deal must have before handover,
  \<open>application/deal_required_documents_service.py\<close>: an append-only setting whose newest version
  per category and type is in force, and the policy the handover guard asks. The types configured
  per category come from a settings file and are a parameter here.
\<close>

section \<open>Categories in the order of the enumeration\<close>

fun category_index :: "document_category \<Rightarrow> nat" where
  "category_index ENTITY_KYC = 0"
| "category_index COMPLIANCE_SCREENING = 1"
| "category_index COMPANY_MARKET_REVIEW = 2"
| "category_index PRE_SHIPMENT = 3"
| "category_index SHIPPING = 4"
| "category_index CUSTOMS_AND_REGULATORY = 5"
| "category_index BUYER_PAPERS = 6"
| "category_index BANKING = 7"
| "category_index INSURANCE_PAPERS = 8"
| "category_index OTHER_PAPERS = 9"

lemma category_index_inject: "category_index a = category_index b \<longleftrightarrow> a = b"
  by (cases a; cases b) auto

text \<open>An enumerated column sorts by declaration.\<close>

instantiation document_category :: linorder
begin

definition less_eq_document_category :: "document_category \<Rightarrow> document_category \<Rightarrow> bool" where
  "less_eq_document_category a b \<longleftrightarrow> category_index a \<le> category_index b"

definition less_document_category :: "document_category \<Rightarrow> document_category \<Rightarrow> bool" where
  "less_document_category a b \<longleftrightarrow> category_index a < category_index b"

instance
  by intro_classes
    (auto simp: less_eq_document_category_def less_document_category_def category_index_inject)

end

section \<open>The setting\<close>

definition ANY_DOCUMENT_TYPE :: string where "ANY_DOCUMENT_TYPE = []"

definition same_requirement :: "doc_requirement \<Rightarrow> doc_requirement \<Rightarrow> bool" where
  "same_requirement r s \<longleftrightarrow> rq_category r = rq_category s \<and> rq_type r = rq_type s"

definition current_requirements :: "crm_world \<Rightarrow> doc_requirement list" where
  "current_requirements w = sort_key (\<lambda>r. (rq_category r, rq_type r))
     (filter (\<lambda>r. list_all (\<lambda>s. same_requirement s r \<longrightarrow> rq_version s \<le> rq_version r) (requirements w))
        (requirements w))"

definition active_requirements :: "crm_world \<Rightarrow> doc_requirement list" where
  "active_requirements w = filter rq_active (current_requirements w)"

definition is_valid_type :: "(document_category \<Rightarrow> string list) \<Rightarrow> document_category \<Rightarrow> string \<Rightarrow> bool" where
  "is_valid_type types_for c t = list_ex (\<lambda>k. k = t) (types_for c)"

definition set_requirement ::
  "(document_category \<Rightarrow> string list) \<Rightarrow> document_category \<Rightarrow> string option \<Rightarrow> bool \<Rightarrow> uuid option \<Rightarrow>
   crm_world \<Rightarrow> crm_error + doc_requirement \<times> crm_world" where
  "set_requirement types_for c typ active actor_id w =
   (let cleaned_type = (case clean_text typ of None \<Rightarrow> ANY_DOCUMENT_TYPE | Some t \<Rightarrow> t) in
    bindE (require (category_allows c DEAL_OWNER)
      (ValidationError ''a deal cannot be required to have one'')) (\<lambda>_.
    bindE (require (\<not> (active \<and> cleaned_type \<noteq> ANY_DOCUMENT_TYPE \<and> \<not> is_valid_type types_for c cleaned_type))
      (DocumentTypeNotAllowedError c cleaned_type)) (\<lambda>_.
    let existing = find (\<lambda>r. rq_category r = c \<and> rq_type r = cleaned_type) (current_requirements w);
        currently_required = (case existing of None \<Rightarrow> False | Some r \<Rightarrow> rq_active r)
    in
    bindE (require (currently_required \<noteq> active) (ValidationError ''is already as asked'')) (\<lambda>_.
    let row = \<lparr>rq_category = c, rq_type = cleaned_type,
          rq_version = (case existing of None \<Rightarrow> 1 | Some r \<Rightarrow> Suc (rq_version r)),
          rq_active = active, rq_created_by = actor_id, rq_source = ''settings_api''\<rparr>
    in Inr (row, w\<lparr>requirements := requirements w @ [row]\<rparr>)))))"

section \<open>The policy\<close>

definition key_label :: "document_category \<Rightarrow> string \<Rightarrow> string" where
  "key_label c t = (if t = ANY_DOCUMENT_TYPE then category_value c
     else category_value c @ '' ('' @ t @ '')'')"

definition counting_documents :: "crm_world \<Rightarrow> uuid \<Rightarrow> (document_category \<times> string) list" where
  "counting_documents w deal_id = map (\<lambda>d. (doc_category d, doc_type d))
     (filter (\<lambda>d. doc_deal d = Some deal_id \<and> doc_scan_status d = AVAILABLE) (documents (crm w)))"

definition requirement_met :: "(document_category \<times> string) list \<Rightarrow> doc_requirement \<Rightarrow> bool" where
  "requirement_met present r =
     (if rq_type r = ANY_DOCUMENT_TYPE then rq_category r \<in> set (map fst present)
      else (rq_category r, rq_type r) \<in> set present)"

definition missing_for_deal :: "crm_world \<Rightarrow> uuid \<Rightarrow> string list" where
  "missing_for_deal w deal_id = (let required = active_requirements w in
     if required = [] then []
     else let present = counting_documents w deal_id in
       map (\<lambda>r. key_label (rq_category r) (rq_type r)) (filter (\<lambda>r. \<not> requirement_met present r) required))"

lemma missing_Nil_iff:
  "missing_for_deal w i = [] \<longleftrightarrow>
     (\<forall>r \<in> set (active_requirements w). requirement_met (counting_documents w i) r)"
  by (auto simp: missing_for_deal_def Let_def filter_empty_conv)

section \<open>One version in force per key\<close>

text \<open>\<open>uq_deal_required_document_key_version\<close>, kept because each write takes the next version.\<close>

definition requirements_ok :: "crm_world \<Rightarrow> bool" where
  "requirements_ok w \<longleftrightarrow> distinct (map (\<lambda>r. (rq_category r, rq_type r, rq_version r)) (requirements w))"

lemma current_requirements_set:
  "r \<in> set (current_requirements w) \<longleftrightarrow> r \<in> set (requirements w) \<and>
     (\<forall>s \<in> set (requirements w). same_requirement s r \<longrightarrow> rq_version s \<le> rq_version r)"
  by (auto simp: current_requirements_def list_all_iff)

lemma current_requirement_exists:
  assumes "s \<in> set (requirements w)"
  shows "\<exists>r \<in> set (current_requirements w). same_requirement r s \<and> rq_version s \<le> rq_version r"
proof -
  let ?xs = "filter (\<lambda>r. same_requirement r s) (requirements w)"
  have "?xs \<noteq> []" using assms by (auto simp: same_requirement_def filter_empty_conv)
  define r where "r = arg_min_list (\<lambda>r. - int (rq_version r)) ?xs"
  have r: "r \<in> set ?xs" unfolding r_def by (rule arg_min_list_in [OF \<open>?xs \<noteq> []\<close>])
  have m: "rq_version x \<le> rq_version r" if "x \<in> set ?xs" for x
  proof -
    have "- int (rq_version r) = Min ((\<lambda>r. - int (rq_version r)) ` set ?xs)"
      unfolding r_def by (rule f_arg_min_list_f [OF \<open>?xs \<noteq> []\<close>])
    also have "\<dots> \<le> - int (rq_version x)" using that by (intro Min_le) auto
    finally show ?thesis by simp
  qed
  have "r \<in> set (current_requirements w)"
    using r m unfolding current_requirements_set by (auto simp: same_requirement_def)
  then show ?thesis using r m [of s] assms by (auto simp: same_requirement_def)
qed

lemma set_requirement_ok:
  assumes "set_requirement types c t active a w = Inr (row, w')" and ok: "requirements_ok w"
  shows "requirements_ok w'" and "requirements w' = requirements w @ [row]"
    and "crm w' = crm w" and "rq_active row = active"
proof -
  let ?t = "case clean_text t of None \<Rightarrow> ANY_DOCUMENT_TYPE | Some t \<Rightarrow> t"
  let ?e = "find (\<lambda>r. rq_category r = c \<and> rq_type r = ?t) (current_requirements w)"
  from assms(1) have row: "row = \<lparr>rq_category = c, rq_type = ?t,
      rq_version = (case ?e of None \<Rightarrow> 1 | Some r \<Rightarrow> Suc (rq_version r)),
      rq_active = active, rq_created_by = a, rq_source = ''settings_api''\<rparr>"
    and w': "w' = w\<lparr>requirements := requirements w @ [row]\<rparr>"
    by (auto simp: set_requirement_def Let_def err_simps)
  show "requirements w' = requirements w @ [row]" "crm w' = crm w" "rq_active row = active"
    by (simp_all add: w' row)
  have "(rq_category s, rq_type s, rq_version s) \<noteq> (rq_category row, rq_type row, rq_version row)"
    if s: "s \<in> set (requirements w)" for s
  proof
    assume eq: "(rq_category s, rq_type s, rq_version s) = (rq_category row, rq_type row, rq_version row)"
    from current_requirement_exists [OF s] obtain r where r: "r \<in> set (current_requirements w)"
      "same_requirement r s" by blast
    with eq row have "?e \<noteq> None" by (auto simp: find_None_iff same_requirement_def)
    then obtain e where e: "?e = Some e" by auto
    then have "e \<in> set (current_requirements w)" "rq_category e = c" "rq_type e = ?t"
      by (auto dest: find_filter_Some)
    with s eq row have "rq_version s \<le> rq_version e"
      by (auto simp: current_requirements_set same_requirement_def)
    with eq row e show False by simp
  qed
  with ok show "requirements_ok w'" by (fastforce simp: requirements_ok_def w')
qed

end
