(* ===== verification/Handover.thy ===== *)
theory Handover
  imports Decision_Log Calendar
begin

text \<open>
  The handover guard, \<open>domain/handover_conditions.py\<close>: an ordered list of conditions on a
  snapshot of the deal and its seller, each of which asks an injected provider. Every condition
  runs, and the guard's answer is every unmet one, joined with \<open>"; "\<close>. The two provider
  contracts the guard relies on are the locales at the end.
\<close>

section \<open>What one run looks at\<close>

definition HANDOVER_JOURNEY :: string where "HANDOVER_JOURNEY = ''CUSTOMER''"
definition HANDOVER_BACKGROUND_CHECK :: string where "HANDOVER_BACKGROUND_CHECK = ''CLEAR''"

record handover_subject =
  hs_deal :: uuid
  hs_seller :: uuid
  hs_journey :: string
  hs_background_check :: "string option"
  hs_buyer_company :: "uuid option"
  hs_legacy_buyer :: "uuid option"
  hs_branch :: "uuid option"
  hs_now :: instant
  hs_has_contact :: bool
  hs_sanctions_flagged :: bool

fun check_state_value :: "check_state \<Rightarrow> string" where
  "check_state_value CHECK_PASSED = ''PASSED''"
| "check_state_value CHECK_FAILED = ''FAILED''"
| "check_state_value CHECK_MISSING = ''MISSING''"
| "check_state_value CHECK_PENDING = ''PENDING''"

text \<open>
  \<open>HandoverProviders\<close>: the compliance facts of a company and of a legacy buyer (\<open>None\<close> when no
  provider is wired), the missing required documents, and the three branch questions.
\<close>

record handover_providers =
  hp_company :: "uuid \<Rightarrow> instant \<Rightarrow> crm_error + party_compliance_facts option"
  hp_legacy_buyer :: "uuid \<Rightarrow> instant \<Rightarrow> crm_error + party_compliance_facts option"
  hp_missing :: "uuid \<Rightarrow> string list"
  hp_is_flagged :: "uuid \<Rightarrow> bool \<times> string option"
  hp_is_active :: "uuid \<Rightarrow> bool \<times> string option"
  hp_has_registrations :: "uuid \<Rightarrow> bool"

text \<open>\<open>NoComplianceFacts\<close>, \<open>NoRequiredDocuments\<close> and \<open>NoBranchFlags\<close>.\<close>

definition null_providers :: handover_providers where
  "null_providers = \<lparr>hp_company = (\<lambda>c t. Inr None), hp_legacy_buyer = (\<lambda>b t. Inr None),
     hp_missing = (\<lambda>d. []), hp_is_flagged = (\<lambda>g. (False, None)),
     hp_is_active = (\<lambda>g. (True, None)), hp_has_registrations = (\<lambda>c. False)\<rparr>"

section \<open>The conditions\<close>

type_synonym handover_condition =
  "handover_subject \<Rightarrow> handover_providers \<Rightarrow> crm_error + string option"

definition seller_is_a_customer :: handover_condition where
  "seller_is_a_customer s p = Inr (if hs_journey s = HANDOVER_JOURNEY then None
     else Some (''the company is '' @ hs_journey s @ '', not '' @ HANDOVER_JOURNEY))"

definition seller_background_check_is_clear :: handover_condition where
  "seller_background_check_is_clear s p = Inr (
     if hs_background_check s = Some HANDOVER_BACKGROUND_CHECK then None
     else Some (''the background check is '' @
       (case hs_background_check s of None \<Rightarrow> ''None'' | Some v \<Rightarrow> v) @ '', not '' @ HANDOVER_BACKGROUND_CHECK))"

definition seller_has_a_primary_contact :: handover_condition where
  "seller_has_a_primary_contact s p = Inr (if hs_has_contact s then None
     else Some ''the company has no active primary contact'')"

definition seller_is_not_sanctions_flagged :: handover_condition where
  "seller_is_not_sanctions_flagged s p = Inr (if \<not> hs_sanctions_flagged s then None
     else Some ''the company is flagged by a sanctions match'')"

definition required_documents_are_present :: handover_condition where
  "required_documents_are_present s p = Inr (case hp_missing p (hs_deal s) of
     [] \<Rightarrow> None | missing \<Rightarrow> Some (''missing required documents: '' @ py_join '', '' missing))"

text \<open>\<open>_on\<close>, and \<open>"; ".join(unmet) or None\<close>.\<close>

definition on_date :: "instant option \<Rightarrow> string" where
  "on_date moment = (case moment of Some t \<Rightarrow> iso_date (date_of t) | None \<Rightarrow> ''an unrecorded date'')"

definition joined_or_none :: "string list \<Rightarrow> string option" where
  "joined_or_none unmet = (let s = py_join ''; '' unmet in if s = [] then None else Some s)"

definition seller_compliance_is_current :: handover_condition where
  "seller_compliance_is_current s p =
     bindE (hp_company p (hs_seller s) (hs_now s)) (\<lambda>facts. Inr (case facts of
       None \<Rightarrow> None
     | Some f \<Rightarrow> joined_or_none (
         (if pf_is_clear f \<and> \<not> pf_is_clear_current f
          then [''the background check expired on '' @ on_date (pf_clear_expires_at f)] else []) @
         map (\<lambda>(label, _). ''the company's '' @ label @ '' check has failed'')
           (filter (\<lambda>(_, v). v = CHECK_FAILED) [(''sanctions'', pf_sanctions f), (''AML'', pf_aml f)]))))"

definition buyer_facts ::
  "handover_subject \<Rightarrow> handover_providers \<Rightarrow> crm_error + party_compliance_facts option" where
  "buyer_facts s p = (case hs_buyer_company s of
     Some c \<Rightarrow> hp_company p c (hs_now s)
   | None \<Rightarrow> (case hs_legacy_buyer s of
       Some b \<Rightarrow> hp_legacy_buyer p b (hs_now s)
     | None \<Rightarrow> Inr None))"

definition buyer_compliance_passes :: handover_condition where
  "buyer_compliance_passes s p = bindE (buyer_facts s p) (\<lambda>facts. Inr (case facts of
       None \<Rightarrow> None
     | Some f \<Rightarrow> joined_or_none (map (\<lambda>(label, v).
           ''the buyer's '' @ label @ '' check is '' @ check_state_value v @ '', not PASSED'')
         (filter (\<lambda>(_, v). v \<noteq> CHECK_PASSED) [(''sanctions'', pf_sanctions f), (''AML'', pf_aml f)]))))"

definition invoicing_branch_is_recorded :: handover_condition where
  "invoicing_branch_is_recorded s p = Inr (
     if hs_branch s \<noteq> None then None
     else if \<not> hp_has_registrations p (hs_seller s) then None
     else Some ''the invoicing branch is not recorded'')"

definition state_or_registration :: "string option \<Rightarrow> string" where
  "state_or_registration state = (if no_text state then ''registration'' else the state)"

definition invoicing_branch_is_not_flagged :: handover_condition where
  "invoicing_branch_is_not_flagged s p = Inr (case hs_branch s of
     None \<Rightarrow> None
   | Some g \<Rightarrow> (case hp_is_flagged p g of (flagged, state) \<Rightarrow>
       if \<not> flagged then None
       else Some (''the invoicing branch '' @ state_or_registration state @ '' is flagged'')))"

definition invoicing_branch_is_active :: handover_condition where
  "invoicing_branch_is_active s p = Inr (case hs_branch s of
     None \<Rightarrow> None
   | Some g \<Rightarrow> (case hp_is_active p g of (active, state) \<Rightarrow>
       if active then None
       else Some (''the invoicing branch '' @ state_or_registration state @ '' is deactivated'')))"

section \<open>The guard\<close>

definition HANDOVER_CONDITIONS :: "handover_condition list" where
  "HANDOVER_CONDITIONS = [seller_is_a_customer, seller_background_check_is_clear,
     seller_has_a_primary_contact, seller_is_not_sanctions_flagged, required_documents_are_present,
     seller_compliance_is_current, buyer_compliance_passes, invoicing_branch_is_recorded,
     invoicing_branch_is_not_flagged, invoicing_branch_is_active]"

fun run_conditions ::
  "handover_condition list \<Rightarrow> handover_subject \<Rightarrow> handover_providers \<Rightarrow> crm_error + string option list" where
  "run_conditions [] s p = Inr []"
| "run_conditions (c # cs) s p =
     bindE (c s p) (\<lambda>r. bindE (run_conditions cs s p) (\<lambda>rs. Inr (r # rs)))"

definition blocked_reason ::
  "handover_subject \<Rightarrow> handover_providers \<Rightarrow> crm_error + string option" where
  "blocked_reason s p = bindE (run_conditions HANDOVER_CONDITIONS s p) (\<lambda>rs.
     Inr (joined_or_none (List.map_filter id rs)))"

lemmas handover_condition_defs = seller_is_a_customer_def seller_background_check_is_clear_def
  seller_has_a_primary_contact_def seller_is_not_sanctions_flagged_def
  required_documents_are_present_def seller_compliance_is_current_def buyer_compliance_passes_def
  invoicing_branch_is_recorded_def invoicing_branch_is_not_flagged_def invoicing_branch_is_active_def

section \<open>What the conditions say\<close>

lemma joined_or_none_None:
  "(\<forall>x \<in> set xs. x \<noteq> []) \<Longrightarrow> joined_or_none xs = None \<longleftrightarrow> xs = []"
  by (simp add: joined_or_none_def Let_def py_join_Nil_iff)

text \<open>A party whose facts stop the deal as a seller, and as a buyer.\<close>

definition seller_facts_hold :: "party_compliance_facts \<Rightarrow> bool" where
  "seller_facts_hold f \<longleftrightarrow> (pf_is_clear f \<longrightarrow> pf_is_clear_current f) \<and>
     pf_sanctions f \<noteq> CHECK_FAILED \<and> pf_aml f \<noteq> CHECK_FAILED"

definition buyer_facts_hold :: "party_compliance_facts \<Rightarrow> bool" where
  "buyer_facts_hold f \<longleftrightarrow> pf_sanctions f = CHECK_PASSED \<and> pf_aml f = CHECK_PASSED"

definition branch_holds :: "handover_subject \<Rightarrow> handover_providers \<Rightarrow> bool" where
  "branch_holds s p \<longleftrightarrow> (case hs_branch s of
     None \<Rightarrow> \<not> hp_has_registrations p (hs_seller s)
   | Some g \<Rightarrow> \<not> fst (hp_is_flagged p g) \<and> fst (hp_is_active p g))"

lemma seller_compliance_None:
  "seller_compliance_is_current s p = Inr None \<longleftrightarrow>
     (\<exists>facts. hp_company p (hs_seller s) (hs_now s) = Inr facts \<and>
        (\<forall>f. facts = Some f \<longrightarrow> seller_facts_hold f))"
  by (cases "hp_company p (hs_seller s) (hs_now s)")
    (auto simp: seller_compliance_is_current_def joined_or_none_None seller_facts_hold_def
      split: option.splits)

lemma buyer_compliance_None:
  "buyer_compliance_passes s p = Inr None \<longleftrightarrow>
     (\<exists>facts. buyer_facts s p = Inr facts \<and> (\<forall>f. facts = Some f \<longrightarrow> buyer_facts_hold f))"
  by (cases "buyer_facts s p")
    (auto simp: buyer_compliance_passes_def joined_or_none_None buyer_facts_hold_def
      split: option.splits)

lemma run_conditions_Nil_iff:
  "(\<exists>rs. run_conditions cs s p = Inr rs \<and> List.map_filter id rs = []) \<longleftrightarrow>
     (\<forall>c \<in> set cs. c s p = Inr None)"
proof (induction cs)
  case (Cons c cs)
  then show ?case
    by (cases "c s p"; cases "run_conditions cs s p")
      (auto simp: List.map_filter_simps split: option.splits)
qed (simp add: List.map_filter_simps)

text \<open>No condition reports the empty text.\<close>

lemma condition_reasons:
  assumes "c \<in> set HANDOVER_CONDITIONS" and "c s p = Inr (Some r)"
  shows "r \<noteq> []"
  using assms
  by (auto simp: HANDOVER_CONDITIONS_def handover_condition_defs joined_or_none_def Let_def err_simps
      split: if_splits option.splits list.splits prod.splits)

lemma run_conditions_reasons:
  assumes "run_conditions cs s p = Inr rs" and "\<forall>c \<in> set cs. \<forall>r. c s p = Inr (Some r) \<longrightarrow> r \<noteq> []"
  shows "\<forall>r \<in> set (List.map_filter id rs). r \<noteq> []"
  using assms
  by (induction cs arbitrary: rs)
    (auto simp: err_simps List.map_filter_simps split: option.splits)

lemma blocked_reason_None:
  "blocked_reason s p = Inr None \<longleftrightarrow> (\<forall>c \<in> set HANDOVER_CONDITIONS. c s p = Inr None)"
proof -
  have "blocked_reason s p = Inr None \<longleftrightarrow>
      (\<exists>rs. run_conditions HANDOVER_CONDITIONS s p = Inr rs \<and> List.map_filter id rs = [])"
    using run_conditions_reasons condition_reasons
    by (auto simp: blocked_reason_def err_simps joined_or_none_None)
  then show ?thesis by (simp add: run_conditions_Nil_iff)
qed

lemma HANDOVER_CONDITIONS_hold:
  "(\<forall>c \<in> set HANDOVER_CONDITIONS. c s p = Inr None) \<longleftrightarrow>
     hs_journey s = ''CUSTOMER'' \<and> hs_background_check s = Some ''CLEAR'' \<and> hs_has_contact s \<and>
     \<not> hs_sanctions_flagged s \<and> hp_missing p (hs_deal s) = [] \<and>
     seller_compliance_is_current s p = Inr None \<and> buyer_compliance_passes s p = Inr None \<and>
     branch_holds s p"
  by (auto simp: HANDOVER_CONDITIONS_def seller_is_a_customer_def seller_background_check_is_clear_def
      seller_has_a_primary_contact_def seller_is_not_sanctions_flagged_def
      required_documents_are_present_def invoicing_branch_is_recorded_def
      invoicing_branch_is_not_flagged_def invoicing_branch_is_active_def branch_holds_def
      HANDOVER_JOURNEY_def HANDOVER_BACKGROUND_CHECK_def split: option.splits list.splits prod.splits)

section \<open>The providers' contracts\<close>

text \<open>
  A provider answers about every party the guard may ask about: a read of compliance facts
  that raises would turn the guard into an error instead of a reason.
\<close>

locale handover_reader =
  fixes p :: handover_providers and company :: "uuid \<Rightarrow> bool" and legacy :: "uuid \<Rightarrow> bool"
  assumes company_answers: "company c \<Longrightarrow> returns (hp_company p c t)"
    and legacy_answers: "legacy b \<Longrightarrow> returns (hp_legacy_buyer p b t)"
begin

definition parties_known :: "handover_subject \<Rightarrow> bool" where
  "parties_known s \<longleftrightarrow> company (hs_seller s) \<and> (\<forall>c. hs_buyer_company s = Some c \<longrightarrow> company c) \<and>
     (\<forall>b. hs_legacy_buyer s = Some b \<longrightarrow> legacy b)"

lemma condition_returns:
  assumes "parties_known s" and "c \<in> set HANDOVER_CONDITIONS"
  shows "returns (c s p)"
proof -
  have "returns (hp_company p (hs_seller s) (hs_now s))"
    using assms(1) company_answers by (simp add: parties_known_def)
  moreover have "returns (buyer_facts s p)"
    using assms(1) company_answers legacy_answers
    by (auto simp: parties_known_def buyer_facts_def split: option.splits)
  ultimately show ?thesis
    using assms(2)
    by (auto simp: HANDOVER_CONDITIONS_def handover_condition_defs returns_iff)
qed

lemma run_conditions_returns:
  assumes "parties_known s" and "set cs \<subseteq> set HANDOVER_CONDITIONS"
  shows "returns (run_conditions cs s p)"
  using assms(2)
proof (induction cs)
  case (Cons c cs)
  then have "returns (c s p)" "returns (run_conditions cs s p)"
    using condition_returns [OF assms(1)] by auto
  then show ?case by (auto simp: returns_iff)
qed simp

lemma guard_returns: "parties_known s \<Longrightarrow> returns (blocked_reason s p)"
  using run_conditions_returns [of s HANDOVER_CONDITIONS]
  by (auto simp: blocked_reason_def returns_bindE returns_iff)

end

text \<open>
  A wired provider gives facts, so ``no facts'' never stands for ``nothing against the party'':
  only of such a provider does an open guard say that the checks passed.
\<close>

locale wired_reader = handover_reader +
  assumes company_facts: "hp_company p c t = Inr facts \<Longrightarrow> facts \<noteq> None"
    and legacy_facts: "hp_legacy_buyer p b t = Inr facts \<Longrightarrow> facts \<noteq> None"
begin

lemma guard_open_iff:
  assumes "hs_buyer_company s \<noteq> None \<or> hs_legacy_buyer s \<noteq> None"
  shows "blocked_reason s p = Inr None \<longleftrightarrow>
     hs_journey s = ''CUSTOMER'' \<and> hs_background_check s = Some ''CLEAR'' \<and> hs_has_contact s \<and>
     \<not> hs_sanctions_flagged s \<and> hp_missing p (hs_deal s) = [] \<and>
     (\<exists>f. hp_company p (hs_seller s) (hs_now s) = Inr (Some f) \<and> seller_facts_hold f) \<and>
     (\<exists>f. buyer_facts s p = Inr (Some f) \<and> buyer_facts_hold f) \<and> branch_holds s p"
proof -
  have some: "(\<exists>facts. m = Inr facts \<and> (\<forall>f. facts = Some f \<longrightarrow> P f)) \<longleftrightarrow> (\<exists>f. m = Inr (Some f) \<and> P f)"
    if "\<And>facts. m = Inr facts \<Longrightarrow> facts \<noteq> None"
    for m :: "crm_error + party_compliance_facts option" and P
    using that by (cases m) auto
  have b: "(\<exists>facts. buyer_facts s p = Inr facts \<and> (\<forall>f. facts = Some f \<longrightarrow> buyer_facts_hold f)) \<longleftrightarrow>
      (\<exists>f. buyer_facts s p = Inr (Some f) \<and> buyer_facts_hold f)"
    by (rule some)
      (use assms company_facts legacy_facts in \<open>auto simp: buyer_facts_def split: option.splits\<close>)
  have c: "(\<exists>facts. hp_company p (hs_seller s) (hs_now s) = Inr facts \<and>
        (\<forall>f. facts = Some f \<longrightarrow> seller_facts_hold f)) \<longleftrightarrow>
      (\<exists>f. hp_company p (hs_seller s) (hs_now s) = Inr (Some f) \<and> seller_facts_hold f)"
    by (rule some) (rule company_facts)
  show ?thesis
    unfolding blocked_reason_None HANDOVER_CONDITIONS_hold seller_compliance_None buyer_compliance_None
      b c by (rule refl)
qed

end

interpretation null_reader: handover_reader null_providers "\<lambda>_. True" "\<lambda>_. True"
  by unfold_locales (simp_all add: null_providers_def)

text \<open>With the null providers the guard is the two original rules and the contact and flag rules.\<close>

lemma null_guard:
  "blocked_reason s null_providers = Inr None \<longleftrightarrow>
     hs_journey s = ''CUSTOMER'' \<and> hs_background_check s = Some ''CLEAR'' \<and> hs_has_contact s \<and>
     \<not> hs_sanctions_flagged s"
  unfolding blocked_reason_None HANDOVER_CONDITIONS_hold seller_compliance_None buyer_compliance_None
  by (auto simp: null_providers_def buyer_facts_def branch_holds_def split: option.splits)

end
