(* ===== verification/Sanctions.thy ===== *)
theory Sanctions
  imports World Calendar
begin

text \<open>
  Sanctions screening, \<open>domain/sanctions.py\<close> and \<open>application/sanctions_screening_service.py\<close>:
  a run of one subject against a set of lists, the hits it found, and each hit's decisions, an
  append-only log in which a decision supersedes the one before. A true match is proposed by one
  officer and confirmed by another. Rewriting the company's SANCTIONS result afterwards
  (\<open>_sync_company_result\<close>) is a transaction of its own of the verification service.
\<close>

section \<open>The rules\<close>

datatype true_match_approval = SINGLE | SECOND_OFFICER | HEAD

fun disposition_value :: "disposition \<Rightarrow> string" where
  "disposition_value HIT_OPEN = ''OPEN''"
| "disposition_value FALSE_POSITIVE = ''FALSE_POSITIVE''"
| "disposition_value TRUE_MATCH_PROPOSED = ''TRUE_MATCH_PROPOSED''"
| "disposition_value TRUE_MATCH = ''TRUE_MATCH''"
| "disposition_value ESCALATED = ''ESCALATED''"

datatype sanctions_outcome = RUN_PASSED | RUN_FAILED | RUN_REVIEW

fun sanctions_outcome_value :: "sanctions_outcome \<Rightarrow> string" where
  "sanctions_outcome_value RUN_PASSED = ''PASSED''"
| "sanctions_outcome_value RUN_FAILED = ''FAILED''"
| "sanctions_outcome_value RUN_REVIEW = ''REVIEW''"

definition RECORDABLE :: "disposition list" where
  "RECORDABLE = [HIT_OPEN, FALSE_POSITIVE, TRUE_MATCH, ESCALATED]"

definition FLAGGING :: "disposition list" where "FLAGGING = [TRUE_MATCH_PROPOSED, TRUE_MATCH]"

definition RECORD_PERMISSION :: string where "RECORD_PERMISSION = ''screening:decide''"
definition HEAD_PERMISSION :: string where "HEAD_PERMISSION = ''compliance:approve_true_match''"

definition run_outcome :: "disposition list \<Rightarrow> sanctions_outcome" where
  "run_outcome current =
     (if list_ex (\<lambda>d. d = TRUE_MATCH) current then RUN_FAILED
      else if list_ex (\<lambda>d. d \<in> {HIT_OPEN, ESCALATED, TRUE_MATCH_PROPOSED}) current then RUN_REVIEW
      else RUN_PASSED)"

definition company_standing :: "sanctions_outcome list \<Rightarrow> bool \<Rightarrow> sanctions_outcome option" where
  "company_standing outcomes company_screened =
     (if \<not> company_screened then None
      else if RUN_FAILED \<in> set outcomes then Some RUN_FAILED
      else if RUN_REVIEW \<in> set outcomes then Some RUN_REVIEW
      else Some RUN_PASSED)"

definition true_match_refusal ::
  "true_match_approval \<Rightarrow> uuid \<Rightarrow> uuid \<Rightarrow> string list \<Rightarrow> string option" where
  "true_match_refusal mode proposer_id approver_id approver_permissions =
     (if mode = SINGLE then None
      else if approver_id = proposer_id
      then Some ''the officer who proposed it cannot also confirm it''
      else if mode = HEAD \<and> HEAD_PERMISSION \<notin> set approver_permissions
      then Some (''confirming a true match needs '' @ HEAD_PERMISSION)
      else if mode = SECOND_OFFICER \<and> RECORD_PERMISSION \<notin> set approver_permissions
      then Some (''confirming a true match needs '' @ RECORD_PERMISSION)
      else None)"

definition check_disposition :: "disposition \<Rightarrow> string option \<Rightarrow> crm_error + unit" where
  "check_disposition d reason =
     (if d \<notin> set RECORDABLE then Inl (ValidationError ''Unknown decision'')
      else if d \<noteq> HIT_OPEN \<and> clean_text reason = None
      then Inl (ValidationError ''Say why: a decision on a possible match needs a reason'')
      else Inr ())"

definition as_recorded :: "disposition \<Rightarrow> true_match_approval \<Rightarrow> disposition" where
  "as_recorded d mode = (if d = TRUE_MATCH \<and> mode \<noteq> SINGLE then TRUE_MATCH_PROPOSED else d)"

section \<open>Subjects and their latest runs\<close>

datatype subject_key = CompanyKey | PersonKey uuid | NamedKey subject_type string

definition subject_key :: "subject_type \<Rightarrow> uuid option \<Rightarrow> string \<Rightarrow> subject_key" where
  "subject_key typ reference name =
     (if typ = SUBJECT_COMPANY then CompanyKey
      else case reference of Some r \<Rightarrow> PersonKey r | None \<Rightarrow> NamedKey typ (normalised_name name))"

definition run_in_cycle :: "sanctions_run \<Rightarrow> check_cycle option \<Rightarrow> bool" where
  "run_in_cycle run cycle = (case cycle of None \<Rightarrow> True
     | Some c \<Rightarrow> if cc_number c = 1 then sr_cycle run = Some (cc_id c) \<or> sr_cycle run = None
                 else sr_cycle run = Some (cc_id c))"

definition key_of_run :: "sanctions_run \<Rightarrow> subject_key" where
  "key_of_run r = subject_key (sr_subject_type r) (sr_subject_reference r) (sr_subject_name r)"

fun latest_by_subject :: "sanctions_run list \<Rightarrow> (subject_key \<times> sanctions_run) list" where
  "latest_by_subject [] = []"
| "latest_by_subject (r # rs) =
     (key_of_run r, r) # filter (\<lambda>(k, _). k \<noteq> key_of_run r) (latest_by_subject rs)"

definition runs_newest_first :: "crm_world \<Rightarrow> uuid \<Rightarrow> sanctions_run list" where
  "runs_newest_first w company_id = sort_key (\<lambda>r. (- sr_performed_at r, - sr_created_at r))
     (filter (\<lambda>r. sr_company r = company_id) (sanctions_runs w))"

section \<open>A hit's decisions\<close>

definition chain_of :: "crm_world \<Rightarrow> uuid \<Rightarrow> hit_disposition list" where
  "chain_of w hit_id = filter (\<lambda>d. hd_hit d = hit_id) (dispositions w)"

definition unsuperseded_in :: "hit_disposition list \<Rightarrow> hit_disposition \<Rightarrow> bool" where
  "unsuperseded_in chain d \<longleftrightarrow> (\<forall>x \<in> set chain. hd_supersedes x \<noteq> Some (hd_id d))"

text \<open>\<open>_views\<close> reads the chain in the order decided and takes the last row nothing supersedes.\<close>

definition current_disposition :: "crm_world \<Rightarrow> uuid \<Rightarrow> crm_error + hit_disposition" where
  "current_disposition w hit_id = (let chain = sort_key hd_decided_at (chain_of w hit_id) in
     case find (unsuperseded_in chain) (rev chain) of
       None \<Rightarrow> Inl (RuntimeError ''coroutine raised StopIteration'') | Some d \<Rightarrow> Inr d)"

record run_view =
  rn_run :: sanctions_run
  rn_hits :: "(sanctions_hit \<times> hit_disposition) list"
  rn_outcome :: sanctions_outcome

fun hit_views :: "crm_world \<Rightarrow> sanctions_hit list \<Rightarrow> crm_error + (sanctions_hit \<times> hit_disposition) list" where
  "hit_views w [] = Inr []"
| "hit_views w (h # hs) = bindE (current_disposition w (sh_id h)) (\<lambda>d.
     bindE (hit_views w hs) (\<lambda>rest. Inr ((h, d) # rest)))"

definition run_view_of :: "crm_world \<Rightarrow> sanctions_run \<Rightarrow> crm_error + run_view" where
  "run_view_of w run = bindE (hit_views w (filter (\<lambda>h. sh_run h = sr_id run) (sanctions_hits w))) (\<lambda>hits.
     Inr \<lparr>rn_run = run, rn_hits = hits, rn_outcome = run_outcome (map (hd_disposition \<circ> snd) hits)\<rparr>)"

fun run_views :: "crm_world \<Rightarrow> sanctions_run list \<Rightarrow> crm_error + run_view list" where
  "run_views w [] = Inr []"
| "run_views w (r # rs) = bindE (run_view_of w r) (\<lambda>v. bindE (run_views w rs) (\<lambda>vs. Inr (v # vs)))"

definition run_view :: "crm_world \<Rightarrow> uuid \<Rightarrow> crm_error + run_view" where
  "run_view w run_id = (case find (\<lambda>r. sr_id r = run_id) (sanctions_runs w) of
     None \<Rightarrow> Inl (SanctionsRunNotFoundError run_id)
   | Some run \<Rightarrow> run_view_of w run)"

section \<open>A company's standing and flag\<close>

record company_sanctions =
  cs_standing :: "sanctions_outcome option"
  cs_flagged :: bool

definition company_sanctions :: "uuid \<Rightarrow> crm_world \<Rightarrow> crm_error + company_sanctions" where
  "company_sanctions company_id w = (case profiles (crm w) company_id of
     None \<Rightarrow> Inl (ExporterProfileNotFoundError company_id)
   | Some _ \<Rightarrow>
     let cycle = current_cycle (crm w) company_id;
         every_run = runs_newest_first w company_id;
         latest = latest_by_subject (filter (\<lambda>r. run_in_cycle r cycle) every_run);
         latest_ever = latest_by_subject every_run
     in bindE (run_views w (map snd latest)) (\<lambda>views.
        bindE (run_views w (map snd latest_ever)) (\<lambda>ever.
        Inr \<lparr>cs_standing = company_standing (map rn_outcome views) (CompanyKey \<in> set (map fst latest)),
             cs_flagged = list_ex (\<lambda>v. list_ex (\<lambda>(h, d). hd_disposition d \<in> set FLAGGING) (rn_hits v)) ever\<rparr>)))"

definition is_flagged :: "uuid \<Rightarrow> crm_world \<Rightarrow> crm_error + bool" where
  "is_flagged company_id w = bindE (company_sanctions company_id w) (\<lambda>s. Inr (cs_flagged s))"

section \<open>Recording a run\<close>

record screening_actor =
  sa_id :: uuid
  sa_name :: "string option"
  sa_permissions :: "string list"

record hit_input =
  hi_list_code :: string
  hi_matched_name :: string
  hi_list_entry :: "string option"
  hi_score :: "int option"
  hi_disposition :: disposition
  hi_reason :: "string option"

text \<open>\<open>code.strip().upper()\<close>.\<close>

definition py_upper :: "string \<Rightarrow> string" where
  "py_upper s = map (\<lambda>c. let n = of_char c :: nat in if 97 \<le> n \<and> n \<le> 122 then char_of (n - 32) else c) s"

definition list_code :: "string \<Rightarrow> string" where "list_code s = py_upper (py_strip s)"

definition subject_name ::
  "exporter_profile \<Rightarrow> subject_type \<Rightarrow> string option \<Rightarrow> uuid option \<Rightarrow> crm_world \<Rightarrow> crm_error + string" where
  "subject_name company typ given reference w =
   (let name = py_strip (case given of None \<Rightarrow> [] | Some s \<Rightarrow> s);
        or_else = (\<lambda>d. if name = [] then d else name)
    in if typ = SUBJECT_COMPANY
       then if reference \<noteq> None then Inl (ValidationError ''A screening of the company names no person'')
            else Inr (or_else (case ep_name company of None \<Rightarrow> [] | Some n \<Rightarrow> n))
       else case reference of
         None \<Rightarrow>
           if typ = SUBJECT_UBO then Inl (ValidationError ''Choose which beneficial owner was screened'')
           else if name = [] then Inl (ValidationError ''Give the director's name'')
           else Inr name
       | Some i \<Rightarrow>
           (case find (\<lambda>p. ct_id p = i \<and> ct_company p = customer_id company) (contacts w) of
              Some p \<Rightarrow> if (if typ = SUBJECT_UBO then ct_is_ubo p else ct_is_director p)
                then Inr (or_else (ct_name p))
                else Inl (ValidationError ''That person is not recorded for this company'')
            | None \<Rightarrow> Inl (ValidationError ''That person is not recorded for this company'')))"

fun check_hits :: "string list \<Rightarrow> hit_input list \<Rightarrow> crm_error + unit" where
  "check_hits wanted [] = Inr ()"
| "check_hits wanted (h # hs) =
     bindE (require (list_code (hi_list_code h) \<in> set wanted)
       (ValidationError ''A hit names a list this run did not cover'')) (\<lambda>_.
     bindE (check_disposition (hi_disposition h) (hi_reason h)) (\<lambda>_. check_hits wanted hs))"

definition add_hit ::
  "crm_env \<Rightarrow> true_match_approval \<Rightarrow> uuid \<Rightarrow> screening_actor \<Rightarrow> hit_input \<Rightarrow> crm_world \<Rightarrow> crm_world" where
  "add_hit env mode run_id actor h w =
   (let (hit_id, w) = world_uuid w;
        w = w\<lparr>sanctions_hits := sanctions_hits w @ [\<lparr>sh_id = hit_id, sh_run = run_id,
              sh_list_code = list_code (hi_list_code h), sh_matched_name = py_strip (hi_matched_name h),
              sh_list_entry = clean_text (hi_list_entry h), sh_score = hi_score h\<rparr>]\<rparr>;
        (row_id, w) = world_uuid w
    in w\<lparr>dispositions := dispositions w @ [\<lparr>hd_id = row_id, hd_hit = hit_id,
           hd_disposition = as_recorded (hi_disposition h) mode, hd_reason = clean_text (hi_reason h),
           hd_decided_by = sa_id actor, hd_decided_at = env_now env,
           hd_approved_by = (if hi_disposition h = TRUE_MATCH \<and> mode = SINGLE then Some (sa_id actor) else None),
           hd_supersedes = None\<rparr>]\<rparr>)"

definition subject_type_value :: "subject_type \<Rightarrow> string" where
  "subject_type_value t = (case t of SUBJECT_COMPANY \<Rightarrow> ''COMPANY'' | SUBJECT_DIRECTOR \<Rightarrow> ''DIRECTOR''
     | SUBJECT_UBO \<Rightarrow> ''UBO'')"

definition audit_row :: "string \<Rightarrow> sanctions_run \<Rightarrow> screening_actor \<Rightarrow> (string \<times> dval) list \<Rightarrow> audit_event" where
  "audit_row event run actor extra = \<lparr>ae_event = event, ae_actor = sa_id actor,
     ae_payload = [(''subject_type'', DText ''sanctions_run''), (''subject_id'', DId (sr_id run)),
       (''company_id'', DId (sr_company run)), (''screened_subject'', DText (sr_subject_name run)),
       (''actor_name'', case sa_name actor of None \<Rightarrow> DNone | Some n \<Rightarrow> DText n)] @ extra\<rparr>"

definition record_run ::
  "crm_env \<Rightarrow> true_match_approval \<Rightarrow> uuid \<Rightarrow> subject_type \<Rightarrow> string option \<Rightarrow> uuid option \<Rightarrow> string list \<Rightarrow>
   hit_input list \<Rightarrow> (string \<times> py_value) list option \<Rightarrow> string \<Rightarrow> string option \<Rightarrow> string option \<Rightarrow>
   screening_actor \<Rightarrow> crm_world \<Rightarrow>
   crm_error + run_view \<times> crm_world" where
  "record_run env mode company_id typ given reference list_codes hits search_terms provider provider_reference
     note actor w = (case profiles (crm w) company_id of
     None \<Rightarrow> Inl (ExporterProfileNotFoundError company_id)
   | Some company \<Rightarrow>
     bindE (subject_name company typ given reference w) (\<lambda>name.
     let current_lists = filter sl_is_current (sanctions_lists w);
         wanted = sort (remdups (map list_code list_codes));
         unknown = filter (\<lambda>code. \<not> list_ex (\<lambda>l. sl_code l = code \<and> sl_active l) current_lists) wanted;
         missing = filter (\<lambda>l. sl_active l \<and> sl_mandatory l \<and> sl_code l \<notin> set wanted) current_lists
     in
     bindE (require (unknown = []) (ValidationError ''Not an active sanctions list'')) (\<lambda>_.
     bindE (require (missing = []) (ValidationError ''A screening must cover every mandatory list'')) (\<lambda>_.
     bindE (check_hits wanted hits) (\<lambda>_.
     let (run_id, w) = world_uuid w;
         run = \<lparr>sr_id = run_id, sr_company = company_id, sr_subject_type = typ, sr_subject_name = name,
           sr_subject_reference = reference,
           sr_cycle = map_option cc_id (current_cycle (crm w) company_id), sr_performed_by = sa_id actor,
           sr_performed_at = env_now env, sr_provider = (if provider = [] then ''MANUAL'' else provider),
           sr_provider_reference = provider_reference, sr_created_at = env_db_now env,
           sr_search_terms = (case search_terms of Some (t # ts) \<Rightarrow> t # ts | _ \<Rightarrow> [(''name'', PyText name)]),
           sr_note = clean_text note,
           sr_lists = map (\<lambda>code. (code, sl_version_date (the (find (\<lambda>l. sl_code l = code) current_lists)))) wanted\<rparr>;
         w = fold (add_hit env mode run_id actor) hits (w\<lparr>sanctions_runs := sanctions_runs w @ [run]\<rparr>)
     in
     bindE (run_view w run_id) (\<lambda>view.
     bindE (world_history company_id ''sanctions'' None (HText (sanctions_outcome_value (rn_outcome view)))
         (Some (sa_id actor)) ''sanctions_screening_service.record_run'' None None
         (Some ''sanctions_run_recorded'')
         [(''run_id'', DId run_id), (''subject_type'', DText (subject_type_value typ)),
          (''subject_name'', DText name),
          (''lists'', DTexts (map (\<lambda>(code, d). code @ '' ('' @ iso_date d @ '')'') (sr_lists run))),
          (''hits'', DNum (length (rn_hits view)))] w) (\<lambda>w.
     Inr (view, w\<lparr>audit_log := audit_log w @ [audit_row ''crm.sanctions.run_recorded'' run actor
            [(''outcome'', DText (sanctions_outcome_value (rn_outcome view)))]]\<rparr>))))))))"

section \<open>Deciding a hit\<close>

definition locked_hit ::
  "uuid \<Rightarrow> crm_world \<Rightarrow> crm_error + sanctions_hit \<times> sanctions_run \<times> hit_disposition" where
  "locked_hit hit_id w = (case find (\<lambda>h. sh_id h = hit_id) (sanctions_hits w) of
     None \<Rightarrow> Inl (SanctionsHitNotFoundError hit_id)
   | Some hit \<Rightarrow> (case find (\<lambda>r. sr_id r = sh_run hit) (sanctions_runs w) of
       None \<Rightarrow> Inl (RuntimeError ''the hit names no run'')
     | Some run \<Rightarrow> (case find (unsuperseded_in (chain_of w hit_id)) (chain_of w hit_id) of
         None \<Rightarrow> Inl (RuntimeError ''coroutine raised StopIteration'')
       | Some current \<Rightarrow> Inr (hit, run, current))))"

definition write_decision ::
  "sanctions_run \<Rightarrow> sanctions_hit \<Rightarrow> hit_disposition \<Rightarrow> screening_actor \<Rightarrow> string \<Rightarrow> crm_world \<Rightarrow>
   crm_error + run_view \<times> crm_world" where
  "write_decision run hit row actor event w =
   (let w = w\<lparr>dispositions := dispositions w @ [row]\<rparr> in
    bindE (run_view w (sr_id run)) (\<lambda>view.
    bindE (world_history (sr_company run) ''sanctions'' None (HText (disposition_value (hd_disposition row)))
        (Some (sa_id actor)) ''sanctions_screening_service'' (hd_reason row) None (Some event)
        [(''run_id'', DId (sr_id run)), (''hit_id'', DId (sh_id hit)),
         (''matched_name'', DText (sh_matched_name hit)), (''list_code'', DText (sh_list_code hit)),
         (''subject_name'', DText (sr_subject_name run)),
         (''run_outcome'', DText (sanctions_outcome_value (rn_outcome view)))] w) (\<lambda>w.
    Inr (view, w\<lparr>audit_log := audit_log w @ [audit_row (''crm.sanctions.'' @ drop 10 event) run actor
        [(''hit_id'', DId (sh_id hit)), (''disposition'', DText (disposition_value (hd_disposition row))),
         (''reason'', case hd_reason row of None \<Rightarrow> DNone | Some t \<Rightarrow> DText t)]]\<rparr>))))"

definition decide_hit ::
  "crm_env \<Rightarrow> true_match_approval \<Rightarrow> uuid \<Rightarrow> disposition \<Rightarrow> string option \<Rightarrow> screening_actor \<Rightarrow> crm_world \<Rightarrow>
   crm_error + run_view \<times> crm_world" where
  "decide_hit env mode hit_id d reason actor w =
   bindE (locked_hit hit_id w) (\<lambda>(hit, run, current).
   bindE (check_disposition d reason) (\<lambda>_.
   bindE (require (hd_disposition current \<noteq> TRUE_MATCH)
     (ValidationError ''A confirmed true match is final; record a new screening instead'')) (\<lambda>_.
   bindE (require (hd_disposition current \<noteq> TRUE_MATCH_PROPOSED)
     (ValidationError ''This true match is awaiting confirmation; confirm or reject it'')) (\<lambda>_.
   let recorded = as_recorded d mode in
   bindE (require (\<not> (recorded = hd_disposition current \<and> recorded \<noteq> HIT_OPEN))
     (ValidationError ''That is already the decision on this match'')) (\<lambda>_.
   let (row_id, w) = world_uuid w in
   write_decision run hit \<lparr>hd_id = row_id, hd_hit = sh_id hit, hd_disposition = recorded,
       hd_reason = clean_text reason, hd_decided_by = sa_id actor, hd_decided_at = env_now env,
       hd_approved_by = (if recorded = TRUE_MATCH then Some (sa_id actor) else None),
       hd_supersedes = Some (hd_id current)\<rparr> actor ''sanctions_hit_decided'' w)))))"

definition confirm_true_match ::
  "crm_env \<Rightarrow> true_match_approval \<Rightarrow> uuid \<Rightarrow> screening_actor \<Rightarrow> crm_world \<Rightarrow>
   crm_error + run_view \<times> crm_world" where
  "confirm_true_match env mode hit_id actor w =
   bindE (locked_hit hit_id w) (\<lambda>(hit, run, current).
   bindE (require (hd_disposition current = TRUE_MATCH_PROPOSED)
     (ValidationError ''There is no proposed true match on this hit to confirm'')) (\<lambda>_.
   case true_match_refusal mode (hd_decided_by current) (sa_id actor) (sa_permissions actor) of
     Some refusal \<Rightarrow> Inl (SanctionsTrueMatchRefusedError refusal)
   | None \<Rightarrow>
     let (row_id, w) = world_uuid w in
     write_decision run hit \<lparr>hd_id = row_id, hd_hit = sh_id hit, hd_disposition = TRUE_MATCH,
       hd_reason = hd_reason current, hd_decided_by = hd_decided_by current, hd_decided_at = env_now env,
       hd_approved_by = Some (sa_id actor), hd_supersedes = Some (hd_id current)\<rparr> actor
       ''sanctions_true_match_confirmed'' w))"

definition reject_true_match ::
  "crm_env \<Rightarrow> true_match_approval \<Rightarrow> uuid \<Rightarrow> string option \<Rightarrow> screening_actor \<Rightarrow> crm_world \<Rightarrow>
   crm_error + run_view \<times> crm_world" where
  "reject_true_match env mode hit_id reason actor w =
   bindE (locked_hit hit_id w) (\<lambda>(hit, run, current).
   bindE (require (hd_disposition current = TRUE_MATCH_PROPOSED)
     (ValidationError ''There is no proposed true match on this hit to reject'')) (\<lambda>_.
   case true_match_refusal mode (hd_decided_by current) (sa_id actor) (sa_permissions actor) of
     Some refusal \<Rightarrow> Inl (SanctionsTrueMatchRefusedError refusal)
   | None \<Rightarrow> (case clean_text reason of
       None \<Rightarrow> Inl (ValidationError ''Say why the true match is not confirmed'')
     | Some text \<Rightarrow>
       let (row_id, w) = world_uuid w in
       write_decision run hit \<lparr>hd_id = row_id, hd_hit = sh_id hit, hd_disposition = HIT_OPEN,
         hd_reason = Some (''True match not confirmed: '' @ text), hd_decided_by = sa_id actor,
         hd_decided_at = env_now env, hd_approved_by = None, hd_supersedes = Some (hd_id current)\<rparr>
         actor ''sanctions_true_match_rejected'' w)))"

end
