(* ===== verification/Assignment.thy ===== *)
theory Assignment
  imports Vocab
begin

text \<open>
  Who may own a company, review its background check and approve it: the pure rules of
  \<open>domain/assignment.py\<close>.
\<close>

definition ASSIGN_RM :: permission where "ASSIGN_RM = (''exporters'', ''assign_rm'')"
definition ASSIGN_REVIEWS :: permission where "ASSIGN_REVIEWS = (''compliance'', ''assign'')"
definition APPROVE_HIGH_RISK :: permission where
  "APPROVE_HIGH_RISK = (''compliance'', ''approve_high_risk'')"

definition RM_ROLES :: "user_role list" where "RM_ROLES = [OPERATIONS]"
definition REVIEWER_ROLES :: "user_role list" where "REVIEWER_ROLES = [COMPLIANCE]"
definition CHECKER_ROLES :: "user_role list" where "CHECKER_ROLES = [COMPLIANCE]"
definition HIGH_RISKS :: "bc_risk list" where "HIGH_RISKS = [HIGH, CRITICAL]"
definition UNDER_REVIEW :: "bc_state list" where "UNDER_REVIEW = [IN_REVIEW, MORE_INFO]"

definition holds :: "permission list \<Rightarrow> permission \<Rightarrow> bool" where
  "holds permissions permission \<longleftrightarrow> permission \<in> set permissions"

definition needs_senior_checker :: "bc_state \<Rightarrow> bc_risk option \<Rightarrow> bool" where
  "needs_senior_checker to_value risk \<longleftrightarrow>
     to_value = CLEAR \<and> (case risk of None \<Rightarrow> False | Some r \<Rightarrow> r \<in> set HIGH_RISKS)"

definition checker_conflict :: "uuid \<Rightarrow> uuid option \<Rightarrow> uuid option \<Rightarrow> string option" where
  "checker_conflict checker_id reviewer relationship_manager =
     (if reviewer = Some checker_id then Some ''you are this review's reviewer''
      else if relationship_manager = Some checker_id
      then Some ''you are this company's relationship manager''
      else None)"

definition may_set_relationship_manager ::
  "uuid option \<Rightarrow> user_role option \<Rightarrow> permission list \<Rightarrow> uuid option \<Rightarrow> uuid option \<Rightarrow> bool" where
  "may_set_relationship_manager actor_id actor_role actor_permissions current target \<longleftrightarrow>
     holds actor_permissions ASSIGN_RM \<or>
     (current = None \<and> target \<noteq> None \<and> target = actor_id \<and>
      (case actor_role of None \<Rightarrow> False | Some r \<Rightarrow> r \<in> set RM_ROLES))"

lemma checker_conflict_None:
  "checker_conflict a r m = None \<longleftrightarrow> r \<noteq> Some a \<and> m \<noteq> Some a"
  by (simp add: checker_conflict_def)

lemma needs_senior_checker_iff:
  "needs_senior_checker to_value risk \<longleftrightarrow>
     to_value = CLEAR \<and> (risk = Some HIGH \<or> risk = Some CRITICAL)"
  by (auto simp: needs_senior_checker_def HIGH_RISKS_def split: option.splits)

lemmas role_sets = RM_ROLES_def REVIEWER_ROLES_def CHECKER_ROLES_def UNDER_REVIEW_def

end
