(* ===== verification/Company_Record.thy ===== *)
theory Company_Record
  imports Decision_Log History Assignment
begin

text \<open>
  The company record's governed writes, \<open>application/exporter_profile_service.py\<close>: the
  relationship manager, the marker, entering the sales pipeline, and the move to
  \<open>CUSTOMER\<close>. A method that takes the locked row takes and returns it here, saved into the
  table it came from.
\<close>

section \<open>The relationship manager\<close>

definition RM_ASSIGNED :: string where "RM_ASSIGNED = ''relationship_manager_assigned''"
definition RM_REASSIGNED :: string where "RM_REASSIGNED = ''relationship_manager_reassigned''"
definition RM_CLEARED :: string where "RM_CLEARED = ''relationship_manager_cleared''"

definition user_or_unassigned :: "uuid option \<Rightarrow> hval" where
  "user_or_unassigned u = (case u of None \<Rightarrow> HText ''UNASSIGNED'' | Some i \<Rightarrow> HUser i)"

definition require_eligible_relationship_manager :: "uuid \<Rightarrow> crm_db \<Rightarrow> crm_error + unit" where
  "require_eligible_relationship_manager user_id db = (case find_staff_member db user_id of
     None \<Rightarrow> Inl (RelationshipManagerNotEligibleError user_id ''no such user'')
   | Some m \<Rightarrow>
       if \<not> sm_active m
       then Inl (RelationshipManagerNotEligibleError user_id ''the account is deactivated'')
       else if sm_role m \<notin> set RM_ROLES
       then Inl (RelationshipManagerNotEligibleError user_id
              ''only relationship managers (OPERATIONS users) can be a company's RM'')
       else Inr ())"

definition set_relationship_manager ::
  "exporter_profile \<Rightarrow> uuid option \<Rightarrow> string option \<Rightarrow> uuid option \<Rightarrow> user_role option \<Rightarrow>
   permission list \<Rightarrow> string \<Rightarrow> uuid option \<Rightarrow> bool \<Rightarrow> crm_db \<Rightarrow>
   crm_error + bool \<times> exporter_profile \<times> crm_db" where
  "set_relationship_manager p user_id reason actor_id actor_role actor_permissions source
     bulk_run_id bypass_permission db =
   (let current = rm_user_id p in
    if user_id = current then Inr (False, p, db)
    else if \<not> bypass_permission \<and>
       \<not> may_set_relationship_manager actor_id actor_role actor_permissions current user_id
    then Inl (RelationshipManagerAssignNotAllowedError (Some (customer_id p)))
    else let text = clean_text reason in
    if current \<noteq> None \<and> text = None then Inl RelationshipManagerReasonRequiredError
    else
    bindE (case user_id of None \<Rightarrow> Inr () | Some u \<Rightarrow> require_eligible_relationship_manager u db) (\<lambda>_.
    let members = staff_members db [current, user_id];
        event = (if current = None then RM_ASSIGNED
                 else if user_id = None then RM_CLEARED else RM_REASSIGNED);
        p = p\<lparr>rm_user_id := user_id\<rparr>
    in bindE (record_history (customer_id p) ''relationship_manager''
          (Some (user_or_unassigned current)) (user_or_unassigned user_id) actor_id source text None
          (Some event)
          [(''from_user_id'', d_id current), (''to_user_id'', d_id user_id),
           (''from_user_name'', member_name members current),
           (''to_user_name'', member_name members user_id), (''bulk_run_id'', d_id bulk_run_id)]
          (save_profile p db)) (\<lambda>db.
       Inr (True, p, db))))"

definition assign_relationship_manager ::
  "uuid \<Rightarrow> uuid option \<Rightarrow> string option \<Rightarrow> uuid option \<Rightarrow> uuid \<Rightarrow> user_role \<Rightarrow> permission list \<Rightarrow>
   crm_db \<Rightarrow> crm_error + exporter_profile \<times> crm_db" where
  "assign_relationship_manager company_id user_id reason seen_user_id actor_id actor_role
     actor_permissions db =
   bindE (lock_profile company_id db) (\<lambda>p.
   bindE (require (rm_user_id p = seen_user_id)
       (RelationshipManagerChangedError company_id seen_user_id (rm_user_id p))) (\<lambda>_.
   bindE (set_relationship_manager p user_id reason (Some actor_id) (Some actor_role)
       actor_permissions ''exporter_profile_service.assign_relationship_manager'' None False db)
     (\<lambda>(changed, p, db). Inr (p, db))))"

definition ensure_relationship_manager ::
  "exporter_profile \<Rightarrow> uuid option \<Rightarrow> string \<Rightarrow> uuid option \<Rightarrow> user_role option \<Rightarrow> permission list \<Rightarrow>
   string \<Rightarrow> crm_db \<Rightarrow> crm_error + exporter_profile \<times> crm_db" where
  "ensure_relationship_manager p user_id action actor_id actor_role actor_permissions source db =
   (if pipeline_st p = NOT_IN_PIPELINE then Inr (p, db)
    else case rm_user_id p of
      Some current \<Rightarrow>
        if user_id \<noteq> None \<and> user_id \<noteq> Some current
        then Inl (RelationshipManagerChangedError (customer_id p) user_id (Some current))
        else Inr (p, db)
    | None \<Rightarrow> (case user_id of
        None \<Rightarrow> Inl (RelationshipManagerRequiredError (customer_id p) action)
      | Some u \<Rightarrow>
          bindE (set_relationship_manager p (Some u) None actor_id actor_role actor_permissions
              source None False db) (\<lambda>(changed, p, db). Inr (p, db))))"

text \<open>
  \<open>reassign_relationship_managers\<close>: the candidates are the companies the repository lists as
  owned by the old manager; each is re-read under its lock, and one that changed hands is
  skipped.
\<close>

record bulk_reassignment =
  br_run_id :: "uuid option"
  br_dry_run :: bool
  br_matched :: "uuid list"
  br_moved :: "uuid list"
  br_skipped :: "uuid list"

fun reassign_each ::
  "uuid list \<Rightarrow> uuid \<Rightarrow> uuid \<Rightarrow> string \<Rightarrow> uuid \<Rightarrow> user_role \<Rightarrow> permission list \<Rightarrow> uuid \<Rightarrow> crm_db \<Rightarrow>
   crm_error + uuid list \<times> uuid list \<times> crm_db" where
  "reassign_each [] from_user to_user text actor_id actor_role perms run_id db = Inr ([], [], db)"
| "reassign_each (c # cs) from_user to_user text actor_id actor_role perms run_id db =
   bindE (lock_profile c db) (\<lambda>p.
   if rm_user_id p \<noteq> Some from_user
   then bindE (reassign_each cs from_user to_user text actor_id actor_role perms run_id db)
          (\<lambda>(moved, skipped, db). Inr (moved, c # skipped, db))
   else bindE (set_relationship_manager p (Some to_user) (Some text) (Some actor_id)
            (Some actor_role) perms ''exporter_profile_service.reassign_relationship_managers''
            (Some run_id) False db) (\<lambda>(changed, p, db).
        bindE (reassign_each cs from_user to_user text actor_id actor_role perms run_id db)
          (\<lambda>(moved, skipped, db). Inr (c # moved, skipped, db))))"

definition reassign_relationship_managers ::
  "uuid list \<Rightarrow> uuid \<Rightarrow> uuid \<Rightarrow> uuid list option \<Rightarrow> string option \<Rightarrow> bool \<Rightarrow> uuid \<Rightarrow> user_role \<Rightarrow>
   permission list \<Rightarrow> crm_db \<Rightarrow> crm_error + bulk_reassignment \<times> crm_db" where
  "reassign_relationship_managers owned_by from_user to_user company_ids reason dry_run actor_id
     actor_role perms db =
   (if \<not> holds perms ASSIGN_RM then Inl (RelationshipManagerAssignNotAllowedError None)
    else case clean_text reason of
      None \<Rightarrow> Inl RelationshipManagerReasonRequiredError
    | Some text \<Rightarrow>
      if from_user = to_user
      then Inl (ValidationError ''the companies already belong to that relationship manager'')
      else
      bindE (require_eligible_relationship_manager to_user db) (\<lambda>_.
      let candidates = owned_by;
          not_owned = (case company_ids of None \<Rightarrow> []
             | Some ids \<Rightarrow> sort (remdups (filter (\<lambda>c. c \<notin> set candidates) ids)))
      in if dry_run
         then Inr (\<lparr>br_run_id = None, br_dry_run = True, br_matched = candidates, br_moved = [],
                    br_skipped = not_owned\<rparr>, db)
         else
         let (run_id, db) = fresh_uuid db in
         bindE (reassign_each candidates from_user to_user text actor_id actor_role perms run_id db)
           (\<lambda>(moved, skipped, db).
           Inr (\<lparr>br_run_id = Some run_id, br_dry_run = False, br_matched = candidates,
                  br_moved = moved, br_skipped = not_owned @ skipped\<rparr>, db))))"

section \<open>The marker\<close>

definition MARKER_MOVES :: "((marker \<times> marker) \<times> bool) list" where
  "MARKER_MOVES = [((MARKER_NONE, PAUSED), True), ((MARKER_NONE, ENDED), True),
     ((PAUSED, ENDED), True), ((PAUSED, MARKER_NONE), False), ((ENDED, MARKER_NONE), False)]"

definition set_marker ::
  "uuid \<Rightarrow> marker \<Rightarrow> string option \<Rightarrow> uuid option \<Rightarrow> crm_db \<Rightarrow> crm_error + exporter_profile \<times> crm_db" where
  "set_marker company_id m reason actor_id db =
   bindE (lock_profile company_id db) (\<lambda>p.
   let from_marker = marker_of p in
   case map_of MARKER_MOVES (from_marker, m) of
     None \<Rightarrow> Inl (InvalidMarkerTransitionError company_id from_marker m)
   | Some needs_reason \<Rightarrow>
     let cleaned = clean_text reason in
     if needs_reason \<and> cleaned = None
     then Inl (ValidationError ''a reason is required to set the marker'')
     else
     let p = p\<lparr>marker_of := m, marker_reason := (if m \<noteq> MARKER_NONE then cleaned else None)\<rparr>
     in bindE (record_history company_id ''marker'' (Some (HText (marker_value from_marker)))
          (HText (marker_value m)) actor_id ''exporter_profile_service.set_marker'' cleaned None None []
          (save_profile p db)) (\<lambda>db. Inr (p, db)))"

definition allowed_marker_moves :: "marker \<Rightarrow> (marker \<times> bool) list" where
  "allowed_marker_moves current =
     map (\<lambda>((f, t), needs). (t, needs)) (filter (\<lambda>((f, t), needs). f = current) MARKER_MOVES)"

section \<open>Into the sales pipeline\<close>

definition LIFECYCLE_INITIAL_EVENT :: string where "LIFECYCLE_INITIAL_EVENT = ''lifecycle_initial''"
definition LIFECYCLE_TRANSITION_EVENT :: string where
  "LIFECYCLE_TRANSITION_EVENT = ''lifecycle_transition''"

definition record_journey_start ::
  "uuid \<Rightarrow> uuid option \<Rightarrow> string \<Rightarrow> crm_db \<Rightarrow> crm_error + crm_db" where
  "record_journey_start company_id actor_id source db =
     record_history company_id ''journey'' None (HText (journey_value LEAD)) actor_id source None None
       (Some LIFECYCLE_INITIAL_EVENT) [(''terminal'', DBool False)] db"

definition bring_into_pipeline ::
  "uuid \<Rightarrow> uuid option \<Rightarrow> string option \<Rightarrow> crm_db \<Rightarrow> crm_error + exporter_profile \<times> crm_db" where
  "bring_into_pipeline company_id actor_id reason db =
   bindE (lock_profile company_id db) (\<lambda>p.
   bindE (require (pipeline_st p \<noteq> IN_PIPELINE) (CompanyAlreadyInPipelineError company_id)) (\<lambda>_.
   let p = p\<lparr>pipeline_st := IN_PIPELINE\<rparr> in
   bindE (record_history company_id ''pipeline'' (Some (HText (pipeline_value NOT_IN_PIPELINE)))
       (HText (pipeline_value IN_PIPELINE)) actor_id ''exporter_profile_service.bring_into_pipeline''
       reason None None [] (save_profile p db)) (\<lambda>db.
   bindE (record_journey_start company_id actor_id ''exporter_profile_service.bring_into_pipeline'' db)
     (\<lambda>db. Inr (p, db)))))"

section \<open>The move to CUSTOMER\<close>

record customer_announcement =
  an_company :: uuid
  an_name :: "string option"
  an_country :: "string option"
  an_pan :: "string option"
  an_gstins :: "string list"
  an_risk :: bc_risk
  an_clearing_decision :: uuid
  an_actor :: "uuid option"

definition promote_to_customer_if_ready ::
  "crm_env \<Rightarrow> exporter_profile \<Rightarrow> uuid option \<Rightarrow> string \<Rightarrow> string \<Rightarrow> crm_db \<Rightarrow>
   crm_error + customer_announcement option \<times> exporter_profile \<times> crm_db" where
  "promote_to_customer_if_ready env p actor_id cause source db =
   (if journey_of p \<noteq> PROSPECT then Inr (None, p, db)
    else
    bindE (facts_for_company (customer_id p) (env_now env) db) (\<lambda>facts.
    if \<not> pf_is_clear_current facts then Inr (None, p, db)
    else
    bindE (standing (customer_id p) db) (\<lambda>s.
    case (st_clearing_decision s, st_risk s) of
      (Some d, Some r) \<Rightarrow>
        let p = p\<lparr>journey_of := CUSTOMER\<rparr> in
        bindE (record_history (customer_id p) ''journey'' (Some (HText (journey_value PROSPECT)))
          (HText (journey_value CUSTOMER)) actor_id source None None (Some LIFECYCLE_TRANSITION_EVENT)
          [(''cause'', DText cause), (''clearing_decision_id'', DId d),
           (''risk_rating'', DText (risk_value r)), (''terminal'', DBool True)]
          (save_profile p db)) (\<lambda>db.
        Inr (Some \<lparr>an_company = customer_id p, an_name = ep_name p, an_country = ep_country p,
                   an_pan = ep_pan p, an_gstins = ep_gstins p, an_risk = r,
                   an_clearing_decision = d, an_actor = actor_id\<rparr>, p, db))
    | _ \<Rightarrow> Inl (RuntimeError ''company reads CLEAR with no clearing decision or risk''))))"

section \<open>What the writers of the company row promise\<close>

lemma set_relationship_manager_effect:
  assumes "set_relationship_manager p u reason a role perms src run byp db = Inr (changed, p', db')"
  shows "p' = p\<lparr>rm_user_id := u\<rparr>"
    and "profiles db (customer_id p) = Some p \<Longrightarrow> profile_write (customer_id p) p' db db'"
    and "changed \<longleftrightarrow> rm_user_id p \<noteq> u"
  using assms
  by (auto simp: set_relationship_manager_def Let_def err_simps profile_write_refl
      split: if_splits intro: profile_write_save_record)

lemma ensure_relationship_manager_effect:
  assumes "ensure_relationship_manager p u act a role perms src db = Inr (p', db')"
  shows "\<exists>rm. p' = p\<lparr>rm_user_id := rm\<rparr>"
    and "profiles db (customer_id p) = Some p \<Longrightarrow> profile_write (customer_id p) p' db db'"
    and "pipeline_st p = IN_PIPELINE \<Longrightarrow> rm_user_id p' \<noteq> None"
    and "rm_user_id p \<noteq> None \<Longrightarrow> p' = p"
proof -
  have same: "\<exists>rm. q = q\<lparr>rm_user_id := rm\<rparr>" for q :: exporter_profile
    by (rule exI [of _ "rm_user_id q"]) simp
  show "\<exists>rm. p' = p\<lparr>rm_user_id := rm\<rparr>"
    and "profiles db (customer_id p) = Some p \<Longrightarrow> profile_write (customer_id p) p' db db'"
    and "pipeline_st p = IN_PIPELINE \<Longrightarrow> rm_user_id p' \<noteq> None"
    and "rm_user_id p \<noteq> None \<Longrightarrow> p' = p"
    using assms
    by (auto simp: ensure_relationship_manager_def err_simps profile_write_refl same
        split: if_splits option.splits
        dest: set_relationship_manager_effect(1) set_relationship_manager_effect(2))
qed

lemma promote_effect:
  assumes "promote_to_customer_if_ready env p a cause src db = Inr (ann, p', db')"
  shows "p' = p \<and> ann = None \<or>
      p' = p\<lparr>journey_of := CUSTOMER\<rparr> \<and> journey_of p = PROSPECT \<and> ann \<noteq> None"
    and "profiles db (customer_id p) = Some p \<Longrightarrow> profile_write (customer_id p) p' db db'"
  using assms
  by (auto simp: promote_to_customer_if_ready_def Let_def err_simps profile_write_refl
      split: if_splits option.splits intro: profile_write_save_record)

interpretation rm_writer: row_writer
    "\<lambda>p db. ensure_relationship_manager p u act a role perms src db"
  for u act a role perms src
proof
  fix p db p' db'
  assume "ensure_relationship_manager p u act a role perms src db = Inr (p', db')"
  from ensure_relationship_manager_effect(1,2) [OF this]
  show "customer_id p' = customer_id p" and "profiles db (customer_id p) = Some p \<Longrightarrow>
      profile_write (customer_id p) p' db db'" by auto
qed

interpretation promoter: row_writer
    "\<lambda>p db. bindE (promote_to_customer_if_ready env p a cause src db) (\<lambda>(ann, p, db). Inr (p, db))"
  for env a cause src
proof
  fix p db p' db'
  assume "bindE (promote_to_customer_if_ready env p a cause src db) (\<lambda>(ann, p, db). Inr (p, db))
    = Inr (p', db')"
  then obtain ann where "promote_to_customer_if_ready env p a cause src db = Inr (ann, p', db')"
    by (auto simp: err_simps)
  from promote_effect [OF this]
  show "customer_id p' = customer_id p" and "profiles db (customer_id p) = Some p \<Longrightarrow>
      profile_write (customer_id p) p' db db'" by auto
qed

lemma set_marker_effect:
  assumes "set_marker c m reason a db = Inr (p', db')" and "keyed db"
  obtains p needs where "profiles db c = Some p" and "map_of MARKER_MOVES (marker_of p, m) = Some needs"
    and "p' = p\<lparr>marker_of := m, marker_reason := (if m \<noteq> MARKER_NONE then clean_text reason else None)\<rparr>"
    and "needs \<Longrightarrow> clean_text reason \<noteq> None" and "profile_write c p' db db'"
proof -
  from assms(1) obtain p needs where *: "profiles db c = Some p"
      "map_of MARKER_MOVES (marker_of p, m) = Some needs" "needs \<Longrightarrow> clean_text reason \<noteq> None"
    and p': "p' = p\<lparr>marker_of := m,
        marker_reason := (if m \<noteq> MARKER_NONE then clean_text reason else None)\<rparr>"
    and h: "record_history c ''marker'' (Some (HText (marker_value (marker_of p))))
        (HText (marker_value m)) a ''exporter_profile_service.set_marker'' (clean_text reason) None None []
        (save_profile p' db) = Inr db'"
    by (auto simp: set_marker_def Let_def err_simps split: option.splits if_splits)
  have "customer_id p' = c" using keyedD [OF assms(2) *(1)] p' by simp
  from that [OF * (1,2) p' *(3) profile_write_save_record [OF h this]] show thesis by blast
qed

end
