(* ===== verification/Clear_Rules.thy ===== *)
theory Clear_Rules
  imports Compliance_Inputs "HOL-Library.Multiset"
begin

text \<open>
  The pure decision rules of the background check, \<open>domain/background_check_views.py\<close>:
  which ids a decision pins as evidence, the fingerprint of what a proposal rests on,
  the prerequisites of \<open>IN_REVIEW \<rightarrow> CLEAR\<close>, and what a viewer may do with an open
  proposal.
\<close>

section \<open>The evidence snapshot\<close>

record evidence_selection =
  es_verifications :: "(uuid \<times> uuid option) list"
  es_screening :: "uuid list"
  es_documents :: "uuid list"

definition evidence_count :: "evidence_selection \<Rightarrow> nat" where
  "evidence_count e = length (es_verifications e) + length (es_screening e) + length (es_documents e)"

record document_input =
  di_id :: uuid
  di_scan_status :: scan_status

definition SERVABLE_SCAN_STATUS :: scan_status where
  "SERVABLE_SCAN_STATUS = AVAILABLE"

definition select_evidence :: "company_compliance_inputs \<Rightarrow> document_input list \<Rightarrow> evidence_selection" where
  "select_evidence inputs docs =
     \<lparr>es_verifications = map (\<lambda>i. (vi_id i, vi_latest_review_id i)) (ci_verifications inputs),
      es_screening = List.map_filter sin_row (ci_screening inputs),
      es_documents = map di_id (filter (\<lambda>d. di_scan_status d = SERVABLE_SCAN_STATUS) docs)\<rparr>"

section \<open>The fingerprint of what a decision would rest on\<close>

text \<open>
  The canonical document that is hashed: three sorted lists and the cycle. \<open>or ""\<close> turns an
  absent review status into the empty text; an absent review id is kept as \<open>None\<close>, which
  like the empty text differs from, and sorts before, every id.
\<close>

definition canonical_inputs :: "company_compliance_inputs \<Rightarrow> evidence_selection \<Rightarrow> fingerprint_doc" where
  "canonical_inputs inputs ev =
     \<lparr>fp_cycle = ci_current_cycle inputs,
      fp_verifications = sort (map (\<lambda>c. (vi_id c, verification_status_value (vi_status c),
          vi_latest_review_id c,
          (case vi_latest_review_status c of None \<Rightarrow> [] | Some s \<Rightarrow> review_status_value s)))
        (ci_verifications inputs)),
      fp_screening = sort (List.map_filter (\<lambda>i. case sin_row i of None \<Rightarrow> None
          | Some row \<Rightarrow> Some (sin_key i, row,
              (case sin_status i of None \<Rightarrow> [] | Some s \<Rightarrow> screening_status_value s)))
        (ci_screening inputs)),
      fp_documents = sort (es_documents ev)\<rparr>"

definition inputs_fingerprint :: "crm_env \<Rightarrow> company_compliance_inputs \<Rightarrow> evidence_selection \<Rightarrow> nat" where
  "inputs_fingerprint env inputs ev = env_sha256 env (canonical_inputs inputs ev)"

section \<open>The CLEAR prerequisites\<close>

definition CLEAR_RISK_REQUIRED :: string where "CLEAR_RISK_REQUIRED = ''risk_rating''"
definition CLEAR_NO_CHECKS_PENDING :: string where "CLEAR_NO_CHECKS_PENDING = ''no_checks_pending''"
definition CLEAR_SCREENING_ANSWERED :: string where
  "CLEAR_SCREENING_ANSWERED = ''screening_items_answered''"
definition CLEAR_EVIDENCE_RECORDED :: string where "CLEAR_EVIDENCE_RECORDED = ''evidence_recorded''"

text \<open>\<open>str.lower()\<close> on the upper-case words of the enum.\<close>

definition ascii_lower :: "char \<Rightarrow> char" where
  "ascii_lower c = (if 65 \<le> (of_char c :: nat) \<and> (of_char c :: nat) \<le> 90
     then char_of ((of_char c :: nat) + 32) else c)"

definition passed_prerequisite :: "verification_type \<Rightarrow> string" where
  "passed_prerequisite t = map ascii_lower (verification_type_value t) @ ''_passed''"

record clear_policy =
  pending_verification_statuses :: "verification_status list"
  placeholder_counts_as_pending :: bool
  answered_screening_statuses :: "screening_status list"
  evidence_required :: bool
  concluding_review_statuses :: "review_status list"
  required_passed_types :: "verification_type list"

definition CLEAR_POLICY :: clear_policy where
  "CLEAR_POLICY =
     \<lparr>pending_verification_statuses = [V_PENDING, V_REVIEW],
      placeholder_counts_as_pending = True,
      answered_screening_statuses = [S_PASSED, S_EXEMPT],
      evidence_required = True,
      concluding_review_statuses = [R_ACCEPTED, R_REJECTED],
      required_passed_types = [KYB, AML, SANCTIONS]\<rparr>"

definition required_check_states ::
  "company_compliance_inputs \<Rightarrow> clear_policy \<Rightarrow> (verification_type \<times> check_state) list" where
  "required_check_states inputs policy =
     map (\<lambda>t. (t, check_state (ci_verifications inputs) t)) (required_passed_types policy)"

definition check_pending :: "clear_policy \<Rightarrow> verification_input \<Rightarrow> bool" where
  "check_pending policy c \<longleftrightarrow>
     (vi_status c \<in> set (pending_verification_statuses policy) \<and>
      (case vi_latest_review_status c of None \<Rightarrow> True
       | Some s \<Rightarrow> s \<notin> set (concluding_review_statuses policy))) \<or>
     (placeholder_counts_as_pending policy \<and> vi_is_placeholder c)"

definition answered_keys :: "clear_policy \<Rightarrow> screening_item_input list \<Rightarrow> string list" where
  "answered_keys policy items = map sin_key (filter (\<lambda>i. case sin_status i of None \<Rightarrow> False
       | Some s \<Rightarrow> s \<in> set (answered_screening_statuses policy)) items)"

definition evaluate_clear_prerequisites ::
  "company_compliance_inputs \<Rightarrow> bc_risk option \<Rightarrow> evidence_selection \<Rightarrow> clear_policy \<Rightarrow> string list" where
  "evaluate_clear_prerequisites inputs risk ev policy =
     (if risk = None then [CLEAR_RISK_REQUIRED] else []) @
     (if list_ex (check_pending policy) (ci_verifications inputs)
      then [CLEAR_NO_CHECKS_PENDING] else []) @
     (if list_ex (\<lambda>key. key \<notin> set (answered_keys policy (ci_screening inputs))) (ci_catalogue inputs)
      then [CLEAR_SCREENING_ANSWERED] else []) @
     (if evidence_required policy \<and> evidence_count ev = 0 then [CLEAR_EVIDENCE_RECORDED] else []) @
     map (\<lambda>(t, _). passed_prerequisite t)
       (filter (\<lambda>(_, s). s \<noteq> CHECK_PASSED) (required_check_states inputs policy))"

text \<open>What an unmet list that is empty means, prerequisite by prerequisite.\<close>

definition clear_ready ::
  "company_compliance_inputs \<Rightarrow> bc_risk option \<Rightarrow> evidence_selection \<Rightarrow> clear_policy \<Rightarrow> bool" where
  "clear_ready inputs risk ev policy \<longleftrightarrow>
     risk \<noteq> None \<and>
     (\<forall>c \<in> set (ci_verifications inputs). \<not> check_pending policy c) \<and>
     (\<forall>key \<in> set (ci_catalogue inputs). \<exists>i \<in> set (ci_screening inputs).
        sin_key i = key \<and> (\<exists>s. sin_status i = Some s \<and> s \<in> set (answered_screening_statuses policy))) \<and>
     (evidence_required policy \<longrightarrow> 0 < evidence_count ev) \<and>
     (\<forall>t \<in> set (required_passed_types policy). check_state (ci_verifications inputs) t = CHECK_PASSED)"

lemma set_answered_keys:
  "k \<in> set (answered_keys policy items) \<longleftrightarrow>
     (\<exists>i \<in> set items. sin_key i = k \<and>
        (\<exists>s. sin_status i = Some s \<and> s \<in> set (answered_screening_statuses policy)))"
  by (auto simp: answered_keys_def split: option.splits)

lemma evaluate_clear_prerequisites_Nil:
  "evaluate_clear_prerequisites inputs risk ev policy = [] \<longleftrightarrow> clear_ready inputs risk ev policy"
  by (auto simp: evaluate_clear_prerequisites_def clear_ready_def required_check_states_def
      set_answered_keys list_ex_iff filter_empty_conv)

section \<open>What a viewer may do with an open proposal\<close>

datatype proposal_action = PROPOSAL_APPROVE | PROPOSAL_REJECT | PROPOSAL_WITHDRAW

definition proposal_actions :: "bool \<Rightarrow> uuid \<Rightarrow> uuid \<Rightarrow> bool \<Rightarrow> bool \<Rightarrow> proposal_action list" where
  "proposal_actions is_open proposed_by viewer_id viewer_may_resolve is_stale =
     (if \<not> is_open then []
      else if viewer_id = proposed_by then [PROPOSAL_WITHDRAW]
      else if \<not> viewer_may_resolve then []
      else if is_stale then [PROPOSAL_REJECT] else [PROPOSAL_APPROVE, PROPOSAL_REJECT])"

section \<open>Rules versions\<close>

definition CLEAR_RULES_V1 :: string where "CLEAR_RULES_V1 = ''clear-2026-09-28-8items''"

definition CURRENT_CLEAR_RULES :: string where
  "CURRENT_CLEAR_RULES = ''clear-2026-10-01-7items-kyb-aml-sanctions''"

definition effective_rules_version :: "string option \<Rightarrow> string" where
  "effective_rules_version stored = (case stored of None \<Rightarrow> CLEAR_RULES_V1
     | Some v \<Rightarrow> if v = [] then CLEAR_RULES_V1 else v)"

section \<open>Sorting makes the fingerprint independent of the reading order\<close>

lemma sort_eq_of_mset:
  fixes xs ys :: "'a::linorder list"
  assumes "mset xs = mset ys"
  shows "sort xs = sort ys"
  using assms by (metis properties_for_sort mset_sort sorted_sort)

lemma mset_eq_of_sort:
  fixes xs ys :: "'a::linorder list"
  assumes "sort xs = sort ys"
  shows "mset xs = mset ys"
  using assms by (metis mset_sort)

lemma mset_map_filter: "mset (List.map_filter f xs) = image_mset (the \<circ> f) (filter_mset (\<lambda>x. f x \<noteq> None) (mset xs))"
  by (simp add: List.map_filter_def mset_map mset_filter)

end
