(* ===== verification/Review.thy ===== *)
theory Review
  imports Company_Record Clear_Rules
begin

text \<open>
  The rules of the background-check gauge as data, and who holds a review:
  the module-level tables of \<open>application/background_check_service.py\<close>,
  \<open>_check_move\<close>, \<open>allowed_moves\<close>, and the review's assignment (\<open>_set_reviewer\<close>,
  \<open>claim_review\<close>, \<open>assign_review\<close>, \<open>release_review\<close>, \<open>review_actions\<close>).
\<close>

section \<open>The rules as data\<close>

definition MOVES :: "((bc_state \<times> bc_state) \<times> user_role list) list" where
  "MOVES = [
     ((NOT_STARTED, IN_REVIEW), [OPERATIONS, COMPLIANCE]),
     ((IN_REVIEW, CLEAR), [COMPLIANCE]),
     ((IN_REVIEW, MORE_INFO), [COMPLIANCE]),
     ((MORE_INFO, IN_REVIEW), [OPERATIONS, COMPLIANCE]),
     ((IN_REVIEW, FLAGGED), [COMPLIANCE]),
     ((FLAGGED, ON_HOLD), [COMPLIANCE]),
     ((FLAGGED, IN_REVIEW), [COMPLIANCE]),
     ((ON_HOLD, IN_REVIEW), [COMPLIANCE]),
     ((CLEAR, IN_REVIEW), [COMPLIANCE])]"

definition NO_TEXT_REQUIRED :: "(bc_state \<times> bc_state) list" where
  "NO_TEXT_REQUIRED = [(NOT_STARTED, IN_REVIEW)]"

definition RISK_REQUIRED :: "bc_state list" where
  "RISK_REQUIRED = [CLEAR]"

definition METHOD_FOR_MOVE :: "((bc_state \<times> bc_state) \<times> string) list" where
  "METHOD_FOR_MOVE = [
     ((NOT_STARTED, IN_REVIEW), ''start_review''),
     ((IN_REVIEW, CLEAR), ''clear''),
     ((IN_REVIEW, MORE_INFO), ''request_more_info''),
     ((MORE_INFO, IN_REVIEW), ''record_more_info''),
     ((IN_REVIEW, FLAGGED), ''flag''),
     ((FLAGGED, ON_HOLD), ''hold''),
     ((FLAGGED, IN_REVIEW), ''reassess''),
     ((ON_HOLD, IN_REVIEW), ''reassess''),
     ((CLEAR, IN_REVIEW), ''reopen'')]"

text \<open>\<open>APPROVAL_MOVES\<close> of \<open>domain/entities/background_check_proposal.py\<close>.\<close>

definition APPROVAL_MOVES :: "(bc_state \<times> bc_state) list" where
  "APPROVAL_MOVES = [(IN_REVIEW, CLEAR), (IN_REVIEW, FLAGGED), (FLAGGED, ON_HOLD)]"

definition REVIEWER_MOVES :: "(bc_state \<times> bc_state) list" where
  "REVIEWER_MOVES = [(IN_REVIEW, MORE_INFO), (IN_REVIEW, CLEAR), (IN_REVIEW, FLAGGED)]"

definition CLAIMING_MOVES :: "(bc_state \<times> bc_state) list" where
  "CLAIMING_MOVES = [(FLAGGED, IN_REVIEW), (ON_HOLD, IN_REVIEW), (CLEAR, IN_REVIEW)]"

definition DECIDED :: "bc_state list" where
  "DECIDED = [CLEAR, FLAGGED, ON_HOLD]"

lemmas move_tables = MOVES_def NO_TEXT_REQUIRED_def RISK_REQUIRED_def METHOD_FOR_MOVE_def
  APPROVAL_MOVES_def REVIEWER_MOVES_def CLAIMING_MOVES_def DECIDED_def

section \<open>A request to move\<close>

text \<open>
  The keyword arguments of \<open>_move\<close>, \<open>_check_move\<close> and \<open>_apply_move\<close>, which all default as
  \<open>plain_move\<close> does. \<open>mr_approval\<close> is the \<open>_Approval\<close> that \<open>approve\<close> alone passes: the proposal and
  who approved it.
\<close>

record move_request =
  mr_to :: bc_state
  mr_expected_from :: "bc_state list"
  mr_actor :: uuid
  mr_role :: user_role
  mr_reason :: "string option"
  mr_risk :: "bc_risk option"
  mr_method :: "string option"
  mr_seen :: "bc_state option"
  mr_cycle :: "check_cycle option"
  mr_decision_id :: "uuid option"
  mr_approval :: "(bc_proposal \<times> uuid) option"
  mr_permissions :: "permission list"
  mr_rm_user :: "uuid option"
  mr_require_rm :: bool

definition plain_move ::
  "bc_state \<Rightarrow> bc_state list \<Rightarrow> uuid \<Rightarrow> user_role \<Rightarrow> string option \<Rightarrow> bc_risk option \<Rightarrow>
   string option \<Rightarrow> move_request" where
  "plain_move to_value expected_from actor_id actor_role reason risk method =
     \<lparr>mr_to = to_value, mr_expected_from = expected_from, mr_actor = actor_id, mr_role = actor_role,
      mr_reason = reason, mr_risk = risk, mr_method = method, mr_seen = None, mr_cycle = None,
      mr_decision_id = None, mr_approval = None, mr_permissions = [], mr_rm_user = None,
      mr_require_rm = True\<rparr>"

definition check_move :: "exporter_profile \<Rightarrow> move_request \<Rightarrow> crm_error + string option \<times> string" where
  "check_move p r =
   (let company_id = customer_id p; current = background_check p; to_value = mr_to r in
    if mr_seen r \<noteq> None \<and> mr_seen r \<noteq> Some current
    then Inl (BackgroundCheckStateChangedError company_id (the (mr_seen r)) current)
    else
    case map_of MOVES (current, to_value) of
      None \<Rightarrow> Inl (BackgroundCheckMoveNotAllowedError company_id (Some current) to_value)
    | Some roles \<Rightarrow>
      if current \<notin> set (mr_expected_from r)
      then Inl (BackgroundCheckMoveNotAllowedError company_id (Some current) to_value)
      else if mr_role r \<notin> set roles
      then Inl (BackgroundCheckRoleNotAllowedError current to_value (mr_role r))
      else
      let method = (case mr_method r of Some m \<Rightarrow> m
            | None \<Rightarrow> the (map_of METHOD_FOR_MOVE (current, to_value)));
          text = strip_if_given (mr_reason r)
      in if no_text text \<and> (current, to_value) \<notin> set NO_TEXT_REQUIRED
         then Inl (BackgroundCheckReasonRequiredError current to_value)
         else if to_value \<in> set RISK_REQUIRED \<and> mr_risk r = None
         then Inl (BackgroundCheckRiskRequiredError company_id)
         else if to_value \<notin> set RISK_REQUIRED \<and> mr_risk r \<noteq> None
         then Inl (BackgroundCheckRiskNotAllowedError current to_value)
         else Inr (text, method))"

section \<open>What the screen is offered\<close>

record background_check_move =
  bm_to :: bc_state
  bm_reason_required :: bool
  bm_risk_required :: bool
  bm_approval_required :: bool

definition needs_approval :: "crm_env \<Rightarrow> bc_state \<Rightarrow> bool" where
  "needs_approval env to_value \<longleftrightarrow>
     env_maker_checker env \<and> list_ex (\<lambda>(_, t). t = to_value) APPROVAL_MOVES"

definition allowed_moves :: "crm_env \<Rightarrow> bc_state \<Rightarrow> user_role \<Rightarrow> background_check_move list" where
  "allowed_moves env current role =
     map (\<lambda>((f, to_value), _).
          \<lparr>bm_to = to_value,
           bm_reason_required = ((current, to_value) \<notin> set NO_TEXT_REQUIRED),
           bm_risk_required = (to_value \<in> set RISK_REQUIRED),
           bm_approval_required = (env_maker_checker env \<and> (current, to_value) \<in> set APPROVAL_MOVES)\<rparr>)
       (filter (\<lambda>((f, t), roles). f = current \<and> role \<in> set roles) MOVES)"

section \<open>Who holds the review\<close>

definition REVIEW_CLAIMED :: string where "REVIEW_CLAIMED = ''review_claimed''"
definition REVIEW_ASSIGNED :: string where "REVIEW_ASSIGNED = ''review_assigned''"
definition REVIEW_REASSIGNED :: string where "REVIEW_REASSIGNED = ''review_reassigned''"
definition REVIEW_RELEASED :: string where "REVIEW_RELEASED = ''review_released''"
definition REVIEW_ENDED :: string where "REVIEW_ENDED = ''review_ended''"

definition require_under_review :: "exporter_profile \<Rightarrow> crm_error + unit" where
  "require_under_review p = require (background_check p \<in> set UNDER_REVIEW)
     (ReviewNotAssignableError (customer_id p) (background_check p))"

definition refuse_reviewer_is_rm :: "exporter_profile \<Rightarrow> uuid \<Rightarrow> crm_error + unit" where
  "refuse_reviewer_is_rm p user_id =
     require (rm_user_id p \<noteq> Some user_id) (ReviewerIsRelationshipManagerError (customer_id p))"

definition check_reviewer_move :: "exporter_profile \<Rightarrow> uuid \<Rightarrow> crm_error + bool" where
  "check_reviewer_move p actor_id = (case reviewer_id p of
     None \<Rightarrow> bindE (refuse_reviewer_is_rm p actor_id) (\<lambda>_. Inr True)
   | Some holder \<Rightarrow> if holder \<noteq> actor_id
       then Inl (ReviewAssignedToOtherError (customer_id p) holder) else Inr False)"

text \<open>
  The one writer of the two reviewer columns. \<open>members[previous].name if previous in members\<close>
  is \<open>member_name\<close>.
\<close>

definition set_reviewer ::
  "crm_env \<Rightarrow> exporter_profile \<Rightarrow> uuid option \<Rightarrow> string \<Rightarrow> uuid option \<Rightarrow> string option \<Rightarrow> string \<Rightarrow>
   crm_db \<Rightarrow> crm_error + exporter_profile \<times> crm_db" where
  "set_reviewer env p reviewer event actor_id reason source db =
   (let previous = reviewer_id p;
        members = staff_members db [previous, reviewer];
        p = p\<lparr>reviewer_id := reviewer,
              reviewer_assigned_at := (if reviewer \<noteq> None then Some (env_now env) else None)\<rparr>
    in bindE (record_history (customer_id p) ''background_check_assignment''
         (Some (user_or_unassigned previous)) (user_or_unassigned reviewer) actor_id source reason None
         (Some event)
         [(''from_user_id'', d_id previous), (''to_user_id'', d_id reviewer),
          (''from_user_name'', member_name members previous),
          (''to_user_name'', member_name members reviewer),
          (''background_check'', DText (bc_value (background_check p)))]
         (save_profile p db)) (\<lambda>db.
       Inr (p, db)))"

definition claim_review ::
  "crm_env \<Rightarrow> uuid \<Rightarrow> uuid \<Rightarrow> user_role \<Rightarrow> crm_db \<Rightarrow> crm_error + exporter_profile \<times> crm_db" where
  "claim_review env company_id actor_id actor_role db =
   bindE (lock_profile company_id db) (\<lambda>p.
   bindE (require (actor_role \<in> set REVIEWER_ROLES)
       (ReviewerNotEligibleError actor_id ''only compliance or admin users review'')) (\<lambda>_.
   bindE (require_under_review p) (\<lambda>_.
   if reviewer_id p = Some actor_id then Inr (p, db)
   else case reviewer_id p of
     Some holder \<Rightarrow> Inl (ReviewAlreadyAssignedError company_id holder)
   | None \<Rightarrow>
     bindE (refuse_reviewer_is_rm p actor_id) (\<lambda>_.
     set_reviewer env p (Some actor_id) REVIEW_CLAIMED (Some actor_id) None
       ''background_check_service.claim_review'' db))))"

definition assign_review ::
  "crm_env \<Rightarrow> uuid \<Rightarrow> uuid \<Rightarrow> string option \<Rightarrow> uuid \<Rightarrow> user_role \<Rightarrow> permission list \<Rightarrow> crm_db \<Rightarrow>
   crm_error + exporter_profile \<times> crm_db" where
  "assign_review env company_id user_id reason actor_id actor_role actor_permissions db =
   bindE (lock_profile company_id db) (\<lambda>p.
   bindE (require (holds actor_permissions ASSIGN_REVIEWS) (ReviewAssignNotAllowedError company_id)) (\<lambda>_.
   bindE (require_under_review p) (\<lambda>_.
   if reviewer_id p = Some user_id then Inr (p, db)
   else case find_staff_member db user_id of
     None \<Rightarrow> Inl (ReviewerNotEligibleError user_id ''no such user'')
   | Some member \<Rightarrow>
     bindE (require (sm_active member)
         (ReviewerNotEligibleError user_id ''the account is deactivated'')) (\<lambda>_.
     bindE (require (sm_role member \<in> set REVIEWER_ROLES)
         (ReviewerNotEligibleError user_id ''only compliance or admin users review'')) (\<lambda>_.
     bindE (refuse_reviewer_is_rm p user_id) (\<lambda>_.
     let text = clean_text reason in
     bindE (require (reviewer_id p = None \<or> text \<noteq> None) ReviewReasonRequiredError) (\<lambda>_.
     set_reviewer env p (Some (sm_id member))
       (if reviewer_id p = None then REVIEW_ASSIGNED else REVIEW_REASSIGNED) (Some actor_id) text
       ''background_check_service.assign_review'' db)))))))"

definition release_review ::
  "crm_env \<Rightarrow> uuid \<Rightarrow> string option \<Rightarrow> uuid \<Rightarrow> user_role \<Rightarrow> permission list \<Rightarrow> crm_db \<Rightarrow>
   crm_error + exporter_profile \<times> crm_db" where
  "release_review env company_id note actor_id actor_role actor_permissions db =
   bindE (lock_profile company_id db) (\<lambda>p.
   case reviewer_id p of
     None \<Rightarrow> Inr (p, db)
   | Some holder \<Rightarrow>
     if holder \<noteq> actor_id \<and> \<not> holds actor_permissions ASSIGN_REVIEWS
     then Inl (ReviewAssignNotAllowedError company_id)
     else
     bindE (case open_for_company db company_id of
         None \<Rightarrow> Inr ()
       | Some q \<Rightarrow> require (pr_created_by q \<noteq> holder)
           (BackgroundCheckProposalOpenError company_id (pr_id q))) (\<lambda>_.
     set_reviewer env p None REVIEW_RELEASED (Some actor_id) (clean_text note)
       ''background_check_service.release_review'' db))"

datatype review_action = REVIEW_ACTION_CLAIM | REVIEW_ACTION_RELEASE | REVIEW_ACTION_ASSIGN

definition review_actions ::
  "exporter_profile \<Rightarrow> uuid \<Rightarrow> user_role \<Rightarrow> permission list \<Rightarrow> uuid option \<Rightarrow> review_action list" where
  "review_actions p viewer_id viewer_role viewer_permissions open_proposed_by =
   (if background_check p \<notin> set UNDER_REVIEW then []
    else
    let holder = reviewer_id p;
        is_rm = (rm_user_id p \<noteq> None \<and> rm_user_id p = Some viewer_id);
        may_assign = holds viewer_permissions ASSIGN_REVIEWS;
        holder_proposal_open = (open_proposed_by \<noteq> None \<and> open_proposed_by = holder)
    in (if holder = None \<and> viewer_role \<in> set REVIEWER_ROLES \<and> \<not> is_rm then [REVIEW_ACTION_CLAIM] else [])
       @ (if holder \<noteq> None \<and> (holder = Some viewer_id \<or> may_assign) \<and> \<not> holder_proposal_open
          then [REVIEW_ACTION_RELEASE] else [])
       @ (if may_assign then [REVIEW_ACTION_ASSIGN] else []))"

section \<open>Facts about the rules\<close>

lemma map_of_MOVES:
  "map_of MOVES (f, t) = Some roles \<longleftrightarrow>
     (f, t) = (NOT_STARTED, IN_REVIEW) \<and> roles = [OPERATIONS, COMPLIANCE] \<or>
     (f, t) = (MORE_INFO, IN_REVIEW) \<and> roles = [OPERATIONS, COMPLIANCE] \<or>
     (f, t) \<in> {(IN_REVIEW, CLEAR), (IN_REVIEW, MORE_INFO), (IN_REVIEW, FLAGGED), (FLAGGED, ON_HOLD),
       (FLAGGED, IN_REVIEW), (ON_HOLD, IN_REVIEW), (CLEAR, IN_REVIEW)} \<and> roles = [COMPLIANCE]"
  by (cases f; cases t) (auto simp: MOVES_def)

lemma check_move_Inr:
  "check_move p r = Inr (text, method) \<longleftrightarrow>
     (mr_seen r = None \<or> mr_seen r = Some (background_check p)) \<and>
     background_check p \<in> set (mr_expected_from r) \<and>
     (\<exists>roles. map_of MOVES (background_check p, mr_to r) = Some roles \<and> mr_role r \<in> set roles) \<and>
     text = strip_if_given (mr_reason r) \<and>
     (\<not> no_text text \<or> (background_check p, mr_to r) = (NOT_STARTED, IN_REVIEW)) \<and>
     (mr_risk r \<noteq> None \<longleftrightarrow> mr_to r = CLEAR) \<and>
     method = (case mr_method r of Some m \<Rightarrow> m
        | None \<Rightarrow> the (map_of METHOD_FOR_MOVE (background_check p, mr_to r)))"
  by (auto simp: check_move_def Let_def err_simps RISK_REQUIRED_def NO_TEXT_REQUIRED_def)

lemma allowed_moves_iff:
  "(\<exists>m \<in> set (allowed_moves env current role). bm_to m = to_value) \<longleftrightarrow>
     (\<exists>roles. map_of MOVES (current, to_value) = Some roles \<and> role \<in> set roles)"
  by (cases current; cases to_value) (auto simp: allowed_moves_def MOVES_def)

text \<open>
  What the review's own operations do to the row: nothing but the reviewer and the time
  it was assigned.
\<close>

definition reviewer_set :: "crm_env \<Rightarrow> exporter_profile \<Rightarrow> uuid option \<Rightarrow> exporter_profile" where
  "reviewer_set env p u = p\<lparr>reviewer_id := u,
      reviewer_assigned_at := (if u \<noteq> None then Some (env_now env) else None)\<rparr>"

lemma set_reviewer_effect:
  assumes "set_reviewer env p u ev a reason src db = Inr (p', db')"
  shows "p' = reviewer_set env p u"
    and "profile_write (customer_id p) p' db db'"
  using assms
  by (auto simp: set_reviewer_def reviewer_set_def Let_def err_simps intro: profile_write_save_record)

interpretation reviewer_writer: row_writer "\<lambda>p db. set_reviewer env p u ev a reason src db"
  for env u ev a reason src
proof
  fix p db p' db'
  assume "set_reviewer env p u ev a reason src db = Inr (p', db')"
  from set_reviewer_effect [OF this]
  show "customer_id p' = customer_id p" and "profile_write (customer_id p) p' db db'"
    by (auto simp: reviewer_set_def)
qed

lemma claim_review_effect:
  assumes "claim_review env c a role db = Inr (p', db')" and "keyed db"
  obtains p where "profiles db c = Some p" and "profile_write c p' db db'"
    and "role \<in> set REVIEWER_ROLES" and "background_check p \<in> set UNDER_REVIEW"
    and "reviewer_id p = Some a \<and> p' = p \<and> db' = db \<or>
      reviewer_id p = None \<and> rm_user_id p \<noteq> Some a \<and> p' = reviewer_set env p (Some a)"
proof -
  from assms(1) obtain p where p: "profiles db c = Some p" "role \<in> set REVIEWER_ROLES"
      "background_check p \<in> set UNDER_REVIEW"
    and or: "reviewer_id p = Some a \<and> p' = p \<and> db' = db \<or>
      reviewer_id p = None \<and> rm_user_id p \<noteq> Some a \<and> set_reviewer env p (Some a) REVIEW_CLAIMED
        (Some a) None ''background_check_service.claim_review'' db = Inr (p', db')"
    by (auto simp: claim_review_def err_simps require_under_review_def refuse_reviewer_is_rm_def
        split: if_splits option.splits)
  have c: "customer_id p = c" using keyedD [OF assms(2) p(1)] .
  have "profile_write c p' db db'"
    using or profile_write_refl [OF p(1)] set_reviewer_effect(2) c by metis
  from that [OF p(1) this p(2,3)] or show thesis
    using set_reviewer_effect(1) by meson
qed

lemma assign_review_effect:
  assumes "assign_review env c u reason a role perms db = Inr (p', db')" and "keyed db"
  obtains p where "profiles db c = Some p" and "profile_write c p' db db'"
    and "holds perms ASSIGN_REVIEWS" and "background_check p \<in> set UNDER_REVIEW"
    and "reviewer_id p = Some u \<and> p' = p \<and> db' = db \<or>
      rm_user_id p \<noteq> Some u \<and> (\<exists>m. staff db u = Some m \<and> sm_active m \<and>
        sm_role m \<in> set REVIEWER_ROLES \<and> p' = reviewer_set env p (Some (sm_id m)))"
proof -
  from assms(1) obtain p where p: "profiles db c = Some p" "holds perms ASSIGN_REVIEWS"
      "background_check p \<in> set UNDER_REVIEW"
    and or: "reviewer_id p = Some u \<and> p' = p \<and> db' = db \<or>
      rm_user_id p \<noteq> Some u \<and> (\<exists>m ev. staff db u = Some m \<and> sm_active m \<and>
        sm_role m \<in> set REVIEWER_ROLES \<and> set_reviewer env p (Some (sm_id m)) ev (Some a)
          (clean_text reason) ''background_check_service.assign_review'' db = Inr (p', db'))"
    by (auto simp: assign_review_def err_simps require_under_review_def refuse_reviewer_is_rm_def
        Let_def find_staff_member_def split: if_splits option.splits)
  have c: "customer_id p = c" using keyedD [OF assms(2) p(1)] .
  have "profile_write c p' db db'"
    using or profile_write_refl [OF p(1)] set_reviewer_effect(2) c by metis
  from that [OF p(1) this p(2,3)] or show thesis
    using set_reviewer_effect(1) by meson
qed

lemma release_review_effect:
  assumes "release_review env c note a role perms db = Inr (p', db')" and "keyed db"
  obtains p where "profiles db c = Some p" and "profile_write c p' db db'"
    and "p' = p \<and> db' = db \<or> p' = reviewer_set env p None"
proof -
  from assms(1) obtain p where p: "profiles db c = Some p"
    and or: "p' = p \<and> db' = db \<or> set_reviewer env p None REVIEW_RELEASED (Some a)
          (clean_text note) ''background_check_service.release_review'' db = Inr (p', db')"
    by (auto simp: release_review_def err_simps split: if_splits option.splits)
  have c: "customer_id p = c" using keyedD [OF assms(2) p] .
  have "profile_write c p' db db'"
    using or profile_write_refl [OF p] set_reviewer_effect(2) c by metis
  from that [OF p this] or show thesis
    using set_reviewer_effect(1) by meson
qed

end
