(* ===== verification/Background_Check.thy ===== *)
theory Background_Check
  imports Review
begin

text \<open>
  \<open>BackgroundCheckService\<close> of \<open>application/background_check_service.py\<close>: the one move
  implementation, the named moves, \<open>record_decision\<close>, and a new check cycle. Every
  operation locks the company row, and its result is what it commits.
\<close>

section \<open>Reading the inputs\<close>

text \<open>
  \<open>list_for_owner\<close> of \<open>crm_document_repository.py\<close>: one page of the company's documents,
  newest upload first, and the total behind the page.
\<close>

definition owned_by :: "crm_db \<Rightarrow> uuid \<Rightarrow> crm_document list" where
  "owned_by db company_id = filter (\<lambda>d. doc_company d = Some company_id) (documents db)"

definition list_for_owner :: "crm_db \<Rightarrow> uuid \<Rightarrow> nat \<Rightarrow> nat \<Rightarrow> crm_document list \<times> nat" where
  "list_for_owner db company_id limit offset =
     (take limit (drop offset (sort_key (\<lambda>d. - doc_uploaded_at d) (owned_by db company_id))),
      length (owned_by db company_id))"

definition page_size :: nat where "page_size = 200"

text \<open>The \<open>while True\<close> of \<open>_company_documents\<close>, from an offset.\<close>

function document_pages :: "crm_db \<Rightarrow> uuid \<Rightarrow> nat \<Rightarrow> document_input list" where
  "document_pages db company_id offset =
     (let (rows, total) = list_for_owner db company_id page_size offset;
          collected = map (\<lambda>row. \<lparr>di_id = doc_id row, di_scan_status = doc_scan_status row\<rparr>) rows;
          next_offset = offset + length rows
      in if rows = [] \<or> next_offset \<ge> total then collected
         else collected @ document_pages db company_id next_offset)"
  by pat_completeness auto

termination
  by (relation "measure (\<lambda>(db, c, offset). length (owned_by db c) - offset)")
    (auto simp: list_for_owner_def page_size_def)

declare document_pages.simps [simp del]

definition company_documents :: "crm_db \<Rightarrow> uuid \<Rightarrow> document_input list" where
  "company_documents db company_id = document_pages db company_id 0"

text \<open>\<open>_evidence_rows\<close>: \<open>decision_id\<close> is set by the repository.\<close>

definition evidence_rows :: "evidence_selection \<Rightarrow> bc_evidence list" where
  "evidence_rows selection =
     map (\<lambda>(result_id, review_id). \<lparr>ev_decision = 0, ev_kind = VERIFICATION_RESULT,
            ev_document = None, ev_result = Some result_id, ev_review = review_id,
            ev_screening = None\<rparr>) (es_verifications selection)
     @ map (\<lambda>item_id. \<lparr>ev_decision = 0, ev_kind = SCREENING_ITEM, ev_document = None,
            ev_result = None, ev_review = None, ev_screening = Some item_id\<rparr>) (es_screening selection)
     @ map (\<lambda>document_id. \<lparr>ev_decision = 0, ev_kind = DOCUMENT, ev_document = Some document_id,
            ev_result = None, ev_review = None, ev_screening = None\<rparr>) (es_documents selection)"

definition require_clear_prerequisites ::
  "uuid \<Rightarrow> company_compliance_inputs \<Rightarrow> bc_risk option \<Rightarrow> evidence_selection \<Rightarrow> crm_error + unit" where
  "require_clear_prerequisites company_id inputs risk ev =
     (let unmet = evaluate_clear_prerequisites inputs risk ev CLEAR_POLICY
      in require (unmet = []) (BackgroundCheckPrerequisitesUnmetError company_id unmet))"

definition refuse_if_awaiting_approval :: "uuid \<Rightarrow> crm_db \<Rightarrow> crm_error + unit" where
  "refuse_if_awaiting_approval company_id db = (case open_for_company db company_id of
     None \<Rightarrow> Inr ()
   | Some q \<Rightarrow> Inl (BackgroundCheckProposalOpenError company_id (pr_id q)))"

text \<open>\<open>clear_validity\<close> of \<open>compliance_settings.py\<close>.\<close>

definition clear_validity :: "crm_env \<Rightarrow> crm_error + int" where
  "clear_validity env = (if env_clear_validity_days env < 1
     then Inl (ValueError ''CRM_BACKGROUND_CHECK_CLEAR_VALIDITY_DAYS must be at least 1'')
     else Inr (days (env_clear_validity_days env)))"

section \<open>The one move implementation\<close>

text \<open>The f-string \<open>background_check_service.{method}\<close> every row's source is.\<close>

definition bc_source :: "string \<Rightarrow> string" where
  "bc_source method = ''background_check_service.'' @ method"

record move_result =
  mv_decision :: bc_decision
  mv_evidence :: evidence_selection
  mv_announcement :: "customer_announcement option"

text \<open>Step 2b, the maker-checker gate, and step 2c's reviewer.\<close>

definition approval_gate :: "crm_env \<Rightarrow> exporter_profile \<Rightarrow> move_request \<Rightarrow> crm_db \<Rightarrow> crm_error + unit" where
  "approval_gate env p r db = (case mr_approval r of
     Some _ \<Rightarrow> Inr ()
   | None \<Rightarrow>
     if env_maker_checker env \<and> (background_check p, mr_to r) \<in> set APPROVAL_MOVES
     then Inl (BackgroundCheckApprovalRequiredError (background_check p) (mr_to r))
     else refuse_if_awaiting_approval (customer_id p) db)"

definition move_claims :: "exporter_profile \<Rightarrow> move_request \<Rightarrow> crm_error + bool" where
  "move_claims p r =
     (if mr_approval r = None \<and> (background_check p, mr_to r) \<in> set REVIEWER_MOVES
      then check_reviewer_move p (mr_actor r) else Inr False)"

definition move_reclaims :: "exporter_profile \<Rightarrow> move_request \<Rightarrow> bool" where
  "move_reclaims p r \<longleftrightarrow> (background_check p, mr_to r) \<in> set CLAIMING_MOVES \<and>
     \<not> (rm_user_id p \<noteq> None \<and> rm_user_id p = Some (mr_actor r))"

text \<open>
  Step 5's decision row. \<open>stamp\<close> is \<open>clock_timestamp()\<close>, read once by the service on a CLEAR
  or an approval and by the column default otherwise; one transaction reads one of the two.
\<close>

definition decision_row ::
  "crm_env \<Rightarrow> exporter_profile \<Rightarrow> move_request \<Rightarrow> string option \<Rightarrow> uuid \<Rightarrow> bc_decision option \<Rightarrow>
   check_cycle \<Rightarrow> instant option \<Rightarrow> bc_decision" where
  "decision_row env p r text decision_id previous cycle expires_at =
     \<lparr>dn_id = decision_id, dn_company = customer_id p, dn_from = background_check p, dn_to = mr_to r,
      dn_decided_by = mr_actor r, dn_decided_by_kind = MANUAL_KIND, dn_source = MANUAL_SOURCE,
      dn_decided_at = env_db_now env, dn_reason = text, dn_risk = mr_risk r,
      dn_supersedes = map_option dn_id previous, dn_rules_version = Some CURRENT_CLEAR_RULES,
      dn_cycle = Some (cc_id cycle), dn_proposal = map_option (\<lambda>(q, _). pr_id q) (mr_approval r),
      dn_approved_by = map_option snd (mr_approval r),
      dn_approved_at = (if mr_approval r \<noteq> None then Some (env_db_now env) else None),
      dn_expires_at = expires_at\<rparr>"

text \<open>Step 6: the review ends on a decided value, the gauge lands, the review is claimed.\<close>

definition move_gauge ::
  "crm_env \<Rightarrow> exporter_profile \<Rightarrow> move_request \<Rightarrow> bool \<Rightarrow> bool \<Rightarrow> instant option \<Rightarrow> string \<Rightarrow> crm_db \<Rightarrow>
   crm_error + exporter_profile \<times> crm_db" where
  "move_gauge env p r claim reclaim expires_at source db =
   bindE (if mr_to r \<in> set DECIDED \<and> reviewer_id p \<noteq> None
          then set_reviewer env p None REVIEW_ENDED (Some (mr_actor r)) None source db
          else Inr (p, db)) (\<lambda>(p, db).
   let p = p\<lparr>background_check := mr_to r, bc_expires_at := expires_at\<rparr>;
       db = save_profile p db
   in if claim \<and> mr_to r \<notin> set DECIDED \<or> reclaim
      then set_reviewer env p (Some (mr_actor r)) REVIEW_CLAIMED (Some (mr_actor r)) None source db
      else Inr (p, db))"

definition start_needs_rm :: "exporter_profile \<Rightarrow> move_request \<Rightarrow> bool" where
  "start_needs_rm p r \<longleftrightarrow>
     mr_require_rm r \<and> (background_check p, mr_to r) = (NOT_STARTED, IN_REVIEW)"

definition apply_move ::
  "crm_env \<Rightarrow> exporter_profile \<Rightarrow> move_request \<Rightarrow> crm_db \<Rightarrow>
   crm_error + move_result \<times> exporter_profile \<times> crm_db" where
  "apply_move env p r db =
   (let company_id = customer_id p; current = background_check p in
    bindE (check_move p r) (\<lambda>(text, method).
    let source = bc_source method in
    bindE (approval_gate env p r db) (\<lambda>_.
    bindE (move_claims p r) (\<lambda>claim.
    let reclaim = move_reclaims p r in
    bindE (if start_needs_rm p r
           then ensure_relationship_manager p (mr_rm_user r) ''start the background check''
                  (Some (mr_actor r)) (Some (mr_role r)) (mr_permissions r) source db
           else Inr (p, db)) (\<lambda>(p, db).
    bindE (company_inputs company_id db) (\<lambda>inputs.
    let ev = select_evidence inputs (company_documents db company_id) in
    bindE (if mr_to r = CLEAR
           then require_clear_prerequisites company_id inputs (mr_risk r) ev else Inr ()) (\<lambda>_.
    let (cycle, db) = (case mr_cycle r of Some c \<Rightarrow> (c, db)
          | None \<Rightarrow> current_or_initial company_id (mr_actor r) (Some source) (env_now env) db) in
    bindE (latest_for_company company_id db) (\<lambda>previous.
    bindE (if mr_to r = CLEAR
           then bindE (clear_validity env) (\<lambda>v. Inr (Some (env_db_now env + v)))
           else Inr None) (\<lambda>expires_at.
    let (decision_id, db) = (case mr_decision_id r of Some i \<Rightarrow> (i, db) | None \<Rightarrow> fresh_uuid db);
        decision = decision_row env p r text decision_id previous cycle expires_at;
        db = record_decision_rows decision (evidence_rows ev) db
    in
    bindE (move_gauge env p r claim reclaim expires_at source db) (\<lambda>(p, db).
    bindE (record_history company_id ''background_check'' (Some (HText (bc_value current)))
        (HText (bc_value (mr_to r))) (Some (mr_actor r)) source text None None
        [(''decision_id'', DId decision_id),
         (''supersedes_decision_id'', d_id (map_option dn_id previous)),
         (''risk_rating'', d_risk (mr_risk r)), (''evidence_count'', DNum (evidence_count ev)),
         (''cycle_id'', DId (cc_id cycle)), (''rules_version'', DText CURRENT_CLEAR_RULES),
         (''proposal_id'', d_id (map_option (\<lambda>(q, _). pr_id q) (mr_approval r))),
         (''approved_by'', d_id (map_option snd (mr_approval r))),
         (''expires_at'', d_time expires_at)] db) (\<lambda>db.
    bindE (if mr_to r = CLEAR
           then promote_to_customer_if_ready env p (Some (mr_actor r)) ''background_check_clear'' source db
           else Inr (None, p, db)) (\<lambda>(announcement, p, db).
    Inr (\<lparr>mv_decision = decision, mv_evidence = ev, mv_announcement = announcement\<rparr>, p, db)))))))))))))"

text \<open>
  \<open>_to_view\<close>: what the caller is shown of a decision, its evidence as items of the three
  kinds.
\<close>

record evidence_item_view =
  eiv_kind :: evidence_kind
  eiv_result :: "uuid option"
  eiv_review :: "uuid option"
  eiv_screening :: "uuid option"
  eiv_document :: "uuid option"

record decision_view =
  dvw_decision :: bc_decision
  dvw_evidence :: "evidence_item_view list"

definition to_view :: "bc_decision \<Rightarrow> evidence_selection \<Rightarrow> decision_view" where
  "to_view decision selection =
     \<lparr>dvw_decision = decision,
      dvw_evidence =
        map (\<lambda>(result_id, review_id). \<lparr>eiv_kind = VERIFICATION_RESULT, eiv_result = Some result_id,
               eiv_review = review_id, eiv_screening = None, eiv_document = None\<rparr>)
          (es_verifications selection)
        @ map (\<lambda>item_id. \<lparr>eiv_kind = SCREENING_ITEM, eiv_result = None, eiv_review = None,
               eiv_screening = Some item_id, eiv_document = None\<rparr>) (es_screening selection)
        @ map (\<lambda>document_id. \<lparr>eiv_kind = DOCUMENT, eiv_result = None, eiv_review = None,
               eiv_screening = None, eiv_document = Some document_id\<rparr>) (es_documents selection)\<rparr>"

text \<open>
  A move answers with the view; the announcement of a new customer, sent after the commit,
  is returned beside it.
\<close>

type_synonym moved = "decision_view \<times> customer_announcement option"

definition move ::
  "crm_env \<Rightarrow> uuid \<Rightarrow> move_request \<Rightarrow> crm_db \<Rightarrow> crm_error + moved \<times> crm_db" where
  "move env company_id r db =
   bindE (lock_profile company_id db) (\<lambda>p.
   bindE (apply_move env p r db) (\<lambda>(result, p, db).
   Inr ((to_view (mv_decision result) (mv_evidence result), mv_announcement result), db)))"

section \<open>The named moves\<close>

definition start_review ::
  "crm_env \<Rightarrow> uuid \<Rightarrow> uuid \<Rightarrow> user_role \<Rightarrow> permission list \<Rightarrow> uuid option \<Rightarrow> bool \<Rightarrow> crm_db \<Rightarrow>
   crm_error + moved \<times> crm_db" where
  "start_review env company_id actor_id actor_role actor_permissions rm_user require_rm =
     move env company_id ((plain_move IN_REVIEW [NOT_STARTED] actor_id actor_role None None
       (Some ''start_review''))\<lparr>mr_permissions := actor_permissions, mr_rm_user := rm_user,
         mr_require_rm := require_rm\<rparr>)"

definition request_more_info ::
  "crm_env \<Rightarrow> uuid \<Rightarrow> string option \<Rightarrow> uuid \<Rightarrow> user_role \<Rightarrow> crm_db \<Rightarrow> crm_error + moved \<times> crm_db" where
  "request_more_info env company_id note actor_id actor_role =
     move env company_id (plain_move MORE_INFO [IN_REVIEW] actor_id actor_role note None
       (Some ''request_more_info''))"

definition record_more_info ::
  "crm_env \<Rightarrow> uuid \<Rightarrow> string option \<Rightarrow> uuid \<Rightarrow> user_role \<Rightarrow> crm_db \<Rightarrow> crm_error + moved \<times> crm_db" where
  "record_more_info env company_id note actor_id actor_role =
     move env company_id (plain_move IN_REVIEW [MORE_INFO] actor_id actor_role note None
       (Some ''record_more_info''))"

definition flag ::
  "crm_env \<Rightarrow> uuid \<Rightarrow> string option \<Rightarrow> uuid \<Rightarrow> user_role \<Rightarrow> crm_db \<Rightarrow> crm_error + moved \<times> crm_db" where
  "flag env company_id reason actor_id actor_role =
     move env company_id (plain_move FLAGGED [IN_REVIEW] actor_id actor_role reason None
       (Some ''flag''))"

definition hold ::
  "crm_env \<Rightarrow> uuid \<Rightarrow> string option \<Rightarrow> uuid \<Rightarrow> user_role \<Rightarrow> crm_db \<Rightarrow> crm_error + moved \<times> crm_db" where
  "hold env company_id reason actor_id actor_role =
     move env company_id (plain_move ON_HOLD [FLAGGED] actor_id actor_role reason None
       (Some ''hold''))"

definition clear ::
  "crm_env \<Rightarrow> uuid \<Rightarrow> bc_risk option \<Rightarrow> string option \<Rightarrow> uuid \<Rightarrow> user_role \<Rightarrow> crm_db \<Rightarrow>
   crm_error + moved \<times> crm_db" where
  "clear env company_id risk reason actor_id actor_role =
     move env company_id (plain_move CLEAR [IN_REVIEW] actor_id actor_role reason risk
       (Some ''clear''))"

definition reassess ::
  "crm_env \<Rightarrow> uuid \<Rightarrow> string option \<Rightarrow> uuid \<Rightarrow> user_role \<Rightarrow> crm_db \<Rightarrow> crm_error + moved \<times> crm_db" where
  "reassess env company_id reason actor_id actor_role =
     move env company_id (plain_move IN_REVIEW [FLAGGED, ON_HOLD] actor_id actor_role reason None
       (Some ''reassess''))"

definition reopen ::
  "crm_env \<Rightarrow> uuid \<Rightarrow> string option \<Rightarrow> uuid \<Rightarrow> user_role \<Rightarrow> crm_db \<Rightarrow> crm_error + moved \<times> crm_db" where
  "reopen env company_id reason actor_id actor_role =
     move env company_id (plain_move IN_REVIEW [CLEAR] actor_id actor_role reason None
       (Some ''reopen''))"

definition record_decision ::
  "crm_env \<Rightarrow> uuid \<Rightarrow> bc_state \<Rightarrow> string option \<Rightarrow> bc_risk option \<Rightarrow> uuid \<Rightarrow> user_role \<Rightarrow>
   bc_state option \<Rightarrow> permission list \<Rightarrow> uuid option \<Rightarrow> crm_db \<Rightarrow> crm_error + moved \<times> crm_db" where
  "record_decision env company_id to_value reason risk actor_id actor_role seen actor_permissions
     rm_user db =
   (let origins = map (\<lambda>((f, _), _). f) (filter (\<lambda>((_, t), _). t = to_value) MOVES) in
    if origins = [] then Inl (BackgroundCheckMoveNotAllowedError company_id None to_value)
    else move env company_id ((plain_move to_value origins actor_id actor_role reason risk None)
        \<lparr>mr_seen := seen, mr_permissions := actor_permissions, mr_rm_user := rm_user\<rparr>) db)"

section \<open>A new check cycle\<close>

definition CYCLE_ROLES :: "user_role list" where "CYCLE_ROLES = [COMPLIANCE]"
definition CYCLE_START_STATES :: "bc_state list" where
  "CYCLE_START_STATES = [NOT_STARTED, IN_REVIEW, MORE_INFO, CLEAR]"
definition STARTABLE_CYCLE_KINDS :: "cycle_kind list" where
  "STARTABLE_CYCLE_KINDS = [RE_KYC, RE_KYB]"

text \<open>\<open>_CYCLE_LABELS\<close> has no \<open>INITIAL\<close>; that kind is refused before the label is read.\<close>

definition CYCLE_LABELS :: "(cycle_kind \<times> string) list" where
  "CYCLE_LABELS = [(RE_KYC, ''Re-KYC''), (RE_KYB, ''Re-KYB''), (FULL, ''Full re-check'')]"

definition CYCLE_STARTED_EVENT :: string where "CYCLE_STARTED_EVENT = ''check_cycle_started''"

definition startable_cycle_kinds :: "bc_state \<Rightarrow> user_role \<Rightarrow> cycle_kind list" where
  "startable_cycle_kinds current role =
     (if role \<notin> set CYCLE_ROLES \<or> current \<notin> set CYCLE_START_STATES then []
      else STARTABLE_CYCLE_KINDS)"

definition current_cycle_is_empty :: "uuid \<Rightarrow> crm_db \<Rightarrow> crm_error + bool" where
  "current_cycle_is_empty company_id db =
     bindE (company_inputs company_id db) (\<lambda>inputs.
     Inr (ci_verifications inputs = [] \<and> list_all (\<lambda>i. sin_row i = None) (ci_screening inputs)))"

record cycle_action =
  ca_kind :: cycle_kind
  ca_reason_required :: bool
  ca_reopens :: bool

definition cycle_actions ::
  "uuid \<Rightarrow> bc_state \<Rightarrow> user_role \<Rightarrow> crm_db \<Rightarrow> crm_error + cycle_action list" where
  "cycle_actions company_id current role db =
   (let kinds = startable_cycle_kinds current role in
    if kinds = [] \<or> open_for_company db company_id \<noteq> None then Inr []
    else bindE (current_cycle_is_empty company_id db) (\<lambda>empty.
      if empty then Inr []
      else Inr (map (\<lambda>kind. \<lparr>ca_kind = kind, ca_reason_required = True,
        ca_reopens = (current = CLEAR)\<rparr>) kinds)))"

record started_cycle =
  sc_cycle :: check_cycle
  sc_previous :: check_cycle
  sc_reopen :: "decision_view option"

definition start_cycle ::
  "crm_env \<Rightarrow> uuid \<Rightarrow> cycle_kind \<Rightarrow> string option \<Rightarrow> uuid \<Rightarrow> user_role \<Rightarrow> crm_db \<Rightarrow>
   crm_error + started_cycle \<times> crm_db" where
  "start_cycle env company_id kind reason actor_id actor_role db =
   bindE (lock_profile company_id db) (\<lambda>p.
   if actor_role \<notin> set CYCLE_ROLES then Inl (CheckCycleRoleNotAllowedError actor_role)
   else if kind \<notin> set STARTABLE_CYCLE_KINDS
   then Inl (ValidationError ''a cycle of this kind cannot be started here'')
   else let text = strip_if_given reason in
   if no_text text then Inl (ValidationError ''a new check cycle needs a reason'')
   else let current = background_check p in
   if current \<notin> set CYCLE_START_STATES then Inl (CheckCycleNotAllowedError company_id current)
   else
   bindE (refuse_if_awaiting_approval company_id db) (\<lambda>_.
   let now = env_now env;
       (previous, db) = current_or_initial company_id actor_id
         (Some ''background_check_service.start_cycle'') now db
   in
   bindE (current_cycle_is_empty company_id db) (\<lambda>empty.
   if empty then Inl (CheckCycleEmptyError company_id (cc_number previous))
   else
   let (reopen_id, db) = (if current = CLEAR
          then let (i, db) = fresh_uuid db in (Some i, db) else (None, db));
       (cycle, db) = add_next_cycle company_id previous kind (the text) actor_id
          ''background_check_service.start_cycle'' (map_option UuidText reopen_id)
          CURRENT_CLEAR_RULES now db
   in
   bindE (record_history company_id ''check_cycle'' (Some (HNumber (cc_number previous)))
       (HNumber (cc_number cycle)) (Some actor_id) ''background_check_service.start_cycle'' text None
       (Some CYCLE_STARTED_EVENT)
       [(''cycle_id'', DId (cc_id cycle)), (''kind'', DText (cycle_kind_value kind)),
        (''previous_cycle_id'', DId (cc_id previous)),
        (''reopen_decision_id'', d_id reopen_id)] db) (\<lambda>db.
   if current = CLEAR
   then bindE (apply_move env p ((plain_move IN_REVIEW [CLEAR] actor_id actor_role
            (Some (the (map_of CYCLE_LABELS kind) @ '': '' @ the text)) None (Some ''reopen''))
              \<lparr>mr_cycle := Some cycle, mr_decision_id := reopen_id\<rparr>) db)
          (\<lambda>(result, p, db).
          Inr (\<lparr>sc_cycle = cycle, sc_previous = previous, 
                 sc_reopen = Some (to_view (mv_decision result) (mv_evidence result))\<rparr>, db))
   else Inr (\<lparr>sc_cycle = cycle, sc_previous = previous, sc_reopen = None\<rparr>, db)))))"

section \<open>Reads\<close>

definition clear_prerequisites :: "uuid \<Rightarrow> crm_db \<Rightarrow> crm_error + string list" where
  "clear_prerequisites company_id db =
     bindE (company_inputs company_id db) (\<lambda>inputs.
     Inr (evaluate_clear_prerequisites inputs (Some LOW)
       (select_evidence inputs (company_documents db company_id)) CLEAR_POLICY))"

definition required_checks :: "uuid \<Rightarrow> crm_db \<Rightarrow> crm_error + (verification_type \<times> check_state) list" where
  "required_checks company_id db =
     bindE (company_inputs company_id db) (\<lambda>inputs. Inr (required_check_states inputs CLEAR_POLICY))"

section \<open>Every document is read\<close>

lemma document_pages_drop:
  "document_pages db c off = map (\<lambda>d. \<lparr>di_id = doc_id d, di_scan_status = doc_scan_status d\<rparr>)
     (drop off (sort_key (\<lambda>d. - doc_uploaded_at d) (owned_by db c)))"
proof (induction db c off rule: document_pages.induct)
  case (1 db c off)
  let ?s = "sort_key (\<lambda>d. - doc_uploaded_at d) (owned_by db c)"
  let ?rows = "take page_size (drop off ?s)"
  let ?mk = "map (\<lambda>d. \<lparr>di_id = doc_id d, di_scan_status = doc_scan_status d\<rparr>)"
  have len: "length ?s = length (owned_by db c)" by simp
  show ?case
  proof (cases "?rows = [] \<or> off + length ?rows \<ge> length (owned_by db c)")
    case True
    then have "length (drop off ?s) \<le> page_size"
      by (auto simp: page_size_def min_def split: if_splits)
    then have "?rows = drop off ?s" by simp
    with True show ?thesis
      by (subst document_pages.simps) (simp add: list_for_owner_def)
  next
    case False
    then have len': "length ?rows = page_size"
      by (auto simp: page_size_def min_def split: if_splits)
    have drop_page: "drop (off + page_size) ?s = drop page_size (drop off ?s)"
      by (simp add: add.commute)
    have "document_pages db c off = ?mk ?rows @ document_pages db c (off + length ?rows)"
      using False by (subst document_pages.simps) (simp add: list_for_owner_def)
    also have "document_pages db c (off + length ?rows) = ?mk (drop (off + length ?rows) ?s)"
      using False 1 [of "(?rows, length (owned_by db c))" ?rows "length (owned_by db c)"]
      by (simp add: list_for_owner_def)
    also have "?mk ?rows @ ?mk (drop (off + length ?rows) ?s) = ?mk (drop off ?s)"
      unfolding len' drop_page map_append [symmetric] append_take_drop_id ..
    finally show ?thesis .
  qed
qed

lemma company_documents_all:
  "company_documents db c = map (\<lambda>d. \<lparr>di_id = doc_id d, di_scan_status = doc_scan_status d\<rparr>)
     (sort_key (\<lambda>d. - doc_uploaded_at d) (owned_by db c))"
  by (simp add: company_documents_def document_pages_drop)

lemma company_documents_cong: "documents db' = documents db \<Longrightarrow> company_documents db' c = company_documents db c"
  by (simp add: company_documents_all owned_by_def)

lemma latest_for_company_cong:
  "decisions db' = decisions db \<Longrightarrow> latest_for_company c db' = latest_for_company c db"
  by (simp add: latest_for_company_def)

section \<open>The gauge step\<close>

definition gauge_row ::
  "crm_env \<Rightarrow> exporter_profile \<Rightarrow> move_request \<Rightarrow> bool \<Rightarrow> instant option \<Rightarrow> exporter_profile" where
  "gauge_row env p r takes expires_at =
     (let q = (if mr_to r \<in> set DECIDED
               then (if reviewer_id p = None then p else reviewer_set env p None)
               else if takes then reviewer_set env p (Some (mr_actor r)) else p)
      in q\<lparr>background_check := mr_to r, bc_expires_at := expires_at\<rparr>)"

lemma move_gauge_effect:
  assumes "move_gauge env p r claim reclaim e src db = Inr (p', db')"
    and "profiles db (customer_id p) = Some p" and "reclaim \<Longrightarrow> mr_to r \<notin> set DECIDED"
  shows "p' = gauge_row env p r (claim \<or> reclaim) e"
    and "profile_write (customer_id p) p' db db'"
proof -
  from assms(1) obtain p1 db1 where 1: "(if mr_to r \<in> set DECIDED \<and> reviewer_id p \<noteq> None
          then set_reviewer env p None REVIEW_ENDED (Some (mr_actor r)) None src db
          else Inr (p, db)) = Inr (p1, db1)"
    and 2: "(let p = p1\<lparr>background_check := mr_to r, bc_expires_at := e\<rparr>;
       db = save_profile p db1
   in if claim \<and> mr_to r \<notin> set DECIDED \<or> reclaim
      then set_reviewer env p (Some (mr_actor r)) REVIEW_CLAIMED (Some (mr_actor r)) None src db
      else Inr (p, db)) = Inr (p', db')"
    by (auto simp: move_gauge_def bindE_eq_Inr)
  have p1: "p1 = (if mr_to r \<in> set DECIDED \<and> reviewer_id p \<noteq> None then reviewer_set env p None else p)"
    using 1 by (auto dest: set_reviewer_effect(1))
  then have k1: "customer_id p1 = customer_id p" by (simp add: reviewer_set_def)
  have w1: "profile_write (customer_id p) p1 db db1"
  proof (cases "mr_to r \<in> set DECIDED \<and> reviewer_id p \<noteq> None")
    case True
    with 1 show ?thesis by (auto dest: set_reviewer_effect(2))
  next
    case False
    with 1 have "p1 = p \<and> db1 = db" by (auto split: if_splits)
    with profile_write_refl [OF assms(2)] show ?thesis by simp
  qed
  let ?q = "p1\<lparr>background_check := mr_to r, bc_expires_at := e\<rparr>"
  have wq: "profile_write (customer_id p) ?q db (save_profile ?q db1)"
    by (rule profile_write_trans [OF w1 profile_write_save]) (simp add: k1)
  show "p' = gauge_row env p r (claim \<or> reclaim) e"
  proof -
    have p': "p' = (if claim \<and> mr_to r \<notin> set DECIDED \<or> reclaim
        then reviewer_set env ?q (Some (mr_actor r)) else ?q)"
      using 2 by (auto simp: Let_def dest: set_reviewer_effect(1) split: if_splits)
    show ?thesis
      unfolding p' p1 using assms(3) by (auto simp: gauge_row_def Let_def reviewer_set_def)
  qed
  show "profile_write (customer_id p) p' db db'"
  proof (cases "claim \<and> mr_to r \<notin> set DECIDED \<or> reclaim")
    case True
    with 2 have "set_reviewer env ?q (Some (mr_actor r)) REVIEW_CLAIMED (Some (mr_actor r)) None src
        (save_profile ?q db1) = Inr (p', db')" by (simp add: Let_def)
    from set_reviewer_effect(2) [OF this] k1 have "profile_write (customer_id p) p' (save_profile ?q db1) db'"
      by simp
    with wq show ?thesis by (rule profile_write_trans)
  next
    case False
    with 2 wq show ?thesis by (auto simp: Let_def)
  qed
qed

section \<open>What a move writes\<close>

text \<open>
  The tables a move leaves alone, and the effect of one that returns: the guards it passed,
  the decision it appended, and the row it left.
\<close>

definition move_frame :: "crm_db \<Rightarrow> crm_db \<Rightarrow> bool" where
  "move_frame db db' \<longleftrightarrow> proposals db' = proposals db \<and> resolutions db' = resolutions db \<and>
     verifications db' = verifications db \<and> reviews db' = reviews db \<and>
     screenings db' = screenings db \<and> documents db' = documents db \<and> buyers db' = buyers db \<and>
     staff db' = staff db \<and> next_uuid db \<le> next_uuid db' \<and>
     (\<exists>rows. history db' = history db @ rows)"

definition decision_cycle :: "crm_env \<Rightarrow> uuid \<Rightarrow> move_request \<Rightarrow> string \<Rightarrow> crm_db \<Rightarrow> check_cycle \<times> crm_db" where
  "decision_cycle env c r source db = (case mr_cycle r of Some cy \<Rightarrow> (cy, db)
     | None \<Rightarrow> current_or_initial c (mr_actor r) (Some source) (env_now env) db)"

lemma require_clear_prerequisites_Inr:
  "require_clear_prerequisites c inputs risk ev = Inr u \<longleftrightarrow> clear_ready inputs risk ev CLEAR_POLICY"
  by (simp add: require_clear_prerequisites_def Let_def require_eq_Inr evaluate_clear_prerequisites_Nil)

lemma clear_validity_Inr:
  "clear_validity env = Inr v \<longleftrightarrow> 1 \<le> env_clear_validity_days env \<and> v = days (env_clear_validity_days env)"
  by (auto simp: clear_validity_def)

lemma current_or_initial_cases:
  assumes "current_or_initial c a s t db = (cy, db')"
  shows "current_cycle db c = Some cy \<and> db' = db \<or>
    current_cycle db c = None \<and> cc_id cy = next_uuid db \<and> cc_company cy = c \<and> cc_number cy = 1 \<and>
    cc_kind cy = INITIAL \<and> db' = db\<lparr>next_uuid := Suc (next_uuid db), cycles := cycles db @ [cy]\<rparr>"
  using assms by (auto simp: current_or_initial_def fresh_uuid_def Let_def split: option.splits)

lemma reclaims_not_decided: "move_reclaims p r \<Longrightarrow> mr_to r \<notin> set DECIDED"
  by (auto simp: move_reclaims_def move_tables)

text \<open>The intermediate results of a move that returns, in order.\<close>

lemma apply_move_steps:
  assumes am: "apply_move env p r db = Inr (res, p', db')"
  obtains tx meth claim q dba inputs cy dbb prev expires ev d pg dbg dbh ann i dbi where
    "check_move p r = Inr (tx, meth)" and "approval_gate env p r db = Inr ()"
    and "move_claims p r = Inr claim"
    and "(if start_needs_rm p r
           then ensure_relationship_manager p (mr_rm_user r) ''start the background check''
                  (Some (mr_actor r)) (Some (mr_role r)) (mr_permissions r)
                  (bc_source meth) db
           else Inr (p, db)) = Inr (q, dba)"
    and "company_inputs (customer_id p) dba = Inr inputs"
    and "mv_evidence res = ev"
    and "ev = select_evidence inputs (company_documents dba (customer_id p))"
    and "(if mr_to r = CLEAR then require_clear_prerequisites (customer_id p) inputs (mr_risk r) (select_evidence inputs (company_documents dba (customer_id p)))
          else Inr ()) = Inr ()"
    and "decision_cycle env (customer_id p) r (bc_source meth) dba = (cy, dbb)"
    and "latest_for_company (customer_id p) dbb = Inr prev"
    and "(if mr_to r = CLEAR
           then bindE (clear_validity env) (\<lambda>v. Inr (Some (env_db_now env + v)))
           else Inr None) = Inr expires"
    and "(case mr_decision_id r of Some i \<Rightarrow> (i, dbb) | None \<Rightarrow> fresh_uuid dbb) = (i, dbi)"
    and "mv_decision res = d" and "d = decision_row env q r tx i prev cy expires"
    and "move_gauge env q r claim (move_reclaims p r) expires (bc_source meth)
        (record_decision_rows (decision_row env q r tx i prev cy expires)
          (evidence_rows (select_evidence inputs (company_documents dba (customer_id p)))) dbi) = Inr (pg, dbg)"
    and "\<exists>c' dim f t a s rs d evt det. record_history c' dim f t a s rs d evt det dbg = Inr dbh"
    and "(if mr_to r = CLEAR
           then promote_to_customer_if_ready env pg (Some (mr_actor r)) ''background_check_clear''
                 (bc_source meth) dbh
           else Inr (None, pg, dbh)) = Inr (ann, p', db')"
  using am unfolding apply_move_def Let_def bindE_eq_Inr case_prod_eq_Inr decision_cycle_def
  apply -
  apply (simp only: sum.inject prod.inject)
  apply (elim exE conjE)
  apply hypsubst
  apply (rule that)
  apply (assumption | rule refl | (erule trans, simp (no_asm); fail)
    | simp (no_asm_simp) only: move_result.select_convs | (intro exI, assumption)
    | (unfold decision_cycle_def, assumption))+
  done

lemma decision_cycle_effect:
  assumes "decision_cycle env c r src db = (cy, db')"
  shows "cycles db' = cycles db @ (if mr_cycle r = None \<and> current_cycle db c = None then [cy] else [])"
    and "mr_cycle r = Some cy \<or> mr_cycle r = None \<and> (current_cycle db c = Some cy \<or>
      current_cycle db c = None \<and> cc_company cy = c \<and> cc_number cy = 1 \<and> cc_kind cy = INITIAL \<and>
      next_uuid db \<le> cc_id cy \<and> cc_id cy < next_uuid db')"
    and "\<exists>n cs. db' = db\<lparr>cycles := cs, next_uuid := n\<rparr> \<and> next_uuid db \<le> n"
proof -
  have same: "\<exists>n cs. d = d\<lparr>cycles := cs, next_uuid := n\<rparr> \<and> next_uuid d \<le> n" for d :: crm_db
    by (intro exI [of _ "next_uuid d"] exI [of _ "cycles d"]) simp
  consider "mr_cycle r = Some cy" "db' = db"
    | "mr_cycle r = None" "current_cycle db c = Some cy" "db' = db"
    | "mr_cycle r = None" "current_cycle db c = None" "cc_company cy = c" "cc_number cy = 1" "cc_kind cy = INITIAL"
      "cc_id cy = next_uuid db"
      "db' = db\<lparr>cycles := cycles db @ [cy], next_uuid := Suc (next_uuid db)\<rparr>"
    using assms by (auto simp: decision_cycle_def split: option.splits dest: current_or_initial_cases)
  note cs = this
  show "cycles db' = cycles db @ (if mr_cycle r = None \<and> current_cycle db c = None then [cy] else [])"
    by (rule cs) simp_all
  show "mr_cycle r = Some cy \<or> mr_cycle r = None \<and> (current_cycle db c = Some cy \<or>
      current_cycle db c = None \<and> cc_company cy = c \<and> cc_number cy = 1 \<and> cc_kind cy = INITIAL \<and>
      next_uuid db \<le> cc_id cy \<and> cc_id cy < next_uuid db')"
    by (rule cs) simp_all
  show "\<exists>n cs. db' = db\<lparr>cycles := cs, next_uuid := n\<rparr> \<and> next_uuid db \<le> n"
  proof (rule cs)
    assume "db' = db\<lparr>cycles := cycles db @ [cy], next_uuid := Suc (next_uuid db)\<rparr>"
    moreover have "next_uuid db \<le> Suc (next_uuid db)" by simp
    ultimately show ?thesis by blast
  qed (use same [of db] in simp_all)
qed

lemma current_cycle_cong: "cycles db' = cycles db \<Longrightarrow> current_cycle db' c = current_cycle db c"
  by (simp add: current_cycle_def cycles_of_def)

lemma apply_move_effect:
  assumes am: "apply_move env p r db = Inr (res, p', db')"
    and lk: "profiles db (customer_id p) = Some p"
  obtains tx meth claim q inputs cy prev expires where
    "check_move p r = Inr (tx, meth)" and "approval_gate env p r db = Inr ()"
    and "move_claims p r = Inr claim"
    and "\<exists>rm. q = p\<lparr>rm_user_id := rm\<rparr>"
    and "start_needs_rm p r \<and> pipeline_st p = IN_PIPELINE \<longrightarrow> rm_user_id q \<noteq> None"
    and "\<not> start_needs_rm p r \<longrightarrow> q = p"
    and "company_inputs (customer_id p) db = Inr inputs"
    and "mv_evidence res = select_evidence inputs (company_documents db (customer_id p))"
    and "mr_to r = CLEAR \<longrightarrow> clear_ready inputs (mr_risk r) (mv_evidence res) CLEAR_POLICY"
    and "cycles db' = cycles db @ (if mr_cycle r = None \<and> current_cycle db (customer_id p) = None
          then [cy] else [])"
    and "mr_cycle r = Some cy \<or> mr_cycle r = None \<and> (current_cycle db (customer_id p) = Some cy \<or>
          current_cycle db (customer_id p) = None \<and> cc_company cy = customer_id p \<and> cc_number cy = 1 \<and> cc_kind cy = INITIAL \<and>
          next_uuid db \<le> cc_id cy \<and> cc_id cy < next_uuid db')"
    and "latest_for_company (customer_id p) db = Inr prev"
    and "expires = (if mr_to r = CLEAR then Some (env_db_now env + days (env_clear_validity_days env))
          else None)"
    and "mr_to r = CLEAR \<longrightarrow> 1 \<le> env_clear_validity_days env"
    and "mv_decision res = decision_row env p r tx (dn_id (mv_decision res)) prev cy expires"
    and "case mr_decision_id r of Some i \<Rightarrow> dn_id (mv_decision res) = i
          | None \<Rightarrow> next_uuid db \<le> dn_id (mv_decision res) \<and> dn_id (mv_decision res) < next_uuid db'"
    and "decisions db' = decisions db @ [mv_decision res]"
    and "evidence db' = evidence db @
          map (\<lambda>e. e\<lparr>ev_decision := dn_id (mv_decision res)\<rparr>) (evidence_rows (mv_evidence res))"
    and "p' = gauge_row env q r (claim \<or> move_reclaims p r) expires \<or>
         mr_to r = CLEAR \<and> journey_of p = PROSPECT \<and>
         p' = (gauge_row env q r (claim \<or> move_reclaims p r) expires)\<lparr>journey_of := CUSTOMER\<rparr>"
    and "profiles db' = (profiles db)(customer_id p \<mapsto> p')" and "move_frame db db'"
proof -
  let ?c = "customer_id p"
  from am obtain tx meth claim q dba inputs cy dbb prev expires ev d pg dbg dbh ann i dbi where
    1: "check_move p r = Inr (tx, meth)" and 2: "approval_gate env p r db = Inr ()"
    and 3: "move_claims p r = Inr claim"
    and 4: "(if start_needs_rm p r
           then ensure_relationship_manager p (mr_rm_user r) ''start the background check''
                  (Some (mr_actor r)) (Some (mr_role r)) (mr_permissions r)
                  (bc_source meth) db
           else Inr (p, db)) = Inr (q, dba)"
    and 5: "company_inputs ?c dba = Inr inputs"
    and ev: "mv_evidence res = ev"
    and ev': "ev = select_evidence inputs (company_documents dba ?c)"
    and 6: "(if mr_to r = CLEAR then require_clear_prerequisites ?c inputs (mr_risk r) (select_evidence inputs (company_documents dba ?c))
          else Inr ()) = Inr ()"
    and 7: "decision_cycle env ?c r (bc_source meth) dba = (cy, dbb)"
    and 8: "latest_for_company ?c dbb = Inr prev"
    and 9: "(if mr_to r = CLEAR
           then bindE (clear_validity env) (\<lambda>v. Inr (Some (env_db_now env + v)))
           else Inr None) = Inr expires"
    and 10: "(case mr_decision_id r of Some i \<Rightarrow> (i, dbb) | None \<Rightarrow> fresh_uuid dbb) = (i, dbi)"
    and dec: "mv_decision res = d" and dec': "d = decision_row env q r tx i prev cy expires"
    and 11: "move_gauge env q r claim (move_reclaims p r) expires (bc_source meth)
        (record_decision_rows (decision_row env q r tx i prev cy expires)
          (evidence_rows (select_evidence inputs (company_documents dba ?c))) dbi) = Inr (pg, dbg)"
    and 12: "\<exists>c' dim f t a s rs d evt det. record_history c' dim f t a s rs d evt det dbg = Inr dbh"
    and 13: "(if mr_to r = CLEAR
           then promote_to_customer_if_ready env pg (Some (mr_actor r)) ''background_check_clear''
                 (bc_source meth) dbh
           else Inr (None, pg, dbh)) = Inr (ann, p', db')"
    by (rule apply_move_steps)

  have nrm: "\<exists>rm. p = p\<lparr>rm_user_id := rm\<rparr>"
    by (rule exI [of _ "rm_user_id p"]) simp
  have q: "\<exists>rm. q = p\<lparr>rm_user_id := rm\<rparr>" and wa: "profile_write ?c q db dba"
    and qrm: "start_needs_rm p r \<Longrightarrow> pipeline_st p = IN_PIPELINE \<Longrightarrow> rm_user_id q \<noteq> None"
    and qp: "\<not> start_needs_rm p r \<Longrightarrow> q = p"
    using 4 lk nrm by (auto split: if_splits simp: profile_write_refl
        dest: ensure_relationship_manager_effect)
  have qk: "customer_id q = ?c" "background_check q = background_check p" "journey_of q = journey_of p"
    using q by auto
  note fa = profile_write_frame [OF wa]
  have inp: "company_inputs ?c db = Inr inputs"
    using 5 lk by (simp add: company_inputs_cong [of dba ?c db] fa)
  have ev: "mv_evidence res = select_evidence inputs (company_documents db ?c)"
    using ev' company_documents_cong [OF fa(10)] \<open>mv_evidence res = ev\<close> by simp
  have cyc: "cycles dbb = cycles db @ (if mr_cycle r = None \<and> current_cycle db ?c = None then [cy] else [])"
    and cyc': "mr_cycle r = Some cy \<or> mr_cycle r = None \<and> (current_cycle db ?c = Some cy \<or>
          current_cycle db ?c = None \<and> cc_company cy = ?c \<and> cc_number cy = 1 \<and> cc_kind cy = INITIAL \<and>
          next_uuid db \<le> cc_id cy \<and> cc_id cy < next_uuid dbb)"
    and fb: "\<exists>n cs. dbb = dba\<lparr>cycles := cs, next_uuid := n\<rparr> \<and> next_uuid dba \<le> n"
    using decision_cycle_effect [OF 7] current_cycle_cong [OF fa(6)] fa(6,13) by auto
  from fb obtain n cs where dbb: "dbb = dba\<lparr>cycles := cs, next_uuid := n\<rparr>" and n: "next_uuid dba \<le> n"
    by blast
  have latest: "latest_for_company ?c db = Inr prev"
    using 8 fa(2) by (simp add: latest_for_company_def dbb)
  have exp: "expires = (if mr_to r = CLEAR then Some (env_db_now env + days (env_clear_validity_days env))
          else None)" "mr_to r = CLEAR \<Longrightarrow> 1 \<le> env_clear_validity_days env"
    using 9 by (auto simp: bindE_eq_Inr clear_validity_Inr split: if_splits)
  have ready: "mr_to r = CLEAR \<Longrightarrow> clear_ready inputs (mr_risk r) (mv_evidence res) CLEAR_POLICY"
    using 6 \<open>mv_evidence res = ev\<close> ev' by (simp add: require_clear_prerequisites_Inr)
  obtain m where dbi: "dbi = dbb\<lparr>next_uuid := m\<rparr>" and m: "next_uuid dbb \<le> m"
    and ids: "case mr_decision_id r of Some j \<Rightarrow> i = j | None \<Rightarrow> next_uuid dbb \<le> i \<and> i < m"
    using 10 by (auto simp: fresh_uuid_def split: option.splits intro: that [of "next_uuid dbb"])
  have d: "d = decision_row env p r tx i prev cy expires"
    using dec' qk by (simp add: decision_row_def)
  let ?dbr = "record_decision_rows d (evidence_rows ev) dbi"
  have pq: "profiles ?dbr (customer_id q) = Some q"
    by (simp add: dbi dbb fa(1) qk)
  from move_gauge_effect [OF 11 [folded dec' ev'] pq reclaims_not_decided [of p r]]
  have pg: "pg = gauge_row env q r (claim \<or> move_reclaims p r) expires"
    and wg: "profile_write ?c pg ?dbr dbg" by (simp_all add: qk)
  have wh: "profile_write ?c pg dbg dbh"
    using 12 profile_write_frame(1) [OF wg] by (auto intro: profile_write_record)
  have kg: "customer_id pg = ?c" "journey_of pg = journey_of p"
    using qk by (simp_all add: pg gauge_row_def Let_def reviewer_set_def)
  have p': "p' = pg \<or> mr_to r = CLEAR \<and> journey_of p = PROSPECT \<and> p' = pg\<lparr>journey_of := CUSTOMER\<rparr>"
    and wp: "profile_write ?c p' dbh db'"
  proof -
    have pgh: "profiles dbh (customer_id pg) = Some pg"
      using profile_write_frame(1) [OF wh] kg by simp
    show "p' = pg \<or> mr_to r = CLEAR \<and> journey_of p = PROSPECT \<and> p' = pg\<lparr>journey_of := CUSTOMER\<rparr>"
      using 13 kg(2) promote_effect(1) by (fastforce split: if_splits)
    show "profile_write ?c p' dbh db'"
      using 13 promote_effect(2) [OF _ pgh] profile_write_refl [OF pgh] kg(1)
      by (auto split: if_splits)
  qed
  have w: "profile_write ?c p' ?dbr db'"
    by (rule profile_write_trans [OF profile_write_trans [OF wg wh] wp])
  note fw = profile_write_frame [OF w]
  have nx: "next_uuid db \<le> next_uuid dbb" "next_uuid dbb \<le> next_uuid db'"
    using fw(13) m n fa(13) by (simp_all add: dbi dbb)
  show thesis
  proof (rule that)
    show "check_move p r = Inr (tx, meth)" "approval_gate env p r db = Inr ()"
      "move_claims p r = Inr claim" by fact+
    show "case mr_decision_id r of Some i \<Rightarrow> dn_id (mv_decision res) = i
        | None \<Rightarrow> next_uuid db \<le> dn_id (mv_decision res) \<and> dn_id (mv_decision res) < next_uuid db'"
      using ids nx fw(13) \<open>mv_decision res = d\<close> d
      by (auto simp: decision_row_def dbi split: option.splits)
    show "profiles db' = (profiles db)(?c \<mapsto> p')"
      using fw(1) fa(1) by (simp add: dbi dbb)
    show "move_frame db db'"
    proof -
      from profile_write_history [OF w] profile_write_history [OF wa]
      have "\<exists>rows. history db' = history db @ rows" by (auto simp: dbi dbb)
      with fw fa nx show ?thesis by (simp add: move_frame_def dbi dbb)
    qed
    show "mr_cycle r = Some cy \<or> mr_cycle r = None \<and> (current_cycle db ?c = Some cy \<or>
          current_cycle db ?c = None \<and> cc_company cy = ?c \<and> cc_number cy = 1 \<and> cc_kind cy = INITIAL \<and>
          next_uuid db \<le> cc_id cy \<and> cc_id cy < next_uuid db')"
      using cyc' nx by auto
    show "cycles db' = cycles db @ (if mr_cycle r = None \<and> current_cycle db ?c = None then [cy] else [])"
      using fw(6) cyc by (simp add: dbi)
    show "decisions db' = decisions db @ [mv_decision res]"
      using fw(2) fa(2) \<open>mv_decision res = d\<close> by (simp add: dbi dbb)
    show "evidence db' = evidence db @
          map (\<lambda>e. e\<lparr>ev_decision := dn_id (mv_decision res)\<rparr>) (evidence_rows (mv_evidence res))"
      using fw(3) fa(3) \<open>mv_decision res = d\<close> \<open>mv_evidence res = ev\<close>
      by (simp add: record_decision_rows_def dbi dbb)
    show "mv_decision res = decision_row env p r tx (dn_id (mv_decision res)) prev cy expires"
      using \<open>mv_decision res = d\<close> d by (simp add: decision_row_def)
    show "p' = gauge_row env q r (claim \<or> move_reclaims p r) expires \<or>
         mr_to r = CLEAR \<and> journey_of p = PROSPECT \<and>
         p' = (gauge_row env q r (claim \<or> move_reclaims p r) expires)\<lparr>journey_of := CUSTOMER\<rparr>"
      using p' pg by blast
  qed (use q qrm qp inp ev ready latest exp in \<open>blast+\<close>)
qed

end
