(* ===== verification/Approval.thy ===== *)
theory Approval
  imports Background_Check
begin

text \<open>
  Maker-checker: \<open>propose\<close>, \<open>approve\<close>, \<open>reject\<close>, \<open>withdraw\<close> and their helpers in
  \<open>application/background_check_service.py\<close>. The move itself is written by
  \<open>apply_move\<close>, which \<open>approve\<close> alone calls with an approval.
\<close>

section \<open>A proposal as its readers see it\<close>

text \<open>\<open>PROPOSAL_OPEN\<close> or the outcome's value.\<close>

datatype proposal_status = PROPOSAL_OPEN | RESOLVED proposal_outcome

record proposal_view_row =
  pv_proposal :: bc_proposal
  pv_status :: proposal_status
  pv_resolved_by :: "uuid option"
  pv_resolved_at :: "instant option"
  pv_resolution_reason :: "string option"
  pv_decision :: "uuid option"

definition proposal_view :: "bc_proposal \<Rightarrow> bc_resolution option \<Rightarrow> proposal_view_row" where
  "proposal_view proposal resolution =
     \<lparr>pv_proposal = proposal,
      pv_status = (case resolution of None \<Rightarrow> PROPOSAL_OPEN | Some r \<Rightarrow> RESOLVED (rs_outcome r)),
      pv_resolved_by = map_option rs_created_by resolution,
      pv_resolved_at = map_option rs_created_at resolution,
      pv_resolution_reason = (case resolution of None \<Rightarrow> None | Some r \<Rightarrow> rs_reason r),
      pv_decision = (case resolution of None \<Rightarrow> None | Some r \<Rightarrow> rs_decision r)\<rparr>"

definition PROPOSED_EVENT :: string where "PROPOSED_EVENT = ''background_check_proposed''"

fun RESOLVED_EVENTS :: "proposal_outcome \<Rightarrow> string" where
  "RESOLVED_EVENTS APPROVED = ''background_check_approved''"
| "RESOLVED_EVENTS REJECTED = ''background_check_rejected''"
| "RESOLVED_EVENTS WITHDRAWN = ''background_check_withdrawn''"

section \<open>Proposing\<close>

definition propose ::
  "crm_env \<Rightarrow> uuid \<Rightarrow> bc_state \<Rightarrow> string option \<Rightarrow> bc_risk option \<Rightarrow> uuid \<Rightarrow> user_role \<Rightarrow>
   bc_state option \<Rightarrow> crm_db \<Rightarrow> crm_error + proposal_view_row \<times> crm_db" where
  "propose env company_id to_value reason risk actor_id actor_role seen db =
   bindE (lock_profile company_id db) (\<lambda>p.
   let current = background_check p;
       origins = map fst (filter (\<lambda>(_, t). t = to_value) APPROVAL_MOVES);
       source = ''background_check_service.propose''
   in
   if origins = [] then Inl (ValidationError ''the move needs no approval; record it as a decision'')
   else
   bindE (check_move p ((plain_move to_value origins actor_id actor_role reason risk None)
       \<lparr>mr_seen := seen\<rparr>)) (\<lambda>(text, method).
   bindE (refuse_if_awaiting_approval company_id db) (\<lambda>_.
   bindE (if (current, to_value) \<in> set REVIEWER_MOVES then check_reviewer_move p actor_id
          else Inr False) (\<lambda>claim.
   bindE (company_inputs company_id db) (\<lambda>inputs.
   let ev = select_evidence inputs (company_documents db company_id) in
   bindE (if to_value = CLEAR then require_clear_prerequisites company_id inputs risk ev
          else Inr ()) (\<lambda>_.
   bindE (latest_for_company company_id db) (\<lambda>latest.
   case latest of
     None \<Rightarrow> Inl (BackgroundCheckMoveNotAllowedError company_id (Some current) to_value)
   | Some head \<Rightarrow>
     let (cycle, db) = current_or_initial company_id actor_id (Some source) (env_now env) db in
     bindE (if claim then set_reviewer env p (Some actor_id) REVIEW_CLAIMED (Some actor_id) None source db
            else Inr (p, db)) (\<lambda>(p, db).
     let (proposal_id, db) = fresh_uuid db;
         proposal = \<lparr>pr_id = proposal_id, pr_company = company_id, pr_based_on = dn_id head,
            pr_from = current, pr_to = to_value, pr_risk = risk, pr_reason = text,
            pr_fingerprint = inputs_fingerprint env inputs ev, pr_evidence_count = evidence_count ev,
            pr_cycle = cc_id cycle, pr_rules_version = CURRENT_CLEAR_RULES,
            pr_created_by = actor_id, pr_created_at = env_db_now env, pr_source = source\<rparr>;
         db = add_proposal proposal db
     in
     bindE (record_history company_id ''background_check_approval'' None (HText ''OPEN'')
         (Some actor_id) source text None (Some PROPOSED_EVENT)
         [(''proposal_id'', DId proposal_id), (''from_value'', DText (bc_value current)),
          (''to_value'', DText (bc_value to_value)), (''risk_rating'', d_risk risk),
          (''based_on_decision_id'', DId (dn_id head)), (''evidence_count'', DNum (evidence_count ev)),
          (''cycle_id'', DId (cc_id cycle)), (''rules_version'', DText CURRENT_CLEAR_RULES)] db) (\<lambda>db.
     Inr (proposal_view proposal None, db))))))))))"

section \<open>Resolving\<close>

definition refuse_checker_conflict :: "exporter_profile \<Rightarrow> bc_proposal \<Rightarrow> uuid \<Rightarrow> crm_error + unit" where
  "refuse_checker_conflict p proposal actor_id =
     (case checker_conflict actor_id (reviewer_id p) (rm_user_id p) of
        Some why \<Rightarrow> Inl (BackgroundCheckConflictOfInterestError (pr_id proposal) why)
      | None \<Rightarrow> Inr ())"

definition open_proposal_to_resolve ::
  "uuid \<Rightarrow> uuid \<Rightarrow> user_role \<Rightarrow> crm_db \<Rightarrow> crm_error + bc_proposal" where
  "open_proposal_to_resolve company_id proposal_id actor_role db =
     (if actor_role \<notin> set CHECKER_ROLES
      then Inl (BackgroundCheckApproverRoleNotAllowedError actor_role)
      else case get_proposal_for_company db company_id proposal_id of
        None \<Rightarrow> Inl (BackgroundCheckProposalNotFoundError company_id proposal_id)
      | Some (proposal, resolution) \<Rightarrow> (case resolution of
          Some r \<Rightarrow> Inl (BackgroundCheckProposalResolvedError proposal_id (rs_outcome r))
        | None \<Rightarrow> Inr proposal))"

definition staleness ::
  "crm_env \<Rightarrow> exporter_profile \<Rightarrow> bc_proposal \<Rightarrow> crm_db \<Rightarrow> crm_error + string option" where
  "staleness env p proposal db =
   (if background_check p \<noteq> pr_from proposal
    then Inr (Some (''the check is now '' @ bc_value (background_check p)))
    else
    bindE (latest_for_company (customer_id p) db) (\<lambda>head.
    if head = None \<or> dn_id (the head) \<noteq> pr_based_on proposal
    then Inr (Some ''another decision was recorded since'')
    else
    bindE (company_inputs (customer_id p) db) (\<lambda>inputs.
    let ev = select_evidence inputs (company_documents db (customer_id p)) in
    if inputs_fingerprint env inputs ev \<noteq> pr_fingerprint proposal
    then Inr (Some ''its inputs changed since it was proposed'')
    else Inr None)))"

definition resolve ::
  "crm_env \<Rightarrow> bc_proposal \<Rightarrow> proposal_outcome \<Rightarrow> uuid \<Rightarrow> string option \<Rightarrow> uuid option \<Rightarrow> string \<Rightarrow>
   crm_db \<Rightarrow> crm_error + bc_resolution \<times> crm_db" where
  "resolve env proposal outcome actor_id reason decision_id source db =
   (let (resolution_id, db) = fresh_uuid db;
        resolution = \<lparr>rs_id = resolution_id, rs_proposal = pr_id proposal,
           rs_proposed_by = pr_created_by proposal, rs_outcome = outcome, rs_reason = reason,
           rs_decision = decision_id, rs_created_by = actor_id, rs_created_at = env_db_now env,
           rs_source = source\<rparr>;
        db = add_resolution resolution db
    in
    bindE (record_history (pr_company proposal) ''background_check_approval'' (Some (HText ''OPEN''))
        (HText (outcome_value outcome)) (Some actor_id) source reason None
        (Some (RESOLVED_EVENTS outcome))
        [(''proposal_id'', DId (pr_id proposal)), (''from_value'', DText (bc_value (pr_from proposal))),
         (''to_value'', DText (bc_value (pr_to proposal))),
         (''proposed_by'', DId (pr_created_by proposal)), (''decision_id'', d_id decision_id)] db)
      (\<lambda>db. Inr (resolution, db)))"

record approved_proposal =
  ap_decision :: decision_view
  ap_proposal :: proposal_view_row
  ap_announcement :: "customer_announcement option"

definition approve ::
  "crm_env \<Rightarrow> uuid \<Rightarrow> uuid \<Rightarrow> uuid \<Rightarrow> user_role \<Rightarrow> permission list \<Rightarrow> crm_db \<Rightarrow>
   crm_error + approved_proposal \<times> crm_db" where
  "approve env company_id proposal_id actor_id actor_role actor_permissions db =
   bindE (lock_profile company_id db) (\<lambda>p.
   bindE (open_proposal_to_resolve company_id proposal_id actor_role db) (\<lambda>proposal.
   bindE (require (actor_id \<noteq> pr_created_by proposal) (BackgroundCheckSelfApprovalError proposal_id)) (\<lambda>_.
   bindE (refuse_checker_conflict p proposal actor_id) (\<lambda>_.
   bindE (require (\<not> (needs_senior_checker (pr_to proposal) (pr_risk proposal)
         \<and> \<not> holds actor_permissions APPROVE_HIGH_RISK))
       (HighRiskApprovalRequiredError proposal_id (pr_risk proposal))) (\<lambda>_.
   bindE (staleness env p proposal db) (\<lambda>why.
   bindE (require (why = None) (BackgroundCheckProposalStaleError proposal_id (the why))) (\<lambda>_.
   bindE (apply_move env p ((plain_move (pr_to proposal) [pr_from proposal] (pr_created_by proposal)
         actor_role (pr_reason proposal) (pr_risk proposal) None)
         \<lparr>mr_approval := Some (proposal, actor_id)\<rparr>) db) (\<lambda>(result, p, db).
   bindE (resolve env proposal APPROVED actor_id None (Some (dn_id (mv_decision result)))
       ''background_check_service.approve'' db) (\<lambda>(resolution, db).
   Inr (\<lparr>ap_decision = to_view (mv_decision result) (mv_evidence result),
          ap_proposal = proposal_view proposal (Some resolution),
          ap_announcement = mv_announcement result\<rparr>, db))))))))))"

definition reject ::
  "crm_env \<Rightarrow> uuid \<Rightarrow> uuid \<Rightarrow> string option \<Rightarrow> uuid \<Rightarrow> user_role \<Rightarrow> crm_db \<Rightarrow>
   crm_error + proposal_view_row \<times> crm_db" where
  "reject env company_id proposal_id reason actor_id actor_role db =
   bindE (lock_profile company_id db) (\<lambda>p.
   bindE (open_proposal_to_resolve company_id proposal_id actor_role db) (\<lambda>proposal.
   bindE (require (actor_id \<noteq> pr_created_by proposal) (BackgroundCheckSelfApprovalError proposal_id)) (\<lambda>_.
   bindE (refuse_checker_conflict p proposal actor_id) (\<lambda>_.
   let text = strip_if_given reason in
   if no_text text then Inl (ValidationError ''a rejection needs a reason'')
   else
   bindE (resolve env proposal REJECTED actor_id text None ''background_check_service.reject'' db)
     (\<lambda>(resolution, db). Inr (proposal_view proposal (Some resolution), db))))))"

definition withdraw ::
  "crm_env \<Rightarrow> uuid \<Rightarrow> uuid \<Rightarrow> string option \<Rightarrow> uuid \<Rightarrow> user_role \<Rightarrow> permission list \<Rightarrow> crm_db \<Rightarrow>
   crm_error + proposal_view_row \<times> crm_db" where
  "withdraw env company_id proposal_id reason actor_id actor_role actor_permissions db =
   bindE (lock_profile company_id db) (\<lambda>p.
   bindE (open_proposal_to_resolve company_id proposal_id actor_role db) (\<lambda>proposal.
   bindE (if actor_id \<noteq> pr_created_by proposal
          then if \<not> holds actor_permissions ASSIGN_REVIEWS
               then Inl (BackgroundCheckProposalNotYoursError proposal_id False)
               else (case find_staff_member db (pr_created_by proposal) of
                   Some proposer \<Rightarrow> require (\<not> (sm_active proposer \<and> sm_role proposer \<in> set REVIEWER_ROLES))
                       (BackgroundCheckProposalNotYoursError proposal_id True)
                 | None \<Rightarrow> Inr ())
          else Inr ()) (\<lambda>_.
   let text = strip_if_given reason in
   bindE (resolve env proposal WITHDRAWN actor_id (if no_text text then None else text) None
       ''background_check_service.withdraw'' db)
     (\<lambda>(resolution, db). Inr (proposal_view proposal (Some resolution), db)))))"

definition open_proposal ::
  "crm_env \<Rightarrow> uuid \<Rightarrow> crm_db \<Rightarrow> crm_error + (proposal_view_row \<times> string option) option" where
  "open_proposal env company_id db = (case open_for_company db company_id of
     None \<Rightarrow> Inr None
   | Some proposal \<Rightarrow> (case profiles db company_id of
       None \<Rightarrow> Inl (ExporterProfileNotFoundError company_id)
     | Some p \<Rightarrow> bindE (staleness env p proposal db) (\<lambda>why.
         Inr (Some (proposal_view proposal None, why)))))"

section \<open>What the maker-checker operations write\<close>

lemma resolve_effect:
  assumes "resolve env q oc a reason did src db = Inr (rs, db')"
  obtains rows where "db' = db\<lparr>next_uuid := Suc (next_uuid db), resolutions := resolutions db @ [rs],
      history := history db @ rows\<rparr>"
    and "rs = \<lparr>rs_id = next_uuid db, rs_proposal = pr_id q, rs_proposed_by = pr_created_by q,
      rs_outcome = oc, rs_reason = reason, rs_decision = did, rs_created_by = a,
      rs_created_at = env_db_now env, rs_source = src\<rparr>"
proof -
  let ?rs = "\<lparr>rs_id = next_uuid db, rs_proposal = pr_id q, rs_proposed_by = pr_created_by q,
      rs_outcome = oc, rs_reason = reason, rs_decision = did, rs_created_by = a,
      rs_created_at = env_db_now env, rs_source = src\<rparr>"
  from assms have rs: "rs = ?rs"
    and "\<exists>c' dim f t a s rs d evt det. record_history c' dim f t a s rs d evt det
      (add_resolution ?rs (db\<lparr>next_uuid := Suc (next_uuid db)\<rparr>)) = Inr db'"
    unfolding resolve_def Let_def fresh_uuid_def by (simp_all add: bindE_eq_Inr) blast
  then obtain row where "db' = (add_resolution ?rs (db\<lparr>next_uuid := Suc (next_uuid db)\<rparr>))
      \<lparr>history := history db @ [row]\<rparr>"
    by (auto elim!: record_history_shape simp: add_resolution_def)
  then show thesis
    by (intro that [of "[row]"] rs) (simp add: add_resolution_def rs)
qed

lemma open_proposal_to_resolve_Inr:
  assumes "open_proposal_to_resolve c pid role db = Inr q"
  shows "role \<in> set CHECKER_ROLES" "q \<in> set (proposals db)" "pr_id q = pid" "pr_company q = c"
    "resolution_of db pid = None"
  using assms
  by (auto simp: open_proposal_to_resolve_def get_proposal_for_company_def err_simps
      dest: find_filter_Some split: if_splits option.splits)

lemma refuse_if_awaiting_approval_Inr:
  "refuse_if_awaiting_approval c db = Inr u \<longleftrightarrow> open_proposals db c = []"
  by (auto simp: refuse_if_awaiting_approval_def open_for_company_None [symmetric] split: option.splits)

lemma refuse_checker_conflict_Inr:
  "refuse_checker_conflict p q a = Inr u \<longleftrightarrow> reviewer_id p \<noteq> Some a \<and> rm_user_id p \<noteq> Some a"
  by (auto simp: refuse_checker_conflict_def checker_conflict_def)

lemma approve_effect:
  assumes "approve env c pid a role perms db = Inr (out, db')"
  obtains p q res p' db1 rs where "profiles db c = Some p"
    and "open_proposal_to_resolve c pid role db = Inr q" and "a \<noteq> pr_created_by q"
    and "reviewer_id p \<noteq> Some a" and "rm_user_id p \<noteq> Some a"
    and "needs_senior_checker (pr_to q) (pr_risk q) \<longrightarrow> holds perms APPROVE_HIGH_RISK"
    and "staleness env p q db = Inr None"
    and "apply_move env p ((plain_move (pr_to q) [pr_from q] (pr_created_by q) role (pr_reason q)
         (pr_risk q) None)\<lparr>mr_approval := Some (q, a)\<rparr>) db = Inr (res, p', db1)"
    and "resolve env q APPROVED a None (Some (dn_id (mv_decision res)))
         ''background_check_service.approve'' db1 = Inr (rs, db')"
    and "ap_decision out = to_view (mv_decision res) (mv_evidence res)"
    and "ap_proposal out = proposal_view q (Some rs)"
  using assms unfolding approve_def Let_def bindE_eq_Inr case_prod_eq_Inr lock_profile_eq_Inr
    require_eq_Inr refuse_checker_conflict_Inr
  apply -
  apply (simp only: sum.inject prod.inject)
  apply (elim exE conjE)
  apply hypsubst
  apply (rule that)
  apply (assumption | rule refl | erule trans
      | simp (no_asm_simp) only: approved_proposal.select_convs | blast)+
  done

lemma reject_effect:
  assumes "reject env c pid reason a role db = Inr (out, db')"
  obtains p q rs where "profiles db c = Some p" and "open_proposal_to_resolve c pid role db = Inr q"
    and "a \<noteq> pr_created_by q" and "reviewer_id p \<noteq> Some a" and "rm_user_id p \<noteq> Some a"
    and "\<not> no_text (strip_if_given reason)"
    and "resolve env q REJECTED a (strip_if_given reason) None ''background_check_service.reject'' db
      = Inr (rs, db')"
  using assms unfolding reject_def Let_def
  by (auto simp: bindE_eq_Inr lock_profile_eq_Inr require_eq_Inr refuse_checker_conflict_def
      checker_conflict_None err_simps split: option.splits if_splits)

lemma withdraw_effect:
  assumes "withdraw env c pid reason a role perms db = Inr (out, db')"
  obtains p q rs t where "profiles db c = Some p" and "open_proposal_to_resolve c pid role db = Inr q"
    and "a = pr_created_by q \<or> holds perms ASSIGN_REVIEWS \<and>
      (case staff db (pr_created_by q) of None \<Rightarrow> True
       | Some m \<Rightarrow> \<not> (sm_active m \<and> sm_role m \<in> set REVIEWER_ROLES))"
    and "resolve env q WITHDRAWN a t None ''background_check_service.withdraw'' db = Inr (rs, db')"
proof -
  from assms obtain p q rs t where *: "profiles db c = Some p"
      "open_proposal_to_resolve c pid role db = Inr q"
      "(if a \<noteq> pr_created_by q
          then if \<not> holds perms ASSIGN_REVIEWS
               then Inl (BackgroundCheckProposalNotYoursError pid False)
               else (case find_staff_member db (pr_created_by q) of
                   Some proposer \<Rightarrow> require (\<not> (sm_active proposer \<and> sm_role proposer \<in> set REVIEWER_ROLES))
                       (BackgroundCheckProposalNotYoursError pid True)
                 | None \<Rightarrow> Inr ())
          else Inr ()) = Inr ()"
      "resolve env q WITHDRAWN a t None ''background_check_service.withdraw'' db = Inr (rs, db')"
    unfolding withdraw_def Let_def by (auto simp: bindE_eq_Inr lock_profile_eq_Inr)
  show thesis
    by (rule that [OF * (1,2) _ *(4)])
      (use *(3) in \<open>auto simp: find_staff_member_def require_eq_Inr split: if_splits option.splits\<close>)
qed

lemma approval_origin:
  "current \<in> set (map fst (filter (\<lambda>(_, t). t = to_value) APPROVAL_MOVES)) \<longleftrightarrow>
     (current, to_value) \<in> set APPROVAL_MOVES"
  by (force simp: image_iff)

lemma propose_effect:
  assumes pr: "propose env c t reason risk a role seen db = Inr (out, db')" and k: "keyed db"
  obtains p inputs ev head cy q pr where "profiles db c = Some p"
    and "(background_check p, t) \<in> set APPROVAL_MOVES"
    and "\<exists>m. check_move p ((plain_move t [background_check p] a role reason risk None)\<lparr>mr_seen := seen\<rparr>)
      = Inr (pr_reason pr, m)"
    and "open_proposals db c = []"
    and "company_inputs c db = Inr inputs" and "ev = select_evidence inputs (company_documents db c)"
    and "t = CLEAR \<longrightarrow> clear_ready inputs risk ev CLEAR_POLICY"
    and "latest_for_company c db = Inr (Some head)"
    and "q = p \<and> ((background_check p, t) \<in> set REVIEWER_MOVES \<longrightarrow> reviewer_id p = Some a) \<or>
      (background_check p, t) \<in> set REVIEWER_MOVES \<and> reviewer_id p = None \<and> rm_user_id p \<noteq> Some a \<and>
      q = reviewer_set env p (Some a)"
    and "pr_company pr = c" "pr_based_on pr = dn_id head" "pr_from pr = background_check p"
      "pr_to pr = t" "pr_risk pr = risk" "pr_created_by pr = a" "pr_cycle pr = cc_id cy"
      "pr_fingerprint pr = inputs_fingerprint env inputs ev" "pr_evidence_count pr = evidence_count ev"
    and "next_uuid db \<le> pr_id pr" "pr_id pr < next_uuid db'"
    and "proposals db' = proposals db @ [pr]" "resolutions db' = resolutions db"
      "decisions db' = decisions db" "evidence db' = evidence db"
      "profiles db' = (profiles db)(c \<mapsto> q)" "staff db' = staff db"
      "\<exists>rows. history db' = history db @ rows"
      "verifications db' = verifications db" "reviews db' = reviews db"
      "screenings db' = screenings db" "documents db' = documents db"
    and "cycles db' = cycles db @ (if current_cycle db c = None then [cy] else [])"
    and "current_cycle db c = Some cy \<or> current_cycle db c = None \<and> cc_company cy = c \<and>
      cc_number cy = 1 \<and> cc_kind cy = INITIAL \<and> next_uuid db \<le> cc_id cy \<and> cc_id cy < next_uuid db'"
    and "out = proposal_view pr None"
proof -
  let ?src = "''background_check_service.propose''"
  let ?org = "map fst (filter (\<lambda>(_, t'). t' = t) APPROVAL_MOVES)"
  from pr obtain p tx m claim inputs head cy db1 q db2 pr where
    p: "profiles db c = Some p"
    and cm: "check_move p ((plain_move t ?org a role reason risk None)\<lparr>mr_seen := seen\<rparr>) = Inr (tx, m)"
    and aw: "refuse_if_awaiting_approval c db = Inr ()"
    and cl: "(if (background_check p, t) \<in> set REVIEWER_MOVES then check_reviewer_move p a
      else Inr False) = Inr claim"
    and inp: "company_inputs c db = Inr inputs"
    and cp: "(if t = CLEAR then require_clear_prerequisites c inputs risk
        (select_evidence inputs (company_documents db c)) else Inr ()) = Inr ()"
    and hd: "latest_for_company c db = Inr (Some head)"
    and cy: "current_or_initial c a (Some ?src) (env_now env) db = (cy, db1)"
    and rv: "(if claim then set_reviewer env p (Some a) REVIEW_CLAIMED (Some a) None ?src db1
            else Inr (p, db1)) = Inr (q, db2)"
    and prd: "pr = \<lparr>pr_id = next_uuid db2, pr_company = c, pr_based_on = dn_id head,
            pr_from = background_check p, pr_to = t, pr_risk = risk, pr_reason = tx,
            pr_fingerprint = inputs_fingerprint env inputs (select_evidence inputs (company_documents db c)),
            pr_evidence_count = evidence_count (select_evidence inputs (company_documents db c)),
            pr_cycle = cc_id cy, pr_rules_version = CURRENT_CLEAR_RULES,
            pr_created_by = a, pr_created_at = env_db_now env, pr_source = ?src\<rparr>"
    and h: "\<exists>c' dim f t a s rs d evt det. record_history c' dim f t a s rs d evt det
      (add_proposal pr (db2\<lparr>next_uuid := Suc (next_uuid db2)\<rparr>)) = Inr db'"
    and out: "out = proposal_view pr None"
    unfolding propose_def Let_def fresh_uuid_def bindE_eq_Inr case_prod_eq_Inr lock_profile_eq_Inr
      option_case_Inl_eq_Inr if_Inl_eq_Inr
    apply -
    apply (simp only: sum.inject prod.inject)
    apply (elim exE conjE)
    apply hypsubst
    apply (rule that)
    apply (assumption | rule refl | (erule trans, simp (no_asm); fail)| (intro exI, assumption))+
    done
  have c: "customer_id p = c" using keyedD [OF k p] .
  note f1 = current_or_initial_frame [OF cy]
  have p1: "profiles db1 (customer_id p) = Some p" using f1(1) p c by simp
  have w: "profile_write c q db1 db2"
    using rv p1 c set_reviewer_effect(2) [of env p] by (auto split: if_splits intro: profile_write_refl)
  note f2 = profile_write_frame [OF w]
  from h obtain row where db': "db' = (add_proposal pr (db2\<lparr>next_uuid := Suc (next_uuid db2)\<rparr>))
      \<lparr>history := history db2 @ [row]\<rparr>"
    by (auto elim!: record_history_shape simp: add_proposal_def)
  have am: "(background_check p, t) \<in> set APPROVAL_MOVES"
    using cm by (auto simp: check_move_Inr plain_move_def approval_origin [symmetric])
  have q: "q = p \<and> ((background_check p, t) \<in> set REVIEWER_MOVES \<longrightarrow> reviewer_id p = Some a) \<or>
      (background_check p, t) \<in> set REVIEWER_MOVES \<and> reviewer_id p = None \<and> rm_user_id p \<noteq> Some a \<and>
      q = reviewer_set env p (Some a)"
    using rv cl set_reviewer_effect(1)
    by (fastforce simp: check_reviewer_move_def refuse_reviewer_is_rm_def bindE_eq_Inr require_eq_Inr
        split: if_splits option.splits)
  have cyc: "cycles db1 = cycles db @ (if current_cycle db c = None then [cy] else [])"
      "current_cycle db c = Some cy \<or> current_cycle db c = None \<and> cc_company cy = c \<and>
       cc_number cy = 1 \<and> cc_kind cy = INITIAL \<and> next_uuid db \<le> cc_id cy \<and> cc_id cy < next_uuid db1"
    using current_or_initial_cases [OF cy] by auto
  show thesis
  proof (rule that [OF p am _ _ inp refl _ hd q, where pr = pr])
    show "\<exists>m. check_move p ((plain_move t [background_check p] a role reason risk None)\<lparr>mr_seen := seen\<rparr>)
      = Inr (pr_reason pr, m)"
      using cm by (auto simp: check_move_Inr plain_move_def prd)
    show "t = CLEAR \<longrightarrow> clear_ready inputs risk (select_evidence inputs (company_documents db c)) CLEAR_POLICY"
      using cp by (auto simp: require_clear_prerequisites_Inr)
    show "open_proposals db c = []" using aw by (simp add: refuse_if_awaiting_approval_Inr)
    show "cycles db' = cycles db @ (if current_cycle db c = None then [cy] else [])"
      using cyc f2 by (simp add: db' add_proposal_def)
    show "current_cycle db c = Some cy \<or> current_cycle db c = None \<and> cc_company cy = c \<and>
      cc_number cy = 1 \<and> cc_kind cy = INITIAL \<and> next_uuid db \<le> cc_id cy \<and> cc_id cy < next_uuid db'"
      using cyc f2(13) by (auto simp: db' add_proposal_def)
    show "\<exists>rows. history db' = history db @ rows"
      using profile_write_history [OF w] f1(11) by (auto simp: db' add_proposal_def)
  qed (use f1 f2 out in \<open>simp_all add: db' prd add_proposal_def\<close>)
qed

end
