(* ===== verification/Integrity.thy ===== *)
theory Integrity
  imports Approval
begin

text \<open>
  What the background-check tables always satisfy. The CHECK constraints the tables declare
  (\<open>domain/entities/background_check_decision.py\<close>, \<open>background_check_proposal.py\<close>,
  \<open>check_cycle.py\<close>, \<open>exporter_profile.py\<close>) are executable predicates on a row; the invariants
  say that every row satisfies them, that a company's decisions form one chain whose end
  is its gauge, that at most one proposal of a company is open and rests on that end, and that
  cycles are numbered 1, 2, 3 without a gap. Each operation's effect preserves them.
\<close>

section \<open>Row constraints\<close>

text \<open>\<open>btrim(x) <> ''\<close>: blank means nothing but spaces; the services strip all white space first.\<close>

definition not_blank :: "string option \<Rightarrow> bool" where
  "not_blank t = (case t of None \<Rightarrow> False | Some s \<Rightarrow> list_ex (\<lambda>c. c \<noteq> CHR '' '') s)"

definition decision_checks :: "bc_decision \<Rightarrow> bool" where
  "decision_checks d \<longleftrightarrow>
     map_of MOVES (dn_from d, dn_to d) \<noteq> None \<and>
     (dn_from d = NOT_STARTED \<or> not_blank (dn_reason d)) \<and>
     (dn_to d \<noteq> CLEAR \<or> dn_risk d \<noteq> None) \<and>
     (dn_to d = CLEAR \<or> dn_risk d = None) \<and>
     ((dn_from d = NOT_STARTED) = (dn_supersedes d = None)) \<and>
     ((dn_proposal d = None) = (dn_approved_by d = None)) \<and>
     ((dn_approved_by d = None) = (dn_approved_at d = None)) \<and>
     (dn_approved_by d = None \<or> dn_approved_by d \<noteq> Some (dn_decided_by d)) \<and>
     (case dn_expires_at d of None \<Rightarrow> True | Some e \<Rightarrow> dn_to d = CLEAR \<and> e > dn_decided_at d)"

definition evidence_checks :: "bc_evidence \<Rightarrow> bool" where
  "evidence_checks e \<longleftrightarrow>
     (ev_kind e = DOCUMENT \<and> ev_document e \<noteq> None \<and> ev_result e = None \<and> ev_review e = None \<and>
       ev_screening e = None) \<or>
     (ev_kind e = VERIFICATION_RESULT \<and> ev_result e \<noteq> None \<and> ev_document e = None \<and>
       ev_screening e = None) \<or>
     (ev_kind e = SCREENING_ITEM \<and> ev_screening e \<noteq> None \<and> ev_document e = None \<and>
       ev_result e = None \<and> ev_review e = None)"

definition proposal_checks :: "bc_proposal \<Rightarrow> bool" where
  "proposal_checks q \<longleftrightarrow> (pr_from q, pr_to q) \<in> set APPROVAL_MOVES \<and> not_blank (pr_reason q) \<and>
     ((pr_to q = CLEAR) = (pr_risk q \<noteq> None))"

text \<open>
  The resolution's constraints as the database holds them since migration
  \<open>onboarding_0044_assignment.py\<close>; the entity still declares the stricter
  \<open>declared_who\<close>.
\<close>

definition resolution_checks :: "bc_resolution \<Rightarrow> bool" where
  "resolution_checks r \<longleftrightarrow>
     (rs_outcome r = WITHDRAWN \<or> rs_created_by r \<noteq> rs_proposed_by r) \<and>
     ((rs_outcome r = APPROVED) = (rs_decision r \<noteq> None)) \<and>
     (rs_outcome r \<noteq> REJECTED \<or> not_blank (rs_reason r))"

definition declared_who :: "bc_resolution \<Rightarrow> bool" where
  "declared_who r \<longleftrightarrow> (rs_outcome r = WITHDRAWN) = (rs_created_by r = rs_proposed_by r)"

definition cycle_checks :: "check_cycle \<Rightarrow> bool" where
  "cycle_checks c \<longleftrightarrow> 1 \<le> cc_number c \<and> (cc_number c = 1) = (cc_kind c = INITIAL) \<and>
     (cc_number c = 1 \<or> not_blank (cc_reason c))"

definition reviewer_checks :: "exporter_profile \<Rightarrow> bool" where
  "reviewer_checks p \<longleftrightarrow>
     (reviewer_id p = None) = (reviewer_assigned_at p = None) \<and>
     (reviewer_id p = None \<or> background_check p \<in> {IN_REVIEW, MORE_INFO})"

lemma strip_not_blank:
  assumes "\<not> no_text (strip_if_given r)"
  shows "not_blank (strip_if_given r)"
proof -
  from assms obtain s where s: "strip_if_given r = Some (py_strip s)" and ne: "py_strip s \<noteq> []"
    by (auto simp: strip_if_given_def split: option.splits if_splits)
  let ?d = "dropWhile py_space (rev (dropWhile py_space s))"
  have d: "?d \<noteq> []" using ne by (simp add: py_strip_def)
  then have "hd ?d \<in> set (py_strip s)" by (simp add: py_strip_def)
  moreover have "\<not> py_space (hd ?d)" by (rule hd_dropWhile [OF d])
  moreover have "py_space (CHR '' '')" by (simp add: py_space_def Let_def)
  ultimately have "\<exists>c \<in> set (py_strip s). c \<noteq> CHR '' ''" by metis
  then show ?thesis by (simp add: s not_blank_def list_ex_iff)
qed

lemma evidence_rows_checks: "e \<in> set (evidence_rows s) \<Longrightarrow> evidence_checks e"
  by (auto simp: evidence_rows_def evidence_checks_def)

section \<open>The chain and the gauge\<close>

fun gauge_path :: "bc_state \<Rightarrow> bc_decision list \<Rightarrow> bool" where
  "gauge_path s [] = True"
| "gauge_path s (d # ds) = (dn_from d = s \<and> gauge_path (dn_to d) ds)"

definition gauge_after :: "bc_decision list \<Rightarrow> bc_state" where
  "gauge_after ds = (if ds = [] then NOT_STARTED else dn_to (last ds))"

definition expiry_after :: "bc_decision list \<Rightarrow> instant option" where
  "expiry_after ds = (if ds = [] then None else dn_expires_at (last ds))"

lemma gauge_path_append:
  "gauge_path s (ds @ [d]) \<longleftrightarrow> gauge_path s ds \<and> dn_from d = (if ds = [] then s else dn_to (last ds))"
  by (induction ds arbitrary: s) auto

definition chain_ok :: "crm_db \<Rightarrow> bool" where
  "chain_ok db \<longleftrightarrow> keyed db \<and> decisions_chained (decisions db) \<and>
     (\<forall>d \<in> set (decisions db). dn_id d < next_uuid db \<and> decision_checks d \<and>
        profiles db (dn_company d) \<noteq> None) \<and>
     (\<forall>e \<in> set (evidence db). evidence_checks e) \<and>
     (\<forall>c. gauge_path NOT_STARTED (decisions_of db c)) \<and>
     (\<forall>c p. profiles db c = Some p \<longrightarrow> background_check p = gauge_after (decisions_of db c) \<and>
        bc_expires_at p = expiry_after (decisions_of db c))"

lemma chain_ok_latest:
  assumes "chain_ok db"
  shows "latest_for_company c db =
    Inr (if decisions_of db c = [] then None else Some (last (decisions_of db c)))"
  using assms latest_of_chain by (auto simp: chain_ok_def)

lemma chain_okD:
  assumes "chain_ok db"
  shows "keyed db" and "decisions_chained (decisions db)"
    and "d \<in> set (decisions db) \<Longrightarrow> dn_id d < next_uuid db"
    and "d \<in> set (decisions db) \<Longrightarrow> decision_checks d"
    and "d \<in> set (decisions db) \<Longrightarrow> profiles db (dn_company d) \<noteq> None"
    and "e \<in> set (evidence db) \<Longrightarrow> evidence_checks e"
    and "gauge_path NOT_STARTED (decisions_of db c)"
    and "profiles db c = Some p \<Longrightarrow> background_check p = gauge_after (decisions_of db c)"
    and "profiles db c = Some p \<Longrightarrow> bc_expires_at p = expiry_after (decisions_of db c)"
  using assms unfolding chain_ok_def by blast+

lemma chain_ok_no_company:
  assumes "chain_ok db" and "profiles db c = None"
  shows "decisions_of db c = []"
  using chain_okD(5) [OF assms(1)] assms(2) by (fastforce simp: decisions_of_def filter_empty_conv)

definition rows_keep_gauge :: "crm_db \<Rightarrow> crm_db \<Rightarrow> bool" where
  "rows_keep_gauge db db' \<longleftrightarrow>
     (\<forall>c. profiles db' c = None \<longrightarrow> profiles db c = None) \<and>
     (\<forall>c p'. profiles db' c = Some p' \<longrightarrow> customer_id p' = c \<and>
        (profiles db c = None \<and> background_check p' = NOT_STARTED \<and> bc_expires_at p' = None \<or>
         (\<exists>p. profiles db c = Some p \<and> background_check p' = background_check p \<and>
            bc_expires_at p' = bc_expires_at p)))"

lemma rows_keep_gaugeD:
  assumes "rows_keep_gauge db db'"
  shows "profiles db' c = None \<Longrightarrow> profiles db c = None"
    and "profiles db' c = Some p' \<Longrightarrow> customer_id p' = c"
    and "profiles db' c = Some p' \<Longrightarrow>
        profiles db c = None \<and> background_check p' = NOT_STARTED \<and> bc_expires_at p' = None \<or>
         (\<exists>p. profiles db c = Some p \<and> background_check p' = background_check p \<and>
            bc_expires_at p' = bc_expires_at p)"
  using assms unfolding rows_keep_gauge_def by simp_all

lemma decisions_of_cong: "decisions db' = decisions db \<Longrightarrow> decisions_of db' c = decisions_of db c"
  by (simp add: decisions_of_def)

lemma chain_ok_frame:
  assumes ok: "chain_ok db" and d: "decisions db' = decisions db" and e: "evidence db' = evidence db"
    and n: "next_uuid db \<le> next_uuid db'" and g: "rows_keep_gauge db db'"
  shows "chain_ok db'"
proof -
  note p = rows_keep_gaugeD(2) [OF g] and none = rows_keep_gaugeD(1) [OF g]
  note new = chain_ok_no_company [OF ok] and old = chain_okD(8,9) [OF ok]
  have gauge: "background_check p' = gauge_after (decisions_of db c) \<and>
      bc_expires_at p' = expiry_after (decisions_of db c)" if p': "profiles db' c = Some p'" for c p'
  proof (cases "profiles db c")
    case None
    with rows_keep_gaugeD(3) [OF g p'] show ?thesis
      by (simp add: new gauge_after_def expiry_after_def)
  next
    case (Some p)
    with rows_keep_gaugeD(3) [OF g p'] have "background_check p' = background_check p"
      "bc_expires_at p' = bc_expires_at p" by simp_all
    then show ?thesis using old [OF Some] by (simp only:)
  qed
  show ?thesis
    unfolding chain_ok_def
  proof (intro conjI)
    show "keyed db'" using p by (auto simp: keyed_def)
    show "decisions_chained (decisions db')" using chain_okD(2) [OF ok] d by simp
    show "\<forall>d \<in> set (decisions db'). dn_id d < next_uuid db' \<and> decision_checks d \<and>
        profiles db' (dn_company d) \<noteq> None"
      using chain_okD(3,4,5) [OF ok] n none unfolding d by (meson less_le_trans)
    show "\<forall>x \<in> set (evidence db'). evidence_checks x" using chain_okD(6) [OF ok] e by simp
    show "\<forall>c. gauge_path NOT_STARTED (decisions_of db' c)"
      using chain_okD(7) [OF ok] by (simp add: decisions_of_cong [OF d])
    show "\<forall>c p. profiles db' c = Some p \<longrightarrow> background_check p = gauge_after (decisions_of db' c) \<and>
        bc_expires_at p = expiry_after (decisions_of db' c)"
      using gauge unfolding decisions_of_cong [OF d] by blast
  qed
qed

section \<open>A move keeps the chain\<close>

text \<open>
  The requests the service makes of \<open>apply_move\<close>: an approval comes from someone other than
  the proposer the decision is recorded for, and a fixed decision id is new.
\<close>

definition sound_request :: "move_request \<Rightarrow> crm_db \<Rightarrow> bool" where
  "sound_request r db \<longleftrightarrow>
     (case mr_approval r of None \<Rightarrow> True | Some (q, a) \<Rightarrow> a \<noteq> mr_actor r) \<and>
     (case mr_decision_id r of None \<Rightarrow> True
      | Some i \<Rightarrow> i < next_uuid db \<and> i \<notin> dn_id ` set (decisions db))"

lemma decisions_of_append:
  "decisions db' = decisions db @ [d] \<Longrightarrow>
   decisions_of db' c = decisions_of db c @ (if dn_company d = c then [d] else [])"
  by (simp add: decisions_of_def)

lemma decision_row_simps [simp]:
  "dn_company (decision_row env p r t i prev cy e) = customer_id p"
  "dn_from (decision_row env p r t i prev cy e) = background_check p"
  "dn_to (decision_row env p r t i prev cy e) = mr_to r"
  "dn_id (decision_row env p r t i prev cy e) = i"
  "dn_supersedes (decision_row env p r t i prev cy e) = map_option dn_id prev"
  "dn_expires_at (decision_row env p r t i prev cy e) = e"
  "dn_risk (decision_row env p r t i prev cy e) = mr_risk r"
  "dn_reason (decision_row env p r t i prev cy e) = t"
  "dn_decided_by (decision_row env p r t i prev cy e) = mr_actor r"
  "dn_decided_at (decision_row env p r t i prev cy e) = env_db_now env"
  "dn_proposal (decision_row env p r t i prev cy e) = map_option (\<lambda>(q, _). pr_id q) (mr_approval r)"
  "dn_approved_by (decision_row env p r t i prev cy e) = map_option snd (mr_approval r)"
  "dn_cycle (decision_row env p r t i prev cy e) = Some (cc_id cy)"
  by (simp_all add: decision_row_def)

lemma days_pos: "1 \<le> n \<Longrightarrow> 0 < days n"
  by (simp add: days_def)

lemma gauge_row_simps [simp]:
  "background_check (gauge_row env p r b e) = mr_to r"
  "bc_expires_at (gauge_row env p r b e) = e"
  "customer_id (gauge_row env p r b e) = customer_id p"
  "journey_of (gauge_row env p r b e) = journey_of p"
  "rm_user_id (gauge_row env p r b e) = rm_user_id p"
  "pipeline_st (gauge_row env p r b e) = pipeline_st p"
  by (simp_all add: gauge_row_def Let_def reviewer_set_def)

lemma chain_ok_last:
  assumes "chain_ok db" and "profiles db c = Some p" and "latest_for_company c db = Inr prev"
  shows "prev = (if decisions_of db c = [] then None else Some (last (decisions_of db c)))"
    and "background_check p = (case prev of None \<Rightarrow> NOT_STARTED | Some d \<Rightarrow> dn_to d)"
  using chain_ok_latest [OF assms(1), of c] assms(3) chain_okD(8) [OF assms(1,2)]
  by (auto simp: gauge_after_def)

lemma never_to_not_started: "map_of MOVES (f, t) \<noteq> None \<Longrightarrow> t \<noteq> NOT_STARTED"
  by (auto simp: map_of_MOVES)

lemma decision_row_checks:
  assumes ok: "chain_ok db" and p: "profiles db (customer_id p) = Some p"
    and cm: "check_move p r = Inr (tx, m)" and so: "sound_request r db"
    and lt: "latest_for_company (customer_id p) db = Inr prev"
    and e: "e = (if mr_to r = CLEAR then Some (env_db_now env + days (env_clear_validity_days env)) else None)"
    and v: "mr_to r = CLEAR \<longrightarrow> 1 \<le> env_clear_validity_days env"
  shows "decision_checks (decision_row env p r tx i prev cy e)"
proof -
  from cm have mv: "map_of MOVES (background_check p, mr_to r) \<noteq> None"
    and tx: "tx = strip_if_given (mr_reason r)"
      "\<not> no_text tx \<or> background_check p = NOT_STARTED"
    and risk: "mr_risk r \<noteq> None \<longleftrightarrow> mr_to r = CLEAR"
    by (auto simp: check_move_Inr)
  note pv = chain_ok_last [OF ok p lt]
  have first: "background_check p = NOT_STARTED \<longleftrightarrow> prev = None"
  proof (cases prev)
    case None
    with pv(2) show ?thesis by simp
  next
    case (Some d)
    then have "d \<in> set (decisions db)" using lt by (simp add: latest_for_company_in(1))
    then have "map_of MOVES (dn_from d, dn_to d) \<noteq> None"
      using chain_okD(4) [OF ok] by (simp add: decision_checks_def)
    with never_to_not_started Some pv(2) show ?thesis by auto
  qed
  show ?thesis
    unfolding decision_checks_def
    using mv risk first strip_not_blank [of "mr_reason r"] tx so v days_pos
    by (auto simp: e sound_request_def decision_row_def split: option.splits)
qed

lemma evidence_checks_pinned [simp]: "evidence_checks (e\<lparr>ev_decision := i\<rparr>) = evidence_checks e"
  by (simp add: evidence_checks_def)

lemma chain_ok_move:
  assumes ok: "chain_ok db" and p: "profiles db (customer_id p) = Some p"
    and am: "apply_move env p r db = Inr (res, p', db')" and so: "sound_request r db"
  shows "chain_ok db'"
proof -
  let ?c = "customer_id p"
  obtain tx meth claim q cy prev expires where
    cm: "check_move p r = Inr (tx, meth)" and q: "\<exists>rm. q = p\<lparr>rm_user_id := rm\<rparr>"
    and lt: "latest_for_company ?c db = Inr prev"
    and e: "expires = (if mr_to r = CLEAR then Some (env_db_now env + days (env_clear_validity_days env))
          else None)"
    and v: "mr_to r = CLEAR \<longrightarrow> 1 \<le> env_clear_validity_days env"
    and d: "mv_decision res = decision_row env p r tx (dn_id (mv_decision res)) prev cy expires"
    and i: "case mr_decision_id r of Some i \<Rightarrow> dn_id (mv_decision res) = i
          | None \<Rightarrow> next_uuid db \<le> dn_id (mv_decision res) \<and> dn_id (mv_decision res) < next_uuid db'"
    and ds: "decisions db' = decisions db @ [mv_decision res]"
    and ev: "evidence db' = evidence db @
          map (\<lambda>e. e\<lparr>ev_decision := dn_id (mv_decision res)\<rparr>) (evidence_rows (mv_evidence res))"
    and row: "p' = gauge_row env q r (claim \<or> move_reclaims p r) expires \<or>
         mr_to r = CLEAR \<and> journey_of p = PROSPECT \<and>
         p' = (gauge_row env q r (claim \<or> move_reclaims p r) expires)\<lparr>journey_of := CUSTOMER\<rparr>"
    and pr: "profiles db' = (profiles db)(?c \<mapsto> p')" and fr: "move_frame db db'"
    by (rule apply_move_effect [OF am p], rule that, assumption+)
  let ?d = "mv_decision res"
  have dc: "dn_company ?d = ?c" "dn_from ?d = background_check p" "dn_to ?d = mr_to r"
    "dn_supersedes ?d = map_option dn_id prev" "dn_expires_at ?d = expires"
    by (subst d, simp)+
  have chk: "decision_checks ?d"
    by (subst d) (rule decision_row_checks [OF ok p cm so lt e v])
  have n: "next_uuid db \<le> next_uuid db'" using fr by (simp add: move_frame_def)
  have old: "dn_id x < next_uuid db" if "x \<in> set (decisions db)" for x
    using chain_okD(3) [OF ok that] .
  have idlt: "dn_id ?d < next_uuid db'" and new: "dn_id ?d \<notin> dn_id ` set (decisions db)"
    using i so n by (auto simp: sound_request_def split: option.splits dest: old)
  have ch: "decisions_chained (decisions db')"
    unfolding ds by (rule append_decision_chained [OF chain_okD(2) [OF ok] new]) (simp_all add: dc lt)
  have p': "customer_id p' = ?c" "background_check p' = mr_to r" "bc_expires_at p' = expires"
    using row q by auto
  note dof = decisions_of_append [OF ds, unfolded dc(1)]
  show ?thesis
    unfolding chain_ok_def
  proof (intro conjI)
    show "keyed db'" using chain_okD(1) [OF ok] p' by (simp add: keyed_def pr)
    show "decisions_chained (decisions db')" by fact
    show "\<forall>d \<in> set (decisions db'). dn_id d < next_uuid db' \<and> decision_checks d \<and>
        profiles db' (dn_company d) \<noteq> None"
    proof
      fix x assume "x \<in> set (decisions db')"
      then consider "x \<in> set (decisions db)" | "x = ?d" using ds by auto
      then show "dn_id x < next_uuid db' \<and> decision_checks x \<and> profiles db' (dn_company x) \<noteq> None"
      proof cases
        case 1
        then have "profiles db (dn_company x) \<noteq> None" and "decision_checks x" and "dn_id x < next_uuid db"
          using chain_okD(3,4,5) [OF ok] by blast+
        then show ?thesis using n by (simp add: pr)
      next
        case 2
        with idlt chk dc(1) show ?thesis by (simp add: pr)
      qed
    qed
    show "\<forall>x \<in> set (evidence db'). evidence_checks x"
      unfolding ev using chain_okD(6) [OF ok] evidence_rows_checks by auto
    show "\<forall>c. gauge_path NOT_STARTED (decisions_of db' c)"
      using chain_okD(7) [OF ok] chain_okD(8) [OF ok p]
      by (simp add: dof gauge_path_append dc gauge_after_def)
    show "\<forall>c p. profiles db' c = Some p \<longrightarrow> background_check p = gauge_after (decisions_of db' c) \<and>
        bc_expires_at p = expiry_after (decisions_of db' c)"
    proof (intro allI impI)
      fix c x assume x: "profiles db' c = Some x"
      show "background_check x = gauge_after (decisions_of db' c) \<and>
        bc_expires_at x = expiry_after (decisions_of db' c)"
      proof (cases "c = ?c")
        case True
        with x p' show ?thesis by (simp add: pr dof gauge_after_def expiry_after_def dc)
      next
        case False
        with x have "profiles db c = Some x" by (simp add: pr)
        from chain_okD(8,9) [OF ok this] False show ?thesis by (simp add: dof)
      qed
    qed
  qed
qed

section \<open>The reviewer\<close>

definition review_ok :: "crm_db \<Rightarrow> bool" where
  "review_ok db \<longleftrightarrow> (\<forall>c p. profiles db c = Some p \<longrightarrow> reviewer_checks p)"

lemma review_ok_write:
  assumes "review_ok db" and "profiles db' = (profiles db)(c \<mapsto> p')" and "reviewer_checks p'"
  shows "review_ok db'"
  using assms by (simp add: review_ok_def)

lemma reviewer_checks_set:
  "reviewer_checks p \<Longrightarrow> u = None \<or> background_check p \<in> set UNDER_REVIEW \<Longrightarrow>
   reviewer_checks (reviewer_set env p u)"
  by (auto simp: reviewer_checks_def reviewer_set_def UNDER_REVIEW_def)

lemma reviewer_checks_gauge:
  assumes "reviewer_checks p" and "map_of MOVES (background_check p, mr_to r) \<noteq> None"
  shows "reviewer_checks (gauge_row env p r takes e)"
proof -
  have "mr_to r \<noteq> NOT_STARTED" using assms(2) by (rule never_to_not_started)
  then show ?thesis
    using assms(1)
    by (cases "mr_to r") (auto simp: reviewer_checks_def gauge_row_def reviewer_set_def Let_def DECIDED_def)
qed

lemma reviewer_checks_journey [simp]: "reviewer_checks (p\<lparr>journey_of := j\<rparr>) = reviewer_checks p"
  by (simp add: reviewer_checks_def)

lemma review_ok_move:
  assumes ok: "review_ok db" and p: "profiles db (customer_id p) = Some p"
    and am: "apply_move env p r db = Inr (res, p', db')"
  shows "review_ok db'"
proof -
  obtain tx m q claim expires where cm: "check_move p r = Inr (tx, m)"
    and q: "\<exists>rm. q = p\<lparr>rm_user_id := rm\<rparr>"
    and row: "p' = gauge_row env q r (claim \<or> move_reclaims p r) expires \<or>
         mr_to r = CLEAR \<and> journey_of p = PROSPECT \<and>
         p' = (gauge_row env q r (claim \<or> move_reclaims p r) expires)\<lparr>journey_of := CUSTOMER\<rparr>"
    and pr: "profiles db' = (profiles db)(customer_id p \<mapsto> p')"
    by (rule apply_move_effect [OF am p], rule that, assumption+)
  have mv: "map_of MOVES (background_check q, mr_to r) \<noteq> None"
    using cm q by (auto simp: check_move_Inr)
  have "reviewer_checks p" using ok p by (simp add: review_ok_def)
  then have "reviewer_checks q" using q by (auto simp: reviewer_checks_def)
  from reviewer_checks_gauge [OF this mv] row have "reviewer_checks p'"
    by auto
  with ok pr show ?thesis by (rule review_ok_write)
qed

section \<open>Cycles\<close>

definition company_cycles :: "crm_db \<Rightarrow> uuid \<Rightarrow> check_cycle list" where
  "company_cycles db c = filter (\<lambda>x. cc_company x = c) (cycles db)"

definition cycles_ok :: "crm_db \<Rightarrow> bool" where
  "cycles_ok db \<longleftrightarrow> distinct (map cc_id (cycles db)) \<and>
     (\<forall>x \<in> set (cycles db). cc_id x < next_uuid db \<and> cycle_checks x) \<and>
     (\<forall>c. map cc_number (company_cycles db c) = [1..<Suc (length (company_cycles db c))])"

lemma sort_key_id:
  assumes "sorted (map f xs)" shows "sort_key f xs = xs"
  using assms by (simp add: sorted_sort_id sort_key_id_if_sorted)

lemma current_cycle_last:
  assumes "cycles_ok db"
  shows "current_cycle db c = (if company_cycles db c = [] then None else Some (last (company_cycles db c)))"
    and "company_cycles db c \<noteq> [] \<Longrightarrow> cc_number (last (company_cycles db c)) = length (company_cycles db c)"
proof -
  let ?l = "company_cycles db c"
  have m: "map cc_number ?l = [1..<Suc (length ?l)]" using assms by (simp add: cycles_ok_def)
  then have "sorted (map cc_number ?l)" by (metis sorted_upt)
  then have s: "cycles_of db c = ?l" by (simp add: cycles_of_def company_cycles_def sort_key_id)
  show "current_cycle db c = (if ?l = [] then None else Some (last ?l))"
    unfolding current_cycle_def s by (cases ?l rule: rev_cases) simp_all
  show "cc_number (last ?l) = length ?l" if "?l \<noteq> []"
  proof -
    have "cc_number (last ?l) = last (map cc_number ?l)" using that by (simp add: last_map)
    also have "\<dots> = length ?l" unfolding m using that by (cases "company_cycles db c") (simp_all del: upt_Suc add: last_upt)
    finally show ?thesis .
  qed
qed

lemma cycles_ok_append:
  assumes ok: "cycles_ok db" and cs: "cycles db' = cycles db @ [cy]" and n: "next_uuid db \<le> next_uuid db'"
    and i: "next_uuid db \<le> cc_id cy" "cc_id cy < next_uuid db'" and chk: "cycle_checks cy"
    and num: "cc_number cy = Suc (length (company_cycles db (cc_company cy)))"
  shows "cycles_ok db'"
proof -
  have old: "cc_id x < next_uuid db" "cycle_checks x" if "x \<in> set (cycles db)" for x
    using ok that by (simp_all add: cycles_ok_def)
  have cc: "company_cycles db' c = company_cycles db c @ (if cc_company cy = c then [cy] else [])" for c
    by (simp add: company_cycles_def cs)
  have "map cc_number (company_cycles db' c) = [1..<Suc (length (company_cycles db' c))]" for c
    using ok num by (auto simp: cycles_ok_def cc)
  moreover have "distinct (map cc_id (cycles db'))"
    using ok i(1) old by (fastforce simp: cycles_ok_def cs)
  ultimately show ?thesis
    unfolding cycles_ok_def using i chk n old by (fastforce simp: cs)
qed

lemma cycles_ok_frame:
  "cycles_ok db \<Longrightarrow> cycles db' = cycles db \<Longrightarrow> next_uuid db \<le> next_uuid db' \<Longrightarrow> cycles_ok db'"
  by (auto simp: cycles_ok_def company_cycles_def)

lemma cycles_ok_initial:
  assumes ok: "cycles_ok db" and n: "next_uuid db \<le> next_uuid db'"
    and cs: "cycles db' = cycles db @ (if none \<and> current_cycle db c = None then [cy] else [])"
    and cy: "none \<Longrightarrow> current_cycle db c = Some cy \<or> current_cycle db c = None \<and> cc_company cy = c \<and>
      cc_number cy = 1 \<and> cc_kind cy = INITIAL \<and> next_uuid db \<le> cc_id cy \<and> cc_id cy < next_uuid db'"
  shows "cycles_ok db'"
proof (cases "none \<and> current_cycle db c = None")
  case True
  then have "company_cycles db c = []" using current_cycle_last(1) [OF ok, of c] by (auto split: if_splits)
  with True cy show ?thesis
    by (intro cycles_ok_append [OF ok _ n]) (auto simp: cs cycle_checks_def)
next
  case False
  with cs have "cycles db' = cycles db" by auto
  from cycles_ok_frame [OF ok this n] show ?thesis .
qed

section \<open>Proposals and approvals\<close>

text \<open>
  An open proposal rests on the end of its company's chain; an approved decision has its
  proposal and its resolution.
\<close>

definition rests_on_head :: "crm_db \<Rightarrow> bc_proposal \<Rightarrow> bool" where
  "rests_on_head db q \<longleftrightarrow> decisions_of db (pr_company q) \<noteq> [] \<and>
     pr_based_on q = dn_id (last (decisions_of db (pr_company q))) \<and>
     pr_from q = dn_to (last (decisions_of db (pr_company q)))"

definition approval_recorded :: "crm_db \<Rightarrow> bc_decision \<Rightarrow> bool" where
  "approval_recorded db d \<longleftrightarrow> (case dn_proposal d of None \<Rightarrow> True | Some i \<Rightarrow>
     (\<exists>q \<in> set (proposals db). pr_id q = i \<and> pr_company q = dn_company d \<and> pr_from q = dn_from d \<and>
        pr_to q = dn_to d \<and> pr_risk q = dn_risk d \<and> pr_created_by q = dn_decided_by d) \<and>
     (\<exists>s \<in> set (resolutions db). rs_proposal s = i \<and> rs_outcome s = APPROVED \<and>
        rs_decision s = Some (dn_id d) \<and> dn_approved_by d = Some (rs_created_by s)))"

definition approval_ok :: "crm_db \<Rightarrow> bool" where
  "approval_ok db \<longleftrightarrow> distinct (map pr_id (proposals db)) \<and>
     (\<forall>q \<in> set (proposals db). pr_id q < next_uuid db \<and> proposal_checks q) \<and>
     distinct (map rs_proposal (resolutions db)) \<and>
     (\<forall>s \<in> set (resolutions db). rs_proposal s \<in> pr_id ` set (proposals db) \<and> resolution_checks s) \<and>
     (\<forall>c. length (open_proposals db c) \<le> 1) \<and>
     (\<forall>c. \<forall>q \<in> set (open_proposals db c). rests_on_head db q) \<and>
     (\<forall>d \<in> set (decisions db). approval_recorded db d)"

lemma approval_okD:
  assumes "approval_ok db"
  shows "distinct (map pr_id (proposals db))"
    and "q \<in> set (proposals db) \<Longrightarrow> pr_id q < next_uuid db"
    and "q \<in> set (proposals db) \<Longrightarrow> proposal_checks q"
    and "distinct (map rs_proposal (resolutions db))"
    and "s \<in> set (resolutions db) \<Longrightarrow> rs_proposal s \<in> pr_id ` set (proposals db)"
    and "s \<in> set (resolutions db) \<Longrightarrow> resolution_checks s"
    and "length (open_proposals db c) \<le> 1"
    and "q \<in> set (open_proposals db c) \<Longrightarrow> rests_on_head db q"
    and "d \<in> set (decisions db) \<Longrightarrow> approval_recorded db d"
  using assms unfolding approval_ok_def by blast+

lemma approval_okI:
  assumes "distinct (map pr_id (proposals db))"
    and "\<And>q. q \<in> set (proposals db) \<Longrightarrow> pr_id q < next_uuid db"
    and "\<And>q. q \<in> set (proposals db) \<Longrightarrow> proposal_checks q"
    and "distinct (map rs_proposal (resolutions db))"
    and "\<And>s. s \<in> set (resolutions db) \<Longrightarrow> rs_proposal s \<in> pr_id ` set (proposals db)"
    and "\<And>s. s \<in> set (resolutions db) \<Longrightarrow> resolution_checks s"
    and "\<And>c. length (open_proposals db c) \<le> 1"
    and "\<And>q c. q \<in> set (open_proposals db c) \<Longrightarrow> rests_on_head db q"
    and "\<And>d. d \<in> set (decisions db) \<Longrightarrow> approval_recorded db d"
  shows "approval_ok db"
  unfolding approval_ok_def by (intro conjI ballI allI) (erule assms | rule assms)+

lemma resolution_of_None: "resolution_of db i = None \<longleftrightarrow> i \<notin> rs_proposal ` set (resolutions db)"
  by (auto simp: resolution_of_def find_None_iff)

lemma open_proposals_in:
  "q \<in> set (open_proposals db c) \<longleftrightarrow>
     q \<in> set (proposals db) \<and> pr_company q = c \<and> resolution_of db (pr_id q) = None"
  by (auto simp: open_proposals_def)

lemma rests_on_head_cong:
  "decisions_of db' (pr_company q) = decisions_of db (pr_company q) \<Longrightarrow>
   rests_on_head db' q = rests_on_head db q"
  by (simp add: rests_on_head_def)

lemma approval_recorded_mono:
  assumes "approval_recorded db d" and "set (proposals db) \<subseteq> set (proposals db')"
    and "set (resolutions db) \<subseteq> set (resolutions db')"
  shows "approval_recorded db' d"
  using assms unfolding approval_recorded_def by (auto split: option.splits)

lemma approval_ok_frame:
  assumes ok: "approval_ok db" and "proposals db' = proposals db" and "resolutions db' = resolutions db"
    and "decisions db' = decisions db" and n: "next_uuid db \<le> next_uuid db'"
  shows "approval_ok db'"
proof -
  have o: "open_proposals db' c = open_proposals db c" for c
    by (rule open_proposals_cong) fact+
  have r: "rests_on_head db' q = rests_on_head db q" for q
    by (rule rests_on_head_cong [OF decisions_of_cong]) fact
  have a: "approval_recorded db' d = approval_recorded db d" for d
    unfolding approval_recorded_def assms(2,3) ..
  show ?thesis
    by (rule approval_okI; unfold o r a assms(2,3,4))
      (fact approval_okD [OF ok] | erule approval_okD [OF ok]
        | erule less_le_trans [OF approval_okD(2) [OF ok] n])+
qed

text \<open>A decision written with no proposal open for its company.\<close>

lemma approval_ok_decision:
  assumes ok: "approval_ok db" and "proposals db' = proposals db" and "resolutions db' = resolutions db"
    and ds: "decisions db' = decisions db @ [d]" and n: "next_uuid db \<le> next_uuid db'"
    and np: "open_proposals db (dn_company d) = []" and nd: "dn_proposal d = None"
  shows "approval_ok db'"
proof -
  have o: "open_proposals db' c = open_proposals db c" for c
    by (rule open_proposals_cong) fact+
  have r: "rests_on_head db' q" if "q \<in> set (open_proposals db c)" for q c
  proof -
    have "pr_company q = c" using that by (simp add: open_proposals_in)
    moreover have "dn_company d \<noteq> c" using that np by auto
    ultimately have "pr_company q = c" "dn_company d \<noteq> c" by simp_all
    then have same: "decisions_of db' (pr_company q) = decisions_of db (pr_company q)"
      by (simp add: decisions_of_append [OF ds])
    from approval_okD(8) [OF ok that] show ?thesis unfolding rests_on_head_cong [OF same] .
  qed
  have a: "approval_recorded db' x" if "x \<in> set (decisions db')" for x
  proof -
    have "x \<in> set (decisions db) \<or> x = d" using that ds by auto
    then show ?thesis
    proof
      assume "x \<in> set (decisions db)"
      then show ?thesis by (rule approval_recorded_mono [OF approval_okD(9) [OF ok]]) (simp_all add: assms)
    qed (simp add: approval_recorded_def nd)
  qed
  show ?thesis
    by (rule approval_okI; (unfold o assms(2,3))?)
      (rule r a, assumption | fact approval_okD [OF ok] | erule approval_okD [OF ok]
        | erule less_le_trans [OF approval_okD(2) [OF ok] n])+
qed

text \<open>A new proposal, when none was open.\<close>

lemma approval_ok_propose:
  assumes ok: "approval_ok db" and ps: "proposals db' = proposals db @ [q]"
    and rs: "resolutions db' = resolutions db" and ds: "decisions db' = decisions db"
    and i: "next_uuid db \<le> pr_id q" "pr_id q < next_uuid db'"
    and np: "open_proposals db (pr_company q) = []" and chk: "proposal_checks q"
    and hd: "rests_on_head db q"
  shows "approval_ok db'"
proof -
  have fresh: "pr_id q \<notin> pr_id ` set (proposals db)"
    using approval_okD(2) [OF ok] i(1) by fastforce
  then have nr: "resolution_of db (pr_id q) = None"
    using approval_okD(5) [OF ok] by (auto simp: resolution_of_None)
  have o: "open_proposals db' c = open_proposals db c @ (if pr_company q = c then [q] else [])" for c
    using nr by (simp add: open_proposals_def resolution_of_def ps rs)
  have len: "length (open_proposals db' c) \<le> 1" for c
    using approval_okD(7) [OF ok, of c] np by (auto simp: o)
  have r: "rests_on_head db' x" if "x \<in> set (open_proposals db' c)" for x c
  proof -
    have "x \<in> set (open_proposals db c) \<or> x = q" using that by (auto simp: o split: if_splits)
    then have "rests_on_head db x" using approval_okD(8) [OF ok] hd by blast
    then show ?thesis unfolding rests_on_head_cong [OF decisions_of_cong [OF ds]] .
  qed
  have a: "approval_recorded db' x" if "x \<in> set (decisions db')" for x
    by (rule approval_recorded_mono [OF approval_okD(9) [OF ok, of x]]) (use that ds ps rs in auto)
  have p: "pr_id x < next_uuid db' \<and> proposal_checks x" if "x \<in> set (proposals db')" for x
    using that approval_okD(2,3) [OF ok, of x] i chk by (auto simp: ps)
  have s: "rs_proposal x \<in> pr_id ` set (proposals db') \<and> resolution_checks x"
    if "x \<in> set (resolutions db')" for x
    using that approval_okD(5,6) [OF ok, of x] by (auto simp: ps rs)
  show ?thesis
  proof (rule approval_okI)
    show "distinct (map pr_id (proposals db'))" using approval_okD(1) [OF ok] fresh by (simp add: ps)
    show "distinct (map rs_proposal (resolutions db'))" using approval_okD(4) [OF ok] by (simp add: rs)
  qed (use len r a p s in blast)+
qed

text \<open>
  A resolution of an open proposal, written with the decision it approves or with none.
\<close>

lemma approval_ok_resolve:
  assumes ok: "approval_ok db" and ps: "proposals db' = proposals db"
    and rs: "resolutions db' = resolutions db @ [s]" and n: "next_uuid db \<le> next_uuid db'"
    and q: "q \<in> set (proposals db)" "resolution_of db (pr_id q) = None" "rs_proposal s = pr_id q"
    and chk: "resolution_checks s"
    and ds: "decisions db' = decisions db @ new"
    and new: "\<forall>d \<in> set new. dn_company d = pr_company q \<and> approval_recorded db' d"
  shows "approval_ok db'"
proof -
  have res: "resolution_of db' i = None \<longleftrightarrow> resolution_of db i = None \<and> i \<noteq> pr_id q" for i
    by (auto simp: resolution_of_None rs q(3))
  have sub: "set (open_proposals db' c) \<subseteq> set (open_proposals db c) - {q}" for c
    by (auto simp: open_proposals_in res ps)
  have o: "open_proposals db' c = filter (\<lambda>x. pr_id x \<noteq> pr_id q) (open_proposals db c)" for c
    unfolding open_proposals_def ps filter_filter by (auto simp: res intro!: filter_cong)
  have len: "length (open_proposals db' c) \<le> 1" for c
    unfolding o using approval_okD(7) [OF ok, of c] length_filter_le le_trans by blast
  have gone: "open_proposals db' (pr_company q) = []"
  proof -
    have "q \<in> set (open_proposals db (pr_company q))" using q by (simp add: open_proposals_in)
    with approval_okD(7) [OF ok, of "pr_company q"] have "open_proposals db (pr_company q) = [q]"
      by (cases "open_proposals db (pr_company q)") auto
    then show ?thesis by (simp add: o)
  qed
  have r: "rests_on_head db' x" if x: "x \<in> set (open_proposals db' c)" for x c
  proof -
    have c: "pr_company x = c" using x by (simp add: open_proposals_in)
    have c': "c \<noteq> pr_company q" using x gone by auto
    have "filter (\<lambda>d. dn_company d = c) new = []"
      using new c' by (auto simp: filter_empty_conv)
    then have "decisions_of db' c = decisions_of db c" by (simp add: decisions_of_def ds)
    then have same: "decisions_of db' (pr_company x) = decisions_of db (pr_company x)" by (simp add: c)
    have "x \<in> set (open_proposals db c)" using sub x by auto
    from approval_okD(8) [OF ok this] show ?thesis unfolding rests_on_head_cong [OF same] .
  qed
  have a: "approval_recorded db' x" if x: "x \<in> set (decisions db')" for x
  proof (cases "x \<in> set new")
    case False
    then have "approval_recorded db x" using approval_okD(9) [OF ok] x ds by auto
    then show ?thesis by (rule approval_recorded_mono) (use ps rs in auto)
  qed (use new in blast)
  show ?thesis
  proof (rule approval_okI)
    show "distinct (map pr_id (proposals db'))" using approval_okD(1) [OF ok] by (simp add: ps)
    show "distinct (map rs_proposal (resolutions db'))"
      using approval_okD(4) [OF ok] q by (simp add: rs resolution_of_None)
    show "rs_proposal x \<in> pr_id ` set (proposals db')" if "x \<in> set (resolutions db')" for x
      using that approval_okD(5) [OF ok, of x] q by (auto simp: ps rs)
    show "resolution_checks x" if "x \<in> set (resolutions db')" for x
      using that approval_okD(6) [OF ok, of x] chk by (auto simp: rs)
    show "pr_id x < next_uuid db'" if "x \<in> set (proposals db')" for x
      using that approval_okD(2) [OF ok, of x] n by (simp add: ps)
    show "proposal_checks x" if "x \<in> set (proposals db')" for x
      using that approval_okD(3) [OF ok, of x] by (simp add: ps)
  qed (rule len r a, assumption?)+
qed

end
