(* ===== verification/Deals.thy ===== *)
theory Deals
  imports Conversation Deal_Documents Handover Sanctions Integrity
begin

text \<open>
  Deals, \<open>application/deal_service.py\<close>: opening one, moving its stage, naming its buyer, its
  invoicing branch and its terms, and the handover with its guard and snapshot. Each operation is
  one transaction; what follows a commit (the announcement, the quiet answer to a qualification
  criterion) is returned or left out.
\<close>

section \<open>The move table\<close>

definition is_terminal :: "deal_stage \<Rightarrow> bool" where
  "is_terminal s \<longleftrightarrow> s \<in> {HANDED_OVER, DEAL_WITHDRAWN}"

definition PERMITTED_STAGE_MOVES :: "deal_stage \<Rightarrow> deal_stage list" where
  "PERMITTED_STAGE_MOVES s = (case s of
     DEAL_OPEN \<Rightarrow> [GATHERING_PAPERWORK, DEAL_WITHDRAWN]
   | GATHERING_PAPERWORK \<Rightarrow> [HANDED_OVER, DEAL_WITHDRAWN]
   | HANDED_OVER \<Rightarrow> []
   | DEAL_WITHDRAWN \<Rightarrow> [])"

definition DEAL_NEEDS_REASON :: "deal_stage list" where "DEAL_NEEDS_REASON = [DEAL_WITHDRAWN]"
definition NEEDS_BUYER :: "deal_stage list" where "NEEDS_BUYER = [HANDED_OVER]"
definition OPENABLE_JOURNEYS :: "journey list" where "OPENABLE_JOURNEYS = [PROSPECT, CUSTOMER]"

record deal_stage_move =
  sm_to :: deal_stage
  sm_reason_required :: bool

definition allowed_stage_moves :: "deal_stage \<Rightarrow> deal_stage_move list" where
  "allowed_stage_moves current =
     map (\<lambda>s. \<lparr>sm_to = s, sm_reason_required = (s \<in> set DEAL_NEEDS_REASON)\<rparr>) (PERMITTED_STAGE_MOVES current)"

definition company_journey :: "crm_world \<Rightarrow> uuid \<Rightarrow> journey option" where
  "company_journey w c = map_option journey_of (profiles (crm w) c)"

definition can_open_deal :: "crm_world \<Rightarrow> uuid \<Rightarrow> bool" where
  "can_open_deal w c = (case company_journey w c of None \<Rightarrow> False | Some j \<Rightarrow> j \<in> set OPENABLE_JOURNEYS)"

section \<open>The providers of the handover guard\<close>

text \<open>\<open>BranchFlagService\<close> of \<open>branch_flags.py\<close>.\<close>

definition find_gstin :: "crm_world \<Rightarrow> uuid \<Rightarrow> gstin_row option" where
  "find_gstin w i = find (\<lambda>g. gs_id g = i) (registrations w)"

definition branch_name :: "gstin_row \<Rightarrow> string option" where
  "branch_name g = (if no_text (gs_state_name g) then gs_state_code g else gs_state_name g)"

definition branch_is_flagged :: "crm_world \<Rightarrow> uuid \<Rightarrow> bool \<times> string option" where
  "branch_is_flagged w i = (case find_gstin w i of None \<Rightarrow> (False, None)
     | Some g \<Rightarrow> (gs_flagged g, branch_name g))"

definition branch_is_active :: "crm_world \<Rightarrow> uuid \<Rightarrow> bool \<times> string option" where
  "branch_is_active w i = (case find_gstin w i of None \<Rightarrow> (True, None)
     | Some g \<Rightarrow> (gs_active g, branch_name g))"

definition has_active_registrations :: "crm_world \<Rightarrow> uuid \<Rightarrow> bool" where
  "has_active_registrations w c = list_ex (\<lambda>g. gs_company g = c \<and> gs_active g) (registrations w)"

definition crm_providers :: "crm_world \<Rightarrow> handover_providers" where
  "crm_providers w =
     \<lparr>hp_company = (\<lambda>c now. bindE (facts_for_company c now (crm w)) (\<lambda>f. Inr (Some f))),
      hp_legacy_buyer = (\<lambda>b now. bindE (facts_for_legacy_buyer b now (crm w)) (\<lambda>f. Inr (Some f))),
      hp_missing = missing_for_deal w,
      hp_is_flagged = branch_is_flagged w, hp_is_active = branch_is_active w,
      hp_has_registrations = has_active_registrations w\<rparr>"

section \<open>The guard, read for one deal\<close>

definition has_active_primary_contact :: "crm_world \<Rightarrow> uuid \<Rightarrow> bool" where
  "has_active_primary_contact w c =
     list_ex (\<lambda>p. ct_company p = c \<and> ct_is_primary p \<and> ct_status p = CONTACT_ACTIVE) (contacts w)"

definition handover_subject_of ::
  "crm_env \<Rightarrow> deal_row \<Rightarrow> exporter_profile \<Rightarrow> bool \<Rightarrow> crm_world \<Rightarrow> handover_subject" where
  "handover_subject_of env d company flagged w =
     \<lparr>hs_deal = dl_id d, hs_seller = dl_company d, hs_journey = journey_value (journey_of company),
      hs_background_check = Some (bc_value (background_check company)),
      hs_buyer_company = dl_buyer_company d, hs_legacy_buyer = map_option db_id (dl_buyer d),
      hs_branch = dl_branch d, hs_now = env_now env,
      hs_has_contact = has_active_primary_contact w (dl_company d), hs_sanctions_flagged = flagged\<rparr>"

definition handover_blocked_reason ::
  "crm_env \<Rightarrow> deal_row \<Rightarrow> crm_world \<Rightarrow> crm_error + string option" where
  "handover_blocked_reason env d w = (case profiles (crm w) (dl_company d) of
     None \<Rightarrow> Inl (DealCompanyNotFoundError (dl_company d))
   | Some company \<Rightarrow>
     bindE (case dl_buyer_company d of None \<Rightarrow> Inr ()
        | Some b \<Rightarrow> require (profiles (crm w) b \<noteq> None) (DealCompanyNotFoundError b)) (\<lambda>_.
     bindE (is_flagged (dl_company d) w) (\<lambda>flagged.
     blocked_reason (handover_subject_of env d company flagged w) (crm_providers w))))"

section \<open>Payment terms\<close>

definition find_term :: "crm_world \<Rightarrow> uuid \<Rightarrow> payment_term option" where
  "find_term w i = find (\<lambda>t. pt_id t = i) (payment_terms w)"

definition current_of :: "crm_world \<Rightarrow> string \<Rightarrow> payment_term option" where
  "current_of w code = find (\<lambda>t. pt_code t = code \<and> pt_is_current t) (payment_terms w)"

definition offerable :: "crm_world \<Rightarrow> uuid \<Rightarrow> crm_error + payment_term" where
  "offerable w i = (case find_term w i of None \<Rightarrow> Inl (PaymentTermNotFoundError i)
     | Some t \<Rightarrow> if pt_is_current t \<and> pt_active t then Inr t
         else Inl (ValidationError ''is no longer offered; choose a current term''))"

definition company_default_term :: "crm_world \<Rightarrow> uuid \<Rightarrow> payment_term option" where
  "company_default_term w c = (case profiles (crm w) c of None \<Rightarrow> None | Some p \<Rightarrow>
     (case ep_default_term p of None \<Rightarrow> None | Some i \<Rightarrow>
     (case find_term w i of None \<Rightarrow> None | Some chosen \<Rightarrow>
     (case current_of w (pt_code chosen) of None \<Rightarrow> None | Some t \<Rightarrow> if pt_active t then Some t else None))))"

text \<open>
  \<open>DealTerms\<close>: for each of the three fields, whether it was sent and what it was sent as.
\<close>

record deal_terms =
  tm_value :: "decimal option option"
  tm_currency :: "string option option"
  tm_term :: "uuid option option"
  tm_override_reason :: "string option"

definition term_of :: "crm_world \<Rightarrow> deal_row \<Rightarrow> payment_term option" where
  "term_of w d = (case dl_term d of None \<Rightarrow> None | Some i \<Rightarrow> find_term w i)"

definition apply_terms ::
  "deal_row \<Rightarrow> deal_terms \<Rightarrow> payment_term option \<Rightarrow> crm_world \<Rightarrow> crm_error + deal_row" where
  "apply_terms d terms dflt w =
   (let d = (case tm_value terms of None \<Rightarrow> d | Some v \<Rightarrow> d\<lparr>dl_value := v\<rparr>);
        d = (case tm_currency terms of None \<Rightarrow> d | Some c \<Rightarrow> d\<lparr>dl_currency := c\<rparr>)
    in
    bindE (require (\<not> (dl_value d \<noteq> None \<and> dl_currency d = None))
      (ValidationError ''Give the currency of the deal's value'')) (\<lambda>_.
    bindE (case tm_term terms of
        None \<Rightarrow> Inr d
      | Some None \<Rightarrow> Inr (d\<lparr>dl_term := None\<rparr>)
      | Some (Some i) \<Rightarrow> if dl_term d = Some i then Inr d
          else bindE (offerable w i) (\<lambda>t. Inr (d\<lparr>dl_term := Some (pt_id t)\<rparr>))) (\<lambda>d.
    let chosen = term_of w d;
        differs = (case dflt of None \<Rightarrow> False
          | Some t \<Rightarrow> (case chosen of None \<Rightarrow> True | Some c \<Rightarrow> pt_code c \<noteq> pt_code t));
        reason = clean_text (tm_override_reason terms)
    in
    if differs then
      bindE (require (\<not> (reason = None \<and> tm_term terms \<noteq> None))
        (ValidationError ''Say why this deal's payment term differs from the company's default'')) (\<lambda>_.
      Inr (if reason \<noteq> None then d\<lparr>dl_override_reason := reason\<rparr> else d))
    else Inr (d\<lparr>dl_override_reason := None\<rparr>))))"

text \<open>\<open>str(deal.value_amount)\<close>: the digits with their places, so 100 and 100.00 read differently.\<close>

fun decimal_text :: "decimal \<Rightarrow> string" where
  "decimal_text (n, k) = (if k = 0 then nat_text n
     else nat_text (n div 10 ^ k) @ ''.'' @ padded k (n mod 10 ^ k))"

definition stored_deal :: "deal_row \<Rightarrow> deal_row" where
  "stored_deal d = d\<lparr>dl_value := map_option stored_amount (dl_value d)\<rparr>"

definition terms_details :: "deal_row \<Rightarrow> (string \<times> dval) list" where
  "terms_details d =
     [(''value_amount'', case dl_value d of None \<Rightarrow> DNone | Some v \<Rightarrow> DText (decimal_text v)),
      (''currency'', case dl_currency d of None \<Rightarrow> DNone | Some c \<Rightarrow> DText c),
      (''payment_term'', d_id (dl_term d))]"

section \<open>What the database refuses\<close>

text \<open>
  The CHECK constraints of \<open>deal\<close>. A write they refuse is the driver's error; the service only
  turns the unique reference into an answer of its own.
\<close>

definition upper_letter :: "char \<Rightarrow> bool" where
  "upper_letter c \<longleftrightarrow> (let n = of_char c :: nat in 65 \<le> n \<and> n \<le> 90)"

definition deal_checks :: "deal_row \<Rightarrow> bool" where
  "deal_checks d \<longleftrightarrow>
     (dl_stage d = DEAL_WITHDRAWN \<longleftrightarrow> dl_withdrawal_reason d \<noteq> None) \<and>
     dl_buyer_company d \<noteq> Some (dl_company d) \<and>
     (dl_value d \<noteq> None \<longrightarrow> dl_currency d \<noteq> None) \<and>
     (case dl_currency d of None \<Rightarrow> True | Some c \<Rightarrow> length c = 3 \<and> list_all upper_letter c)"

definition flush_deal :: "deal_row \<Rightarrow> crm_error + unit" where
  "flush_deal d = require (deal_checks d) (RuntimeError ''IntegrityError'')"

section \<open>The page of a deal\<close>

record deal_view =
  dv_deal :: deal_row
  dv_moves :: "deal_stage_move list"
  dv_blocked :: "string option"
  dv_buyer_company :: "exporter_profile option"
  dv_term :: "payment_term option"
  dv_default_term :: "payment_term option"

definition deal_view_of :: "crm_env \<Rightarrow> deal_row \<Rightarrow> crm_world \<Rightarrow> crm_error + deal_view" where
  "deal_view_of env d w =
   (let moves = allowed_stage_moves (dl_stage d) in
    bindE (if list_ex (\<lambda>m. sm_to m = HANDED_OVER) moves then handover_blocked_reason env d w else Inr None)
      (\<lambda>blocked.
    Inr \<lparr>dv_deal = d,
         dv_moves = (if blocked \<noteq> None then filter (\<lambda>m. sm_to m \<noteq> HANDED_OVER) moves else moves),
         dv_blocked = blocked,
         dv_buyer_company = (case dl_buyer_company d of None \<Rightarrow> None | Some c \<Rightarrow> profiles (crm w) c),
         dv_term = term_of w d, dv_default_term = company_default_term w (dl_company d)\<rparr>))"

definition require_deal :: "crm_world \<Rightarrow> uuid \<Rightarrow> crm_error + deal_row" where
  "require_deal w deal_id = (case find_deal w deal_id of
     None \<Rightarrow> Inl (DealNotFoundError deal_id) | Some d \<Rightarrow> Inr d)"

definition get_deal :: "crm_env \<Rightarrow> uuid \<Rightarrow> crm_world \<Rightarrow> crm_error + deal_view" where
  "get_deal env deal_id w = bindE (require_deal w deal_id) (\<lambda>d. deal_view_of env d w)"

section \<open>Opening a deal\<close>

definition open_deal ::
  "crm_env \<Rightarrow> uuid \<Rightarrow> string option \<Rightarrow> uuid option \<Rightarrow> deal_terms option \<Rightarrow> crm_world \<Rightarrow>
   crm_error + deal_view \<times> crm_world" where
  "open_deal env company_id reference actor_id terms w = (case clean_text reference of
     None \<Rightarrow> Inl (ValidationError ''a deal needs a reference'')
   | Some cleaned \<Rightarrow> (case company_journey w company_id of
     None \<Rightarrow> Inl (DealCompanyNotFoundError company_id)
   | Some j \<Rightarrow>
     bindE (require (j \<in> set OPENABLE_JOURNEYS) (DealCompanyNotReadyError company_id j)) (\<lambda>_.
     bindE (require (\<not> list_ex (\<lambda>d. dl_company d = company_id \<and> dl_reference d = cleaned) (deals w))
       (DealReferenceTakenError company_id cleaned)) (\<lambda>_.
     let dflt = company_default_term w company_id;
         (deal_id, w) = world_uuid w;
         d = \<lparr>dl_id = deal_id, dl_company = company_id, dl_reference = cleaned, dl_stage = DEAL_OPEN,
              dl_withdrawal_reason = None, dl_handed_over_at = None, dl_buyer_company = None,
              dl_snapshot = None, dl_branch = None, dl_value = None, dl_currency = None,
              dl_term = map_option pt_id dflt, dl_override_reason = None, dl_buyer = None\<rparr>
     in
     bindE (case terms of None \<Rightarrow> Inr d | Some t \<Rightarrow> apply_terms d t dflt w) (\<lambda>d.
     bindE (flush_deal d) (\<lambda>_.
     bindE (world_history company_id ''deal'' None (HText (deal_stage_value DEAL_OPEN)) actor_id
         ''deal_service.open_deal'' None (Some deal_id) (Some ''deal_initial'')
         ((''reference'', DText cleaned) # terms_details d) (w\<lparr>deals := deals w @ [stored_deal d]\<rparr>)) (\<lambda>w.
     bindE (mark_ready_now_for_opened_deal company_id deal_id actor_id (crm w)) (\<lambda>db.
     let w = w\<lparr>crm := db\<rparr> in
     bindE (deal_view_of env (stored_deal d) w) (\<lambda>view. Inr (view, w))))))))))"

section \<open>Moving a deal's stage\<close>

definition SNAPSHOT_TAKEN_AT_HANDOVER :: string where
  "SNAPSHOT_TAKEN_AT_HANDOVER = ''taken_at_handover''"

definition list_for_deal :: "crm_world \<Rightarrow> uuid \<Rightarrow> crm_document list" where
  "list_for_deal w deal_id = filter (\<lambda>d. doc_deal d = Some deal_id) (documents (crm w))"

definition buyer_details_of :: "deal_row \<Rightarrow> crm_world \<Rightarrow> buyer_details option" where
  "buyer_details_of d w =
    (case (case dl_buyer_company d of None \<Rightarrow> None | Some c \<Rightarrow> profiles (crm w) c) of
       Some p \<Rightarrow> Some \<lparr>bd_name = ep_name p, bd_country = ep_country p,
         bd_registration_number = ep_registration_number p, bd_tax_id = ep_pan p,
         bd_contact_email = None, bd_contact_phone = None\<rparr>
     | None \<Rightarrow> map_option (\<lambda>b. \<lparr>bd_name = Some (db_name b), bd_country = db_country b,
         bd_registration_number = db_registration_number b, bd_tax_id = db_tax_id b,
         bd_contact_email = db_contact_email b, bd_contact_phone = db_contact_phone b\<rparr>) (dl_buyer d))"

definition take_snapshot :: "deal_row \<Rightarrow> instant \<Rightarrow> crm_world \<Rightarrow> handover_snapshot" where
  "take_snapshot d now w =
     \<lparr>hv_buyer = buyer_details_of d w, hv_buyer_company = dl_buyer_company d,
      hv_documents = map doc_id (list_for_deal w (dl_id d)),
      hv_terms = \<lparr>ht_value = dl_value d, ht_currency = dl_currency d, ht_payment_term = term_of w d,
                  ht_override_reason = dl_override_reason d\<rparr>,
      hv_source = SNAPSHOT_TAKEN_AT_HANDOVER,
      hv_at = (case dl_handed_over_at d of Some t \<Rightarrow> t | None \<Rightarrow> now)\<rparr>"

record handed_over_event =
  ho_deal :: uuid
  ho_company :: uuid
  ho_buyer :: "buyer_details option"
  ho_documents :: "uuid list"
  ho_actor :: "uuid option"

text \<open>
  The handover reads the clock a second time for \<open>handed_over_at\<close>, after the guard has run:
  \<open>later\<close> is that second reading.
\<close>

definition transition_stage ::
  "crm_env \<Rightarrow> instant \<Rightarrow> uuid \<Rightarrow> deal_stage \<Rightarrow> string option \<Rightarrow> uuid option \<Rightarrow> crm_world \<Rightarrow>
   crm_error + (deal_view \<times> handed_over_event option) \<times> crm_world" where
  "transition_stage env later deal_id to_stage reason actor_id w =
   bindE (require_deal w deal_id) (\<lambda>d.
   let from_stage = dl_stage d in
   bindE (require (\<not> is_terminal from_stage) (DealTerminalError deal_id from_stage)) (\<lambda>_.
   bindE (require (to_stage \<in> set (PERMITTED_STAGE_MOVES from_stage))
     (DealTransitionNotAllowedError deal_id from_stage to_stage)) (\<lambda>_.
   let cleaned_reason = clean_text reason in
   bindE (require (\<not> (to_stage \<in> set DEAL_NEEDS_REASON \<and> cleaned_reason = None))
     (DealWithdrawalReasonRequiredError deal_id)) (\<lambda>_.
   bindE (require (\<not> (to_stage \<notin> set DEAL_NEEDS_REASON \<and> cleaned_reason \<noteq> None))
     (ValidationError ''a reason belongs only to a withdrawal'')) (\<lambda>_.
   bindE (if to_stage \<in> set NEEDS_BUYER then
       bindE (require (\<not> (dl_buyer_company d = None \<and> dl_buyer d = None)) (DealBuyerRequiredError deal_id)) (\<lambda>_.
       bindE (handover_blocked_reason env d w) (\<lambda>blocked. case blocked of
         None \<Rightarrow> Inr () | Some why \<Rightarrow> Inl (DealHandoverBlockedError deal_id why)))
     else Inr ()) (\<lambda>_.
   let d = d\<lparr>dl_stage := to_stage, dl_withdrawal_reason := cleaned_reason\<rparr>;
       d = (if to_stage = HANDED_OVER then d\<lparr>dl_handed_over_at := Some later\<rparr> else d);
       snapshot = (if to_stage = HANDED_OVER then Some (take_snapshot d later w) else None);
       d = (case snapshot of None \<Rightarrow> d | Some s \<Rightarrow> d\<lparr>dl_snapshot := Some s\<rparr>)
   in
   bindE (world_history (dl_company d) ''deal'' (Some (HText (deal_stage_value from_stage)))
       (HText (deal_stage_value to_stage)) actor_id ''deal_service.transition_stage'' cleaned_reason
       (Some deal_id) (Some ''deal_transition'')
       (case snapshot of None \<Rightarrow> [] | Some s \<Rightarrow> [(''document_ids'', DIds (hv_documents s))])
       (save_deal d w)) (\<lambda>w.
   bindE (deal_view_of env d w) (\<lambda>view.
   Inr ((view, map_option (\<lambda>s. \<lparr>ho_deal = deal_id, ho_company = dl_company d, ho_buyer = hv_buyer s,
          ho_documents = hv_documents s, ho_actor = actor_id\<rparr>) snapshot), w)))))))))"

section \<open>The buyer, the branch and the terms\<close>

text \<open>\<open>TradeHistoryService.get_or_create_relationship\<close>: one row per ordered pair.\<close>

definition get_or_create_relationship ::
  "uuid \<Rightarrow> uuid \<Rightarrow> uuid option \<Rightarrow> string \<Rightarrow> ref_text option \<Rightarrow> crm_world \<Rightarrow>
   crm_error + (trade_relationship \<times> bool) \<times> crm_world" where
  "get_or_create_relationship seller buyer actor_id source source_ref w =
    (if seller = buyer then Inl (TradeRelationshipIsSelfError seller)
     else if profiles (crm w) seller = None then Inl (ExporterProfileNotFoundError seller)
     else if profiles (crm w) buyer = None then Inl (ExporterProfileNotFoundError buyer)
     else case find (\<lambda>r. tr_seller r = seller \<and> tr_buyer r = buyer) (relationships w) of
       Some r \<Rightarrow> Inr ((r, False), w)
     | None \<Rightarrow> let (i, w) = world_uuid w;
           r = \<lparr>tr_id = i, tr_seller = seller, tr_buyer = buyer, tr_created_by = actor_id,
                tr_source = source, tr_source_ref = source_ref\<rparr>
         in Inr ((r, True), w\<lparr>relationships := relationships w @ [r]\<rparr>))"

definition SOURCE_DEAL_BUYER_RECORDED :: string where
  "SOURCE_DEAL_BUYER_RECORDED = ''deal_buyer_recorded''"

definition set_buyer_company ::
  "crm_env \<Rightarrow> uuid \<Rightarrow> uuid \<Rightarrow> uuid option \<Rightarrow> crm_world \<Rightarrow> crm_error + deal_view \<times> crm_world" where
  "set_buyer_company env deal_id buyer_id actor_id w =
   bindE (require_deal w deal_id) (\<lambda>d.
   bindE (require (\<not> is_terminal (dl_stage d)) (DealTerminalError deal_id (dl_stage d))) (\<lambda>_.
   case dl_buyer_company d of
     Some b \<Rightarrow> if b = buyer_id then bindE (deal_view_of env d w) (\<lambda>view. Inr (view, w))
       else Inl (DealBuyerCompanyAlreadySetError deal_id b)
   | None \<Rightarrow>
     bindE (require (buyer_id \<noteq> dl_company d) (DealBuyerIsTheSellerError deal_id buyer_id)) (\<lambda>_.
     case profiles (crm w) buyer_id of None \<Rightarrow> Inl (DealCompanyNotFoundError buyer_id)
     | Some company \<Rightarrow>
       let d = d\<lparr>dl_buyer_company := Some buyer_id\<rparr>; w = save_deal d w in
       bindE (get_or_create_relationship (dl_company d) buyer_id actor_id SOURCE_DEAL_BUYER_RECORDED
           (Some (UuidText (dl_id d))) w) (\<lambda>(relationship, w).
       bindE (world_history (dl_company d) ''deal'' None (HText (deal_stage_value (dl_stage d))) actor_id
           ''deal_service.set_buyer_company'' None (Some deal_id) (Some ''deal_buyer_company_set'')
           [(''buyer_company_id'', DId buyer_id),
            (''buyer_name'', case ep_name company of None \<Rightarrow> DNone | Some n \<Rightarrow> DText n),
            (''had_legacy_buyer'', DBool (dl_buyer d \<noteq> None))] w) (\<lambda>w.
       bindE (deal_view_of env d w) (\<lambda>view. Inr (view, w)))))))"

definition set_invoicing_branch ::
  "crm_env \<Rightarrow> uuid \<Rightarrow> uuid option \<Rightarrow> uuid option \<Rightarrow> crm_world \<Rightarrow> crm_error + deal_view \<times> crm_world" where
  "set_invoicing_branch env deal_id branch actor_id w =
   bindE (require_deal w deal_id) (\<lambda>d.
   bindE (require (\<not> is_terminal (dl_stage d)) (DealTerminalError deal_id (dl_stage d))) (\<lambda>_.
   bindE (case branch of None \<Rightarrow> Inr None
     | Some i \<Rightarrow> (case find_gstin w i of None \<Rightarrow> Inl (GstRegistrationNotFoundError i)
        | Some g \<Rightarrow> if gs_company g \<noteq> dl_company d then Inl (GstRegistrationNotThisCompanysError deal_id i)
            else if \<not> gs_active g then Inl (GstRegistrationInactiveError i) else Inr (Some g)))
     (\<lambda>registration.
   if dl_branch d = branch then bindE (deal_view_of env d w) (\<lambda>view. Inr (view, w))
   else
   let d = d\<lparr>dl_branch := branch\<rparr> in
   bindE (world_history (dl_company d) ''deal'' None (HText (deal_stage_value (dl_stage d))) actor_id
       ''deal_service.set_invoicing_branch'' None (Some deal_id) (Some ''deal_invoicing_branch_set'')
       [(''gst_registration_id'', d_id branch),
        (''state_name'', case registration of None \<Rightarrow> DNone | Some g \<Rightarrow>
           (case gs_state_name g of None \<Rightarrow> DNone | Some s \<Rightarrow> DText s)),
        (''state_code'', case registration of None \<Rightarrow> DNone | Some g \<Rightarrow>
           (case gs_state_code g of None \<Rightarrow> DNone | Some s \<Rightarrow> DText s))] (save_deal d w)) (\<lambda>w.
   bindE (deal_view_of env d w) (\<lambda>view. Inr (view, w))))))"

definition set_terms ::
  "crm_env \<Rightarrow> uuid \<Rightarrow> deal_terms \<Rightarrow> uuid option \<Rightarrow> crm_world \<Rightarrow> crm_error + deal_view \<times> crm_world" where
  "set_terms env deal_id terms actor_id w =
   bindE (require_deal w deal_id) (\<lambda>d.
   bindE (require (\<not> is_terminal (dl_stage d)) (DealTerminalError deal_id (dl_stage d))) (\<lambda>_.
   let before = terms_details d in
   bindE (apply_terms d terms (company_default_term w (dl_company d)) w) (\<lambda>d.
   let after = terms_details d in
   bindE (require (after \<noteq> before)
     (ValidationError ''That leaves the deal's value and terms as they are'')) (\<lambda>_.
   let changed = sort (map fst (filter (\<lambda>(k, v). map_of before k \<noteq> Some v) after)) in
   bindE (flush_deal d) (\<lambda>_.
   bindE (world_history (dl_company d) ''deal'' (Some (HText (deal_stage_value (dl_stage d))))
       (HText (deal_stage_value (dl_stage d))) actor_id ''deal_service.set_terms''
       (if ''payment_term'' \<in> set changed then dl_override_reason d else None) (Some deal_id)
       (Some ''deal_terms_changed'') ((''changed'', DTexts changed) # map (\<lambda>(k, v). (''from.'' @ k, v)) before @
         map (\<lambda>(k, v). (''to.'' @ k, v)) after) (save_deal (stored_deal d) w)) (\<lambda>w.
   bindE (deal_view_of env (stored_deal d) w) (\<lambda>view. Inr (view, w))))))))"

end
