(* ===== verification/World_Writes.thy ===== *)
theory World_Writes
  imports World
begin

text \<open>
  What a transaction of the wider record may do to the company tables: append history rows and take
  ids, or that and rewrite one company's row. Effects of whole operations are stated with these two,
  which compose.
\<close>

section \<open>History rows and ids\<close>

definition history_write :: "crm_db \<Rightarrow> crm_db \<Rightarrow> bool" where
  "history_write db db' \<longleftrightarrow>
     (\<exists>rows n. next_uuid db \<le> n \<and> db' = db\<lparr>history := history db @ rows, next_uuid := n\<rparr>)"

lemma history_write_refl [simp]: "history_write db db"
  by (auto simp: history_write_def intro!: exI [of _ "[]"] exI [of _ "next_uuid db"])

lemma history_write_trans: "history_write a b \<Longrightarrow> history_write b c \<Longrightarrow> history_write a c"
  unfolding history_write_def by (elim exE conjE) (rule exI, rule exI, rule conjI [rotated], simp, simp)

lemma history_write_row [simp]: "history_write db (db\<lparr>history := history db @ rows\<rparr>)"
  by (auto simp: history_write_def intro!: exI [of _ rows] exI [of _ "next_uuid db"])

lemma history_write_fresh [simp]: "history_write db (db\<lparr>next_uuid := Suc (next_uuid db)\<rparr>)"
  by (auto simp: history_write_def intro!: exI [of _ "[]"] exI [of _ "Suc (next_uuid db)"])

lemma history_write_frame:
  assumes "history_write db db'"
  shows "profiles db' = profiles db" "decisions db' = decisions db" "evidence db' = evidence db"
    "proposals db' = proposals db" "resolutions db' = resolutions db" "cycles db' = cycles db"
    "verifications db' = verifications db" "reviews db' = reviews db" "screenings db' = screenings db"
    "documents db' = documents db" "buyers db' = buyers db" "staff db' = staff db"
    "next_uuid db \<le> next_uuid db'"
  using assms by (auto simp: history_write_def)

definition writes_history :: "crm_world \<Rightarrow> crm_world \<Rightarrow> bool" where
  "writes_history w w' \<longleftrightarrow> (\<exists>row. w' = w\<lparr>crm := (crm w)\<lparr>history := history (crm w) @ [row]\<rparr>\<rparr>)"

lemma writes_historyI: "world_history c dim f t a src r dd ev det w = Inr w' \<Longrightarrow> writes_history w w'"
  unfolding writes_history_def by (erule world_history_shape) blast

lemma world_uuid_write: "world_uuid w = (next_uuid (crm w), w\<lparr>crm := (crm w)\<lparr>next_uuid := Suc (next_uuid (crm w))\<rparr>\<rparr>)"
  by (simp add: world_uuid_def fresh_uuid_def)

text \<open>The same and the checks on file, as the writers of verification results and reviews do.\<close>

definition input_write :: "crm_db \<Rightarrow> crm_db \<Rightarrow> bool" where
  "input_write db db' \<longleftrightarrow> (\<exists>vs rs rows n. next_uuid db \<le> n \<and>
     db' = db\<lparr>verifications := vs, reviews := rs, history := history db @ rows, next_uuid := n\<rparr>)"

lemma input_write_trans: "input_write a b \<Longrightarrow> input_write b c \<Longrightarrow> input_write a c"
  unfolding input_write_def by (elim exE conjE) (rule exI, rule exI, rule exI, rule exI, rule conjI [rotated], simp, simp)

lemma input_write_history: "history_write a b \<Longrightarrow> input_write a b"
proof -
  assume "history_write a b"
  then obtain rows n where "next_uuid a \<le> n" "b = a\<lparr>history := history a @ rows, next_uuid := n\<rparr>"
    by (auto simp: history_write_def)
  then show "input_write a b"
    unfolding input_write_def
    by (intro exI [of _ "verifications a"] exI [of _ "reviews a"] exI [of _ rows] exI [of _ n]) (cases a, simp)
qed

lemma input_write_checks: "input_write db (db\<lparr>verifications := vs, reviews := rs\<rparr>)"
  unfolding input_write_def
  by (intro exI [of _ vs] exI [of _ rs] exI [of _ "[]"] exI [of _ "next_uuid db"]) (cases db, simp)

lemma input_write_frame:
  assumes "input_write db db'"
  shows "profiles db' = profiles db" "decisions db' = decisions db" "cycles db' = cycles db"
    "screenings db' = screenings db" "documents db' = documents db" "next_uuid db \<le> next_uuid db'"
  using assms by (auto simp: input_write_def)

section \<open>One company's row besides\<close>

definition company_write :: "uuid \<Rightarrow> exporter_profile \<Rightarrow> crm_db \<Rightarrow> crm_db \<Rightarrow> bool" where
  "company_write c p db db' \<longleftrightarrow> (\<exists>rows n. next_uuid db \<le> n \<and>
     db' = db\<lparr>profiles := (profiles db)(c \<mapsto> p), history := history db @ rows, next_uuid := n\<rparr>)"

lemma company_write_frame:
  assumes "company_write c p db db'"
  shows "profiles db' = (profiles db)(c \<mapsto> p)" "decisions db' = decisions db" "evidence db' = evidence db"
    "proposals db' = proposals db" "resolutions db' = resolutions db" "cycles db' = cycles db"
    "verifications db' = verifications db" "reviews db' = reviews db" "screenings db' = screenings db"
    "documents db' = documents db" "buyers db' = buyers db" "staff db' = staff db"
    "next_uuid db \<le> next_uuid db'"
  using assms by (auto simp: company_write_def)

lemma company_write_profile:
  assumes "profile_write c p db db'"
  shows "company_write c p db db'"
proof -
  from assms obtain rows where
    "db' = db\<lparr>profiles := (profiles db)(c \<mapsto> p), history := history db @ rows\<rparr>"
    by (auto simp: profile_write_def)
  then show ?thesis
    unfolding company_write_def by (intro exI [of _ rows] exI [of _ "next_uuid db"]) (cases db, simp)
qed

lemma company_write_history:
  assumes "history_write db db'" and "profiles db c = Some p"
  shows "company_write c p db db'"
proof -
  from assms(1) obtain rows n where "next_uuid db \<le> n"
    "db' = db\<lparr>history := history db @ rows, next_uuid := n\<rparr>" by (auto simp: history_write_def)
  then show ?thesis
    unfolding company_write_def using assms(2)
    by (intro exI [of _ rows] exI [of _ n]) (cases db, simp add: fun_upd_idem)
qed

lemma company_write_trans:
  assumes "company_write c q a b" and "company_write c p b d"
  shows "company_write c p a d"
proof -
  from assms(1) obtain r1 n1 where 1: "next_uuid a \<le> n1"
    "b = a\<lparr>profiles := (profiles a)(c \<mapsto> q), history := history a @ r1, next_uuid := n1\<rparr>"
    by (auto simp: company_write_def)
  from assms(2) obtain r2 n2 where 2: "next_uuid b \<le> n2"
    "d = b\<lparr>profiles := (profiles b)(c \<mapsto> p), history := history b @ r2, next_uuid := n2\<rparr>"
    by (auto simp: company_write_def)
  show ?thesis
    unfolding company_write_def using 1 2 by (intro exI [of _ "r1 @ r2"] exI [of _ n2]) simp
qed

end
