(* ===== verification/Deal_Lifecycle.thy ===== *)
theory Deal_Lifecycle
  imports Deals World_Writes
begin

text \<open>
  What the operations on deals do: the guard's providers answer, each operation writes one
  deal's row and the history, no operation touches a deal that is handed over or withdrawn, and
  every row stays well formed.
\<close>

section \<open>The providers answer\<close>

definition known_company :: "crm_world \<Rightarrow> uuid \<Rightarrow> bool" where
  "known_company w c \<longleftrightarrow> chain_ok (crm w) \<and> profiles (crm w) c \<noteq> None"

lemma facts_for_company_returns:
  assumes "chain_ok db" and "profiles db c \<noteq> None"
  shows "returns (facts_for_company c t db)"
proof -
  have "returns (company_inputs c db)" by (simp add: company_inputs_eq_Inr assms)
  moreover have "returns (standing c db)"
    using assms chain_ok_latest [OF assms(1), of c] by (auto simp: standing_def Let_def)
  ultimately show ?thesis by (auto simp: facts_for_company_def returns_iff)
qed

interpretation crm_reader: wired_reader "crm_providers w" "known_company w"
  "\<lambda>b. b \<in> set (buyers (crm w))" for w
proof unfold_locales
  fix c t
  assume "known_company w c"
  then show "returns (hp_company (crm_providers w) c t)"
    using facts_for_company_returns [of "crm w" c t]
    by (auto simp: crm_providers_def known_company_def returns_iff)
next
  fix b t
  assume "b \<in> set (buyers (crm w))"
  then show "returns (hp_legacy_buyer (crm_providers w) b t)"
    by (simp add: crm_providers_def facts_for_legacy_buyer_def buyer_checks_def)
next
  fix c t facts
  assume "hp_company (crm_providers w) c t = Inr facts"
  then show "facts \<noteq> None" by (auto simp: crm_providers_def err_simps)
next
  fix b t facts
  assume "hp_legacy_buyer (crm_providers w) b t = Inr facts"
  then show "facts \<noteq> None" by (auto simp: crm_providers_def err_simps)
qed

lemma journey_value_inject [simp]: "journey_value a = journey_value b \<longleftrightarrow> a = b"
  by (cases a; cases b) auto

lemma bc_value_inject [simp]: "bc_value a = bc_value b \<longleftrightarrow> a = b"
  by (cases a; cases b) auto

section \<open>What an operation writes\<close>

definition deal_update :: "crm_world \<Rightarrow> deal_row \<Rightarrow> deal_row \<Rightarrow> crm_world \<Rightarrow> bool" where
  "deal_update w d d' w' \<longleftrightarrow> find_deal w (dl_id d) = Some d \<and> \<not> is_terminal (dl_stage d) \<and>
     dl_id d' = dl_id d \<and> dl_company d' = dl_company d \<and> dl_reference d' = dl_reference d \<and>
     (\<exists>db rs. history_write (crm w) db \<and>
        w' = (save_deal d' w)\<lparr>crm := db, relationships := relationships w @ rs\<rparr>)"

lemma require_deal_Inr [err_simps]: "require_deal w i = Inr d \<longleftrightarrow> find_deal w i = Some d"
  by (simp add: require_deal_def split: option.splits)

lemma found_by_id: "find_deal w i = Some d \<Longrightarrow> find_deal w (dl_id d) = Some d"
  using find_deal_Some by blast

lemma deal_update_history:
  assumes "writes_history (save_deal d' w) w'"
    and "find_deal w i = Some d" and "\<not> is_terminal (dl_stage d)"
    and "dl_id d' = dl_id d" "dl_company d' = dl_company d" "dl_reference d' = dl_reference d"
  shows "deal_update w d d' w'"
proof -
  from assms(1) obtain row where
    w': "w' = (save_deal d' w)\<lparr>crm := (crm (save_deal d' w))\<lparr>history := history (crm (save_deal d' w)) @ [row]\<rparr>\<rparr>"
    by (auto simp: writes_history_def)
  have "w' = (save_deal d' w)\<lparr>crm := (crm w)\<lparr>history := history (crm w) @ [row]\<rparr>,
      relationships := relationships w @ []\<rparr>"
    by (simp add: w' save_deal_def)
  with found_by_id [OF assms(2)] assms(3-) show ?thesis
    unfolding deal_update_def by (blast intro: history_write_row)
qed

definition moved_deal :: "deal_stage \<Rightarrow> string option \<Rightarrow> instant \<Rightarrow> deal_row \<Rightarrow> crm_world \<Rightarrow> deal_row" where
  "moved_deal to_stage reason later d w =
    (let m = d\<lparr>dl_stage := to_stage, dl_withdrawal_reason := reason\<rparr>
     in if to_stage = HANDED_OVER
        then m\<lparr>dl_handed_over_at := Some later,
               dl_snapshot := Some (take_snapshot (m\<lparr>dl_handed_over_at := Some later\<rparr>) later w)\<rparr>
        else m)"

lemma transition_effect:
  assumes "transition_stage env later i to_stage reason a w = Inr ((v, ev), w')"
  obtains d where "find_deal w i = Some d" and "to_stage \<in> set (PERMITTED_STAGE_MOVES (dl_stage d))"
    and "(to_stage = DEAL_WITHDRAWN) = (clean_text reason \<noteq> None)"
    and "to_stage = HANDED_OVER \<Longrightarrow> dl_buyer_company d \<noteq> None \<or> dl_buyer d \<noteq> None"
    and "to_stage = HANDED_OVER \<Longrightarrow> handover_blocked_reason env d w = Inr None"
    and "deal_update w d (moved_deal to_stage (clean_text reason) later d w) w'"
proof -
  from assms obtain d where d: "find_deal w i = Some d" and nt: "\<not> is_terminal (dl_stage d)"
    and to: "to_stage \<in> set (PERMITTED_STAGE_MOVES (dl_stage d))"
    and r1: "\<not> (to_stage \<in> set DEAL_NEEDS_REASON \<and> clean_text reason = None)"
    and r2: "\<not> (to_stage \<notin> set DEAL_NEEDS_REASON \<and> clean_text reason \<noteq> None)"
    and g: "to_stage \<in> set NEEDS_BUYER \<Longrightarrow> \<not> (dl_buyer_company d = None \<and> dl_buyer d = None) \<and>
      handover_blocked_reason env d w = Inr None"
    and h: "writes_history (save_deal (moved_deal to_stage (clean_text reason) later d w) w) w'"
    by (auto simp: transition_stage_def moved_deal_def Let_def err_simps dest!: writes_historyI
        split: if_splits option.splits)
  from h have "deal_update w d (moved_deal to_stage (clean_text reason) later d w) w'"
    by (rule deal_update_history) (use d nt in \<open>simp_all add: moved_deal_def Let_def\<close>)
  with d to r1 r2 g show thesis by (intro that) (auto simp: DEAL_NEEDS_REASON_def NEEDS_BUYER_def)
qed

text \<open>The row of the pair exists afterwards, found or made.\<close>

lemma get_or_create_effect:
  assumes "get_or_create_relationship s b a src ref (save_deal d w) = Inr (r, w1)"
  obtains db rs where "w1 = (save_deal d w)\<lparr>crm := db, relationships := relationships w @ rs\<rparr>"
    and "history_write (crm w) db" and "\<exists>r \<in> set (relationships w1). tr_seller r = s \<and> tr_buyer r = b"
proof -
  let ?find = "find (\<lambda>r. tr_seller r = s \<and> tr_buyer r = b) (relationships w)"
  show thesis
  proof (cases ?find)
    case (Some r')
    with assms have w1: "w1 = save_deal d w" and "r = (r', False)"
      by (auto simp: get_or_create_relationship_def split: if_splits)
    with find_filter_Some [OF Some] show thesis
      by (intro that [where db = "crm w" and rs = "[]"]) (auto simp: save_deal_def)
  next
    case None
    let ?row = "\<lparr>tr_id = next_uuid (crm w), tr_seller = s, tr_buyer = b, tr_created_by = a, tr_source = src,
        tr_source_ref = ref\<rparr>"
    let ?db = "(crm w)\<lparr>next_uuid := Suc (next_uuid (crm w))\<rparr>"
    from None assms have w1: "w1 = (save_deal d w)\<lparr>crm := ?db, relationships := relationships w @ [?row]\<rparr>"
      by (auto simp: get_or_create_relationship_def world_uuid_def fresh_uuid_def Let_def save_deal_def
          split: if_splits)
    show thesis by (rule that [OF w1]) (simp_all add: w1)
  qed
qed

lemma set_buyer_effect:
  assumes "set_buyer_company env i b a w = Inr (v, w')"
  obtains (same) d where "w' = w" and "find_deal w i = Some d" and "dl_buyer_company d = Some b"
  | (set) d where "find_deal w i = Some d" and "dl_buyer_company d = None" and "b \<noteq> dl_company d"
      and "profiles (crm w) b \<noteq> None" and "deal_update w d (d\<lparr>dl_buyer_company := Some b\<rparr>) w'"
      and "\<exists>r \<in> set (relationships w'). tr_seller r = dl_company d \<and> tr_buyer r = b"
proof -
  from assms obtain d where d: "find_deal w i = Some d" and nt: "\<not> is_terminal (dl_stage d)"
    and rest: "(case dl_buyer_company d of
       Some c \<Rightarrow> c = b \<and> w' = w
     | None \<Rightarrow> b \<noteq> dl_company d \<and> profiles (crm w) b \<noteq> None \<and>
         (\<exists>r w1. get_or_create_relationship (dl_company d) b a SOURCE_DEAL_BUYER_RECORDED
            (Some (UuidText (dl_id d))) (save_deal (d\<lparr>dl_buyer_company := Some b\<rparr>) w) = Inr (r, w1) \<and>
          writes_history w1 w'))"
    by (fastforce simp: set_buyer_company_def Let_def err_simps dest: writes_historyI
        split: option.splits if_splits)
  show thesis
  proof (cases "dl_buyer_company d")
    case (Some c)
    with rest d same show thesis by simp
  next
    case None
    let ?d = "d\<lparr>dl_buyer_company := Some b\<rparr>"
    from None rest obtain r w1 where b: "b \<noteq> dl_company d"
      "profiles (crm w) b \<noteq> None"
      and g: "get_or_create_relationship (dl_company d) b a SOURCE_DEAL_BUYER_RECORDED
            (Some (UuidText (dl_id d))) (save_deal ?d w) = Inr (r, w1)"
      and h: "writes_history w1 w'" by auto
    from g obtain db rs where w1: "w1 = (save_deal ?d w)\<lparr>crm := db, relationships := relationships w @ rs\<rparr>"
      and db: "history_write (crm w) db"
      and rel: "\<exists>r \<in> set (relationships w1). tr_seller r = dl_company d \<and> tr_buyer r = b"
      by (rule get_or_create_effect)
    from h obtain row where w': "w' = w1\<lparr>crm := (crm w1)\<lparr>history := history (crm w1) @ [row]\<rparr>\<rparr>"
      by (auto simp: writes_history_def)
    have "w' = (save_deal ?d w)\<lparr>crm := db\<lparr>history := history db @ [row]\<rparr>,
        relationships := relationships w @ rs\<rparr>"
      by (simp add: w' w1)
    moreover have "history_write (crm w) (db\<lparr>history := history db @ [row]\<rparr>)"
      by (rule history_write_trans [OF db history_write_row])
    ultimately have "deal_update w d ?d w'" using found_by_id [OF d] nt by (auto simp: deal_update_def)
    with d None b rel show thesis by (intro set) (auto simp: w')
  qed
qed

lemma set_branch_effect:
  assumes "set_invoicing_branch env i b a w = Inr (v, w')"
  obtains (same) "w' = w"
  | (set) d where "find_deal w i = Some d" and "deal_update w d (d\<lparr>dl_branch := b\<rparr>) w'"
      and "\<And>g. b = Some g \<Longrightarrow> \<exists>r. find_gstin w g = Some r \<and> gs_company r = dl_company d \<and> gs_active r"
proof -
  from assms obtain d where d: "find_deal w i = Some d" and nt: "\<not> is_terminal (dl_stage d)"
    and g: "\<And>g. b = Some g \<Longrightarrow> \<exists>r. find_gstin w g = Some r \<and> gs_company r = dl_company d \<and> gs_active r"
    and rest: "w' = w \<or> writes_history (save_deal (d\<lparr>dl_branch := b\<rparr>) w) w'"
    by (cases b) (auto simp: set_invoicing_branch_def Let_def err_simps dest!: writes_historyI
        split: if_splits)
  from rest show thesis
  proof (elim disjE)
    assume "writes_history (save_deal (d\<lparr>dl_branch := b\<rparr>) w) w'"
    then have "deal_update w d (d\<lparr>dl_branch := b\<rparr>) w'"
      by (rule deal_update_history) (use d nt in simp_all)
    with d g show thesis by (intro set)
  qed (rule same)
qed

lemma apply_terms_frame:
  assumes "apply_terms d terms dflt w = Inr d'"
  obtains v c i r where "d' = d\<lparr>dl_value := v, dl_currency := c, dl_term := i, dl_override_reason := r\<rparr>"
proof -
  define d1 where "d1 = (case tm_value terms of None \<Rightarrow> d | Some v \<Rightarrow> d\<lparr>dl_value := v\<rparr>)"
  define d2 where "d2 = (case tm_currency terms of None \<Rightarrow> d1 | Some c \<Rightarrow> d1\<lparr>dl_currency := c\<rparr>)"
  from assms obtain d3 where
    m: "(case tm_term terms of None \<Rightarrow> Inr d2 | Some None \<Rightarrow> Inr (d2\<lparr>dl_term := None\<rparr>)
      | Some (Some i) \<Rightarrow> if dl_term d2 = Some i then Inr d2
          else bindE (offerable w i) (\<lambda>t. Inr (d2\<lparr>dl_term := Some (pt_id t)\<rparr>))) = Inr d3"
    and r: "d' = d3 \<or> (\<exists>r. d' = d3\<lparr>dl_override_reason := r\<rparr>)"
    unfolding apply_terms_def Let_def d1_def [symmetric] d2_def [symmetric]
    by (auto simp: err_simps split: if_splits)
  have 1: "\<exists>v c. d2 = d\<lparr>dl_value := v, dl_currency := c\<rparr>"
    by (intro exI [of _ "dl_value d2"] exI [of _ "dl_currency d2"])
      (simp add: d2_def d1_def split: option.splits)
  have 2: "\<exists>i. d3 = d2\<lparr>dl_term := i\<rparr>"
    by (intro exI [of _ "dl_term d3"]) (use m in \<open>auto simp: err_simps split: option.splits if_splits\<close>)
  have 3: "\<exists>r. d' = d3\<lparr>dl_override_reason := r\<rparr>"
    by (intro exI [of _ "dl_override_reason d'"]) (use r in auto)
  from 1 2 3 show thesis by (elim exE) (rule that, simp)
qed

lemma deal_checks_stored [simp]: "deal_checks (stored_deal d) = deal_checks d"
  by (simp add: deal_checks_def stored_deal_def)

lemma flush_deal_Inr [err_simps]: "flush_deal d = Inr u \<longleftrightarrow> deal_checks d"
  by (simp add: flush_deal_def require_eq_Inr)

lemma set_terms_effect:
  assumes "set_terms env i terms a w = Inr (v, w')"
  obtains d d' where "find_deal w i = Some d" and "deal_update w d d' w'" and "deal_checks d'"
    and "\<exists>x c t r. d' = stored_deal (d\<lparr>dl_value := x, dl_currency := c, dl_term := t, dl_override_reason := r\<rparr>)"
proof -
  from assms obtain d d2 where d: "find_deal w i = Some d" and nt: "\<not> is_terminal (dl_stage d)"
    and ap: "apply_terms d terms (company_default_term w (dl_company d)) w = Inr d2"
    and c: "deal_checks d2" and h: "writes_history (save_deal (stored_deal d2) w) w'"
    by (auto simp: set_terms_def Let_def err_simps dest!: writes_historyI)
  from ap obtain x cu t r where
    d2: "d2 = d\<lparr>dl_value := x, dl_currency := cu, dl_term := t, dl_override_reason := r\<rparr>"
    by (rule apply_terms_frame)
  have "deal_update w d (stored_deal d2) w'"
    by (rule deal_update_history [OF h]) (use d nt in \<open>simp_all add: d2 stored_deal_def\<close>)
  with d c show thesis by (intro that [of d "stored_deal d2"]) (auto simp: d2)
qed

lemma stored_amount_places [simp]: "snd (stored_amount x) = 2"
  by (cases x) simp

text \<open>Opening appends one row, in the first stage, and sets the conversation to \<open>READY_NOW\<close>.\<close>

lemma open_deal_effect:
  assumes "open_deal env c reference a terms w = Inr (v, w')" and k: "keyed (crm w)"
  obtains d r p p' db where "clean_text reference = Some r" and "profiles (crm w) c = Some p"
    and "journey_of p \<in> {PROSPECT, CUSTOMER}" and "pipeline_st p = IN_PIPELINE"
    and "\<forall>x \<in> set (deals w). \<not> (dl_company x = c \<and> dl_reference x = r)"
    and "dl_id d = next_uuid (crm w)" "dl_company d = c" "dl_reference d = r" "dl_stage d = DEAL_OPEN"
      "dl_handed_over_at d = None" "dl_snapshot d = None" "dl_buyer_company d = None" "dl_branch d = None"
    and "deal_checks d" and "\<forall>x. dl_value d = Some x \<longrightarrow> snd x = 2"
    and "w' = w\<lparr>crm := crm w', deals := deals w @ [d]\<rparr>"
    and "history_write (crm w) db" and "next_uuid (crm w) < next_uuid db" and "profile_write c p' db (crm w')"
    and "p' = p \<and> conversation_of p = READY_NOW \<or> p' = p\<lparr>conversation_of := READY_NOW, check_back_on := None\<rparr>"
proof -
  obtain r where r: "clean_text reference = Some r"
    using assms(1) by (auto simp: open_deal_def split: option.splits)
  let ?w = "w\<lparr>crm := (crm w)\<lparr>next_uuid := Suc (next_uuid (crm w))\<rparr>\<rparr>"
  let ?d0 = "\<lparr>dl_id = next_uuid (crm w), dl_company = c, dl_reference = r,
      dl_stage = DEAL_OPEN, dl_withdrawal_reason = None, dl_handed_over_at = None, dl_buyer_company = None,
      dl_snapshot = None, dl_branch = None, dl_value = None, dl_currency = None,
      dl_term = map_option pt_id (company_default_term w c), dl_override_reason = None, dl_buyer = None\<rparr>"
  obtain j d1 w1 db' where j: "company_journey w c = Some j" "j \<in> set OPENABLE_JOURNEYS"
    and nt: "\<not> list_ex (\<lambda>d. dl_company d = c \<and> dl_reference d = r) (deals w)"
    and ap: "(case terms of None \<Rightarrow> Inr ?d0 | Some t \<Rightarrow> apply_terms ?d0 t (company_default_term w c) ?w) = Inr d1"
    and ck: "deal_checks d1"
    and h: "writes_history (?w\<lparr>deals := deals ?w @ [stored_deal d1]\<rparr>) w1"
    and m: "mark_ready_now_for_opened_deal c (next_uuid (crm w)) a (crm w1) = Inr db'"
    and w': "w' = w1\<lparr>crm := db'\<rparr>"
    using assms(1) unfolding open_deal_def r option.case Let_def world_uuid_def fresh_uuid_def
      prod.case err_simps prod.inject
    by (elim exE conjE) (rule that, assumption+, erule writes_historyI, assumption, simp)
  have fr: "\<exists>v cu i o'. d1 = ?d0\<lparr>dl_value := v, dl_currency := cu, dl_term := i, dl_override_reason := o'\<rparr>"
  proof (cases terms)
    case None
    with ap show ?thesis by (intro exI) auto
  next
    case (Some t)
    with ap have "apply_terms ?d0 t (company_default_term w c) ?w = Inr d1" by simp
    then show ?thesis by (rule apply_terms_frame) blast
  qed
  from h obtain row where w1: "w1 = ?w\<lparr>deals := deals w @ [stored_deal d1],
      crm := (crm ?w)\<lparr>history := history (crm ?w) @ [row]\<rparr>\<rparr>" by (auto simp: writes_history_def)
  then have c1: "crm w1 = (crm w)\<lparr>next_uuid := Suc (next_uuid (crm w)), history := history (crm w) @ [row]\<rparr>"
    by simp
  have hw: "history_write (crm w) (crm w1)"
    unfolding history_write_def c1 by (intro exI [of _ "[row]"] exI [of _ "Suc (next_uuid (crm w))"]) simp
  have "keyed (crm w1)" using k by (simp add: c1 keyed_def)
  from mark_ready_effect [OF m this] obtain p p' where p: "profiles (crm w1) c = Some p"
    "pipeline_st p = IN_PIPELINE" and p': "p' = p \<and> conversation_of p = READY_NOW \<or>
      p' = p\<lparr>conversation_of := READY_NOW, check_back_on := None\<rparr>"
    and wr: "profile_write c p' (crm w1) db'" .
  show thesis
  proof (rule that [OF r _ _ p(2), where d = "stored_deal d1" and db = "crm w1" and p' = p'])
    show "profiles (crm w) c = Some p" using p by (simp add: c1)
    then show "journey_of p \<in> {PROSPECT, CUSTOMER}"
      using j by (simp add: company_journey_def OPENABLE_JOURNEYS_def)
    show "\<forall>x \<in> set (deals w). \<not> (dl_company x = c \<and> dl_reference x = r)"
      using nt by (auto simp: list_ex_iff)
    show "profile_write c p' (crm w1) (crm w')" using wr by (simp add: w')
    show "w' = w\<lparr>crm := crm w', deals := deals w @ [stored_deal d1]\<rparr>" by (simp add: w' w1)
    show "next_uuid (crm w) < next_uuid (crm w1)" by (simp add: c1)
    show "deal_checks (stored_deal d1)" using ck by simp
    show "\<forall>x. dl_value (stored_deal d1) = Some x \<longrightarrow> snd x = 2" by (auto simp: stored_deal_def)
  qed (use fr r p' hw in \<open>auto simp: stored_deal_def\<close>)
qed

end
