(* ===== verification/Deal_Rows.thy ===== *)
theory Deal_Rows
  imports Deal_Lifecycle
begin

text \<open>
  The typing discipline of the deal table: what each row says about itself (its CHECK constraints,
  the stage with its time and snapshot), what it refers to (its seller, its buyer and their trade
  relationship, its branch), and that every operation keeps all of it.
\<close>

section \<open>A well-formed deal\<close>

definition snapshot_agrees :: "deal_row \<Rightarrow> handover_snapshot \<Rightarrow> bool" where
  "snapshot_agrees d s \<longleftrightarrow> hv_buyer_company s = dl_buyer_company d \<and> dl_handed_over_at d = Some (hv_at s) \<and>
     ht_value (hv_terms s) = dl_value d \<and> ht_currency (hv_terms s) = dl_currency d \<and>
     ht_override_reason (hv_terms s) = dl_override_reason d \<and> hv_source s = SNAPSHOT_TAKEN_AT_HANDOVER"

definition deal_row_ok :: "deal_row \<Rightarrow> bool" where
  "deal_row_ok d \<longleftrightarrow> deal_checks d \<and> (\<forall>x. dl_value d = Some x \<longrightarrow> snd x = 2) \<and>
     (dl_stage d = HANDED_OVER \<longleftrightarrow> dl_handed_over_at d \<noteq> None) \<and>
     (case dl_snapshot d of None \<Rightarrow> dl_stage d \<noteq> HANDED_OVER
      | Some s \<Rightarrow> dl_stage d = HANDED_OVER \<and> snapshot_agrees d s \<and>
          (dl_buyer_company d \<noteq> None \<or> dl_buyer d \<noteq> None))"

definition deal_links_ok :: "crm_world \<Rightarrow> deal_row \<Rightarrow> bool" where
  "deal_links_ok w d \<longleftrightarrow> dl_id d < next_uuid (crm w) \<and>
     (\<exists>p. profiles (crm w) (dl_company d) = Some p \<and> journey_of p \<noteq> LEAD) \<and>
     (\<forall>b. dl_buyer_company d = Some b \<longrightarrow> profiles (crm w) b \<noteq> None \<and>
        (\<exists>r \<in> set (relationships w). tr_seller r = dl_company d \<and> tr_buyer r = b)) \<and>
     (\<forall>g. dl_branch d = Some g \<longrightarrow>
        (\<exists>r \<in> set (registrations w). gs_id r = g \<and> gs_company r = dl_company d))"

definition deals_ok :: "crm_world \<Rightarrow> bool" where
  "deals_ok w \<longleftrightarrow> distinct (map dl_id (deals w)) \<and>
     distinct (map (\<lambda>d. (dl_company d, dl_reference d)) (deals w)) \<and>
     (\<forall>d \<in> set (deals w). deal_row_ok d \<and> deal_links_ok w d)"

text \<open>Nothing a deal refers to goes away, and no company returns to \<open>LEAD\<close>.\<close>

definition referents_kept :: "crm_world \<Rightarrow> crm_world \<Rightarrow> bool" where
  "referents_kept w w' \<longleftrightarrow> next_uuid (crm w) \<le> next_uuid (crm w') \<and>
     (\<forall>c p. profiles (crm w) c = Some p \<longrightarrow> (\<exists>p'. profiles (crm w') c = Some p' \<and>
        (journey_of p \<noteq> LEAD \<longrightarrow> journey_of p' \<noteq> LEAD))) \<and>
     set (relationships w) \<subseteq> set (relationships w') \<and>
     (\<forall>r \<in> set (registrations w). \<exists>r' \<in> set (registrations w').
        gs_id r' = gs_id r \<and> gs_company r' = gs_company r)"

lemma referents_kept_refl: "referents_kept w w"
  by (auto simp: referents_kept_def)

lemma deal_links_kept:
  assumes k: "referents_kept w w'" and d: "deal_links_ok w d"
  shows "deal_links_ok w' d"
proof -
  have c: "\<exists>p'. profiles (crm w') c = Some p' \<and> (journey_of p \<noteq> LEAD \<longrightarrow> journey_of p' \<noteq> LEAD)"
    if "profiles (crm w) c = Some p" for c p using k that by (simp add: referents_kept_def)
  have r: "set (relationships w) \<subseteq> set (relationships w')" and n: "next_uuid (crm w) \<le> next_uuid (crm w')"
    and g: "\<exists>x' \<in> set (registrations w'). gs_id x' = gs_id x \<and> gs_company x' = gs_company x"
      if "x \<in> set (registrations w)" for x
    using k that by (simp_all add: referents_kept_def)
  show ?thesis
    unfolding deal_links_ok_def
  proof (intro conjI allI impI)
    show "dl_id d < next_uuid (crm w')" using d k by (simp add: deal_links_ok_def referents_kept_def)
    show "\<exists>p. profiles (crm w') (dl_company d) = Some p \<and> journey_of p \<noteq> LEAD"
      using d c unfolding deal_links_ok_def by blast
  next
    fix b assume b: "dl_buyer_company d = Some b"
    show "profiles (crm w') b \<noteq> None" using d b c [of b] by (force simp: deal_links_ok_def)
    show "\<exists>r \<in> set (relationships w'). tr_seller r = dl_company d \<and> tr_buyer r = b"
      using d b k unfolding deal_links_ok_def referents_kept_def by blast
  next
    fix g' assume "dl_branch d = Some g'"
    then obtain x where x: "x \<in> set (registrations w)" "gs_id x = g'" "gs_company x = dl_company d"
      using d by (auto simp: deal_links_ok_def)
    from g [OF x(1)] x(2,3) show "\<exists>r \<in> set (registrations w'). gs_id r = g' \<and> gs_company r = dl_company d"
      by auto
  qed
qed

text \<open>A step that keeps the table and what it refers to keeps the discipline.\<close>

lemma deals_ok_kept:
  "deals_ok w \<Longrightarrow> deals w' = deals w \<Longrightarrow> referents_kept w w' \<Longrightarrow> deals_ok w'"
  using deal_links_kept [of w w'] by (auto simp: deals_ok_def)

section \<open>Updates of one row\<close>

lemma deal_update_tables:
  assumes "deal_update w d d' w'"
  shows "deals w' = map (\<lambda>x. if dl_id x = dl_id d then d' else x) (deals w)"
    and "history_write (crm w) (crm w')" and "registrations w' = registrations w"
    and "set (relationships w) \<subseteq> set (relationships w')" and "d \<in> set (deals w)"
    and "dl_id d' = dl_id d" "dl_company d' = dl_company d" "dl_reference d' = dl_reference d"
    and "\<not> is_terminal (dl_stage d)"
  using assms by (auto simp: deal_update_def save_deal_def dest: find_deal_Some)

lemma deal_update_referents:
  assumes "deal_update w d d' w'"
  shows "referents_kept w w'"
proof -
  note t = deal_update_tables [OF assms] and f = history_write_frame [OF deal_update_tables(2) [OF assms]]
  show ?thesis unfolding referents_kept_def f(1) t(3) using f(13) t(4) by blast
qed

lemma deals_ok_update:
  assumes ok: "deals_ok w" and u: "deal_update w d d' w'" and row: "deal_row_ok d'"
    and links: "deal_links_ok w' d'"
  shows "deals_ok w'"
proof -
  note t = deal_update_tables [OF u]
  have "map dl_id (deals w') = map dl_id (deals w)" using t(6) by (simp add: t(1) o_def)
  moreover have key: "map (\<lambda>d. (dl_company d, dl_reference d)) (deals w') =
      map (\<lambda>d. (dl_company d, dl_reference d)) (deals w)"
  proof -
    have "x = d" if "x \<in> set (deals w)" "dl_id x = dl_id d" for x
      using ok t(5) that by (auto simp: deals_ok_def distinct_map inj_on_def)
    then show ?thesis using t(7,8) by (auto simp: t(1))
  qed
  moreover have "deal_row_ok x \<and> deal_links_ok w' x" if "x \<in> set (deals w')" for x
    using that ok row links deal_links_kept [OF deal_update_referents [OF u]]
    by (auto simp: t(1) deals_ok_def)
  ultimately show ?thesis using ok by (simp add: deals_ok_def)
qed

text \<open>A deal that is over is never written again.\<close>

lemma update_keeps_terminal:
  assumes "deals_ok w" and "deal_update w d d' w'" and "x \<in> set (deals w)" and "is_terminal (dl_stage x)"
  shows "x \<in> set (deals w')"
proof -
  note t = deal_update_tables [OF assms(2)]
  have "dl_id x \<noteq> dl_id d"
    using assms(1,3,4) t(5,9) by (auto simp: deals_ok_def distinct_map inj_on_def)
  with assms(3) show ?thesis by (force simp: t(1))
qed

lemma found_row:
  assumes "deals_ok w" and "find_deal w i = Some d"
  shows "d \<in> set (deals w)" "deal_row_ok d" "deal_links_ok w d"
  using assms find_deal_Some [OF assms(2)] by (auto simp: deals_ok_def)

lemma open_row:
  "deal_row_ok d \<Longrightarrow> \<not> is_terminal (dl_stage d) \<Longrightarrow>
   dl_snapshot d = None \<and> dl_handed_over_at d = None \<and> dl_withdrawal_reason d = None"
  by (auto simp: deal_row_ok_def is_terminal_def deal_checks_def split: option.splits)

section \<open>Every operation keeps the discipline\<close>

lemma moved_row_ok:
  assumes ok: "deal_row_ok d" and "\<not> is_terminal (dl_stage d)"
    and r: "(to_stage = DEAL_WITHDRAWN) = (reason \<noteq> None)"
    and b: "to_stage = HANDED_OVER \<Longrightarrow> dl_buyer_company d \<noteq> None \<or> dl_buyer d \<noteq> None"
  shows "deal_row_ok (moved_deal to_stage reason later d w)"
proof -
  note o = open_row [OF assms(1,2)]
  show ?thesis
  proof (cases "to_stage = HANDED_OVER")
    case True
    with ok o r b [OF True] show ?thesis
      by (auto simp: moved_deal_def Let_def deal_row_ok_def deal_checks_def snapshot_agrees_def take_snapshot_def)
  next
    case False
    with ok o r show ?thesis by (auto simp: moved_deal_def Let_def deal_row_ok_def deal_checks_def)
  qed
qed

lemma links_same_refs:
  "deal_links_ok w d \<Longrightarrow> dl_id d' = dl_id d \<Longrightarrow> dl_company d' = dl_company d \<Longrightarrow>
   dl_buyer_company d' = dl_buyer_company d \<Longrightarrow> dl_branch d' = dl_branch d \<Longrightarrow> deal_links_ok w d'"
  by (simp add: deal_links_ok_def)

lemma deals_ok_transition:
  assumes ok: "deals_ok w" and tr: "transition_stage env later i to_stage reason a w = Inr (v, w')"
  shows "deals_ok w'"
proof -
  obtain v1 ev where v: "v = (v1, ev)" by (cases v)
  from tr [unfolded v] obtain d where d: "find_deal w i = Some d"
    and r: "(to_stage = DEAL_WITHDRAWN) = (clean_text reason \<noteq> None)"
    and b: "to_stage = HANDED_OVER \<Longrightarrow> dl_buyer_company d \<noteq> None \<or> dl_buyer d \<noteq> None"
    and u: "deal_update w d (moved_deal to_stage (clean_text reason) later d w) w'"
    by (rule transition_effect) blast
  note row = found_row [OF ok d] and t = deal_update_tables [OF u]
  have "deal_row_ok (moved_deal to_stage (clean_text reason) later d w)"
    by (rule moved_row_ok [OF row(2) t(9) r b])
  moreover have "deal_links_ok w' (moved_deal to_stage (clean_text reason) later d w)"
    by (rule links_same_refs [OF deal_links_kept [OF deal_update_referents [OF u] row(3)]])
      (simp_all add: moved_deal_def Let_def)
  ultimately show ?thesis by (rule deals_ok_update [OF ok u])
qed

lemma deals_ok_buyer:
  assumes ok: "deals_ok w" and s: "set_buyer_company env i b a w = Inr (v, w')"
  shows "deals_ok w'"
  using s
proof (cases rule: set_buyer_effect)
  case same
  with ok show ?thesis by simp
next
  case (set d)
  note row = found_row [OF ok set(1)] and t = deal_update_tables [OF set(5)]
    and f = history_write_frame [OF deal_update_tables(2) [OF set(5)]]
  have "deal_row_ok (d\<lparr>dl_buyer_company := Some b\<rparr>)"
    using row(2) open_row [OF row(2) t(9)] set(3) by (auto simp: deal_row_ok_def deal_checks_def)
  moreover have "deal_links_ok w' (d\<lparr>dl_buyer_company := Some b\<rparr>)"
    using deal_links_kept [OF deal_update_referents [OF set(5)] row(3)] set(4,6)
    by (auto simp: deal_links_ok_def f)
  ultimately show ?thesis by (rule deals_ok_update [OF ok set(5)])
qed

lemma deals_ok_branch:
  assumes ok: "deals_ok w" and s: "set_invoicing_branch env i b a w = Inr (v, w')"
  shows "deals_ok w'"
  using s
proof (cases rule: set_branch_effect)
  case same
  with ok show ?thesis by simp
next
  case (set d)
  note row = found_row [OF ok set(1)] and t = deal_update_tables [OF set(2)]
  have "deal_row_ok (d\<lparr>dl_branch := b\<rparr>)"
    using row(2) open_row [OF row(2) t(9)] by (auto simp: deal_row_ok_def deal_checks_def)
  moreover have "\<exists>r \<in> set (registrations w'). gs_id r = g \<and> gs_company r = dl_company d" if "b = Some g" for g
    using set(3) [OF that] t(3) by (auto simp: find_gstin_def dest: find_filter_Some)
  then have "deal_links_ok w' (d\<lparr>dl_branch := b\<rparr>)"
    using deal_links_kept [OF deal_update_referents [OF set(2)] row(3)] by (simp add: deal_links_ok_def)
  ultimately show ?thesis by (intro deals_ok_update [OF ok set(2)])
qed

lemma stored_amount_2: "stored_amount x = (n, k) \<Longrightarrow> k = 2"
  using stored_amount_places [of x] by simp

lemma deals_ok_terms:
  assumes ok: "deals_ok w" and s: "set_terms env i terms a w = Inr (v, w')"
  shows "deals_ok w'"
proof -
  from s obtain d d' where d: "find_deal w i = Some d" and u: "deal_update w d d' w'" and c: "deal_checks d'"
    and sh: "\<exists>x c t r. d' = stored_deal (d\<lparr>dl_value := x, dl_currency := c, dl_term := t, dl_override_reason := r\<rparr>)"
    by (rule set_terms_effect)
  note row = found_row [OF ok d] and t = deal_update_tables [OF u]
  have "\<forall>x. dl_value d' = Some x \<longrightarrow> snd x = 2" using sh
    by (auto simp: stored_deal_def simp del: stored_amount.simps dest: stored_amount_2)
  then have "deal_row_ok d'"
    using row(2) open_row [OF row(2) t(9)] c sh
    by (auto simp: deal_row_ok_def stored_deal_def simp del: split_paired_All)
  moreover have "deal_links_ok w' d'"
    by (rule links_same_refs [OF deal_links_kept [OF deal_update_referents [OF u] row(3)]])
      (use sh in \<open>auto simp: stored_deal_def\<close>)
  ultimately show ?thesis by (rule deals_ok_update [OF ok u])
qed

lemma deals_ok_open:
  assumes ok: "deals_ok w" and k: "keyed (crm w)" and o: "open_deal env c reference a terms w = Inr (v, w')"
  shows "deals_ok w'" and "set (deals w) \<subseteq> set (deals w')"
proof -
  obtain d r p p' db where p: "profiles (crm w) c = Some p" and j: "journey_of p \<in> {PROSPECT, CUSTOMER}"
    and fr: "\<forall>x \<in> set (deals w). \<not> (dl_company x = c \<and> dl_reference x = r)"
    and d: "dl_id d = next_uuid (crm w)" "dl_company d = c" "dl_reference d = r" "dl_stage d = DEAL_OPEN"
      "dl_handed_over_at d = None" "dl_snapshot d = None" "dl_buyer_company d = None" "dl_branch d = None"
    and c: "deal_checks d" "\<forall>x. dl_value d = Some x \<longrightarrow> snd x = 2"
    and w': "w' = w\<lparr>crm := crm w', deals := deals w @ [d]\<rparr>"
    and h: "history_write (crm w) db" "next_uuid (crm w) < next_uuid db" and pw: "profile_write c p' db (crm w')"
    and p': "p' = p \<and> conversation_of p = READY_NOW \<or> p' = p\<lparr>conversation_of := READY_NOW, check_back_on := None\<rparr>"
    by (rule open_deal_effect [OF o k]) blast
  have ds: "deals w' = deals w @ [d]" and rg: "registrations w' = registrations w"
    and rl: "relationships w' = relationships w" by (subst w', simp)+
  then show "set (deals w) \<subseteq> set (deals w')" by auto
  note f = history_write_frame [OF h(1)] profile_write_frame [OF pw]
  have jp: "journey_of p' = journey_of p" using p' by auto
  have pr: "profiles (crm w') = (profiles (crm w))(c \<mapsto> p')" and nx: "next_uuid (crm w) < next_uuid (crm w')"
    using f h(2) by simp_all
  have rk: "referents_kept w w'" using p jp nx by (auto simp: referents_kept_def pr rg rl)
  have "dl_id d \<notin> dl_id ` set (deals w)"
    using ok d(1) by (auto simp: deals_ok_def deal_links_ok_def)
  moreover have "(dl_company d, dl_reference d) \<notin> (\<lambda>d. (dl_company d, dl_reference d)) ` set (deals w)"
    using fr d by auto
  moreover have "deal_row_ok d" using c d by (simp add: deal_row_ok_def)
  moreover have "deal_links_ok w' d" using d j jp nx by (auto simp: deal_links_ok_def pr)
  ultimately show "deals_ok w'"
    using ok deal_links_kept [OF rk] by (auto simp: deals_ok_def ds)
qed

end
