(* ===== verification/Qualification.thy ===== *)
theory Qualification
  imports World Calendar Company_Record
begin

text \<open>
  Qualification, \<open>application/qualification_service.py\<close>, its repository and
  \<open>domain/qualification_reason_codes.py\<close>: versioned criteria, results pinned to a version, the
  server's suggestion, and the outcome a person or a partner records, which moves the gauge and,
  for a lead, the journey.
\<close>

section \<open>Values\<close>

fun result_value :: "criterion_result \<Rightarrow> string" where
  "result_value RESULT_PASS = ''PASS''"
| "result_value RESULT_FAIL = ''FAIL''"
| "result_value RESULT_UNKNOWN = ''UNKNOWN''"

fun q_outcome_value :: "outcome_value \<Rightarrow> string" where
  "q_outcome_value OUTCOME_QUALIFIED = ''QUALIFIED''"
| "q_outcome_value OUTCOME_NOT_QUALIFIED = ''NOT_QUALIFIED''"

text \<open>\<open>QualificationState(outcome.value)\<close>.\<close>

fun state_of_outcome :: "outcome_value \<Rightarrow> qualification_state" where
  "state_of_outcome OUTCOME_QUALIFIED = QUALIFIED"
| "state_of_outcome OUTCOME_NOT_QUALIFIED = NOT_QUALIFIED"

fun q_source_value :: "qualification_source \<Rightarrow> string" where
  "q_source_value QS_MANUAL = ''MANUAL''"
| "q_source_value QS_IMPORT = ''IMPORT''"
| "q_source_value QS_RXIL = ''RXIL''"
| "q_source_value QS_AUTOMATED = ''AUTOMATED''"

fun q_kind_value :: "decided_by_kind \<Rightarrow> string" where
  "q_kind_value MANUAL_KIND = ''MANUAL''"
| "q_kind_value AUTOMATED_KIND = ''AUTOMATED''"

record reason_code =
  rc_code :: string
  rc_requires_note :: bool
  rc_active :: bool

definition reason_code_row :: "string \<Rightarrow> bool \<Rightarrow> bool \<Rightarrow> reason_code" where
  "reason_code_row code note active = \<lparr>rc_code = code, rc_requires_note = note, rc_active = active\<rparr>"

definition REASON_CODES :: "reason_code list" where
  "REASON_CODES = [reason_code_row ''deal_size_out_of_range'' False True,
     reason_code_row ''geography_not_supported'' False False,
     reason_code_row ''industry_not_supported'' False True,
     reason_code_row ''insufficient_information'' False True,
     reason_code_row ''no_export_history'' False False,
     reason_code_row ''no_export_licence'' False False,
     reason_code_row ''other'' True True,
     reason_code_row ''revenue_below_threshold'' False True,
     reason_code_row ''years_in_business_below_threshold'' False True]"

definition active_reason_code :: "string \<Rightarrow> reason_code option" where
  "active_reason_code code = find (\<lambda>r. rc_code r = code) (filter rc_active REASON_CODES)"

section \<open>Criteria\<close>

record criterion_definition =
  cd_label :: string
  cd_kind :: criterion_kind
  cd_required :: bool
  cd_active :: bool
  cd_comparison :: "threshold_comparison option"
  cd_threshold :: "int option"
  cd_unit :: "string option"
  cd_allowed_values :: "string list option"
  cd_auto_source :: "string option"

definition AUTO_SOURCES :: "(string \<times> criterion_kind) list" where
  "AUTO_SOURCES = [(''IEC_VERIFICATION'', YES_NO), (''YEARS_ESTABLISHED'', NUMBER_THRESHOLD),
     (''INDUSTRY'', ALLOWED_VALUES), (''EXPORT_MARKETS'', ALLOWED_VALUES), (''TRADE_HISTORY'', YES_NO),
     (''DEAL_VALUE'', NUMBER_THRESHOLD)]"

definition lower_ascii :: "char \<Rightarrow> bool" where
  "lower_ascii c \<longleftrightarrow> (let n = of_char c :: nat in 97 \<le> n \<and> n \<le> 122)"

definition digit_ascii :: "char \<Rightarrow> bool" where
  "digit_ascii c \<longleftrightarrow> (let n = of_char c :: nat in 48 \<le> n \<and> n \<le> 57)"

definition check_key :: "string \<Rightarrow> crm_error + string" where
  "check_key key = (let cleaned = py_strip key in
     if cleaned = [] \<or> length cleaned > 64 \<or> \<not> (lower_ascii (hd cleaned) \<and>
        list_all (\<lambda>c. lower_ascii c \<or> digit_ascii c \<or> c = CHR ''_'') cleaned)
     then Inl (ValidationError ''criterion key must be lower snake case'') else Inr cleaned)"

definition check_definition :: "criterion_definition \<Rightarrow> crm_error + unit" where
  "check_definition d =
   bindE (require (py_strip (cd_label d) \<noteq> []) (ValidationError ''criterion label must not be blank'')) (\<lambda>_.
   bindE (case cd_kind d of
       NUMBER_THRESHOLD \<Rightarrow> require (cd_comparison d \<noteq> None \<and> cd_threshold d \<noteq> None \<and> cd_allowed_values d = None)
         (ValidationError ''a NUMBER_THRESHOLD criterion needs a comparison and a threshold'')
     | YES_NO \<Rightarrow> require (cd_comparison d = None \<and> cd_threshold d = None \<and> cd_allowed_values d = None)
         (ValidationError ''a YES_NO criterion takes no comparison, threshold or allowed values'')
     | ALLOWED_VALUES \<Rightarrow>
         let vs = (case cd_allowed_values d of None \<Rightarrow> [] | Some vs \<Rightarrow> vs) in
         bindE (require (cd_comparison d = None \<and> cd_threshold d = None \<and> vs \<noteq> [])
           (ValidationError ''an ALLOWED_VALUES criterion needs at least one allowed value'')) (\<lambda>_.
         require (list_all (\<lambda>v. py_strip v \<noteq> []) vs \<and> distinct vs)
           (ValidationError ''allowed values must be distinct and not blank''))) (\<lambda>_.
   case cd_auto_source d of None \<Rightarrow> Inr () | Some s \<Rightarrow> (case map_of AUTO_SOURCES s of
       None \<Rightarrow> Inl (ValidationError ''unknown auto source'')
     | Some k \<Rightarrow> require (k = cd_kind d) (ValidationError ''answers a criterion of another kind''))))"

definition criterion_row_of ::
  "uuid \<Rightarrow> string \<Rightarrow> nat \<Rightarrow> criterion_definition \<Rightarrow> uuid option \<Rightarrow> criterion_row" where
  "criterion_row_of i key version d actor_id =
     \<lparr>cr_id = i, cr_key = key, cr_version = version, cr_label = py_strip (cd_label d), cr_kind = cd_kind d,
      cr_comparison = cd_comparison d, cr_threshold = cd_threshold d, cr_unit = clean_text (cd_unit d),
      cr_allowed_values = cd_allowed_values d, cr_required = cd_required d, cr_active = cd_active d,
      cr_auto_source = cd_auto_source d, cr_created_by = actor_id\<rparr>"

text \<open>The repository: a key's newest version, and the newest version of every key in key order.\<close>

definition versions :: "crm_world \<Rightarrow> string \<Rightarrow> criterion_row list" where
  "versions w key = sort_key cr_version (filter (\<lambda>c. cr_key c = key) (criteria w))"

definition latest_version :: "crm_world \<Rightarrow> string \<Rightarrow> criterion_row option" where
  "latest_version w key = (case rev (versions w key) of [] \<Rightarrow> None | c # _ \<Rightarrow> Some c)"

definition current_criteria :: "crm_world \<Rightarrow> criterion_row list" where
  "current_criteria w = sort_key cr_key
     (filter (\<lambda>c. list_all (\<lambda>x. cr_key x = cr_key c \<longrightarrow> cr_version x \<le> cr_version c) (criteria w)) (criteria w))"

definition add_criterion ::
  "string \<Rightarrow> nat \<Rightarrow> criterion_definition \<Rightarrow> uuid option \<Rightarrow> crm_world \<Rightarrow> criterion_row \<times> crm_world" where
  "add_criterion key version d actor_id w = (let (i, w) = world_uuid w;
      c = criterion_row_of i key version d actor_id in (c, w\<lparr>criteria := criteria w @ [c]\<rparr>))"

definition create_criterion ::
  "string \<Rightarrow> criterion_definition \<Rightarrow> uuid option \<Rightarrow> crm_world \<Rightarrow> crm_error + criterion_row \<times> crm_world" where
  "create_criterion key d actor_id w =
   bindE (check_key key) (\<lambda>key.
   bindE (check_definition d) (\<lambda>_.
   bindE (require (latest_version w key = None) (QualificationCriterionExistsError key)) (\<lambda>_.
   Inr (add_criterion key 1 d actor_id w))))"

definition add_version ::
  "string \<Rightarrow> criterion_definition \<Rightarrow> uuid option \<Rightarrow> crm_world \<Rightarrow> crm_error + criterion_row \<times> crm_world" where
  "add_version key d actor_id w =
   bindE (check_definition d) (\<lambda>_.
   case latest_version w key of None \<Rightarrow> Inl (QualificationCriterionNotFoundError key)
   | Some latest \<Rightarrow> Inr (add_criterion key (Suc (cr_version latest)) d actor_id w))"

definition list_versions :: "string \<Rightarrow> crm_world \<Rightarrow> crm_error + criterion_row list" where
  "list_versions key w = (case versions w key of [] \<Rightarrow> Inl (QualificationCriterionNotFoundError key)
     | vs \<Rightarrow> Inr vs)"

section \<open>Standings and the suggestion\<close>

definition results_for :: "crm_world \<Rightarrow> uuid \<Rightarrow> qualification_result list" where
  "results_for w company_id = newest_first qr_recorded_at qr_id
     (filter (\<lambda>r. qr_company r = company_id) (qualification_results w))"

definition result_key :: "crm_world \<Rightarrow> qualification_result \<Rightarrow> string option" where
  "result_key w r = map_option cr_key (find (\<lambda>c. cr_id c = qr_criterion r) (criteria w))"

record criterion_standing =
  sg_criterion :: criterion_row
  sg_latest :: "qualification_result option"
  sg_counts :: bool

definition standings :: "crm_world \<Rightarrow> uuid \<Rightarrow> criterion_standing list" where
  "standings w company_id = map (\<lambda>c.
     let latest = find (\<lambda>r. result_key w r = Some (cr_key c)) (results_for w company_id) in
     \<lparr>sg_criterion = c, sg_latest = latest,
      sg_counts = (case latest of None \<Rightarrow> False | Some r \<Rightarrow> qr_criterion r = cr_id c)\<rparr>) (current_criteria w)"

definition labels :: "criterion_standing list \<Rightarrow> string" where
  "labels items = py_join '', '' (map (cr_label \<circ> sg_criterion) items)"

text \<open>\<open>current\<close> is a dictionary by key, so a later standing of the same key overwrites an earlier one.\<close>

definition current_results :: "criterion_standing list \<Rightarrow> string \<rightharpoonup> criterion_result" where
  "current_results active = map_of (rev (List.map_filter (\<lambda>s.
     case sg_latest s of None \<Rightarrow> None
     | Some r \<Rightarrow> if sg_counts s then Some (cr_key (sg_criterion s), qr_result r) else None) active))"

definition suggest_with_reason :: "criterion_standing list \<Rightarrow> outcome_value \<times> string" where
  "suggest_with_reason ss =
   (let active = filter (cr_active \<circ> sg_criterion) ss;
        current = current_results active;
        has = (\<lambda>v s. current (cr_key (sg_criterion s)) = Some v);
        required = filter (cr_required \<circ> sg_criterion) active
    in if required \<noteq> [] then
      let failed = filter (has RESULT_FAIL) required; unmet = filter (\<lambda>s. \<not> has RESULT_PASS s) required in
      if unmet = [] then (OUTCOME_QUALIFIED, ''All '' @ nat_text (length required) @ '' required criteria passed'')
      else if failed \<noteq> [] then (OUTCOME_NOT_QUALIFIED, ''Required criteria failed: '' @ labels failed)
      else (OUTCOME_NOT_QUALIFIED, ''Required criteria not yet passed: '' @ labels unmet)
    else
      let failed = filter (has RESULT_FAIL) active; passed = filter (has RESULT_PASS) active in
      if failed \<noteq> [] then (OUTCOME_NOT_QUALIFIED, ''Failed: '' @ labels failed)
      else if passed \<noteq> [] then (OUTCOME_QUALIFIED, nat_text (length passed) @ '' of '' @
        nat_text (length active) @ '' criteria passed, none failed'')
      else (OUTCOME_NOT_QUALIFIED, ''No criterion has passed yet''))"

definition suggestion :: "crm_world \<Rightarrow> uuid \<Rightarrow> outcome_value \<times> uuid list" where
  "suggestion w company_id = (let ss = standings w company_id in
     (fst (suggest_with_reason ss), List.map_filter (\<lambda>s. if cr_active (sg_criterion s)
        then map_option qr_id (sg_latest s) else None) ss))"

section \<open>Recording results\<close>

record result_entry =
  re_key :: string
  re_result :: criterion_result
  re_observed :: "string option"
  re_evidence_note :: "string option"
  re_evidence_refs :: "(string \<times> string) list"
  re_reason :: "string option"
  re_confidence :: "int option"
  re_decided_by_kind :: "decided_by_kind option"

definition EVIDENCE_TYPES :: "string list" where
  "EVIDENCE_TYPES = [''document'', ''verification_result'', ''url'', ''partner_reference'']"

definition entry_kind :: "decided_by_kind \<Rightarrow> result_entry \<Rightarrow> decided_by_kind" where
  "entry_kind k e = (case re_decided_by_kind e of None \<Rightarrow> k | Some k' \<Rightarrow> k')"

definition check_entry :: "result_entry \<Rightarrow> decided_by_kind \<Rightarrow> crm_error + unit" where
  "check_entry e kind =
   bindE (require (re_result e = RESULT_UNKNOWN \<or> clean_text (re_evidence_note e) \<noteq> None \<or> re_evidence_refs e \<noteq> [])
     (ValidationError ''a result needs evidence'')) (\<lambda>_.
   bindE (require (list_all (\<lambda>(t, r). t \<in> set EVIDENCE_TYPES \<and> py_strip r \<noteq> []) (re_evidence_refs e))
     (ValidationError ''evidence references need a type and a non-blank ref'')) (\<lambda>_.
   case re_confidence e of None \<Rightarrow> Inr () | Some c \<Rightarrow>
     bindE (require (kind = AUTOMATED_KIND) (ValidationError ''only an automated result carries a confidence'')) (\<lambda>_.
     require (0 \<le> c \<and> c \<le> 10000) (ValidationError ''confidence must be between 0 and 1''))))"

fun check_entries :: "decided_by_kind \<Rightarrow> result_entry list \<Rightarrow> crm_error + unit" where
  "check_entries k [] = Inr ()"
| "check_entries k (e # es) = bindE (check_entry e (entry_kind k e)) (\<lambda>_. check_entries k es)"

definition criterion_now :: "crm_world \<Rightarrow> string \<Rightarrow> criterion_row option" where
  "criterion_now w key = find (\<lambda>c. cr_key c = key) (rev (current_criteria w))"

definition check_results :: "result_entry list \<Rightarrow> decided_by_kind \<Rightarrow> crm_world \<Rightarrow> crm_error + unit" where
  "check_results entries kind w =
   bindE (require (entries \<noteq> []) (ValidationError ''record at least one result'')) (\<lambda>_.
   bindE (require (distinct (map re_key entries))
     (ValidationError ''each criterion may appear once per recording'')) (\<lambda>_.
   bindE (require (list_all (\<lambda>e. criterion_now w (re_key e) \<noteq> None) entries)
     (ValidationError ''unknown qualification criteria'')) (\<lambda>_.
   bindE (require (list_all (\<lambda>e. cr_active (the (criterion_now w (re_key e)))) entries)
     (ValidationError ''inactive qualification criteria'')) (\<lambda>_.
   check_entries kind entries))))"

text \<open>The loop reads the dictionary \<open>_check_results\<close> returned, made before the first row.\<close>

fun write_each ::
  "crm_env \<Rightarrow> (string \<Rightarrow> criterion_row option) \<Rightarrow> uuid \<Rightarrow> result_entry list \<Rightarrow> uuid option \<Rightarrow>
   qualification_source \<Rightarrow> decided_by_kind \<Rightarrow> crm_world \<Rightarrow> crm_error + qualification_result list \<times> crm_world" where
  "write_each env current company_id [] actor_id source kind w = Inr ([], w)"
| "write_each env current company_id (e # es) actor_id source kind w =
   (let c = the (current (re_key e)); k = entry_kind kind e; (i, w) = world_uuid w;
        row = \<lparr>qr_id = i, qr_company = company_id, qr_criterion = cr_id c, qr_result = re_result e,
          qr_observed = clean_text (re_observed e), qr_source = source, qr_decided_by_kind = k,
          qr_evidence_note = clean_text (re_evidence_note e), qr_evidence_refs = re_evidence_refs e,
          qr_reason = clean_text (re_reason e), qr_confidence = re_confidence e, qr_recorded_by = actor_id,
          qr_recorded_at = env_db_now env\<rparr>
    in bindE (world_history company_id ''qualification'' None (HText (result_value (re_result e))) actor_id
         ''qualification_service.record_results'' (qr_reason row) None (Some ''qualification_result'')
         [(''result_id'', DId i), (''criterion_key'', DText (cr_key c)), (''criterion_version'', DNum (cr_version c)),
          (''source'', DText (q_source_value source)), (''decided_by_kind'', DText (q_kind_value k))]
         (w\<lparr>qualification_results := qualification_results w @ [row]\<rparr>)) (\<lambda>w.
       bindE (write_each env current company_id es actor_id source kind w) (\<lambda>(rows, w). Inr (row # rows, w))))"

definition write_results ::
  "crm_env \<Rightarrow> uuid \<Rightarrow> result_entry list \<Rightarrow> uuid option \<Rightarrow> qualification_source \<Rightarrow> decided_by_kind \<Rightarrow>
   crm_world \<Rightarrow> crm_error + qualification_result list \<times> crm_world" where
  "write_results env company_id entries actor_id source kind w =
   bindE (check_results entries kind w) (\<lambda>_.
   write_each env (criterion_now w) company_id entries actor_id source kind w)"

definition record_results ::
  "crm_env \<Rightarrow> uuid \<Rightarrow> result_entry list \<Rightarrow> uuid option \<Rightarrow> qualification_source \<Rightarrow> decided_by_kind \<Rightarrow>
   crm_world \<Rightarrow> crm_error + qualification_result list \<times> crm_world" where
  "record_results env company_id entries actor_id source kind w =
   bindE (lock_in_pipeline company_id (crm w)) (\<lambda>p.
   bindE (require (qualification_of p \<noteq> QUALIFIED) (QualificationClosedError company_id)) (\<lambda>_.
   write_results env company_id entries actor_id source kind w))"

section \<open>Recording the outcome\<close>

text \<open>\<open>list(dict.fromkeys(...))\<close>: the first of each.\<close>

definition py_unique :: "'a list \<Rightarrow> 'a list" where
  "py_unique xs = rev (remdups (rev xs))"

definition clean_codes :: "string list \<Rightarrow> string list" where
  "clean_codes codes = py_unique (filter (\<lambda>c. c \<noteq> []) (map py_strip codes))"

definition check_reason_codes ::
  "outcome_value \<Rightarrow> string list \<Rightarrow> string option \<Rightarrow> crm_error + unit" where
  "check_reason_codes oc codes note =
   bindE (require (\<not> (oc = OUTCOME_NOT_QUALIFIED \<and> codes = []))
     (ValidationError ''NOT_QUALIFIED needs at least one reason code'')) (\<lambda>_.
   bindE (require (list_all (\<lambda>c. active_reason_code c \<noteq> None) codes) (ValidationError ''unknown reason codes'')) (\<lambda>_.
   require (\<not> (list_ex (\<lambda>c. rc_requires_note (the (active_reason_code c))) codes \<and> note = None))
     (ValidationError ''reason codes need a note explaining them'')))"

definition unsuperseded_outcomes :: "qualification_outcome list \<Rightarrow> uuid \<Rightarrow> qualification_outcome list" where
  "unsuperseded_outcomes os company_id = filter (\<lambda>o'. qo_company o' = company_id \<and>
     (\<forall>s \<in> set os. qo_company s = company_id \<longrightarrow> qo_supersedes s \<noteq> Some (qo_id o'))) os"

definition latest_outcome :: "crm_world \<Rightarrow> uuid \<Rightarrow> crm_error + qualification_outcome option" where
  "latest_outcome w company_id = (case unsuperseded_outcomes (qualification_outcomes w) company_id of
     [] \<Rightarrow> Inr None | [x] \<Rightarrow> Inr (Some x) | _ \<Rightarrow> Inl MultipleResultsFound)"

definition journey_move_details :: "uuid \<Rightarrow> (string \<times> dval) list" where
  "journey_move_details i = [(''cause'', DText ''qualification_outcome''), (''outcome_id'', DId i),
     (''terminal'', DBool False)]"

text \<open>A \<open>QUALIFIED\<close> lead becomes a prospect, and at once a customer if its check is clear.\<close>

definition advance_lead ::
  "crm_env \<Rightarrow> exporter_profile \<Rightarrow> outcome_value \<Rightarrow> uuid \<Rightarrow> uuid option \<Rightarrow> crm_db \<Rightarrow>
   crm_error + customer_announcement option \<times> exporter_profile \<times> crm_db" where
  "advance_lead env p oc i actor_id db =
   (if oc = OUTCOME_QUALIFIED \<and> journey_of p = LEAD then
      let p = p\<lparr>journey_of := PROSPECT\<rparr> in
      bindE (record_history (customer_id p) ''journey'' (Some (HText (journey_value LEAD)))
          (HText (journey_value PROSPECT)) actor_id ''qualification_service.record_outcome'' None None
          (Some LIFECYCLE_TRANSITION_EVENT) (journey_move_details i) (save_profile p db)) (\<lambda>db.
      promote_to_customer_if_ready env p actor_id ''qualification_outcome'' ''qualification_service.record_outcome'' db)
    else Inr (None, p, db))"

definition write_outcome ::
  "crm_env \<Rightarrow> exporter_profile \<Rightarrow> outcome_value \<Rightarrow> string list \<Rightarrow> string option \<Rightarrow> outcome_value \<Rightarrow>
   uuid list \<Rightarrow> qualification_source \<Rightarrow> decided_by_kind \<Rightarrow> uuid option \<Rightarrow> uuid option \<Rightarrow>
   (string \<times> dval) list \<Rightarrow> crm_world \<Rightarrow>
   crm_error + (qualification_outcome \<times> customer_announcement option) \<times> crm_world" where
  "write_outcome env p oc codes note suggested result_ids source kind decided_by actor_id extra w =
   (let from_state = qualification_of p; company_id = customer_id p in
    bindE (latest_outcome w company_id) (\<lambda>previous.
    let (i, w) = world_uuid w;
        row = \<lparr>qo_id = i, qo_company = company_id, qo_outcome = oc, qo_reason_codes = codes, qo_note = note,
          qo_suggested = suggested, qo_results = result_ids, qo_source = source, qo_decided_by_kind = kind,
          qo_supersedes = map_option qo_id previous, qo_decided_by = decided_by, qo_decided_at = env_db_now env\<rparr>;
        w = w\<lparr>qualification_outcomes := qualification_outcomes w @ [row]\<rparr>;
        p = p\<lparr>qualification_of := state_of_outcome oc\<rparr>
    in
    bindE (record_history company_id ''qualification'' (Some (HText (qualification_value from_state)))
        (HText (qualification_value (qualification_of p))) actor_id ''qualification_service.record_outcome'' note
        None None
        ([(''outcome_id'', DId i), (''reason_codes'', DTexts codes), (''suggested_outcome'', DText (q_outcome_value suggested)),
          (''re_review'', DBool (previous \<noteq> None)), (''supersedes_outcome_id'', d_id (map_option qo_id previous)),
          (''source'', DText (q_source_value source)), (''decided_by_kind'', DText (q_kind_value kind))] @ extra)
        (save_profile p (crm w))) (\<lambda>db.
    bindE (advance_lead env p oc i actor_id db) (\<lambda>(announcement, p, db).
    Inr ((row, announcement), w\<lparr>crm := db\<rparr>)))))"

definition record_outcome ::
  "crm_env \<Rightarrow> uuid \<Rightarrow> outcome_value \<Rightarrow> string list \<Rightarrow> string option \<Rightarrow> uuid option \<Rightarrow> qualification_source \<Rightarrow>
   decided_by_kind \<Rightarrow> user_role option \<Rightarrow> permission list \<Rightarrow> uuid option \<Rightarrow> crm_world \<Rightarrow>
   crm_error + (qualification_outcome \<times> customer_announcement option) \<times> crm_world" where
  "record_outcome env company_id oc reason_codes note actor_id source kind role perms rm w =
   bindE (lock_in_pipeline company_id (crm w)) (\<lambda>p.
   bindE (require (qualification_of p \<noteq> QUALIFIED) (QualificationClosedError company_id)) (\<lambda>_.
   let codes = clean_codes reason_codes; cleaned_note = clean_text note in
   bindE (check_reason_codes oc codes cleaned_note) (\<lambda>_.
   bindE (if oc = OUTCOME_QUALIFIED \<and> actor_id \<noteq> None
          then ensure_relationship_manager p rm ''record it as qualified'' actor_id role perms
                 ''qualification_service.record_outcome'' (crm w)
          else Inr (p, crm w)) (\<lambda>(p, db).
   let w = w\<lparr>crm := db\<rparr>; (suggested, result_ids) = suggestion w company_id in
   write_outcome env p oc codes cleaned_note suggested result_ids source kind actor_id actor_id [] w))))"

section \<open>A partner's decision\<close>

record partner_qualification =
  pq_outcome :: outcome_value
  pq_decided_by_kind :: decided_by_kind
  pq_results :: "result_entry list"
  pq_note :: "string option"

definition check_partner_outcome :: "partner_qualification \<Rightarrow> crm_error + unit" where
  "check_partner_outcome q = require (pq_outcome q = OUTCOME_QUALIFIED)
     (ValidationError ''a delivery must carry a QUALIFIED outcome'')"

definition record_partner_decision ::
  "crm_env \<Rightarrow> uuid \<Rightarrow> partner_qualification \<Rightarrow> qualification_source \<Rightarrow> uuid option \<Rightarrow> string option \<Rightarrow>
   crm_world \<Rightarrow> crm_error + (qualification_outcome \<times> customer_announcement option) \<times> crm_world" where
  "record_partner_decision env company_id q source actor_id partner_reference w =
   bindE (check_partner_outcome q) (\<lambda>_.
   bindE (lock_in_pipeline company_id (crm w)) (\<lambda>p.
   bindE (require (qualification_of p \<noteq> QUALIFIED) (QualificationClosedError company_id)) (\<lambda>_.
   bindE (if pq_results q \<noteq> [] then write_results env company_id (pq_results q) actor_id source (pq_decided_by_kind q) w
          else Inr ([], w)) (\<lambda>(rows, w).
   write_outcome env p (pq_outcome q) [] (clean_text (pq_note q)) (pq_outcome q) (map qr_id rows) source
     (pq_decided_by_kind q) None actor_id
     [(''partner_reference'', case partner_reference of None \<Rightarrow> DNone | Some r \<Rightarrow> DText r)] w))))"

definition check_partner_decision :: "partner_qualification \<Rightarrow> crm_world \<Rightarrow> crm_error + unit" where
  "check_partner_decision q w = bindE (check_partner_outcome q) (\<lambda>_.
     if pq_results q \<noteq> [] then check_results (pq_results q) (pq_decided_by_kind q) w else Inr ())"

record qualification_view =
  qv_state :: qualification_state
  qv_journey :: journey
  qv_suggested :: outcome_value
  qv_standings :: "criterion_standing list"
  qv_results :: "qualification_result list"
  qv_outcomes :: "qualification_outcome list"
  qv_reason :: string

definition get_qualification :: "uuid \<Rightarrow> crm_world \<Rightarrow> crm_error + qualification_view" where
  "get_qualification company_id w = bindE (lock_profile company_id (crm w)) (\<lambda>p.
     let ss = standings w company_id; (suggested, reason) = suggest_with_reason ss in
     Inr \<lparr>qv_state = qualification_of p, qv_journey = journey_of p, qv_suggested = suggested,
          qv_standings = ss, qv_results = results_for w company_id,
          qv_outcomes = newest_first qo_decided_at qo_id
            (filter (\<lambda>o'. qo_company o' = company_id) (qualification_outcomes w)), qv_reason = reason\<rparr>)"

end
