(* ===== verification/System.thy ===== *)
theory System
  imports Integrity
begin

text \<open>
  The background check as a system: a step relation with one rule per public operation of
  \<open>BackgroundCheckService\<close> and rules for what the rest of the CRM may write in between, the
  states reachable from an empty database, and the invariants every reachable state
  satisfies.
\<close>

section \<open>The effect of starting a cycle\<close>

definition reopen_request ::
  "check_cycle \<Rightarrow> uuid \<Rightarrow> uuid \<Rightarrow> user_role \<Rightarrow> cycle_kind \<Rightarrow> string \<Rightarrow> move_request" where
  "reopen_request cy i actor_id actor_role kind text =
     (plain_move IN_REVIEW [CLEAR] actor_id actor_role
        (Some (the (map_of CYCLE_LABELS kind) @ '': '' @ text)) None (Some ''reopen''))
       \<lparr>mr_cycle := Some cy, mr_decision_id := Some i\<rparr>"

lemma start_cycle_effect:
  assumes sc: "start_cycle env c kind reason a role db = Inr (out, db')"
  obtains p prev db1 cy db2 where "profiles db c = Some p" and "role = COMPLIANCE"
    and "kind \<in> set STARTABLE_CYCLE_KINDS" and "\<not> no_text (strip_if_given reason)"
    and "background_check p \<in> set CYCLE_START_STATES" and "open_proposals db c = []"
    and "current_or_initial c a (Some ''background_check_service.start_cycle'') (env_now env) db
      = (prev, db1)"
    and "current_cycle_is_empty c db1 = Inr False"
    and "cc_company cy = c" "cc_number cy = Suc (cc_number prev)" "cc_kind cy = kind"
      "cc_reason cy = strip_if_given reason"
    and "next_uuid db1 \<le> cc_id cy" "cc_id cy < next_uuid db2"
    and "\<exists>rows n. db2 = db1\<lparr>cycles := cycles db1 @ [cy], history := history db1 @ rows, next_uuid := n\<rparr>"
    and "sc_cycle out = cy" "sc_previous out = prev"
    and "background_check p \<noteq> CLEAR \<and> db' = db2 \<and> sc_reopen out = None \<or>
      background_check p = CLEAR \<and> (\<exists>i res p'. next_uuid db1 \<le> i \<and> i < next_uuid db2 \<and>
        apply_move env p (reopen_request cy i a role kind (the (strip_if_given reason))) db2
          = Inr (res, p', db') \<and> sc_reopen out = Some (to_view (mv_decision res) (mv_evidence res)))"
proof -
  let ?src = "''background_check_service.start_cycle''"
  from sc obtain p prev db1 rid dba cy dbb db2 where p: "profiles db c = Some p"
    and g: "role \<in> set CYCLE_ROLES" "kind \<in> set STARTABLE_CYCLE_KINDS"
      "\<not> no_text (strip_if_given reason)" "\<not> background_check p \<notin> set CYCLE_START_STATES"
      "refuse_if_awaiting_approval c db = Inr ()"
    and ci: "current_or_initial c a (Some ?src) (env_now env) db = (prev, db1)"
    and em: "current_cycle_is_empty c db1 = Inr False"
    and rid: "(if background_check p = CLEAR then let (i, db) = fresh_uuid db1 in (Some i, db)
        else (None, db1)) = (rid, dba)"
    and cy: "add_next_cycle c prev kind (the (strip_if_given reason)) a ?src
        (map_option UuidText rid) CURRENT_CLEAR_RULES (env_now env) dba = (cy, dbb)"
    and h: "\<exists>c' dim f t a s rs d evt det. record_history c' dim f t a s rs d evt det dbb = Inr db2"
    and fin: "(if background_check p = CLEAR
       then bindE (apply_move env p ((plain_move IN_REVIEW [CLEAR] a role
            (Some (the (map_of CYCLE_LABELS kind) @ '': '' @ the (strip_if_given reason))) None
            (Some ''reopen''))\<lparr>mr_cycle := Some cy, mr_decision_id := rid\<rparr>) db2)
          (\<lambda>(result, p, db). Inr (\<lparr>sc_cycle = cy, sc_previous = prev,
             sc_reopen = Some (to_view (mv_decision result) (mv_evidence result))\<rparr>, db))
       else Inr (\<lparr>sc_cycle = cy, sc_previous = prev, sc_reopen = None\<rparr>, db2)) = Inr (out, db')"
  proof -
    show thesis
      using sc unfolding start_cycle_def Let_def [of "strip_if_given reason"] Let_def [of "background_check _"]
        Let_def [of "env_now env"] Let_def [of "current_or_initial _ _ _ _ _"]
        Let_def [of "if _ then _ else _"] Let_def [of "add_next_cycle _ _ _ _ _ _ _ _ _ _"]
        bindE_eq_Inr case_prod_eq_Inr lock_profile_eq_Inr if_Inl_eq_Inr
      apply -
      apply (elim exE conjE)
      apply (rule that)
      apply (assumption | (intro exI, assumption) | (simp; fail))+
      done
  qed
  from h obtain row where db2: "db2 = dbb\<lparr>history := history dbb @ [row]\<rparr>"
    by (auto elim!: record_history_shape)
  note cyd = cy [unfolded add_next_cycle_def fresh_uuid_def Let_def prod.case prod.inject]
  have dba: "dba = db1 \<and> rid = None \<or> background_check p = CLEAR \<and> rid = Some (next_uuid db1) \<and>
      dba = db1\<lparr>next_uuid := Suc (next_uuid db1)\<rparr>"
    using rid by (auto simp: fresh_uuid_def Let_def split: if_splits)
  have nx: "next_uuid db1 \<le> next_uuid dba" "history dba = history db1" "cycles dba = cycles db1"
    using dba by auto
  have d2: "\<exists>rows n. db2 = db1\<lparr>cycles := cycles db1 @ [cy], history := history db1 @ rows, next_uuid := n\<rparr>"
    by (rule exI [of _ "[row]"], rule exI [of _ "next_uuid db2"]) (use cyd dba in \<open>auto simp: db2\<close>)
  have n2: "next_uuid db2 = Suc (next_uuid dba)" and cid: "cc_id cy = next_uuid dba"
    using cyd by (auto simp: db2)
  show thesis
  proof (rule that [OF p _ g(2,3) _ _ ci em, where cy = cy and ?db2.0 = db2])
    show "role = COMPLIANCE" using g(1) by (simp add: CYCLE_ROLES_def)
    show "background_check p \<in> set CYCLE_START_STATES" using g(4) by simp
    show "open_proposals db c = []" using g(5) by (simp add: refuse_if_awaiting_approval_Inr)
    show "cc_company cy = c" "cc_number cy = Suc (cc_number prev)" "cc_kind cy = kind"
      "cc_reason cy = strip_if_given reason"
      using cyd g(3) by (auto simp: no_text_def)
    show "next_uuid db1 \<le> cc_id cy" "cc_id cy < next_uuid db2" using nx cid n2 by simp_all
    show "\<exists>rows n. db2 = db1\<lparr>cycles := cycles db1 @ [cy], history := history db1 @ rows, next_uuid := n\<rparr>"
      by (rule d2)
    show "sc_cycle out = cy" "sc_previous out = prev"
      using fin by (auto simp: bindE_eq_Inr split: if_splits)
    show "background_check p \<noteq> CLEAR \<and> db' = db2 \<and> sc_reopen out = None \<or>
      background_check p = CLEAR \<and> (\<exists>i res p'. next_uuid db1 \<le> i \<and> i < next_uuid db2 \<and>
        apply_move env p (reopen_request cy i a role kind (the (strip_if_given reason))) db2
          = Inr (res, p', db') \<and> sc_reopen out = Some (to_view (mv_decision res) (mv_evidence res)))"
    proof (cases "background_check p = CLEAR")
      case False
      with fin show ?thesis by auto
    next
      case True
      with rid dba have r: "rid = Some (next_uuid db1)" by (auto simp: fresh_uuid_def Let_def)
      from True fin obtain res p' where
        "apply_move env p (reopen_request cy (next_uuid db1) a role kind (the (strip_if_given reason))) db2
          = Inr (res, p', db')" "sc_reopen out = Some (to_view (mv_decision res) (mv_evidence res))"
        by (auto simp: bindE_eq_Inr reopen_request_def r)
      with True nx n2 show ?thesis by (auto intro!: exI [of _ "next_uuid db1"])
    qed
  qed
qed

section \<open>Steps\<close>

text \<open>
  The requests the public moves make: no approval, no fixed cycle or decision id.
\<close>

definition public_request :: "move_request \<Rightarrow> bool" where
  "public_request r \<longleftrightarrow> mr_approval r = None \<and> mr_cycle r = None \<and> mr_decision_id r = None"

lemma public_plain_move [simp]: "public_request (plain_move t f a role reason risk m)"
  by (simp add: public_request_def plain_move_def)

lemma public_plain_update [simp]:
  "public_request r \<Longrightarrow> public_request (r\<lparr>mr_seen := s\<rparr>)"
  "public_request r \<Longrightarrow> public_request (r\<lparr>mr_permissions := ps\<rparr>)"
  "public_request r \<Longrightarrow> public_request (r\<lparr>mr_rm_user := u\<rparr>)"
  "public_request r \<Longrightarrow> public_request (r\<lparr>mr_require_rm := b\<rparr>)"
  by (simp_all add: public_request_def)

text \<open>
  What the rest of the CRM may write between two of the service's transactions: a company's
  other columns, a new company with the columns' defaults, the tables of inputs, and a
  company's first cycle.
\<close>

definition other_columns :: "exporter_profile \<Rightarrow> exporter_profile \<Rightarrow> bool" where
  "other_columns p p' \<longleftrightarrow> customer_id p' = customer_id p \<and> background_check p' = background_check p \<and>
     bc_expires_at p' = bc_expires_at p \<and> reviewer_id p' = reviewer_id p \<and>
     reviewer_assigned_at p' = reviewer_assigned_at p"

definition new_company :: "uuid \<Rightarrow> exporter_profile \<Rightarrow> bool" where
  "new_company c p \<longleftrightarrow> customer_id p = c \<and> background_check p = NOT_STARTED \<and> bc_expires_at p = None \<and>
     reviewer_id p = None \<and> reviewer_assigned_at p = None"

inductive crm_step :: "crm_env \<Rightarrow> crm_db \<Rightarrow> crm_db \<Rightarrow> bool" for env where
  start: "start_review env c a role perms rm req db = Inr (x, db') \<Longrightarrow> crm_step env db db'"
| ask: "request_more_info env c note a role db = Inr (x, db') \<Longrightarrow> crm_step env db db'"
| answer: "record_more_info env c note a role db = Inr (x, db') \<Longrightarrow> crm_step env db db'"
| flagged: "flag env c reason a role db = Inr (x, db') \<Longrightarrow> crm_step env db db'"
| held: "hold env c reason a role db = Inr (x, db') \<Longrightarrow> crm_step env db db'"
| cleared: "clear env c risk reason a role db = Inr (x, db') \<Longrightarrow> crm_step env db db'"
| reassessed: "reassess env c reason a role db = Inr (x, db') \<Longrightarrow> crm_step env db db'"
| reopened: "reopen env c reason a role db = Inr (x, db') \<Longrightarrow> crm_step env db db'"
| decided: "record_decision env c t reason risk a role seen perms rm db = Inr (x, db') \<Longrightarrow>
    crm_step env db db'"
| cycled: "start_cycle env c kind reason a role db = Inr (y, db') \<Longrightarrow> crm_step env db db'"
| proposed: "propose env c t reason risk a role seen db = Inr (v, db') \<Longrightarrow> crm_step env db db'"
| approved: "approve env c pid a role perms db = Inr (w, db') \<Longrightarrow> crm_step env db db'"
| rejected: "reject env c pid reason a role db = Inr (v, db') \<Longrightarrow> crm_step env db db'"
| withdrawn: "withdraw env c pid reason a role perms db = Inr (v, db') \<Longrightarrow> crm_step env db db'"
| claimed: "claim_review env c a role db = Inr (p', db') \<Longrightarrow> crm_step env db db'"
| assigned: "assign_review env c u reason a role perms db = Inr (p', db') \<Longrightarrow> crm_step env db db'"
| released: "release_review env c note a role perms db = Inr (p', db') \<Longrightarrow> crm_step env db db'"
| columns: "profiles db c = Some p \<Longrightarrow> other_columns p p' \<Longrightarrow> profile_write c p' db db' \<Longrightarrow>
    crm_step env db db'"
| company: "profiles db c = None \<Longrightarrow> new_company c p \<Longrightarrow> crm_step env db (save_profile p db)"
| inputs: "next_uuid db \<le> n \<Longrightarrow> crm_step env db (db\<lparr>verifications := vs, reviews := rs, screenings := ss,
    documents := ds, buyers := bs, staff := st, history := history db @ hs, next_uuid := n\<rparr>)"
| first_input: "current_or_initial c a ref (env_now env) db = (cy, db') \<Longrightarrow> crm_step env db db'"

lemmas named_moves = start_review_def request_more_info_def record_more_info_def flag_def hold_def
  clear_def reassess_def reopen_def

lemma record_decision_move:
  assumes "record_decision env c t reason risk a role seen perms rm db = Inr x"
  shows "\<exists>r. public_request r \<and> mr_to r = t \<and> move env c r db = Inr x"
  using assms
  by (auto simp: record_decision_def Let_def err_simps plain_move_def public_request_def
      split: if_splits intro!: exI)

text \<open>A step in three kinds: a public move, another operation of the service, or a write between.\<close>

lemma crm_step_cases:
  assumes "crm_step env db db'"
  obtains (move) c r x where "public_request r" and "move env c r db = Inr (x, db')"
  | (cycle) c kind reason a role y where "start_cycle env c kind reason a role db = Inr (y, db')"
  | (propose) c t reason risk a role seen v where "propose env c t reason risk a role seen db = Inr (v, db')"
  | (approve) c pid a role perms w where "approve env c pid a role perms db = Inr (w, db')"
  | (reject) c pid reason a role v where "reject env c pid reason a role db = Inr (v, db')"
  | (withdraw) c pid reason a role perms v where "withdraw env c pid reason a role perms db = Inr (v, db')"
  | (claim) c a role p' where "claim_review env c a role db = Inr (p', db')"
  | (assign) c u reason a role perms p' where "assign_review env c u reason a role perms db = Inr (p', db')"
  | (release) c msg a role perms p' where "release_review env c msg a role perms db = Inr (p', db')"
  | (columns) c p p' where "profiles db c = Some p" and "other_columns p p'" and "profile_write c p' db db'"
  | (company) c p where "profiles db c = None" and "new_company c p" and "db' = save_profile p db"
  | (inputs) n vs rs ss ds bs st hs where "next_uuid db \<le> n"
      and "db' = db\<lparr>verifications := vs, reviews := rs, screenings := ss, documents := ds, buyers := bs,
        staff := st, history := history db @ hs, next_uuid := n\<rparr>"
  | (first_input) c a ref cy where "current_or_initial c a ref (env_now env) db = (cy, db')"
  using assms
proof cases
  case decided
  then obtain c r x where "public_request r" "move env c r db = Inr (x, db')"
    using record_decision_move by blast
  then show thesis by (rule move)
next
  case start
  then show thesis unfolding named_moves by (rule move [rotated]) simp
next
  case ask
  then show thesis unfolding named_moves by (rule move [rotated]) simp
next
  case answer
  then show thesis unfolding named_moves by (rule move [rotated]) simp
next
  case flagged
  then show thesis unfolding named_moves by (rule move [rotated]) simp
next
  case held
  then show thesis unfolding named_moves by (rule move [rotated]) simp
next
  case cleared
  then show thesis unfolding named_moves by (rule move [rotated]) simp
next
  case reassessed
  then show thesis unfolding named_moves by (rule move [rotated]) simp
next
  case reopened
  then show thesis unfolding named_moves by (rule move [rotated]) simp
next
  case cycled
  then show thesis by (rule cycle)
next
  case proposed
  then show thesis by (rule propose)
next
  case approved
  then show thesis by (rule approve)
next
  case rejected
  then show thesis by (rule reject)
next
  case withdrawn
  then show thesis by (rule withdraw)
next
  case claimed
  then show thesis by (rule claim)
next
  case assigned
  then show thesis by (rule assign)
next
  case released
  then show thesis by (rule release)
next
  case (columns c)
  from that(10) this show thesis by blast
next
  case (company c)
  from that(11) this show thesis by blast
next
  case (inputs n)
  from that(12) this(2,1) show thesis by blast
next
  case first_input
  then show thesis by (rule that(13))
qed

section \<open>Every step keeps the invariants\<close>

definition system_ok :: "crm_db \<Rightarrow> bool" where
  "system_ok db \<longleftrightarrow> chain_ok db \<and> review_ok db \<and> cycles_ok db \<and> approval_ok db"

lemma system_okD:
  assumes "system_ok db"
  shows "chain_ok db" "review_ok db" "cycles_ok db" "approval_ok db" "keyed db"
  using assms chain_okD(1) by (simp_all add: system_ok_def)

lemma rows_keep_gauge_upd:
  assumes "keyed db" and "profiles db c = Some p" and "profiles db' = (profiles db)(c \<mapsto> p')"
    and "customer_id p' = c" and "background_check p' = background_check p"
    and "bc_expires_at p' = bc_expires_at p"
  shows "rows_keep_gauge db db'"
  using assms keyedD [OF assms(1)] by (auto simp: rows_keep_gauge_def)

lemma rows_keep_gauge_same:
  "keyed db \<Longrightarrow> profiles db' = profiles db \<Longrightarrow> rows_keep_gauge db db'"
  by (auto simp: rows_keep_gauge_def keyed_def)

text \<open>A write of one row's other columns, and the reviewer's own operations.\<close>

lemma system_ok_row:
  assumes ok: "system_ok db" and p: "profiles db c = Some p" and w: "profile_write c p' db db'"
    and k: "customer_id p' = c" "background_check p' = background_check p"
      "bc_expires_at p' = bc_expires_at p" and rv: "reviewer_checks p'"
  shows "system_ok db'"
proof -
  note f = profile_write_frame [OF w]
  have "rows_keep_gauge db db'"
    by (rule rows_keep_gauge_upd [OF system_okD(5) [OF ok] p f(1) k])
  then have "chain_ok db'"
    by (intro chain_ok_frame [OF system_okD(1) [OF ok] f(2,3)]) (simp_all add: f)
  moreover have "review_ok db'" by (rule review_ok_write [OF system_okD(2) [OF ok] f(1) rv])
  moreover have "cycles_ok db'" by (rule cycles_ok_frame [OF system_okD(3) [OF ok] f(6)]) (simp add: f)
  moreover have "approval_ok db'"
    by (rule approval_ok_frame [OF system_okD(4) [OF ok] f(4,5,2)]) (simp add: f)
  ultimately show ?thesis by (simp add: system_ok_def)
qed

lemma system_ok_reviewer:
  assumes ok: "system_ok db" and p: "profiles db c = Some p"
    and w: "profile_write c (reviewer_set env p u) db db'"
    and u: "u = None \<or> background_check p \<in> set UNDER_REVIEW"
  shows "system_ok db'"
proof -
  have "reviewer_checks p" using system_okD(2) [OF ok] p by (simp add: review_ok_def)
  from reviewer_checks_set [OF this u] show ?thesis
    using keyedD [OF system_okD(5) [OF ok] p]
    by (intro system_ok_row [OF ok p w]) (simp_all add: reviewer_set_def)
qed

text \<open>A move, in the current cycle or one just added.\<close>

lemma cycles_ok_move:
  assumes ok: "cycles_ok db" and p: "profiles db (customer_id p) = Some p"
    and am: "apply_move env p r db = Inr (res, p', db')"
  shows "cycles_ok db'"
proof -
  obtain cy where cs: "cycles db' = cycles db @ (if mr_cycle r = None \<and> current_cycle db (customer_id p) = None
          then [cy] else [])"
    and cy: "mr_cycle r = Some cy \<or> mr_cycle r = None \<and> (current_cycle db (customer_id p) = Some cy \<or>
          current_cycle db (customer_id p) = None \<and> cc_company cy = customer_id p \<and> cc_number cy = 1 \<and>
          cc_kind cy = INITIAL \<and> next_uuid db \<le> cc_id cy \<and> cc_id cy < next_uuid db')"
    and fr: "move_frame db db'"
    by (rule apply_move_effect [OF am p], rule that, assumption+)
  show ?thesis
    by (rule cycles_ok_initial [OF ok _ cs]) (use cy fr in \<open>auto simp: move_frame_def\<close>)
qed

lemma gate_no_open:
  assumes "approval_gate env p r db = Inr ()" and "mr_approval r = None"
  shows "open_proposals db (customer_id p) = []"
  using assms by (auto simp: approval_gate_def refuse_if_awaiting_approval_Inr split: if_splits)

lemma approval_ok_move:
  assumes ok: "approval_ok db" and p: "profiles db (customer_id p) = Some p"
    and am: "apply_move env p r db = Inr (res, p', db')" and na: "mr_approval r = None"
  shows "approval_ok db'"
proof -
  obtain tx prev cy expires where
    g: "approval_gate env p r db = Inr ()"
    and d: "mv_decision res = decision_row env p r tx (dn_id (mv_decision res)) prev cy expires"
    and ds: "decisions db' = decisions db @ [mv_decision res]" and fr: "move_frame db db'"
    by (rule apply_move_effect [OF am p], rule that, assumption+)
  have "dn_company (mv_decision res) = customer_id p" "dn_proposal (mv_decision res) = None"
    by (subst d, simp add: na)+
  with gate_no_open [OF g na] fr ds show ?thesis
    by (intro approval_ok_decision [OF ok]) (simp_all add: move_frame_def)
qed

lemma system_ok_apply_move:
  assumes ok: "system_ok db" and p: "profiles db (customer_id p) = Some p"
    and am: "apply_move env p r db = Inr (res, p', db')" and na: "mr_approval r = None"
    and so: "sound_request r db"
  shows "system_ok db'"
  unfolding system_ok_def
  using chain_ok_move [OF system_okD(1) [OF ok] p am so] review_ok_move [OF system_okD(2) [OF ok] p am]
    cycles_ok_move [OF system_okD(3) [OF ok] p am] approval_ok_move [OF system_okD(4) [OF ok] p am na]
  by blast

lemma system_ok_move:
  assumes ok: "system_ok db" and pub: "public_request r" and mv: "move env c r db = Inr (x, db')"
  shows "system_ok db'"
proof -
  from mv obtain p res p' where p: "profiles db c = Some p" and am: "apply_move env p r db = Inr (res, p', db')"
    by (auto simp: move_def bindE_eq_Inr lock_profile_eq_Inr)
  have c: "customer_id p = c" by (rule keyedD [OF system_okD(5) [OF ok] p])
  show ?thesis
    by (rule system_ok_apply_move [OF ok _ am])
      (use p c pub in \<open>simp_all add: public_request_def sound_request_def\<close>)
qed

text \<open>A company's first cycle, and a new one.\<close>

lemma system_ok_tables:
  assumes ok: "system_ok db" and "profiles db' = profiles db" and "decisions db' = decisions db"
    and "evidence db' = evidence db" and "proposals db' = proposals db"
    and "resolutions db' = resolutions db" and n: "next_uuid db \<le> next_uuid db'" and cy: "cycles_ok db'"
  shows "system_ok db'"
proof -
  have "chain_ok db'"
    by (rule chain_ok_frame [OF system_okD(1) [OF ok] assms(3,4) n
          rows_keep_gauge_same [OF system_okD(5) [OF ok] assms(2)]])
  moreover have "review_ok db'" using system_okD(2) [OF ok] by (simp add: review_ok_def assms(2))
  moreover have "approval_ok db'"
    by (rule approval_ok_frame [OF system_okD(4) [OF ok] assms(5,6,3) n])
  ultimately show ?thesis using cy by (simp add: system_ok_def)
qed

lemma system_ok_initial:
  assumes ok: "system_ok db" and ci: "current_or_initial c a ref at db = (cy, db')"
  shows "system_ok db'"
proof -
  note f = current_or_initial_frame [OF ci]
  have "cycles db' = cycles db @ (if True \<and> current_cycle db c = None then [cy] else [])"
    and "current_cycle db c = Some cy \<or> current_cycle db c = None \<and> cc_company cy = c \<and>
      cc_number cy = 1 \<and> cc_kind cy = INITIAL \<and> next_uuid db \<le> cc_id cy \<and> cc_id cy < next_uuid db'"
    using current_or_initial_cases [OF ci] by auto
  from cycles_ok_initial [OF system_okD(3) [OF ok] f(13) this(1)] this(2) have "cycles_ok db'"
    by blast
  with f show ?thesis by (intro system_ok_tables [OF ok]) simp_all
qed

lemma current_or_initial_current:
  assumes "cycles_ok db" and "current_or_initial c a ref at db = (cy, db')"
  shows "current_cycle db' c = Some cy" and "cycles_ok db'"
    and "cc_number cy = length (company_cycles db' c)"
proof -
  have cs: "cycles db' = cycles db @ (if True \<and> current_cycle db c = None then [cy] else [])"
    and cy: "current_cycle db c = Some cy \<or> current_cycle db c = None \<and> cc_company cy = c \<and>
      cc_number cy = 1 \<and> cc_kind cy = INITIAL \<and> next_uuid db \<le> cc_id cy \<and> cc_id cy < next_uuid db'"
    using current_or_initial_cases [OF assms(2)] by auto
  from cycles_ok_initial [OF assms(1) current_or_initial_frame(13) [OF assms(2)] cs] cy
  show ok: "cycles_ok db'" by blast
  have l: "company_cycles db' c = company_cycles db c @
      (if current_cycle db c = None then [cy] else [])"
    using cs cy by (auto simp: company_cycles_def)
  show "current_cycle db' c = Some cy"
    using current_cycle_last(1) [OF ok, of c] current_cycle_last(1) [OF assms(1), of c] cy
    by (auto simp: l split: if_splits)
  then show "cc_number cy = length (company_cycles db' c)"
    using current_cycle_last [OF ok, of c] by (auto split: if_splits)
qed

lemma system_ok_start_cycle:
  assumes ok: "system_ok db" and sc: "start_cycle env c kind reason a role db = Inr (out, db')"
  shows "system_ok db'"
proof -
  let ?src = "''background_check_service.start_cycle''"
  obtain p prev db1 cy db2 where p: "profiles db c = Some p"
    and kind: "kind \<in> set STARTABLE_CYCLE_KINDS" and tx: "\<not> no_text (strip_if_given reason)"
    and np: "open_proposals db c = []"
    and ci: "current_or_initial c a (Some ?src) (env_now env) db = (prev, db1)"
    and cy: "cc_company cy = c" "cc_number cy = Suc (cc_number prev)" "cc_kind cy = kind"
      "cc_reason cy = strip_if_given reason"
    and i: "next_uuid db1 \<le> cc_id cy" "cc_id cy < next_uuid db2"
    and d2: "\<exists>rows n. db2 = db1\<lparr>cycles := cycles db1 @ [cy], history := history db1 @ rows, next_uuid := n\<rparr>"
    and fin: "background_check p \<noteq> CLEAR \<and> db' = db2 \<and> sc_reopen out = None \<or>
      background_check p = CLEAR \<and> (\<exists>i res p'. next_uuid db1 \<le> i \<and> i < next_uuid db2 \<and>
        apply_move env p (reopen_request cy i a role kind (the (strip_if_given reason))) db2
          = Inr (res, p', db') \<and> sc_reopen out = Some (to_view (mv_decision res) (mv_evidence res)))"
    by (rule start_cycle_effect [OF sc], rule that, assumption+)
  have ok1: "system_ok db1" by (rule system_ok_initial [OF ok ci])
  note cur = current_or_initial_current [OF system_okD(3) [OF ok] ci]
  have n: "next_uuid db1 \<le> next_uuid db2" using i by simp
  have chk: "cycle_checks cy"
    using cy kind cur(3) strip_not_blank [OF tx] current_cycle_last(1) [OF cur(2), of c] cur(1)
    by (auto simp: cycle_checks_def STARTABLE_CYCLE_KINDS_def split: if_splits)
  have "cycles_ok db2"
    by (rule cycles_ok_append [OF cur(2) _ n i chk]) (use d2 cy cur(3) in auto)
  then have ok2: "system_ok db2" by (intro system_ok_tables [OF ok1 _ _ _ _ _ n]) (use d2 in auto)
  show ?thesis
  proof (cases "background_check p = CLEAR")
    case False
    with fin ok2 show ?thesis by simp
  next
    case True
    with fin obtain j res p' where j: "next_uuid db1 \<le> j" "j < next_uuid db2"
      and am: "apply_move env p (reopen_request cy j a role kind (the (strip_if_given reason))) db2
          = Inr (res, p', db')" by blast
    have c: "customer_id p = c" by (rule keyedD [OF system_okD(5) [OF ok] p])
    have p2: "profiles db2 (customer_id p) = Some p"
      using p c d2 current_or_initial_frame(1) [OF ci] by auto
    have fresh: "j \<notin> dn_id ` set (decisions db2)"
      using chain_okD(3) [OF system_okD(1) [OF ok1]] d2 j(1) by fastforce
    show ?thesis
      by (rule system_ok_apply_move [OF ok2 p2 am])
        (use j(2) fresh in \<open>simp_all add: reopen_request_def plain_move_def sound_request_def\<close>)
  qed
qed

section \<open>Maker-checker steps\<close>

lemma latest_rests:
  assumes "chain_ok db" and "latest_for_company c db = Inr (Some d)" and "profiles db c = Some p"
  shows "decisions_of db c \<noteq> []" "last (decisions_of db c) = d" "dn_to d = background_check p"
  using chain_ok_latest [OF assms(1), of c] assms(2) chain_okD(8) [OF assms(1,3)]
  by (auto simp: gauge_after_def split: if_splits)

lemma system_ok_propose:
  assumes ok: "system_ok db" and pr: "propose env c t reason risk a role seen db = Inr (out, db')"
  shows "system_ok db'"
proof -
  obtain p head cy q pr where p: "profiles db c = Some p"
    and am: "(background_check p, t) \<in> set APPROVAL_MOVES"
    and cm: "\<exists>m. check_move p ((plain_move t [background_check p] a role reason risk None)\<lparr>mr_seen := seen\<rparr>)
      = Inr (pr_reason pr, m)"
    and np: "open_proposals db c = []" and hd: "latest_for_company c db = Inr (Some head)"
    and q: "q = p \<and> ((background_check p, t) \<in> set REVIEWER_MOVES \<longrightarrow> reviewer_id p = Some a) \<or>
      (background_check p, t) \<in> set REVIEWER_MOVES \<and> reviewer_id p = None \<and> rm_user_id p \<noteq> Some a \<and>
      q = reviewer_set env p (Some a)"
    and f: "pr_company pr = c" "pr_based_on pr = dn_id head" "pr_from pr = background_check p"
      "pr_to pr = t" "pr_risk pr = risk"
    and i: "next_uuid db \<le> pr_id pr" "pr_id pr < next_uuid db'"
    and tb: "proposals db' = proposals db @ [pr]" "resolutions db' = resolutions db"
      "decisions db' = decisions db" "evidence db' = evidence db" "profiles db' = (profiles db)(c \<mapsto> q)"
    and cs: "cycles db' = cycles db @ (if current_cycle db c = None then [cy] else [])"
    and cy: "current_cycle db c = Some cy \<or> current_cycle db c = None \<and> cc_company cy = c \<and>
      cc_number cy = 1 \<and> cc_kind cy = INITIAL \<and> next_uuid db \<le> cc_id cy \<and> cc_id cy < next_uuid db'"
    by (rule propose_effect [OF pr system_okD(5) [OF ok]], rule that, assumption+)
  have n: "next_uuid db \<le> next_uuid db'" using i by simp
  have c: "customer_id p = c" by (rule keyedD [OF system_okD(5) [OF ok] p])
  have rp: "reviewer_checks p" using system_okD(2) [OF ok] p by (simp add: review_ok_def)
  have q': "customer_id q = c \<and> background_check q = background_check p \<and>
      bc_expires_at q = bc_expires_at p \<and> reviewer_checks q"
    using q rp c reviewer_checks_set [OF rp, of "Some a"]
    by (auto simp: reviewer_set_def REVIEWER_MOVES_def UNDER_REVIEW_def)
  have "chain_ok db'"
    by (rule chain_ok_frame [OF system_okD(1) [OF ok] tb(3,4) n
          rows_keep_gauge_upd [OF system_okD(5) [OF ok] p tb(5)]]) (use q' in simp_all)
  moreover have "review_ok db'"
    by (rule review_ok_write [OF system_okD(2) [OF ok] tb(5)]) (use q' in simp)
  moreover have "cycles_ok db'"
    by (rule cycles_ok_initial [OF system_okD(3) [OF ok] n, of True]) (use cs cy in auto)
  moreover have "approval_ok db'"
  proof (rule approval_ok_propose [OF system_okD(4) [OF ok] tb(1,2,3) i])
    show "open_proposals db (pr_company pr) = []" using np f by simp
    show "rests_on_head db pr"
      using latest_rests [OF system_okD(1) [OF ok] hd p] f by (simp add: rests_on_head_def)
    have "\<not> no_text (pr_reason pr)" "(risk \<noteq> None) = (t = CLEAR)" "pr_reason pr = strip_if_given reason"
      using cm am by (auto simp: check_move_Inr plain_move_def APPROVAL_MOVES_def)
    then show "proposal_checks pr"
      using am f strip_not_blank [of reason] by (auto simp: proposal_checks_def)
  qed
  ultimately show ?thesis by (simp add: system_ok_def)
qed

lemma system_ok_resolve:
  assumes ok: "system_ok db" and op: "open_proposal_to_resolve c pid role db = Inr q"
    and rs: "resolve env q oc a reason did src db = Inr (rs, db')"
    and chk: "resolution_checks rs"
  shows "system_ok db'"
proof -
  from rs obtain rows where db': "db' = db\<lparr>next_uuid := Suc (next_uuid db),
      resolutions := resolutions db @ [rs], history := history db @ rows\<rparr>"
    and rsd: "rs_proposal rs = pr_id q"
    by (elim resolve_effect) auto
  note o = open_proposal_to_resolve_Inr [OF op]
  have n: "next_uuid db \<le> next_uuid db'" by (simp add: db')
  have "chain_ok db'"
    by (rule chain_ok_frame [OF system_okD(1) [OF ok] _ _ n rows_keep_gauge_same [OF system_okD(5) [OF ok]]])
      (simp_all add: db')
  moreover have "review_ok db'" using system_okD(2) [OF ok] by (simp add: review_ok_def db')
  moreover have "cycles_ok db'" by (rule cycles_ok_frame [OF system_okD(3) [OF ok] _ n]) (simp add: db')
  moreover have "approval_ok db'"
    by (rule approval_ok_resolve [OF system_okD(4) [OF ok] _ _ n o(2) _ rsd chk, of "[]"])
      (use o in \<open>simp_all add: db'\<close>)
  ultimately show ?thesis by (simp add: system_ok_def)
qed

lemma staleness_None:
  assumes "staleness env p q db = Inr None"
  shows "background_check p = pr_from q"
    and "\<exists>h. latest_for_company (customer_id p) db = Inr (Some h) \<and> dn_id h = pr_based_on q"
    and "\<exists>inputs. company_inputs (customer_id p) db = Inr inputs \<and>
      inputs_fingerprint env inputs (select_evidence inputs (company_documents db (customer_id p)))
        = pr_fingerprint q"
  using assms by (auto simp: staleness_def bindE_eq_Inr Let_def split: if_splits)

lemma system_ok_approve:
  assumes ok: "system_ok db" and ap: "approve env c pid a role perms db = Inr (out, db')"
  shows "system_ok db'"
proof -
  from ap obtain p q res p' db1 rs where p: "profiles db c = Some p"
    and op: "open_proposal_to_resolve c pid role db = Inr q" and ne: "a \<noteq> pr_created_by q"
    and am: "apply_move env p ((plain_move (pr_to q) [pr_from q] (pr_created_by q) role (pr_reason q)
         (pr_risk q) None)\<lparr>mr_approval := Some (q, a)\<rparr>) db = Inr (res, p', db1)"
    and rs: "resolve env q APPROVED a None (Some (dn_id (mv_decision res)))
         ''background_check_service.approve'' db1 = Inr (rs, db')"
    by (elim approve_effect)
  let ?r = "(plain_move (pr_to q) [pr_from q] (pr_created_by q) role (pr_reason q)
         (pr_risk q) None)\<lparr>mr_approval := Some (q, a)\<rparr>"
  have c: "customer_id p = c" by (rule keyedD [OF system_okD(5) [OF ok] p])
  have p2: "profiles db (customer_id p) = Some p" using p c by simp
  note o = open_proposal_to_resolve_Inr [OF op]
  obtain tx m prev cy expires where cm: "check_move p ?r = Inr (tx, m)"
    and d: "mv_decision res = decision_row env p ?r tx (dn_id (mv_decision res)) prev cy expires"
    and ds: "decisions db1 = decisions db @ [mv_decision res]" and fr: "move_frame db db1"
    by (rule apply_move_effect [OF am p2], rule that, assumption+)
  have so: "sound_request ?r db" using ne by (simp add: sound_request_def plain_move_def)
  have chain: "chain_ok db1" by (rule chain_ok_move [OF system_okD(1) [OF ok] p2 am so])
  have rev1: "review_ok db1" by (rule review_ok_move [OF system_okD(2) [OF ok] p2 am])
  have cyc: "cycles_ok db1" by (rule cycles_ok_move [OF system_okD(3) [OF ok] p2 am])
  from rs obtain rows where db': "db' = db1\<lparr>next_uuid := Suc (next_uuid db1),
      resolutions := resolutions db1 @ [rs], history := history db1 @ rows\<rparr>"
    and rsd: "rs = \<lparr>rs_id = next_uuid db1, rs_proposal = pr_id q, rs_proposed_by = pr_created_by q,
      rs_outcome = APPROVED, rs_reason = None, rs_decision = Some (dn_id (mv_decision res)),
      rs_created_by = a, rs_created_at = env_db_now env,
      rs_source = ''background_check_service.approve''\<rparr>"
    by (elim resolve_effect)
  have n: "next_uuid db1 \<le> next_uuid db'" "next_uuid db \<le> next_uuid db'"
    using fr by (simp_all add: db' move_frame_def)
  have from_q: "background_check p = pr_from q"
    using cm by (simp add: check_move_Inr plain_move_def)
  have rec: "approval_recorded db' (mv_decision res)"
  proof -
    have f: "dn_proposal (mv_decision res) = Some (pr_id q)" "dn_company (mv_decision res) = c"
      "dn_from (mv_decision res) = pr_from q" "dn_to (mv_decision res) = pr_to q"
      "dn_risk (mv_decision res) = pr_risk q" "dn_decided_by (mv_decision res) = pr_created_by q"
      "dn_approved_by (mv_decision res) = Some a"
      by (subst d, simp add: plain_move_def c from_q)+
    have "q \<in> set (proposals db')" using o(2) fr by (simp add: db' move_frame_def)
    moreover have "rs \<in> set (resolutions db')" by (simp add: db')
    ultimately show ?thesis
      unfolding approval_recorded_def f option.case
      using o(4) by (intro conjI bexI [of _ q] bexI [of _ rs]) (simp_all add: f rsd)
  qed
  have "chain_ok db'"
    by (rule chain_ok_frame [OF chain _ _ n(1) rows_keep_gauge_same [OF chain_okD(1) [OF chain]]])
      (simp_all add: db')
  moreover have "review_ok db'" using rev1 by (simp add: review_ok_def db')
  moreover have "cycles_ok db'" by (rule cycles_ok_frame [OF cyc _ n(1)]) (simp add: db')
  moreover have "approval_ok db'"
  proof (rule approval_ok_resolve [OF system_okD(4) [OF ok] _ _ n(2) o(2)])
    show "proposals db' = proposals db" "resolutions db' = resolutions db @ [rs]"
      using fr by (simp_all add: db' move_frame_def)
    show "resolution_of db (pr_id q) = None" using o(3,5) by simp
    show "rs_proposal rs = pr_id q" "resolution_checks rs"
      using ne by (simp_all add: rsd resolution_checks_def)
    show "decisions db' = decisions db @ [mv_decision res]" using ds by (simp add: db')
    show "\<forall>x \<in> set [mv_decision res]. dn_company x = pr_company q \<and> approval_recorded db' x"
      using rec o(4) c by (simp, subst d) (simp add: c)
  qed
  ultimately show ?thesis by (simp add: system_ok_def)
qed

lemma system_ok_step:
  assumes "system_ok db" and "crm_step env db db'"
  shows "system_ok db'"
  using assms(2)
proof (cases rule: crm_step_cases)
  case (move c r x)
  then show ?thesis by (rule system_ok_move [OF assms(1)])
next
  case cycle
  then show ?thesis by (rule system_ok_start_cycle [OF assms(1)])
next
  case propose
  then show ?thesis by (rule system_ok_propose [OF assms(1)])
next
  case approve
  then show ?thesis by (rule system_ok_approve [OF assms(1)])
next
  case (reject c pid reason a role v)
  then obtain q rs s where op: "open_proposal_to_resolve c pid role db = Inr q" and "a \<noteq> pr_created_by q"
    and "\<not> no_text (strip_if_given reason)"
    and rs: "resolve env q REJECTED a (strip_if_given reason) None ''background_check_service.reject'' db
      = Inr (rs, db')" by (elim reject_effect)
  then have "resolution_checks rs"
    using strip_not_blank by (elim resolve_effect) (simp add: resolution_checks_def)
  then show ?thesis by (rule system_ok_resolve [OF assms(1) op rs])
next
  case (withdraw c pid reason a role perms v)
  then obtain q rs t where op: "open_proposal_to_resolve c pid role db = Inr q"
    and rs: "resolve env q WITHDRAWN a t None ''background_check_service.withdraw'' db = Inr (rs, db')"
    by (elim withdraw_effect)
  then have "resolution_checks rs" by (elim resolve_effect) (simp add: resolution_checks_def)
  then show ?thesis by (rule system_ok_resolve [OF assms(1) op rs])
next
  case (claim c a role p')
  then obtain p where p: "profiles db c = Some p" and w: "profile_write c p' db db'"
    and b: "background_check p \<in> set UNDER_REVIEW"
    and "reviewer_id p = Some a \<and> p' = p \<and> db' = db \<or>
      reviewer_id p = None \<and> rm_user_id p \<noteq> Some a \<and> p' = reviewer_set env p (Some a)"
    by (elim claim_review_effect [OF _ system_okD(5) [OF assms(1)]])
  with assms(1) system_ok_reviewer [OF assms(1) p _, of env "Some a" db'] show ?thesis by auto
next
  case (assign c u reason a role perms p')
  then obtain p where p: "profiles db c = Some p" and w: "profile_write c p' db db'"
    and b: "background_check p \<in> set UNDER_REVIEW"
    and "reviewer_id p = Some u \<and> p' = p \<and> db' = db \<or>
      rm_user_id p \<noteq> Some u \<and> (\<exists>m. staff db u = Some m \<and> sm_active m \<and>
        sm_role m \<in> set REVIEWER_ROLES \<and> p' = reviewer_set env p (Some (sm_id m)))"
    by (elim assign_review_effect [OF _ system_okD(5) [OF assms(1)]])
  with assms(1) system_ok_reviewer [OF assms(1) p _, of env _ db'] show ?thesis by auto
next
  case (release c msg a role perms p')
  then obtain p where p: "profiles db c = Some p" and w: "profile_write c p' db db'"
    and "p' = p \<and> db' = db \<or> p' = reviewer_set env p None"
    by (elim release_review_effect [OF _ system_okD(5) [OF assms(1)]])
  with assms(1) system_ok_reviewer [OF assms(1) p _, of env None db'] show ?thesis by auto
next
  case (columns c p p')
  have "reviewer_checks p" using system_okD(2) [OF assms(1)] columns(1) by (simp add: review_ok_def)
  with columns(2) have "reviewer_checks p'" by (auto simp: other_columns_def reviewer_checks_def)
  then show ?thesis
    using columns(2) keyedD [OF system_okD(5) [OF assms(1)] columns(1)]
    by (intro system_ok_row [OF assms(1) columns(1,3)]) (simp_all add: other_columns_def)
next
  case (company c p)
  have "rows_keep_gauge db db'"
    using company system_okD(5) [OF assms(1)] by (auto simp: rows_keep_gauge_def new_company_def keyed_def)
  then have "chain_ok db'"
    by (intro chain_ok_frame [OF system_okD(1) [OF assms(1)]]) (simp_all add: company save_profile_def)
  moreover have "review_ok db'"
  proof -
    have "reviewer_checks p" using company(2) by (simp add: new_company_def reviewer_checks_def)
    then show ?thesis
      by (rule review_ok_write [OF system_okD(2) [OF assms(1)], rotated]) (simp add: company(3))
  qed
  moreover have "cycles_ok db'"
    by (rule cycles_ok_frame [OF system_okD(3) [OF assms(1)]]) (simp_all add: company(3))
  moreover have "approval_ok db'"
    by (rule approval_ok_frame [OF system_okD(4) [OF assms(1)]]) (simp_all add: company(3))
  ultimately show ?thesis by (simp add: system_ok_def)
next
  case inputs
  have "cycles_ok db'" by (rule cycles_ok_frame [OF system_okD(3) [OF assms(1)]]) (simp_all add: inputs)
  then show ?thesis by (intro system_ok_tables [OF assms(1)]) (simp_all add: inputs)
next
  case first_input
  then show ?thesis by (rule system_ok_initial [OF assms(1)])
qed

section \<open>Reachable states\<close>

definition empty_db :: "(uuid \<Rightarrow> staff_member option) \<Rightarrow> crm_db" where
  "empty_db st = \<lparr>profiles = (\<lambda>_. None), decisions = [], evidence = [], proposals = [],
     resolutions = [], cycles = [], verifications = [], reviews = [], screenings = [],
     documents = [], buyers = [], history = [], staff = st, next_uuid = 0\<rparr>"

inductive reachable :: "(crm_env \<Rightarrow> bool) \<Rightarrow> crm_db \<Rightarrow> bool" for policy where
  initial: "reachable policy (empty_db st)"
| step: "reachable policy db \<Longrightarrow> policy env \<Longrightarrow> crm_step env db db' \<Longrightarrow> reachable policy db'"

lemma system_ok_empty: "system_ok (empty_db st)"
  by (simp add: system_ok_def chain_ok_def keyed_def empty_db_def review_ok_def cycles_ok_def
      approval_ok_def decisions_of_def company_cycles_def open_proposals_def)

lemma reachable_ok: "reachable policy db \<Longrightarrow> system_ok db"
  by (induction rule: reachable.induct) (auto intro: system_ok_empty system_ok_step)

section \<open>What one step may change\<close>

text \<open>
  Every append-only table grows at its end; a company's gauge changes only by a decision the
  step appends; its journey changes, in the service's steps, only from \<open>PROSPECT\<close> to
  \<open>CUSTOMER\<close> on a move to \<open>CLEAR\<close>.
\<close>

definition appends :: "crm_db \<Rightarrow> crm_db \<Rightarrow> bool" where
  "appends db db' \<longleftrightarrow> (\<exists>a b c d e f. decisions db' = decisions db @ a \<and> evidence db' = evidence db @ b \<and>
     proposals db' = proposals db @ c \<and> resolutions db' = resolutions db @ d \<and>
     cycles db' = cycles db @ e \<and> history db' = history db @ f)"

definition decision_terms :: "crm_env \<Rightarrow> crm_db \<Rightarrow> bc_decision \<Rightarrow> bool" where
  "decision_terms env db d \<longleftrightarrow>
     (env_maker_checker env \<and> (dn_from d, dn_to d) \<in> set APPROVAL_MOVES \<longrightarrow> dn_proposal d \<noteq> None) \<and>
     (dn_to d = CLEAR \<longrightarrow> dn_expires_at d = Some (dn_decided_at d + days (env_clear_validity_days env))
        \<and> 1 \<le> env_clear_validity_days env
        \<and> (\<exists>inputs. company_inputs (dn_company d) db = Inr inputs \<and> clear_ready inputs (dn_risk d)
             (select_evidence inputs (company_documents db (dn_company d))) CLEAR_POLICY))"

lemma appends_same:
  "decisions db' = decisions db \<Longrightarrow> evidence db' = evidence db \<Longrightarrow> proposals db' = proposals db \<Longrightarrow>
   resolutions db' = resolutions db \<Longrightarrow> cycles db' = cycles db \<Longrightarrow>
   \<exists>f. history db' = history db @ f \<Longrightarrow> appends db db'"
  by (simp add: appends_def)

lemma appends_trans: "appends db db1 \<Longrightarrow> appends db1 db2 \<Longrightarrow> appends db db2"
  unfolding appends_def by (elim exE conjE) (simp only: append_assoc, intro exI conjI; rule refl)

lemma apply_move_step:
  assumes p: "profiles db (customer_id p) = Some p"
    and am: "apply_move env p r db = Inr (res, p', db')"
  shows "appends db db'" and "decisions db' = decisions db @ [mv_decision res]"
    and "mr_approval r \<noteq> None \<or>
      \<not> (env_maker_checker env \<and> (background_check p, mr_to r) \<in> set APPROVAL_MOVES)"
    and "decision_terms env db (mv_decision res)"
    and "dn_company (mv_decision res) = customer_id p"
      "dn_from (mv_decision res) = background_check p" "dn_to (mv_decision res) = mr_to r"
    and "profiles db' = (profiles db)(customer_id p \<mapsto> p')"
    and "journey_of p' = journey_of p \<or> mr_to r = CLEAR \<and> journey_of p = PROSPECT \<and> journey_of p' = CUSTOMER"
    and "background_check p' = mr_to r"
proof -
  obtain tx q claim inputs prev cy expires where g: "approval_gate env p r db = Inr ()"
    and q: "\<exists>rm. q = p\<lparr>rm_user_id := rm\<rparr>"
    and inp: "company_inputs (customer_id p) db = Inr inputs"
    and sel: "mv_evidence res = select_evidence inputs (company_documents db (customer_id p))"
    and rdy: "mr_to r = CLEAR \<longrightarrow> clear_ready inputs (mr_risk r) (mv_evidence res) CLEAR_POLICY"
    and cs: "cycles db' = cycles db @ (if mr_cycle r = None \<and> current_cycle db (customer_id p) = None
          then [cy] else [])"
    and e: "expires = (if mr_to r = CLEAR then Some (env_db_now env + days (env_clear_validity_days env))
          else None)"
    and v: "mr_to r = CLEAR \<longrightarrow> 1 \<le> env_clear_validity_days env"
    and d: "mv_decision res = decision_row env p r tx (dn_id (mv_decision res)) prev cy expires"
    and ds: "decisions db' = decisions db @ [mv_decision res]"
    and ev: "evidence db' = evidence db @
          map (\<lambda>e. e\<lparr>ev_decision := dn_id (mv_decision res)\<rparr>) (evidence_rows (mv_evidence res))"
    and row: "p' = gauge_row env q r (claim \<or> move_reclaims p r) expires \<or>
         mr_to r = CLEAR \<and> journey_of p = PROSPECT \<and>
         p' = (gauge_row env q r (claim \<or> move_reclaims p r) expires)\<lparr>journey_of := CUSTOMER\<rparr>"
    and pr: "profiles db' = (profiles db)(customer_id p \<mapsto> p')" and fr: "move_frame db db'"
    by (rule apply_move_effect [OF am p], rule that, assumption+)
  show "appends db db'" using cs ds ev fr by (auto simp: appends_def move_frame_def)
  show "decisions db' = decisions db @ [mv_decision res]" by fact
  show ap: "mr_approval r \<noteq> None \<or>
      \<not> (env_maker_checker env \<and> (background_check p, mr_to r) \<in> set APPROVAL_MOVES)"
    using g by (auto simp: approval_gate_def split: if_splits option.splits)
  show "dn_company (mv_decision res) = customer_id p"
    "dn_from (mv_decision res) = background_check p" "dn_to (mv_decision res) = mr_to r"
    by (subst d, simp)+
  show "decision_terms env db (mv_decision res)"
  proof -
    have "dn_from (mv_decision res) = background_check p" "dn_to (mv_decision res) = mr_to r"
      "dn_proposal (mv_decision res) = map_option (\<lambda>(q, _). pr_id q) (mr_approval r)"
      "dn_expires_at (mv_decision res) = expires" "dn_decided_at (mv_decision res) = env_db_now env"
      "dn_risk (mv_decision res) = mr_risk r" "dn_company (mv_decision res) = customer_id p"
      by (subst d, simp add: decision_row_def)+
    then show ?thesis using ap e v inp sel rdy by (auto simp: decision_terms_def)
  qed
  show "profiles db' = (profiles db)(customer_id p \<mapsto> p')" by fact
  show "journey_of p' = journey_of p \<or> mr_to r = CLEAR \<and> journey_of p = PROSPECT \<and> journey_of p' = CUSTOMER"
    and "background_check p' = mr_to r"
    using row q by auto
qed

text \<open>
  The effect of a step on decisions and gauges: none, or one decision of one company, whose
  gauge it moves.
\<close>

definition gauges_kept :: "crm_db \<Rightarrow> crm_db \<Rightarrow> bool" where
  "gauges_kept db db' \<longleftrightarrow> decisions db' = decisions db \<and>
     (\<forall>c p. profiles db c = Some p \<longrightarrow>
        (\<exists>p'. profiles db' c = Some p' \<and> background_check p' = background_check p))"

definition has_cycle :: "crm_db \<Rightarrow> uuid \<Rightarrow> bool" where
  "has_cycle db c \<longleftrightarrow> (\<exists>cy \<in> set (cycles db). cc_company cy = c)"

lemma current_cycle_has: "current_cycle db c = Some cy \<Longrightarrow> has_cycle db c"
proof -
  assume "current_cycle db c = Some cy"
  then have "cy \<in> set (rev (cycles_of db c))" by (auto simp: current_cycle_def split: list.splits)
  then show ?thesis by (auto simp: cycles_of_def has_cycle_def)
qed

lemma has_current_cycle: "has_cycle db c \<Longrightarrow> \<exists>cy. current_cycle db c = Some cy"
  by (auto simp: current_cycle_def cycles_of_def has_cycle_def filter_empty_conv split: list.splits
      dest!: arg_cong [where f = set])

definition one_decision :: "crm_env \<Rightarrow> crm_db \<Rightarrow> crm_db \<Rightarrow> bool" where
  "one_decision env db db' \<longleftrightarrow> (\<exists>d p p'. decisions db' = decisions db @ [d] \<and> decision_terms env db d \<and>
     profiles db (dn_company d) = Some p \<and> profiles db' = (profiles db)(dn_company d \<mapsto> p') \<and>
     dn_from d = background_check p \<and> dn_to d = background_check p' \<and>
     (journey_of p' = journey_of p \<or>
      dn_to d = CLEAR \<and> journey_of p = PROSPECT \<and> journey_of p' = CUSTOMER) \<and>
     has_cycle db' (dn_company d))"

lemma gauges_kept_write:
  "profile_write c p' db db' \<Longrightarrow> profiles db c = Some p \<Longrightarrow> background_check p' = background_check p \<Longrightarrow>
   gauges_kept db db'"
  using profile_write_frame(1,2) [of c p' db db'] by (auto simp: gauges_kept_def)

lemma appends_write: "profile_write c p' db db' \<Longrightarrow> appends db db'"
  by (rule appends_same) (simp_all add: profile_write_frame profile_write_history)

lemma move_has_cycle:
  assumes p: "profiles db (customer_id p) = Some p"
    and am: "apply_move env p r db = Inr (res, p', db')"
    and cy: "mr_cycle r = None \<or> has_cycle db (customer_id p)"
  shows "has_cycle db' (customer_id p)"
proof -
  obtain cy where cs: "cycles db' = cycles db @ (if mr_cycle r = None \<and> current_cycle db (customer_id p) = None
          then [cy] else [])"
    and c: "mr_cycle r = Some cy \<or> mr_cycle r = None \<and> (current_cycle db (customer_id p) = Some cy \<or>
          current_cycle db (customer_id p) = None \<and> cc_company cy = customer_id p \<and> cc_number cy = 1 \<and>
          cc_kind cy = INITIAL \<and> next_uuid db \<le> cc_id cy \<and> cc_id cy < next_uuid db')"
    by (rule apply_move_effect [OF am p], rule that, assumption+)
  show ?thesis
  proof (cases "has_cycle db (customer_id p)")
    case True
    then show ?thesis by (auto simp: has_cycle_def cs)
  next
    case False
    with cy c current_cycle_has have "mr_cycle r = None" "current_cycle db (customer_id p) = None"
      "cc_company cy = customer_id p" by fastforce+
    then show ?thesis by (simp add: has_cycle_def cs)
  qed
qed

lemma one_decision_move:
  assumes p: "profiles db (customer_id p) = Some p"
    and am: "apply_move env p r db = Inr (res, p', db')"
    and cy: "mr_cycle r = None \<or> has_cycle db (customer_id p)"
  shows "one_decision env db db'"
  unfolding one_decision_def
  using p apply_move_step [OF p am] move_has_cycle [OF p am cy]
  by (intro exI [of _ "mv_decision res"] exI [of _ p] exI [of _ p']) simp

lemma resolve_step:
  assumes "resolve env q oc a reason did src db = Inr (rs, db')"
  shows "appends db db'" "decisions db' = decisions db" "profiles db' = profiles db"
    "cycles db' = cycles db"
  using assms by (auto elim!: resolve_effect simp: appends_def)

lemma one_decision_frame:
  "one_decision env db db1 \<Longrightarrow> decisions db' = decisions db1 \<Longrightarrow> profiles db' = profiles db1 \<Longrightarrow>
   cycles db' = cycles db1 \<Longrightarrow> one_decision env db db'"
  by (simp add: one_decision_def has_cycle_def)

lemma one_decision_frame_left:
  "one_decision env db1 db' \<Longrightarrow> decisions db1 = decisions db \<Longrightarrow> profiles db1 = profiles db \<Longrightarrow>
   (\<And>d. decisions db' = decisions db1 @ [d] \<Longrightarrow> dn_to d \<noteq> CLEAR) \<Longrightarrow> one_decision env db db'"
  by (auto simp: one_decision_def decision_terms_def)

lemma step_effect:
  assumes ok: "system_ok db" and st: "crm_step env db db'"
  shows "appends db db'" and "gauges_kept db db' \<or> one_decision env db db'"
proof -
  note k = system_okD(5) [OF ok]
  have "appends db db' \<and> (gauges_kept db db' \<or> one_decision env db db')"
    using st
  proof (cases rule: crm_step_cases)
    case (move c r x)
    then obtain p res p' where p: "profiles db c = Some p"
      and am: "apply_move env p r db = Inr (res, p', db')"
      by (auto simp: move_def bindE_eq_Inr lock_profile_eq_Inr)
    have p2: "profiles db (customer_id p) = Some p" using p keyedD [OF k p] by simp
    have "mr_cycle r = None" using move by (simp add: public_request_def)
    then show ?thesis using apply_move_step(1) [OF p2 am] one_decision_move [OF p2 am] by blast
  next
    case (cycle c kind reason a role y)
    let ?src = "''background_check_service.start_cycle''"
    obtain p prev db1 cy db2 where p: "profiles db c = Some p"
      and ci: "current_or_initial c a (Some ?src) (env_now env) db = (prev, db1)"
      and cyc: "cc_company cy = c"
      and d2: "\<exists>rows n. db2 = db1\<lparr>cycles := cycles db1 @ [cy], history := history db1 @ rows, next_uuid := n\<rparr>"
      and fin: "background_check p \<noteq> CLEAR \<and> db' = db2 \<and> sc_reopen y = None \<or>
        background_check p = CLEAR \<and> (\<exists>i res p'. next_uuid db1 \<le> i \<and> i < next_uuid db2 \<and>
          apply_move env p (reopen_request cy i a role kind (the (strip_if_given reason))) db2
            = Inr (res, p', db') \<and> sc_reopen y = Some (to_view (mv_decision res) (mv_evidence res)))"
      by (rule start_cycle_effect [OF cycle], rule that, assumption+)
    note f = current_or_initial_frame [OF ci]
    have "cycles db1 = cycles db \<or> cycles db1 = cycles db @ [prev]"
      using current_or_initial_cases [OF ci] by auto
    then have a2: "appends db db2" using d2 f by (auto simp: appends_def)
    have same: "decisions db2 = decisions db" "profiles db2 = profiles db" using d2 f by auto
    show ?thesis
    proof (cases "background_check p = CLEAR")
      case False
      with fin a2 same show ?thesis by (simp add: gauges_kept_def)
    next
      case True
      with fin obtain i res p' where
        am: "apply_move env p (reopen_request cy i a role kind (the (strip_if_given reason))) db2
            = Inr (res, p', db')" by blast
      have p2: "profiles db2 (customer_id p) = Some p" using p keyedD [OF k p] same by simp
      have "dn_to (mv_decision res) = IN_REVIEW"
        using apply_move_step(7) [OF p2 am] by (simp add: reopen_request_def plain_move_def)
      moreover have "has_cycle db2 (customer_id p)"
        using d2 cyc keyedD [OF k p] by (auto simp: has_cycle_def)
      ultimately have "one_decision env db db'"
        using apply_move_step(2) [OF p2 am]
        by (intro one_decision_frame_left [OF one_decision_move [OF p2 am] same]) simp_all
      then show ?thesis using appends_trans [OF a2 apply_move_step(1) [OF p2 am]] by blast
    qed
  next
    case (propose c t reason risk a role seen v)
    obtain p cy q pr where p: "profiles db c = Some p"
      and q: "q = p \<and> ((background_check p, t) \<in> set REVIEWER_MOVES \<longrightarrow> reviewer_id p = Some a) \<or>
      (background_check p, t) \<in> set REVIEWER_MOVES \<and> reviewer_id p = None \<and> rm_user_id p \<noteq> Some a \<and>
      q = reviewer_set env p (Some a)"
      and tb: "proposals db' = proposals db @ [pr]" "resolutions db' = resolutions db"
        "decisions db' = decisions db" "evidence db' = evidence db" "profiles db' = (profiles db)(c \<mapsto> q)"
      and h: "\<exists>rows. history db' = history db @ rows"
      and cs: "cycles db' = cycles db @ (if current_cycle db c = None then [cy] else [])"
      by (rule propose_effect [OF propose k], rule that, assumption+)
    have "background_check q = background_check p" using q by (auto simp: reviewer_set_def)
    with p tb h cs show ?thesis by (auto simp: appends_def gauges_kept_def)
  next
    case (approve c pid a role perms w)
    then obtain p q res p' db1 rs where p: "profiles db c = Some p"
      and am: "apply_move env p ((plain_move (pr_to q) [pr_from q] (pr_created_by q) role (pr_reason q)
         (pr_risk q) None)\<lparr>mr_approval := Some (q, a)\<rparr>) db = Inr (res, p', db1)"
      and rs: "resolve env q APPROVED a None (Some (dn_id (mv_decision res)))
         ''background_check_service.approve'' db1 = Inr (rs, db')"
      by (elim approve_effect)
    have p2: "profiles db (customer_id p) = Some p" using p keyedD [OF k p] by simp
    show ?thesis
      using appends_trans [OF apply_move_step(1) [OF p2 am] resolve_step(1) [OF rs]]
        one_decision_frame [OF one_decision_move [OF p2 am] resolve_step(2-4) [OF rs]]
      by (auto simp: plain_move_def)
  next
    case (reject c pid reason a role v)
    then obtain q rs where "resolve env q REJECTED a (strip_if_given reason) None
        ''background_check_service.reject'' db = Inr (rs, db')" by (elim reject_effect)
    from resolve_step [OF this] show ?thesis by (simp add: gauges_kept_def)
  next
    case (withdraw c pid reason a role perms v)
    then obtain q rs t where "resolve env q WITHDRAWN a t None
        ''background_check_service.withdraw'' db = Inr (rs, db')" by (elim withdraw_effect)
    from resolve_step [OF this] show ?thesis by (simp add: gauges_kept_def)
  next
    case (claim c a role p')
    then obtain p where "profiles db c = Some p" "profile_write c p' db db'"
      "reviewer_id p = Some a \<and> p' = p \<and> db' = db \<or>
      reviewer_id p = None \<and> rm_user_id p \<noteq> Some a \<and> p' = reviewer_set env p (Some a)"
      by (elim claim_review_effect [OF _ k])
    then show ?thesis
      using gauges_kept_write [of c p' db db' p] appends_write [of c p' db db']
      by (auto simp: reviewer_set_def)
  next
    case (assign c u reason a role perms p')
    then obtain p where "profiles db c = Some p" "profile_write c p' db db'"
      "reviewer_id p = Some u \<and> p' = p \<and> db' = db \<or>
      rm_user_id p \<noteq> Some u \<and> (\<exists>m. staff db u = Some m \<and> sm_active m \<and>
        sm_role m \<in> set REVIEWER_ROLES \<and> p' = reviewer_set env p (Some (sm_id m)))"
      by (elim assign_review_effect [OF _ k])
    then show ?thesis
      using gauges_kept_write [of c p' db db' p] appends_write [of c p' db db']
      by (auto simp: reviewer_set_def)
  next
    case (release c msg a role perms p')
    then obtain p where "profiles db c = Some p" "profile_write c p' db db'"
      "p' = p \<and> db' = db \<or> p' = reviewer_set env p None"
      by (elim release_review_effect [OF _ k])
    then show ?thesis
      using gauges_kept_write [of c p' db db' p] appends_write [of c p' db db']
      by (auto simp: reviewer_set_def)
  next
    case (columns c p p')
    then show ?thesis
      using gauges_kept_write [of c p' db db' p] appends_write [of c p' db db']
      by (auto simp: other_columns_def)
  next
    case (company c p)
    then show ?thesis by (auto simp: appends_def gauges_kept_def new_company_def)
  next
    case inputs
    then show ?thesis by (auto simp: appends_def gauges_kept_def)
  next
    case (first_input c a ref cy)
    have "cycles db' = cycles db \<or> cycles db' = cycles db @ [cy]"
      using current_or_initial_cases [OF first_input] by auto
    with current_or_initial_frame [OF first_input] show ?thesis
      by (auto simp: appends_def gauges_kept_def)
  qed
  then show "appends db db'" and "gauges_kept db db' \<or> one_decision env db db'" by blast+
qed

text \<open>A company with a decision has a check cycle.\<close>

lemma appends_cycle: "appends db db' \<Longrightarrow> has_cycle db c \<Longrightarrow> has_cycle db' c"
  by (auto simp: appends_def has_cycle_def)

lemma reachable_cycle:
  assumes "reachable policy db" and "d \<in> set (decisions db)"
  shows "has_cycle db (dn_company d)"
  using assms
proof (induction rule: reachable.induct)
  case (step db env db')
  note e = step_effect [OF reachable_ok [OF step.hyps(1)] step.hyps(3)]
  from e(2) step.prems have "d \<in> set (decisions db) \<or> has_cycle db' (dn_company d)"
    by (auto simp: gauges_kept_def one_decision_def)
  with step.IH appends_cycle [OF e(1)] show ?case by blast
qed (simp add: empty_db_def)

text \<open>So a fact every new decision has is a fact every reachable decision has.\<close>

lemma reachable_decisions:
  assumes "reachable policy db" and "d \<in> set (decisions db)"
  shows "\<exists>env db0. policy env \<and> reachable policy db0 \<and> decision_terms env db0 d"
  using assms
proof (induction rule: reachable.induct)
  case (step db env db')
  from step_effect(2) [OF reachable_ok [OF step.hyps(1)] step.hyps(3)] step.prems
  have "d \<in> set (decisions db) \<or> decision_terms env db d"
    by (auto simp: gauges_kept_def one_decision_def)
  with step.IH step.hyps(1,2) show ?case by blast
qed (simp add: empty_db_def)

end
