(* ===== verification/Qualification_Log.thy ===== *)
theory Qualification_Log
  imports Qualification World_Writes System
begin

text \<open>
  What qualification promises: the suggestion is the rule the settings state, the outcomes of a
  company form one line whose end is the gauge, and what each writer does to the tables.
\<close>

section \<open>The criteria in force\<close>

definition criteria_ok :: "criterion_row list \<Rightarrow> bool" where
  "criteria_ok cs \<longleftrightarrow> distinct (map (\<lambda>c. (cr_key c, cr_version c)) cs)"

lemma set_current_criteria:
  "c \<in> set (current_criteria w) \<longleftrightarrow> c \<in> set (criteria w) \<and>
     (\<forall>x \<in> set (criteria w). cr_key x = cr_key c \<longrightarrow> cr_version x \<le> cr_version c)"
  by (auto simp: current_criteria_def list_all_iff)

lemma current_criteria_one_per_key:
  assumes "criteria_ok (criteria w)"
  shows "distinct (map cr_key (current_criteria w))"
proof -
  let ?f = "filter (\<lambda>c. list_all (\<lambda>x. cr_key x = cr_key c \<longrightarrow> cr_version x \<le> cr_version c) (criteria w)) (criteria w)"
  have "inj_on (\<lambda>c. (cr_key c, cr_version c)) (set (criteria w))" and dc: "distinct (criteria w)"
    using assms by (auto simp: criteria_ok_def distinct_map)
  then have "inj_on cr_key (set ?f)"
  proof (intro inj_onI)
    fix x y assume "x \<in> set ?f" "y \<in> set ?f" and k: "cr_key x = cr_key y"
    then have "x \<in> set (criteria w)" "y \<in> set (criteria w)" "cr_version x = cr_version y"
      by (auto simp: list_all_iff intro: order_antisym)
    with k show "x = y"
      using inj_onD [OF \<open>inj_on (\<lambda>c. (cr_key c, cr_version c)) (set (criteria w))\<close>] by simp
  qed
  with dc show ?thesis by (simp add: current_criteria_def distinct_map)
qed

section \<open>The suggestion\<close>

text \<open>What a company's newest result of a criterion says, when it was judged against the version in force.\<close>

definition verdict_on :: "crm_world \<Rightarrow> uuid \<Rightarrow> criterion_row \<Rightarrow> criterion_result option" where
  "verdict_on w company_id c = (case find (\<lambda>r. result_key w r = Some (cr_key c)) (results_for w company_id) of
     None \<Rightarrow> None | Some r \<Rightarrow> if qr_criterion r = cr_id c then Some (qr_result r) else None)"

definition qualifies :: "crm_world \<Rightarrow> uuid \<Rightarrow> bool" where
  "qualifies w company_id \<longleftrightarrow> (let active = {c \<in> set (current_criteria w). cr_active c};
        required = {c \<in> active. cr_required c} in
     if required \<noteq> {} then \<forall>c \<in> required. verdict_on w company_id c = Some RESULT_PASS
     else (\<exists>c \<in> active. verdict_on w company_id c = Some RESULT_PASS) \<and>
       (\<forall>c \<in> active. verdict_on w company_id c \<noteq> Some RESULT_FAIL))"

lemma keyed_dict:
  assumes d: "distinct (map k ss)" and s: "s \<in> set ss"
  shows "map_of (rev (List.map_filter (\<lambda>s. map_option (Pair (k s)) (g s)) ss)) (k s) = g s"
proof -
  let ?xs = "List.map_filter (\<lambda>s. map_option (Pair (k s)) (g s)) ss"
  have xs: "?xs = map (\<lambda>s. (k s, the (g s))) (filter (\<lambda>s. g s \<noteq> None) ss)"
    unfolding List.map_filter_def by (induction ss) auto
  have "distinct (map k (filter (\<lambda>s. g s \<noteq> None) ss))" using d by (simp add: distinct_map_filter)
  then have dx: "distinct (map fst (rev ?xs))" unfolding xs by (simp add: o_def rev_map [symmetric])
  have uq: "x = s" if "x \<in> set ss" "k x = k s" for x
    using d s that by (auto simp: distinct_map inj_on_def)
  show ?thesis
  proof (cases "g s")
    case None
    then have "k s \<notin> fst ` set (rev ?xs)" using uq by (auto simp: xs)
    then show ?thesis using None by (simp add: map_of_eq_None_iff)
  next
    case (Some v)
    then have "(k s, v) \<in> set (rev ?xs)" using s by (force simp: xs)
    then show ?thesis using Some dx by simp
  qed
qed

lemma current_results_standing:
  assumes "distinct (map (cr_key \<circ> sg_criterion) ss)" and "s \<in> set ss"
  shows "current_results ss (cr_key (sg_criterion s)) =
    (if sg_counts s then map_option qr_result (sg_latest s) else None)"
proof -
  let ?g = "\<lambda>s. if sg_counts s then map_option qr_result (sg_latest s) else None"
  have "current_results ss = map_of (rev (List.map_filter (\<lambda>s. map_option (Pair (cr_key (sg_criterion s))) (?g s)) ss))"
    unfolding current_results_def
    by (intro arg_cong [where f = map_of] arg_cong [where f = rev] arg_cong2 [where f = List.map_filter])
      (auto split: option.splits)
  then show ?thesis using keyed_dict [of "\<lambda>s. cr_key (sg_criterion s)" ss s ?g] assms by (simp add: o_def)
qed

lemma standings_verdict:
  assumes "s \<in> set (standings w co)"
  shows "sg_criterion s \<in> set (current_criteria w)"
    and "(if sg_counts s then map_option qr_result (sg_latest s) else None) = verdict_on w co (sg_criterion s)"
  using assms by (auto simp: standings_def verdict_on_def Let_def split: option.splits)

lemma standing_of_criterion:
  "c \<in> set (current_criteria w) \<Longrightarrow> \<exists>s \<in> set (standings w co). sg_criterion s = c"
  by (force simp: standings_def Let_def)

lemma suggestion_of_standings:
  assumes "criteria_ok (criteria w)"
  shows "fst (suggest_with_reason (standings w co)) = OUTCOME_QUALIFIED \<longleftrightarrow> qualifies w co"
proof -
  let ?ss = "standings w co" and ?v = "verdict_on w co"
  let ?A = "filter (cr_active \<circ> sg_criterion) ?ss"
  let ?R = "filter (cr_required \<circ> sg_criterion) ?A"
  have "map (cr_key \<circ> sg_criterion) ?ss = map cr_key (current_criteria w)"
    by (simp add: standings_def Let_def o_def)
  then have "distinct (map (cr_key \<circ> sg_criterion) ?ss)"
    using current_criteria_one_per_key [OF assms] by simp
  then have dA: "distinct (map (cr_key \<circ> sg_criterion) ?A)" by (simp add: distinct_map_filter)
  have cur: "current_results ?A (cr_key (sg_criterion s)) = ?v (sg_criterion s)"
    if "s \<in> set ?ss" "cr_active (sg_criterion s)" for s
    using current_results_standing [OF dA, of s] standings_verdict(2) [of s w co] that by auto
  have actives: "{c \<in> set (current_criteria w). cr_active c} = sg_criterion ` set ?A"
    using standings_verdict(1) standing_of_criterion by fastforce
  have req: "{c \<in> {c \<in> set (current_criteria w). cr_active c}. cr_required c} = sg_criterion ` set ?R"
    unfolding actives by auto
  show ?thesis
  proof (cases "?R = []")
    case True
    then have "sg_criterion ` set ?R = {}" by simp
    with True show ?thesis
      unfolding suggest_with_reason_def qualifies_def Let_def req actives
      by (auto simp: cur filter_empty_conv)
  next
    case False
    then have "sg_criterion ` set ?R \<noteq> {}" by (simp only: image_is_empty set_empty not_False_eq_True)
    with False show ?thesis
      unfolding suggest_with_reason_def qualifies_def Let_def req actives
      by (auto simp: cur filter_empty_conv)
  qed
qed

section \<open>The outcomes as a chain\<close>

text \<open>
  The repository looks for what supersedes an outcome among the same company's rows only. In a
  chained table that is every row that supersedes it.
\<close>

definition final_outcomes :: "qualification_outcome list \<Rightarrow> uuid \<Rightarrow> qualification_outcome list" where
  "final_outcomes os c = filter (\<lambda>x. qo_company x = c \<and> (\<forall>s \<in> set os. qo_supersedes s \<noteq> Some (qo_id x))) os"

interpretation outcome_log: version_log qo_id qo_company qo_supersedes final_outcomes
  by unfold_locales (simp add: final_outcomes_def)

abbreviation outcomes_chained :: "qualification_outcome list \<Rightarrow> bool" where
  "outcomes_chained \<equiv> chained qo_id qo_company qo_supersedes"

definition outcomes_of :: "crm_world \<Rightarrow> uuid \<Rightarrow> qualification_outcome list" where
  "outcomes_of w c = filter (\<lambda>x. qo_company x = c) (qualification_outcomes w)"

lemma outcomes_of_line: "outcomes_of w c = outcome_log.line (qualification_outcomes w) c"
  by (simp add: outcomes_of_def outcome_log.line_def)

lemma latest_outcome_chain:
  assumes "outcomes_chained (qualification_outcomes w)"
  shows "latest_outcome w c = Inr (if outcomes_of w c = [] then None else Some (last (outcomes_of w c)))"
proof -
  have "unsuperseded_outcomes (qualification_outcomes w) c = final_outcomes (qualification_outcomes w) c"
    unfolding unsuperseded_outcomes_def final_outcomes_def
    using outcome_log.prior_same_subject [OF assms] by (intro filter_cong) auto
  then show ?thesis
    by (simp add: latest_outcome_def outcome_log.head_is_last [OF assms] outcomes_of_line)
qed

section \<open>What the writers leave behind\<close>

lemma world_uuid_eq: "world_uuid w = (next_uuid (crm w), w\<lparr>crm := (crm w)\<lparr>next_uuid := Suc (next_uuid (crm w))\<rparr>\<rparr>)"
  by (simp add: world_uuid_def fresh_uuid_def)

lemma write_each_effect:
  assumes "write_each env cur c es a src k w = Inr (rows, w')"
  shows "\<exists>db. history_write (crm w) db \<and>
    w' = w\<lparr>crm := db, qualification_results := qualification_results w @ rows\<rparr>"
    and "length rows = length es"
  using assms
proof (induction es arbitrary: w rows w')
  case Nil
  {
    case 1
    then show ?case by (intro exI [of _ "crm w"]) simp
  next
    case 2
    then show ?case by simp
  }
next
  case (Cons e es)
  have step: "\<exists>row w1 rs. rows = row # rs \<and> write_each env cur c es a src k w1 = Inr (rs, w') \<and>
      (\<exists>db. history_write (crm w) db \<and> w1 = w\<lparr>crm := db, qualification_results := qualification_results w @ [row]\<rparr>)"
    if "write_each env cur c (e # es) a src k w = Inr (rows, w')" for w rows w'
  proof -
    from that obtain row w1 rs where r: "rows = row # rs" "write_each env cur c es a src k w1 = Inr (rs, w')"
      and h: "writes_history (w\<lparr>crm := (crm w)\<lparr>next_uuid := Suc (next_uuid (crm w))\<rparr>,
        qualification_results := qualification_results w @ [row]\<rparr>) w1"
      by (auto simp: world_uuid_eq Let_def err_simps dest!: writes_historyI)
    from h obtain hr where "w1 = w\<lparr>qualification_results := qualification_results w @ [row],
        crm := (crm w)\<lparr>next_uuid := Suc (next_uuid (crm w)), history := history (crm w) @ [hr]\<rparr>\<rparr>"
      by (auto simp: writes_history_def)
    then have w1: "w1 = w\<lparr>crm := (crm w)\<lparr>next_uuid := Suc (next_uuid (crm w)),
        history := history (crm w) @ [hr]\<rparr>, qualification_results := qualification_results w @ [row]\<rparr>"
      by (cases w) simp
    have "history_write (crm w) ((crm w)\<lparr>next_uuid := Suc (next_uuid (crm w)), history := history (crm w) @ [hr]\<rparr>)"
      unfolding history_write_def by (intro exI [of _ "[hr]"] exI [of _ "Suc (next_uuid (crm w))"]) simp
    with r w1 show ?thesis by blast
  qed
  {
    case 1
    from step [OF this] obtain row w1 rs db where "rows = row # rs"
      "write_each env cur c es a src k w1 = Inr (rs, w')" "history_write (crm w) db"
      "w1 = w\<lparr>crm := db, qualification_results := qualification_results w @ [row]\<rparr>" by blast
    with Cons.IH(1) [of w1 rs w'] show ?case by (auto intro: history_write_trans)
  next
    case 2
    from step [OF this] obtain row w1 rs where "rows = row # rs"
      "write_each env cur c es a src k w1 = Inr (rs, w')" by blast
    with Cons.IH(2) [of w1 rs w'] show ?case by simp
  }
qed

lemma write_results_effect:
  assumes "write_results env c es a src k w = Inr (rows, w')"
  obtains db where "history_write (crm w) db"
    and "w' = w\<lparr>crm := db, qualification_results := qualification_results w @ rows\<rparr>"
  using assms write_each_effect(1) [of env "criterion_now w" c es a src k w rows w']
  by (auto simp: write_results_def err_simps)

text \<open>A company that is promoted has a decision that clears it.\<close>

lemma promote_clearing:
  assumes "promote_to_customer_if_ready env p a cause src db = Inr (ann, p', db')"
    and "profiles db (customer_id p) = Some p"
  shows "p' = p \<or> p' = p\<lparr>journey_of := CUSTOMER\<rparr> \<and> journey_of p = PROSPECT \<and>
     (\<exists>d \<in> set (decisions db). dn_company d = customer_id p \<and> dn_to d = CLEAR)"
    and "profile_write (customer_id p) p' db db'"
proof -
  show "profile_write (customer_id p) p' db db'" by (rule promote_effect(2) [OF assms])
  show "p' = p \<or> p' = p\<lparr>journey_of := CUSTOMER\<rparr> \<and> journey_of p = PROSPECT \<and>
     (\<exists>d \<in> set (decisions db). dn_company d = customer_id p \<and> dn_to d = CLEAR)"
  proof (cases "p' = p")
    case False
    with promote_effect(1) [OF assms(1)] have j: "p' = p\<lparr>journey_of := CUSTOMER\<rparr>" "journey_of p = PROSPECT" by auto
    from assms(1) False obtain s i where s: "standing (customer_id p) db = Inr s" "st_clearing_decision s = Some i"
      by (auto simp: promote_to_customer_if_ready_def Let_def err_simps split: if_splits option.splits)
    then obtain d where "latest_for_company (customer_id p) db = Inr (Some d)" "dn_to d = CLEAR"
      using assms(2) by (auto simp: standing_def err_simps Let_def split: option.splits if_splits)
    with latest_for_company_in j show ?thesis by blast
  qed simp
qed

lemma advance_lead_effect:
  assumes "advance_lead env p oc i a db = Inr (ann, p', db')" and p: "profiles db (customer_id p) = Some p"
  obtains j where "p' = p\<lparr>journey_of := j\<rparr>" and "profile_write (customer_id p) p' db db'"
    and "oc = OUTCOME_QUALIFIED \<Longrightarrow> j \<noteq> LEAD"
    and "j = journey_of p \<or> oc = OUTCOME_QUALIFIED \<and> journey_of p = LEAD"
    and "j = CUSTOMER \<Longrightarrow> journey_of p \<noteq> CUSTOMER \<Longrightarrow>
      \<exists>d \<in> set (decisions db). dn_company d = customer_id p \<and> dn_to d = CLEAR"
proof (cases "oc = OUTCOME_QUALIFIED \<and> journey_of p = LEAD")
  case False
  with assms(1) have e: "p' = p" "db' = db" by (auto simp: advance_lead_def split: if_splits)
  show thesis
    by (rule that [of "journey_of p"]) (use False in \<open>auto simp: e profile_write_refl [OF p]\<close>)
next
  case True
  let ?p = "p\<lparr>journey_of := PROSPECT\<rparr>"
  from True assms(1) obtain db1 where h: "record_history (customer_id p) ''journey'' (Some (HText (journey_value LEAD)))
          (HText (journey_value PROSPECT)) a ''qualification_service.record_outcome'' None None
          (Some LIFECYCLE_TRANSITION_EVENT) (journey_move_details i) (save_profile ?p db) = Inr db1"
    and pr: "promote_to_customer_if_ready env ?p a ''qualification_outcome''
      ''qualification_service.record_outcome'' db1 = Inr (ann, p', db')"
    by (auto simp: advance_lead_def Let_def err_simps)
  have w1: "profile_write (customer_id p) ?p db db1" by (rule profile_write_save_record [OF h]) simp
  note f = profile_write_frame [OF w1]
  have p1: "profiles db1 (customer_id ?p) = Some ?p" by (simp add: f(1))
  note pc = promote_clearing [OF pr p1]
  have w: "profile_write (customer_id p) p' db db'"
    using profile_write_trans [OF w1] pc(2) by simp
  from pc(1) show thesis
  proof (elim disjE conjE)
    assume e: "p' = ?p"
    show thesis by (rule that [of PROSPECT]) (use True w e in auto)
  next
    assume e: "p' = ?p\<lparr>journey_of := CUSTOMER\<rparr>"
      and d: "\<exists>d \<in> set (decisions db1). dn_company d = customer_id ?p \<and> dn_to d = CLEAR"
    show thesis by (rule that [of CUSTOMER]) (use True w e d in \<open>auto simp: f(2)\<close>)
  qed
qed

lemma write_outcome_effect:
  assumes wo: "write_outcome env p oc codes note sg ids src k by a extra w = Inr ((row, ann), w')"
    and p: "profiles (crm w) (customer_id p) = Some p"
  obtains prev j where "latest_outcome w (customer_id p) = Inr prev"
    and "qo_company row = customer_id p" "qo_outcome row = oc" "qo_supersedes row = map_option qo_id prev"
      "qo_reason_codes row = codes" "qo_id row = next_uuid (crm w)"
    and "w' = w\<lparr>crm := crm w', qualification_outcomes := qualification_outcomes w @ [row]\<rparr>"
    and "company_write (customer_id p) (p\<lparr>qualification_of := state_of_outcome oc, journey_of := j\<rparr>) (crm w) (crm w')"
    and "next_uuid (crm w) < next_uuid (crm w')"
    and "oc = OUTCOME_QUALIFIED \<Longrightarrow> j \<noteq> LEAD"
    and "j = journey_of p \<or> oc = OUTCOME_QUALIFIED \<and> journey_of p = LEAD"
    and "j = CUSTOMER \<Longrightarrow> journey_of p \<noteq> CUSTOMER \<Longrightarrow>
      \<exists>d \<in> set (decisions (crm w)). dn_company d = customer_id p \<and> dn_to d = CLEAR"
proof -
  let ?c = "customer_id p" and ?q = "p\<lparr>qualification_of := state_of_outcome oc\<rparr>"
  let ?db = "(crm w)\<lparr>next_uuid := Suc (next_uuid (crm w))\<rparr>"
  from wo obtain prev db1 p' db' where prev: "latest_outcome w ?c = Inr prev"
    and row: "qo_company row = ?c" "qo_outcome row = oc" "qo_supersedes row = map_option qo_id prev"
      "qo_reason_codes row = codes" "qo_id row = next_uuid (crm w)"
    and w1: "profile_write ?c ?q ?db db1"
    and ad: "advance_lead env ?q oc (next_uuid (crm w)) a db1 = Inr (ann, p', db')"
    and w': "w' = w\<lparr>crm := ?db, qualification_outcomes := qualification_outcomes w @ [row], crm := db'\<rparr>"
    by (auto simp: write_outcome_def Let_def world_uuid_eq err_simps
        dest!: profile_write_save_record [OF _ refl])
  note f = profile_write_frame [OF w1]
  have "profiles db1 (customer_id ?q) = Some ?q" by (simp add: f(1))
  from ad this obtain j where p': "p' = ?q\<lparr>journey_of := j\<rparr>" and w2: "profile_write (customer_id ?q) p' db1 db'"
    and j: "oc = OUTCOME_QUALIFIED \<Longrightarrow> j \<noteq> LEAD" "j = journey_of ?q \<or> oc = OUTCOME_QUALIFIED \<and> journey_of ?q = LEAD"
      "j = CUSTOMER \<Longrightarrow> journey_of ?q \<noteq> CUSTOMER \<Longrightarrow>
        \<exists>d \<in> set (decisions db1). dn_company d = customer_id ?q \<and> dn_to d = CLEAR"
    by (rule advance_lead_effect) blast
  have w2': "profile_write ?c p' db1 db'" using w2 by simp
  have "company_write ?c p (crm w) ?db" by (rule company_write_history [OF history_write_fresh p])
  from company_write_trans [OF company_write_trans [OF this company_write_profile [OF w1]]
      company_write_profile [OF w2']]
  have cw: "company_write ?c p' (crm w) db'" .
  have c': "crm w' = db'" by (simp add: w')
  show thesis
  proof (rule that [OF prev row])
    show "w' = w\<lparr>crm := crm w', qualification_outcomes := qualification_outcomes w @ [row]\<rparr>"
      by (cases w) (simp add: w')
    show "company_write ?c (p\<lparr>qualification_of := state_of_outcome oc, journey_of := j\<rparr>) (crm w) (crm w')"
      using cw by (simp add: p' c')
    show "next_uuid (crm w) < next_uuid (crm w')"
      using profile_write_frame(13) [OF w2'] f(13) by (simp add: c')
  qed (use j f(2) in auto)
qed

section \<open>The gauge is the last outcome\<close>

definition gauge_of_outcomes :: "qualification_outcome list \<Rightarrow> qualification_state" where
  "gauge_of_outcomes os = (if os = [] then NOT_YET_REVIEWED else state_of_outcome (qo_outcome (last os)))"

definition company_ok :: "crm_world \<Rightarrow> uuid \<Rightarrow> exporter_profile \<Rightarrow> bool" where
  "company_ok w c p \<longleftrightarrow> qualification_of p = gauge_of_outcomes (outcomes_of w c) \<and>
     (journey_of p \<noteq> LEAD \<longrightarrow> qualification_of p = QUALIFIED) \<and>
     (journey_of p = CUSTOMER \<longrightarrow> (\<exists>d \<in> set (decisions (crm w)). dn_company d = c \<and> dn_to d = CLEAR))"

definition qualification_ok :: "crm_world \<Rightarrow> bool" where
  "qualification_ok w \<longleftrightarrow> outcomes_chained (qualification_outcomes w) \<and>
     (\<forall>x \<in> set (qualification_outcomes w). qo_id x < next_uuid (crm w) \<and>
        (qo_outcome x = OUTCOME_NOT_QUALIFIED \<longrightarrow> qo_reason_codes x \<noteq> [])) \<and>
     (\<forall>c. \<forall>x \<in> set (butlast (outcomes_of w c)). qo_outcome x = OUTCOME_NOT_QUALIFIED) \<and>
     (\<forall>c. case profiles (crm w) c of None \<Rightarrow> outcomes_of w c = [] | Some p \<Rightarrow> company_ok w c p)"

lemma qualification_okD:
  assumes "qualification_ok w"
  shows "outcomes_chained (qualification_outcomes w)"
    and "profiles (crm w) c = None \<Longrightarrow> outcomes_of w c = []"
    and "profiles (crm w) c = Some p \<Longrightarrow> company_ok w c p"
proof -
  have *: "case profiles (crm w) c of None \<Rightarrow> outcomes_of w c = [] | Some p \<Rightarrow> company_ok w c p"
    using assms by (simp add: qualification_ok_def)
  show "outcomes_chained (qualification_outcomes w)" using assms by (simp add: qualification_ok_def)
  show "profiles (crm w) c = None \<Longrightarrow> outcomes_of w c = []"
    and "profiles (crm w) c = Some p \<Longrightarrow> company_ok w c p"
    using * by simp_all
qed

text \<open>What everyone else leaves of it.\<close>

definition qualification_kept :: "crm_db \<Rightarrow> crm_db \<Rightarrow> bool" where
  "qualification_kept db db' \<longleftrightarrow> next_uuid db \<le> next_uuid db' \<and> set (decisions db) \<subseteq> set (decisions db') \<and>
     (\<forall>c. case profiles db c of
        None \<Rightarrow> (\<forall>p'. profiles db' c = Some p' \<longrightarrow> journey_of p' = LEAD \<and> qualification_of p' = NOT_YET_REVIEWED)
      | Some p \<Rightarrow> (\<exists>p'. profiles db' c = Some p' \<and> qualification_of p' = qualification_of p \<and>
          (journey_of p' = journey_of p \<or> journey_of p = PROSPECT \<and> journey_of p' = CUSTOMER \<and>
             (\<exists>d \<in> set (decisions db'). dn_company d = c \<and> dn_to d = CLEAR))))"

lemma qualification_ok_kept:
  assumes ok: "qualification_ok w" and k: "qualification_kept (crm w) (crm w')"
    and o: "qualification_outcomes w' = qualification_outcomes w"
  shows "qualification_ok w'"
proof -
  have oo: "outcomes_of w' c = outcomes_of w c" for c by (simp add: outcomes_of_def o)
  note kc = k [unfolded qualification_kept_def, THEN conjunct2, THEN conjunct2, rule_format]
  have n: "next_uuid (crm w) \<le> next_uuid (crm w')" and ds: "set (decisions (crm w)) \<subseteq> set (decisions (crm w'))"
    using k by (simp_all add: qualification_kept_def)
  have "case profiles (crm w') c of None \<Rightarrow> outcomes_of w' c = [] | Some p \<Rightarrow> company_ok w' c p" for c
  proof (cases "profiles (crm w) c")
    case None
    then have "outcomes_of w c = []" by (rule qualification_okD(2) [OF ok])
    moreover have "journey_of p' = LEAD \<and> qualification_of p' = NOT_YET_REVIEWED" if "profiles (crm w') c = Some p'" for p'
      using kc [of c] None that by simp
    ultimately show ?thesis by (auto simp: oo company_ok_def gauge_of_outcomes_def split: option.splits)
  next
    case (Some p)
    then have c: "company_ok w c p" by (rule qualification_okD(3) [OF ok])
    from kc [of c] Some obtain p' where p': "profiles (crm w') c = Some p'" "qualification_of p' = qualification_of p"
      and j: "journey_of p' = journey_of p \<or> journey_of p = PROSPECT \<and> journey_of p' = CUSTOMER \<and>
             (\<exists>d \<in> set (decisions (crm w')). dn_company d = c \<and> dn_to d = CLEAR)"
      by auto
    from j c p' ds show ?thesis by (auto simp: company_ok_def oo)
  qed
  then show ?thesis
    using ok n unfolding qualification_ok_def oo o by (meson order_less_le_trans)
qed

lemma qualification_kept_trans:
  assumes a: "qualification_kept x y" and b: "qualification_kept y z"
  shows "qualification_kept x z"
proof -
  have "case profiles x c of
        None \<Rightarrow> (\<forall>p'. profiles z c = Some p' \<longrightarrow> journey_of p' = LEAD \<and> qualification_of p' = NOT_YET_REVIEWED)
      | Some p \<Rightarrow> (\<exists>p'. profiles z c = Some p' \<and> qualification_of p' = qualification_of p \<and>
          (journey_of p' = journey_of p \<or> journey_of p = PROSPECT \<and> journey_of p' = CUSTOMER \<and>
             (\<exists>d \<in> set (decisions z). dn_company d = c \<and> dn_to d = CLEAR)))" for c
  proof -
    note ac = a [unfolded qualification_kept_def, THEN conjunct2, THEN conjunct2, rule_format, of c]
    note bc = b [unfolded qualification_kept_def, THEN conjunct2, THEN conjunct2, rule_format, of c]
    have s: "set (decisions y) \<subseteq> set (decisions z)" using b by (simp add: qualification_kept_def)
    show ?thesis
    proof (cases "profiles x c"; cases "profiles y c")
      fix p q assume "profiles x c = Some p" "profiles y c = Some q"
      with ac bc s show ?thesis by auto blast
    qed (use ac bc in auto)
  qed
  then show ?thesis using a b by (auto simp: qualification_kept_def)
qed

lemma qualification_kept_history: "history_write db db' \<Longrightarrow> qualification_kept db db'"
  by (auto simp: qualification_kept_def history_write_frame split: option.splits)

lemma qualification_kept_write:
  assumes "company_write c p' db db'" and "profiles db c = Some p"
    and "qualification_of p' = qualification_of p" and "journey_of p' = journey_of p"
  shows "qualification_kept db db'"
  using assms company_write_frame [OF assms(1)]
  by (auto simp: qualification_kept_def split: option.splits)

lemma qualification_ok_outcome:
  assumes ok: "qualification_ok w" and k: "keyed (crm w)"
    and wo: "write_outcome env p oc codes note sg ids src kd by a extra w = Inr ((row, ann), w')"
    and p: "profiles (crm w) (customer_id p) = Some p" and nq: "qualification_of p \<noteq> QUALIFIED"
    and codes: "oc = OUTCOME_NOT_QUALIFIED \<Longrightarrow> codes \<noteq> []"
  shows "qualification_ok w'"
proof -
  let ?c = "customer_id p"
  obtain prev j where prev: "latest_outcome w ?c = Inr prev"
    and row: "qo_company row = ?c" "qo_outcome row = oc" "qo_supersedes row = map_option qo_id prev"
      "qo_reason_codes row = codes" "qo_id row = next_uuid (crm w)"
    and w': "w' = w\<lparr>crm := crm w', qualification_outcomes := qualification_outcomes w @ [row]\<rparr>"
    and cw: "company_write ?c (p\<lparr>qualification_of := state_of_outcome oc, journey_of := j\<rparr>) (crm w) (crm w')"
    and nx: "next_uuid (crm w) < next_uuid (crm w')"
    and j: "oc = OUTCOME_QUALIFIED \<Longrightarrow> j \<noteq> LEAD" "j = journey_of p \<or> oc = OUTCOME_QUALIFIED \<and> journey_of p = LEAD"
      "j = CUSTOMER \<Longrightarrow> journey_of p \<noteq> CUSTOMER \<Longrightarrow>
        \<exists>d \<in> set (decisions (crm w)). dn_company d = ?c \<and> dn_to d = CLEAR"
    by (rule write_outcome_effect [OF wo p]) blast
  note f = company_write_frame [OF cw]
  have os: "qualification_outcomes w' = qualification_outcomes w @ [row]" by (subst w') simp
  have oo: "outcomes_of w' c = outcomes_of w c @ (if c = ?c then [row] else [])" for c
    using row(1) by (auto simp: outcomes_of_def os)
  note ch = qualification_okD(1) [OF ok] and c0 = qualification_okD(3) [OF ok p]
  have fresh: "qo_id row \<notin> set (map qo_id (qualification_outcomes w))"
    using ok row(5) by (auto simp: qualification_ok_def)
  have lead: "journey_of p = LEAD" using c0 nq by (auto simp: company_ok_def)
  have notq: "\<forall>x \<in> set (outcomes_of w ?c). qo_outcome x = OUTCOME_NOT_QUALIFIED"
  proof (cases "outcomes_of w ?c = []")
    case False
    then have "outcomes_of w ?c = butlast (outcomes_of w ?c) @ [last (outcomes_of w ?c)]" by simp
    moreover have "qo_outcome (last (outcomes_of w ?c)) = OUTCOME_NOT_QUALIFIED"
      using c0 nq False by (cases "qo_outcome (last (outcomes_of w ?c))") (auto simp: company_ok_def gauge_of_outcomes_def)
    moreover have "\<forall>x \<in> set (butlast (outcomes_of w ?c)). qo_outcome x = OUTCOME_NOT_QUALIFIED"
      using ok by (simp add: qualification_ok_def)
    ultimately show ?thesis by (metis Un_iff empty_iff insert_iff list.set(1,2) set_append)
  qed simp
  have "outcomes_chained (qualification_outcomes w')"
    unfolding os
  proof (rule outcome_log.append_head [OF ch fresh])
    show "qo_supersedes row = map_option qo_id
        (case final_outcomes (qualification_outcomes w) (qo_company row) of [] \<Rightarrow> None | h # _ \<Rightarrow> Some h)"
      using prev latest_outcome_chain [OF ch, of ?c] row(1,3)
      by (auto simp: outcome_log.head_is_last [OF ch] outcomes_of_line)
  qed
  moreover have "\<forall>x \<in> set (qualification_outcomes w'). qo_id x < next_uuid (crm w') \<and>
        (qo_outcome x = OUTCOME_NOT_QUALIFIED \<longrightarrow> qo_reason_codes x \<noteq> [])"
    using ok row codes nx by (auto simp: os qualification_ok_def)
  moreover have "\<forall>c. \<forall>x \<in> set (butlast (outcomes_of w' c)). qo_outcome x = OUTCOME_NOT_QUALIFIED"
    using ok notq by (auto simp: oo qualification_ok_def butlast_append)
  moreover have "case profiles (crm w') c of None \<Rightarrow> outcomes_of w' c = [] | Some p \<Rightarrow> company_ok w' c p" for c
  proof (cases "c = ?c")
    case True
    then show ?thesis
      using j lead row(2) by (cases oc) (auto simp: f(1,2) company_ok_def gauge_of_outcomes_def oo)
  next
    case False
    then show ?thesis
      using qualification_okD(2,3) [OF ok, of c] by (auto simp: f(1,2) company_ok_def oo split: option.splits)
  qed
  ultimately show ?thesis by (simp add: qualification_ok_def)
qed

text \<open>The public writers, as steps on the record.\<close>

definition gauge_write :: "crm_world \<Rightarrow> crm_world \<Rightarrow> bool" where
  "gauge_write w w' \<longleftrightarrow> (\<exists>c p p' rs os. profiles (crm w) c = Some p \<and> company_write c p' (crm w) (crm w') \<and>
     other_columns p p' \<and> conversation_of p' = conversation_of p \<and> check_back_on p' = check_back_on p \<and>
     (journey_of p \<noteq> LEAD \<longrightarrow> journey_of p' \<noteq> LEAD) \<and>
     w' = w\<lparr>crm := crm w', qualification_results := qualification_results w @ rs,
        qualification_outcomes := qualification_outcomes w @ os\<rparr>)"

text \<open>Both writers reach \<open>_write_outcome\<close> with the locked row as it is stored by then.\<close>

lemma outcome_step:
  assumes k: "keyed (crm w)" and ok: "qualification_ok w" and p: "profiles (crm w) c = Some p"
    and w1: "company_write c q (crm w) (crm w1)" and q: "\<exists>rm. q = p\<lparr>rm_user_id := rm\<rparr>"
    and fr: "w1 = w\<lparr>crm := crm w1, qualification_results := qualification_results w @ rs\<rparr>"
    and nq: "qualification_of p \<noteq> QUALIFIED" and codes: "oc = OUTCOME_NOT_QUALIFIED \<Longrightarrow> codes \<noteq> []"
    and wo: "write_outcome env q oc codes note sg ids src kd by a extra w1 = Inr ((row, ann), w')"
  shows "qualification_ok w'" and "gauge_write w w'"
proof -
  note f = company_write_frame [OF w1]
  have kq: "customer_id q = c" using keyedD [OF k p] q by auto
  have k1: "keyed (crm w1)" using k kq by (simp add: keyed_def f(1))
  have p1: "profiles (crm w1) (customer_id q) = Some q" by (simp add: f(1) kq)
  have nq1: "qualification_of q \<noteq> QUALIFIED" using nq q by auto
  have "qualification_kept (crm w) (crm w1)"
    by (rule qualification_kept_write [OF w1 p]) (use q in auto)
  then have ok1: "qualification_ok w1" by (rule qualification_ok_kept [OF ok]) (subst fr, simp)
  show "qualification_ok w'" by (rule qualification_ok_outcome [OF ok1 k1 wo p1 nq1 codes])
  obtain prev j where
      w': "w' = w1\<lparr>crm := crm w', qualification_outcomes := qualification_outcomes w1 @ [row]\<rparr>"
    and cw: "company_write (customer_id q) (q\<lparr>qualification_of := state_of_outcome oc, journey_of := j\<rparr>) (crm w1) (crm w')"
    and j: "j = journey_of q \<or> oc = OUTCOME_QUALIFIED \<and> journey_of q = LEAD"
    by (rule write_outcome_effect [OF wo p1]) blast
  let ?p = "q\<lparr>qualification_of := state_of_outcome oc, journey_of := j\<rparr>"
  have "company_write c ?p (crm w) (crm w')"
    by (rule company_write_trans [OF w1]) (use cw kq in simp)
  moreover have "w' = w\<lparr>crm := crm w', qualification_results := qualification_results w @ rs,
      qualification_outcomes := qualification_outcomes w @ [row]\<rparr>"
    by (subst w', subst (1 2) fr) simp
  ultimately show "gauge_write w w'"
    unfolding gauge_write_def using p q j
    by (intro exI [of _ c] exI [of _ p] exI [of _ ?p] exI [of _ rs] exI [of _ "[row]"])
      (auto simp: other_columns_def)
qed

lemma check_reason_codes_Inr: "check_reason_codes oc codes note = Inr u \<Longrightarrow> oc = OUTCOME_NOT_QUALIFIED \<Longrightarrow> codes \<noteq> []"
  by (auto simp: check_reason_codes_def err_simps)

lemma record_outcome_step:
  assumes ro: "record_outcome env c oc rcs note a src kd role perms rm w = Inr (x, w')"
    and k: "keyed (crm w)" and ok: "qualification_ok w"
  shows "qualification_ok w'" and "gauge_write w w'"
proof -
  obtain row ann where x: "x = (row, ann)" by (cases x)
  from ro obtain p u r where p: "profiles (crm w) c = Some p" and nq: "qualification_of p \<noteq> QUALIFIED"
    and cc: "check_reason_codes oc (clean_codes rcs) (clean_text note) = Inr u"
    and rmw: "(if oc = OUTCOME_QUALIFIED \<and> a \<noteq> None
          then ensure_relationship_manager p rm ''record it as qualified'' a role perms
                 ''qualification_service.record_outcome'' (crm w)
          else Inr (p, crm w)) = Inr r"
    and wo: "write_outcome env (fst r) oc (clean_codes rcs) (clean_text note)
      (fst (suggestion (w\<lparr>crm := snd r\<rparr>) c)) (snd (suggestion (w\<lparr>crm := snd r\<rparr>) c)) src kd a a []
      (w\<lparr>crm := snd r\<rparr>) = Inr ((row, ann), w')"
    unfolding record_outcome_def Let_def bindE_eq_Inr lock_in_pipeline_Inr require_eq_Inr case_prod_beta x
    by (elim exE conjE) (rule that, assumption+)
  obtain q db where r: "r = (q, db)" by (cases r)
  note wo = wo [unfolded r fst_conv snd_conv]
  have kc: "customer_id p = c" by (rule keyedD [OF k p])
  have pw: "profile_write c q (crm w) db" and q: "\<exists>rm. q = p\<lparr>rm_user_id := rm\<rparr>"
    using rmw [unfolded r] p kc ensure_relationship_manager_effect(1,2)
    by (auto simp: profile_write_refl split: if_splits intro: exI [of _ "rm_user_id p"])
  have w1: "company_write c q (crm w) (crm (w\<lparr>crm := db\<rparr>))"
    using company_write_profile [OF pw] by simp
  have fr: "w\<lparr>crm := db\<rparr> = w\<lparr>crm := crm (w\<lparr>crm := db\<rparr>), qualification_results := qualification_results w @ []\<rparr>"
    by (cases w) simp
  note st = outcome_step [OF k ok p w1 q fr nq check_reason_codes_Inr [OF cc] wo]
  show "qualification_ok w'" and "gauge_write w w'" using st by blast+
qed

lemma record_partner_step:
  assumes rp: "record_partner_decision env c q src a ref w = Inr (x, w')"
    and k: "keyed (crm w)" and ok: "qualification_ok w"
  shows "qualification_ok w'" and "gauge_write w w'"
proof -
  obtain row ann where x: "x = (row, ann)" by (cases x)
  from rp obtain p r where p: "profiles (crm w) c = Some p" and nq: "qualification_of p \<noteq> QUALIFIED"
    and oc: "pq_outcome q = OUTCOME_QUALIFIED"
    and wr: "(if pq_results q \<noteq> [] then write_results env c (pq_results q) a src (pq_decided_by_kind q) w
          else Inr ([], w)) = Inr r"
    and wo: "write_outcome env p (pq_outcome q) [] (clean_text (pq_note q)) (pq_outcome q) (map qr_id (fst r)) src
      (pq_decided_by_kind q) None a
      [(''partner_reference'', case ref of None \<Rightarrow> DNone | Some t \<Rightarrow> DText t)] (snd r) = Inr ((row, ann), w')"
    unfolding record_partner_decision_def check_partner_outcome_def bindE_eq_Inr lock_in_pipeline_Inr
      require_eq_Inr case_prod_beta x
    by (elim exE conjE) (rule that, assumption+)
  obtain rows w1 where r: "r = (rows, w1)" by (cases r)
  note wo = wo [unfolded r fst_conv snd_conv] and wr = wr [unfolded r]
  obtain db where hw: "history_write (crm w) db"
    and w1: "w1 = w\<lparr>crm := db, qualification_results := qualification_results w @ rows\<rparr>"
  proof (cases "pq_results q = []")
    case True
    with wr have "w1 = w\<lparr>crm := crm w, qualification_results := qualification_results w @ rows\<rparr>" by simp
    with that [OF history_write_refl] show thesis .
  next
    case False
    with wr have "write_results env c (pq_results q) a src (pq_decided_by_kind q) w = Inr (rows, w1)" by simp
    then show thesis using that by (rule write_results_effect)
  qed
  have cw: "company_write c p (crm w) (crm w1)"
    using company_write_history [OF hw p] by (simp add: w1)
  have q: "\<exists>rm. p = p\<lparr>rm_user_id := rm\<rparr>" by (rule exI [of _ "rm_user_id p"]) simp
  have fr: "w1 = w\<lparr>crm := crm w1, qualification_results := qualification_results w @ rows\<rparr>" by (simp add: w1)
  have codes: "pq_outcome q = OUTCOME_NOT_QUALIFIED \<Longrightarrow> [] \<noteq> []" using oc by simp
  note st = outcome_step [OF k ok p cw q fr nq codes wo]
  show "qualification_ok w'" and "gauge_write w w'" using st by blast+
qed

lemma record_results_step:
  assumes "record_results env c es a src kd w = Inr (rows, w')"
  obtains db where "history_write (crm w) db"
    and "w' = w\<lparr>crm := db, qualification_results := qualification_results w @ rows\<rparr>"
proof -
  from assms have "write_results env c es a src kd w = Inr (rows, w')" by (auto simp: record_results_def err_simps)
  then show thesis using that by (rule write_results_effect)
qed

section \<open>Versions of criteria\<close>

lemma add_criterion_ok:
  assumes "criteria_ok (criteria w)" and "\<forall>c \<in> set (criteria w). cr_key c = key \<longrightarrow> cr_version c < n"
    and "add_criterion key n d a w = (c, w')"
  shows "criteria_ok (criteria w')" and "criteria w' = criteria w @ [c]"
    and "w' = w\<lparr>crm := crm w', criteria := criteria w @ [c]\<rparr>" and "history_write (crm w) (crm w')"
  using assms by (auto simp: add_criterion_def world_uuid_eq Let_def criteria_ok_def criterion_row_of_def)

lemma latest_version_max:
  assumes "latest_version w key = Some c"
  shows "\<forall>x \<in> set (criteria w). cr_key x = key \<longrightarrow> cr_version x \<le> cr_version c"
proof -
  from assms obtain xs where "rev (versions w key) = c # xs"
    by (auto simp: latest_version_def split: list.splits)
  then have "versions w key = rev xs @ [c]" by (metis rev.simps(2) rev_rev_ident)
  moreover have "sorted (map cr_version (versions w key))" by (simp add: versions_def)
  moreover have "set (versions w key) = {x \<in> set (criteria w). cr_key x = key}" by (simp add: versions_def)
  ultimately show ?thesis by (auto simp: sorted_append)
qed

lemma latest_version_None: "latest_version w key = None \<longleftrightarrow> (\<forall>x \<in> set (criteria w). cr_key x \<noteq> key)"
proof -
  have "latest_version w key = None \<longleftrightarrow> set (versions w key) = {}"
    by (auto simp: latest_version_def split: list.splits)
  then show ?thesis by (auto simp: versions_def)
qed

lemma criterion_written:
  assumes "create_criterion key d a w = Inr (c, w') \<or> add_version key d a w = Inr (c, w')"
    and ok: "criteria_ok (criteria w)"
  shows "criteria_ok (criteria w')" and "w' = w\<lparr>crm := crm w', criteria := criteria w @ [c]\<rparr>"
    and "history_write (crm w) (crm w')"
proof -
  have "\<exists>k n. (\<forall>x \<in> set (criteria w). cr_key x = k \<longrightarrow> cr_version x < n) \<and> add_criterion k n d a w = (c, w')"
    using assms(1)
  proof
    assume "create_criterion key d a w = Inr (c, w')"
    then show ?thesis by (auto simp: create_criterion_def err_simps latest_version_None)
  next
    assume "add_version key d a w = Inr (c, w')"
    then obtain l where "latest_version w key = Some l" "add_criterion key (Suc (cr_version l)) d a w = (c, w')"
      by (auto simp: add_version_def err_simps)
    with latest_version_max [OF this(1)] show ?thesis
      by (intro exI [of _ key] exI [of _ "Suc (cr_version l)"]) (simp add: less_Suc_eq_le)
  qed
  then obtain k n where "\<forall>x \<in> set (criteria w). cr_key x = k \<longrightarrow> cr_version x < n"
    "add_criterion k n d a w = (c, w')" by blast
  from add_criterion_ok [OF ok this] show "criteria_ok (criteria w')"
    and "w' = w\<lparr>crm := crm w', criteria := criteria w @ [c]\<rparr>" and "history_write (crm w) (crm w')" by simp_all
qed

end
