(* ===== verification/Sanctions_Log.thy ===== *)
theory Sanctions_Log
  imports Sanctions World_Writes Chains
begin

text \<open>
  What sanctions screening promises: a hit's decisions are one line whose end is the current one, a
  true match stands on two officers while a second approval is asked for, and nothing follows it.
\<close>

section \<open>A hit's decisions as a chain\<close>

definition final_dispositions :: "hit_disposition list \<Rightarrow> uuid \<Rightarrow> hit_disposition list" where
  "final_dispositions ds h = filter (\<lambda>d. hd_hit d = h \<and> (\<forall>x \<in> set ds. hd_supersedes x \<noteq> Some (hd_id d))) ds"

interpretation disposition_log: version_log hd_id hd_hit hd_supersedes final_dispositions
  by unfold_locales (simp add: final_dispositions_def)

abbreviation dispositions_chained :: "hit_disposition list \<Rightarrow> bool" where
  "dispositions_chained \<equiv> chained hd_id hd_hit hd_supersedes"

lemma chain_of_line: "chain_of w h = disposition_log.line (dispositions w) h"
  by (simp add: chain_of_def disposition_log.line_def)

text \<open>Both readers filter one hit's rows for those no row of the hit supersedes: the last, and only it.\<close>

lemma unsuperseded_in_chain:
  assumes "dispositions_chained (dispositions w)"
  shows "filter (unsuperseded_in (chain_of w h)) (chain_of w h) =
    (if chain_of w h = [] then [] else [last (chain_of w h)])"
proof -
  have "unsuperseded_in (chain_of w h) d \<longleftrightarrow> (\<forall>x \<in> set (dispositions w). hd_supersedes x \<noteq> Some (hd_id d))"
    if "d \<in> set (dispositions w)" "hd_hit d = h" for d
    using disposition_log.prior_same_subject [OF assms _ that(1)] that(2)
    by (auto simp: unsuperseded_in_def chain_of_def)
  then have "filter (unsuperseded_in (chain_of w h)) (chain_of w h) = final_dispositions (dispositions w) h"
    unfolding final_dispositions_def by (simp add: chain_of_def) (rule filter_cong; auto simp: chain_of_def)
  then show ?thesis by (simp add: disposition_log.head_is_last [OF assms] chain_of_line)
qed

lemma find_filter: "find P xs = (case filter P xs of [] \<Rightarrow> None | x # _ \<Rightarrow> Some x)"
  by (induction xs) auto

lemma current_disposition_last:
  assumes "dispositions_chained (dispositions w)" and "chain_of w h \<noteq> []"
  shows "current_disposition w h = Inr (last (chain_of w h))"
proof -
  let ?c = "chain_of w h" and ?s = "sort_key hd_decided_at (chain_of w h)"
  have u: "unsuperseded_in ?s = unsuperseded_in ?c" by (rule ext) (simp add: unsuperseded_in_def)
  have "filter (unsuperseded_in ?c) ?s = sort_key hd_decided_at (filter (unsuperseded_in ?c) ?c)"
    by (rule filter_sort)
  also have "\<dots> = [last ?c]" using assms by (simp add: unsuperseded_in_chain)
  finally have "filter (unsuperseded_in ?c) (rev ?s) = [last ?c]" by (simp add: rev_filter [symmetric])
  then show ?thesis unfolding current_disposition_def Let_def u find_filter by simp
qed

lemma locked_hit_last:
  assumes "dispositions_chained (dispositions w)" and "locked_hit h w = Inr (hit, run, current)"
  shows "sh_id hit = h" "chain_of w h \<noteq> []" "current = last (chain_of w h)"
proof -
  from assms(2) have h: "find (\<lambda>x. sh_id x = h) (sanctions_hits w) = Some hit"
    and c: "find (unsuperseded_in (chain_of w h)) (chain_of w h) = Some current"
    by (auto simp: locked_hit_def err_simps)
  show "sh_id hit = h" using find_filter_Some [OF h] by simp
  show "chain_of w h \<noteq> []" "current = last (chain_of w h)"
    using c unfolding find_filter unsuperseded_in_chain [OF assms(1)] by (auto split: if_splits)
qed

section \<open>Two officers, and nothing after\<close>

definition two_officers :: "hit_disposition list \<Rightarrow> hit_disposition \<Rightarrow> bool" where
  "two_officers ds d \<longleftrightarrow> (\<exists>b. hd_approved_by d = Some b \<and> b \<noteq> hd_decided_by d) \<and>
     (\<exists>q \<in> set ds. hd_hit q = hd_hit d \<and> hd_disposition q = TRUE_MATCH_PROPOSED \<and>
        hd_decided_by q = hd_decided_by d \<and> hd_supersedes d = Some (hd_id q))"

definition sanctions_ok :: "crm_world \<Rightarrow> bool" where
  "sanctions_ok w \<longleftrightarrow> dispositions_chained (dispositions w) \<and>
     (\<forall>d \<in> set (dispositions w). hd_id d < next_uuid (crm w) \<and> hd_hit d < next_uuid (crm w) \<and>
        (hd_disposition d = TRUE_MATCH \<longrightarrow> two_officers (dispositions w) d)) \<and>
     (\<forall>h. \<forall>d \<in> set (butlast (chain_of w h)). hd_disposition d \<noteq> TRUE_MATCH)"

lemma two_officers_mono: "two_officers ds d \<Longrightarrow> two_officers (ds @ xs) d"
  by (auto simp: two_officers_def)

lemma sanctions_ok_kept:
  "sanctions_ok w \<Longrightarrow> dispositions w' = dispositions w \<Longrightarrow> next_uuid (crm w) \<le> next_uuid (crm w') \<Longrightarrow>
   sanctions_ok w'"
  by (auto simp: sanctions_ok_def chain_of_def)

text \<open>One more decision: on a new hit, or after the current one unless that is a true match.\<close>

lemma sanctions_ok_append:
  assumes ok: "sanctions_ok w" and ds: "dispositions w' = dispositions w @ [d]"
    and n: "next_uuid (crm w) \<le> hd_id d" "hd_id d < next_uuid (crm w')" "hd_hit d < next_uuid (crm w')"
    and sup: "hd_supersedes d = map_option hd_id (if chain_of w (hd_hit d) = [] then None
      else Some (last (chain_of w (hd_hit d))))"
    and fin: "chain_of w (hd_hit d) \<noteq> [] \<Longrightarrow> hd_disposition (last (chain_of w (hd_hit d))) \<noteq> TRUE_MATCH"
    and tm: "hd_disposition d = TRUE_MATCH \<Longrightarrow> two_officers (dispositions w) d"
  shows "sanctions_ok w'"
proof -
  have ch: "dispositions_chained (dispositions w)" using ok by (simp add: sanctions_ok_def)
  have co: "chain_of w' h = chain_of w h @ (if hd_hit d = h then [d] else [])" for h
    by (simp add: chain_of_def ds)
  have fresh: "hd_id d \<notin> set (map hd_id (dispositions w))" using ok n(1) by (fastforce simp: sanctions_ok_def)
  have "dispositions_chained (dispositions w')"
    unfolding ds
    by (rule disposition_log.append_head [OF ch fresh])
      (simp add: disposition_log.head_is_last [OF ch] sup chain_of_line)
  moreover have "\<forall>x \<in> set (dispositions w'). hd_id x < next_uuid (crm w') \<and> hd_hit x < next_uuid (crm w') \<and>
        (hd_disposition x = TRUE_MATCH \<longrightarrow> two_officers (dispositions w') x)"
  proof
    fix x assume "x \<in> set (dispositions w')"
    then consider "x \<in> set (dispositions w)" | "x = d" by (auto simp: ds)
    then show "hd_id x < next_uuid (crm w') \<and> hd_hit x < next_uuid (crm w') \<and>
        (hd_disposition x = TRUE_MATCH \<longrightarrow> two_officers (dispositions w') x)"
    proof cases
      case 1
      then have "hd_id x < next_uuid (crm w)" "hd_hit x < next_uuid (crm w)"
        "hd_disposition x = TRUE_MATCH \<longrightarrow> two_officers (dispositions w) x"
        using ok by (simp_all add: sanctions_ok_def)
      with n show ?thesis by (auto simp: ds intro: two_officers_mono)
    next
      case 2
      with n tm show ?thesis by (auto simp: ds intro: two_officers_mono)
    qed
  qed
  moreover have "\<forall>h. \<forall>x \<in> set (butlast (chain_of w' h)). hd_disposition x \<noteq> TRUE_MATCH"
  proof (intro allI ballI)
    fix h x assume x: "x \<in> set (butlast (chain_of w' h))"
    show "hd_disposition x \<noteq> TRUE_MATCH"
    proof (cases "hd_hit d = h \<and> chain_of w h \<noteq> []")
      case True
      with x have "x \<in> set (chain_of w h)" by (simp add: co)
      then have "x \<in> set (butlast (chain_of w h)) \<or> x = last (chain_of w h)"
        by (metis True append_butlast_last_id in_set_conv_decomp rotate1.simps(2) set_ConsD set_append set_rotate1 Un_iff list.set(1,2) insert_iff empty_iff)
      with ok fin True show ?thesis by (auto simp: sanctions_ok_def)
    next
      case False
      with x ok show ?thesis by (auto simp: co sanctions_ok_def split: if_splits)
    qed
  qed
  ultimately show ?thesis by (simp add: sanctions_ok_def)
qed

section \<open>What the service writes\<close>

definition sanctions_write :: "crm_world \<Rightarrow> crm_world \<Rightarrow> bool" where
  "sanctions_write w w' \<longleftrightarrow> (\<exists>db rs hs ds au. history_write (crm w) db \<and>
     w' = w\<lparr>crm := db, sanctions_runs := sanctions_runs w @ rs, sanctions_hits := sanctions_hits w @ hs,
        dispositions := dispositions w @ ds, audit_log := audit_log w @ au\<rparr>)"

lemma sanctions_write_refl: "sanctions_write w w"
  unfolding sanctions_write_def
  by (intro exI [of _ "crm w"] exI [of _ "[]"]) (cases w, simp)

lemma sanctions_write_trans:
  assumes "sanctions_write a b" and "sanctions_write b c"
  shows "sanctions_write a c"
proof -
  from assms(1) obtain db1 rs1 hs1 ds1 au1 where 1: "history_write (crm a) db1"
    "b = a\<lparr>crm := db1, sanctions_runs := sanctions_runs a @ rs1, sanctions_hits := sanctions_hits a @ hs1,
        dispositions := dispositions a @ ds1, audit_log := audit_log a @ au1\<rparr>"
    by (auto simp: sanctions_write_def)
  from assms(2) obtain db2 rs2 hs2 ds2 au2 where 2: "history_write (crm b) db2"
    "c = b\<lparr>crm := db2, sanctions_runs := sanctions_runs b @ rs2, sanctions_hits := sanctions_hits b @ hs2,
        dispositions := dispositions b @ ds2, audit_log := audit_log b @ au2\<rparr>"
    by (auto simp: sanctions_write_def)
  have "history_write (crm a) db2" using history_write_trans 1 2(1) by simp
  then show ?thesis
    unfolding sanctions_write_def using 1(2) 2(2)
    by (intro exI [of _ db2] exI [of _ "rs1 @ rs2"] exI [of _ "hs1 @ hs2"] exI [of _ "ds1 @ ds2"]
        exI [of _ "au1 @ au2"]) simp
qed

lemma sanctions_write_crm:
  assumes "history_write (crm w) db"
  shows "sanctions_write w (w\<lparr>crm := db\<rparr>)"
  unfolding sanctions_write_def using assms
  by (intro exI [of _ db] exI [of _ "[]"]) (cases w, simp)

lemma write_decision_effect:
  assumes "write_decision run hit row actor event w = Inr (v, w')"
  shows "sanctions_write w w'" and "dispositions w' = dispositions w @ [row]"
    and "next_uuid (crm w') = next_uuid (crm w)"
proof -
  from assms obtain w1 au where h: "writes_history (w\<lparr>dispositions := dispositions w @ [row]\<rparr>) w1"
    and w': "w' = w1\<lparr>audit_log := audit_log w1 @ au\<rparr>"
    by (auto simp: write_decision_def Let_def err_simps dest!: writes_historyI)
  from h obtain hr where w1: "w1 = w\<lparr>dispositions := dispositions w @ [row],
      crm := (crm w)\<lparr>history := history (crm w) @ [hr]\<rparr>\<rparr>" by (auto simp: writes_history_def)
  show "dispositions w' = dispositions w @ [row]" "next_uuid (crm w') = next_uuid (crm w)"
    by (simp_all add: w' w1)
  have "w' = w\<lparr>crm := (crm w)\<lparr>history := history (crm w) @ [hr]\<rparr>, sanctions_runs := sanctions_runs w @ [],
      sanctions_hits := sanctions_hits w @ [], dispositions := dispositions w @ [row],
      audit_log := audit_log w @ au\<rparr>"
    by (cases w) (simp add: w' w1)
  then show "sanctions_write w w'" unfolding sanctions_write_def by (blast intro: history_write_row)
qed

text \<open>The three decisions on a hit.\<close>

lemma decision_step:
  assumes lk: "locked_hit h w = Inr (hit, run, current)"
    and nf: "hd_disposition current \<noteq> TRUE_MATCH"
    and wd: "write_decision run hit row actor event (w\<lparr>crm := (crm w)\<lparr>next_uuid := Suc (next_uuid (crm w))\<rparr>\<rparr>)
      = Inr (v, w')"
    and row: "hd_id row = next_uuid (crm w)" "hd_hit row = sh_id hit" "hd_supersedes row = Some (hd_id current)"
  shows "sanctions_write w w'" and "sanctions_ok w \<Longrightarrow>
    (hd_disposition row = TRUE_MATCH \<Longrightarrow> two_officers (dispositions w) row) \<Longrightarrow> sanctions_ok w'"
proof -
  let ?w = "w\<lparr>crm := (crm w)\<lparr>next_uuid := Suc (next_uuid (crm w))\<rparr>\<rparr>"
  note e = write_decision_effect [OF wd]
  have "sanctions_write w ?w" by (rule sanctions_write_crm) simp
  from sanctions_write_trans [OF this e(1)] show "sanctions_write w w'" .
  assume ok: "sanctions_ok w" and tm: "hd_disposition row = TRUE_MATCH \<Longrightarrow> two_officers (dispositions w) row"
  have ch: "dispositions_chained (dispositions w)" using ok by (simp add: sanctions_ok_def)
  note l = locked_hit_last [OF ch lk]
  have co: "chain_of w (hd_hit row) = chain_of w h" by (simp add: row(2) l(1))
  have "last (chain_of w h) \<in> set (chain_of w h)" using l(2) by simp
  then have "h < next_uuid (crm w)" using ok by (auto simp: sanctions_ok_def chain_of_def)
  moreover have "dispositions w' = dispositions w @ [row]" using e(2) by simp
  ultimately show "sanctions_ok w'"
    by (intro sanctions_ok_append [OF ok, where d = row])
      (use e row l nf tm in \<open>simp_all add: co\<close>)
qed

lemma current_in:
  assumes "sanctions_ok w" and "locked_hit h w = Inr (hit, run, current)"
  shows "current \<in> set (dispositions w)" "hd_hit current = sh_id hit"
proof -
  have "dispositions_chained (dispositions w)" using assms(1) by (simp add: sanctions_ok_def)
  note l = locked_hit_last [OF this assms(2)]
  have "current \<in> set (chain_of w h)" using l(2,3) by simp
  then show "current \<in> set (dispositions w)" "hd_hit current = sh_id hit" using l(1) by (auto simp: chain_of_def)
qed

lemma decide_hit_step:
  assumes d: "decide_hit env mode h dis reason actor w = Inr (v, w')"
  shows "sanctions_write w w'" and "mode \<noteq> SINGLE \<Longrightarrow> sanctions_ok w \<Longrightarrow> sanctions_ok w'"
proof -
  let ?row = "\<lambda>hit current. \<lparr>hd_id = next_uuid (crm w), hd_hit = sh_id hit, hd_disposition = as_recorded dis mode,
       hd_reason = clean_text reason, hd_decided_by = sa_id actor, hd_decided_at = env_now env,
       hd_approved_by = (if as_recorded dis mode = TRUE_MATCH then Some (sa_id actor) else None),
       hd_supersedes = Some (hd_id current)\<rparr>"
  from d obtain hit run current where lk: "locked_hit h w = Inr (hit, run, current)"
    and nf: "hd_disposition current \<noteq> TRUE_MATCH"
    and wd: "write_decision run hit (?row hit current) actor ''sanctions_hit_decided''
      (w\<lparr>crm := (crm w)\<lparr>next_uuid := Suc (next_uuid (crm w))\<rparr>\<rparr>) = Inr (v, w')"
    by (auto simp: decide_hit_def Let_def world_uuid_write err_simps)
  note s = decision_step [OF lk nf wd]
  show "sanctions_write w w'" by (rule s(1)) simp_all
  assume m: "mode \<noteq> SINGLE" and ok: "sanctions_ok w"
  have "as_recorded dis mode \<noteq> TRUE_MATCH" using m by (auto simp: as_recorded_def)
  then show "sanctions_ok w'" by (intro s(2) [OF _ _ _ ok]) simp_all
qed

lemma confirm_step:
  assumes d: "confirm_true_match env mode h actor w = Inr (v, w')"
  shows "sanctions_write w w'" and "mode \<noteq> SINGLE \<Longrightarrow> sanctions_ok w \<Longrightarrow> sanctions_ok w'"
proof -
  let ?row = "\<lambda>hit current. \<lparr>hd_id = next_uuid (crm w), hd_hit = sh_id hit, hd_disposition = TRUE_MATCH,
       hd_reason = hd_reason current, hd_decided_by = hd_decided_by current, hd_decided_at = env_now env,
       hd_approved_by = Some (sa_id actor), hd_supersedes = Some (hd_id current)\<rparr>"
  from d obtain hit run current where lk: "locked_hit h w = Inr (hit, run, current)"
    and pr: "hd_disposition current = TRUE_MATCH_PROPOSED"
    and rf: "true_match_refusal mode (hd_decided_by current) (sa_id actor) (sa_permissions actor) = None"
    and wd: "write_decision run hit (?row hit current) actor ''sanctions_true_match_confirmed''
      (w\<lparr>crm := (crm w)\<lparr>next_uuid := Suc (next_uuid (crm w))\<rparr>\<rparr>) = Inr (v, w')"
    by (auto simp: confirm_true_match_def Let_def world_uuid_write err_simps)
  have nf: "hd_disposition current \<noteq> TRUE_MATCH" using pr by simp
  note s = decision_step [OF lk nf wd]
  show "sanctions_write w w'" by (rule s(1)) simp_all
  assume m: "mode \<noteq> SINGLE" and ok: "sanctions_ok w"
  have "sa_id actor \<noteq> hd_decided_by current" using rf m by (auto simp: true_match_refusal_def split: if_splits)
  with pr current_in [OF ok lk] have "two_officers (dispositions w) (?row hit current)"
    by (auto simp: two_officers_def)
  then show "sanctions_ok w'" by (intro s(2) [OF _ _ _ ok]) simp_all
qed

lemma reject_step:
  assumes d: "reject_true_match env mode h reason actor w = Inr (v, w')"
  shows "sanctions_write w w'" and "sanctions_ok w \<Longrightarrow> sanctions_ok w'"
proof -
  from d obtain hit run current why where lk: "locked_hit h w = Inr (hit, run, current)"
    and pr: "hd_disposition current = TRUE_MATCH_PROPOSED"
    and wd: "write_decision run hit \<lparr>hd_id = next_uuid (crm w), hd_hit = sh_id hit, hd_disposition = HIT_OPEN,
         hd_reason = Some (''True match not confirmed: '' @ why), hd_decided_by = sa_id actor,
         hd_decided_at = env_now env, hd_approved_by = None, hd_supersedes = Some (hd_id current)\<rparr>
         actor ''sanctions_true_match_rejected'' (w\<lparr>crm := (crm w)\<lparr>next_uuid := Suc (next_uuid (crm w))\<rparr>\<rparr>)
       = Inr (v, w')"
    by (auto simp: reject_true_match_def Let_def world_uuid_write err_simps)
  have nf: "hd_disposition current \<noteq> TRUE_MATCH" using pr by simp
  note s = decision_step [OF lk nf wd]
  show "sanctions_write w w'" by (rule s(1)) simp_all
  assume ok: "sanctions_ok w"
  then show "sanctions_ok w'" by (intro s(2) [OF _ _ _ ok]) simp_all
qed

section \<open>A new run\<close>

lemma add_hit_step:
  "sanctions_write w (add_hit env mode rid actor hi w)"
  "mode \<noteq> SINGLE \<Longrightarrow> sanctions_ok w \<Longrightarrow> sanctions_ok (add_hit env mode rid actor hi w)"
proof -
  let ?n = "next_uuid (crm w)" and ?w' = "add_hit env mode rid actor hi w"
  define hit where "hit = \<lparr>sh_id = ?n, sh_run = rid, sh_list_code = list_code (hi_list_code hi),
      sh_matched_name = py_strip (hi_matched_name hi), sh_list_entry = clean_text (hi_list_entry hi),
      sh_score = hi_score hi\<rparr>"
  define row where "row = \<lparr>hd_id = Suc ?n, hd_hit = ?n, hd_disposition = as_recorded (hi_disposition hi) mode,
      hd_reason = clean_text (hi_reason hi), hd_decided_by = sa_id actor, hd_decided_at = env_now env,
      hd_approved_by = (if hi_disposition hi = TRUE_MATCH \<and> mode = SINGLE then Some (sa_id actor) else None),
      hd_supersedes = None\<rparr>"
  have w': "?w' = w\<lparr>crm := (crm w)\<lparr>next_uuid := Suc (Suc ?n)\<rparr>,
      sanctions_hits := sanctions_hits w @ [hit], dispositions := dispositions w @ [row]\<rparr>"
    by (rule crm_world.equality) (simp_all add: add_hit_def Let_def world_uuid_write hit_def row_def)
  have row: "hd_id row = Suc ?n" "hd_hit row = ?n" "hd_supersedes row = None"
    by (simp_all add: row_def)
  have "history_write (crm w) ((crm w)\<lparr>next_uuid := Suc (Suc ?n)\<rparr>)"
    using history_write_trans [OF history_write_fresh history_write_fresh, of "crm w"] by simp
  moreover have "?w' = w\<lparr>crm := (crm w)\<lparr>next_uuid := Suc (Suc ?n)\<rparr>, sanctions_runs := sanctions_runs w @ [],
      sanctions_hits := sanctions_hits w @ [hit], dispositions := dispositions w @ [row],
      audit_log := audit_log w @ []\<rparr>"
    unfolding w' by (rule crm_world.equality) simp_all
  ultimately show "sanctions_write w ?w'" unfolding sanctions_write_def by blast
  assume m: "mode \<noteq> SINGLE" and ok: "sanctions_ok w"
  have "hd_disposition row \<noteq> TRUE_MATCH" using m by (simp add: row_def as_recorded_def)
  moreover have "chain_of w ?n = []" using ok by (fastforce simp: sanctions_ok_def chain_of_def filter_empty_conv)
  ultimately show "sanctions_ok ?w'"
    by (intro sanctions_ok_append [OF ok, where d = row]) (use row in \<open>simp_all add: w'\<close>)
qed

lemma add_hits_step:
  "sanctions_write w (fold (add_hit env mode rid actor) hits w)"
  "mode \<noteq> SINGLE \<Longrightarrow> sanctions_ok w \<Longrightarrow> sanctions_ok (fold (add_hit env mode rid actor) hits w)"
proof (induction hits arbitrary: w)
  case Nil
  {
    case 1
    show ?case by (simp add: sanctions_write_refl)
  next
    case 2
    then show ?case by simp
  }
next
  case (Cons hi hits)
  {
    case 1
    show ?case using sanctions_write_trans [OF add_hit_step(1) Cons.IH(1)] by simp
  next
    case 2
    then show ?case using Cons.IH(2) add_hit_step(2) by simp
  }
qed

lemma record_run_step:
  assumes r: "record_run env mode c typ given reference codes hits terms provider pref note actor w = Inr (v, w')"
  shows "sanctions_write w w'" and "mode \<noteq> SINGLE \<Longrightarrow> sanctions_ok w \<Longrightarrow> sanctions_ok w'"
proof -
  let ?w1 = "\<lambda>run. w\<lparr>crm := (crm w)\<lparr>next_uuid := Suc (next_uuid (crm w))\<rparr>,
      sanctions_runs := sanctions_runs w @ [run]\<rparr>"
  from r obtain run w3 au where
    h: "writes_history (fold (add_hit env mode (next_uuid (crm w)) actor) hits (?w1 run)) w3"
    and w': "w' = w3\<lparr>audit_log := audit_log w3 @ au\<rparr>"
    by (auto simp: record_run_def Let_def world_uuid_write err_simps dest!: writes_historyI)
  let ?w2 = "fold (add_hit env mode (next_uuid (crm w)) actor) hits (?w1 run)"
  from h obtain hr where w3: "w3 = ?w2\<lparr>crm := (crm ?w2)\<lparr>history := history (crm ?w2) @ [hr]\<rparr>\<rparr>"
    by (auto simp: writes_history_def)
  have 1: "sanctions_write w (?w1 run)"
  proof -
    have "?w1 run = w\<lparr>crm := (crm w)\<lparr>next_uuid := Suc (next_uuid (crm w))\<rparr>,
        sanctions_runs := sanctions_runs w @ [run], sanctions_hits := sanctions_hits w @ [],
        dispositions := dispositions w @ [], audit_log := audit_log w @ []\<rparr>" by (cases w) simp
    then show ?thesis unfolding sanctions_write_def by (blast intro: history_write_fresh)
  qed
  have 2: "sanctions_write ?w2 w'"
  proof -
    have "w' = ?w2\<lparr>crm := (crm ?w2)\<lparr>history := history (crm ?w2) @ [hr]\<rparr>,
        sanctions_runs := sanctions_runs ?w2 @ [], sanctions_hits := sanctions_hits ?w2 @ [],
        dispositions := dispositions ?w2 @ [], audit_log := audit_log ?w2 @ au\<rparr>"
      by (cases ?w2) (simp add: w' w3)
    then show ?thesis unfolding sanctions_write_def by (blast intro: history_write_row)
  qed
  show "sanctions_write w w'" by (rule sanctions_write_trans [OF 1 sanctions_write_trans [OF add_hits_step(1) 2]])
  assume m: "mode \<noteq> SINGLE" and ok: "sanctions_ok w"
  have "sanctions_ok (?w1 run)" by (rule sanctions_ok_kept [OF ok]) simp_all
  then have "sanctions_ok ?w2" by (rule add_hits_step(2) [OF m])
  then show "sanctions_ok w'" by (rule sanctions_ok_kept) (simp_all add: w' w3)
qed

end
