(* ===== verification/Verification.thy ===== *)
theory Verification
  imports World
begin

text \<open>
  Verification results and their reviews, \<open>application/verification_service.py\<close> with
  \<open>domain/verification_evidence.py\<close>, \<open>application/evidence_documents.py\<close>,
  \<open>domain/web_links.py\<close>, the manual adapter and \<open>verification_review_repository.py\<close>: a check is
  run by an adapter and its outcome stored in the company's current cycle, a provider may be polled
  until the result is reviewed, and a review supersedes the one before. The registry of adapters is
  a parameter, and so is the test for an IP address in a link's brackets.
\<close>

section \<open>Evidence\<close>

record evidence_given =
  eg_note :: "string option"
  eg_refs :: "(string \<times> ref_text) list"

definition cleaned_note :: "evidence_given \<Rightarrow> string option" where
  "cleaned_note e = clean_text (eg_note e)"

definition evidence_is_empty :: "evidence_given \<Rightarrow> bool" where
  "evidence_is_empty e \<longleftrightarrow> cleaned_note e = None \<and> eg_refs e = []"

fun evidence_document_ids :: "(string \<times> ref_text) list \<Rightarrow> crm_error + uuid list" where
  "evidence_document_ids [] = Inr []"
| "evidence_document_ids ((t, r) # rs) =
     (if t \<noteq> ''document'' then evidence_document_ids rs
      else case r of
        OtherText s \<Rightarrow> Inl (ValidationError ''evidence reference is not a document id'')
      | UuidText i \<Rightarrow> bindE (evidence_document_ids rs) (\<lambda>ids. Inr (i # ids)))"

text \<open>
  \<open>urllib.parse.urlsplit\<close>: leading controls and spaces and any tab or newline dropped, the scheme
  before the first colon in lower case, and the host part; \<open>None\<close> for the \<open>ValueError\<close> of unmatched
  brackets or of brackets around something that is no IP address.
\<close>

definition scheme_char :: "char \<Rightarrow> bool" where
  "scheme_char c \<longleftrightarrow> (let n = of_char c :: nat in
     97 \<le> n \<and> n \<le> 122 \<or> 65 \<le> n \<and> n \<le> 90 \<or> 48 \<le> n \<and> n \<le> 57 \<or> c \<in> set ''+-.'')"

definition ascii_letter :: "char \<Rightarrow> bool" where
  "ascii_letter c \<longleftrightarrow> (let n = of_char c :: nat in 97 \<le> n \<and> n \<le> 122 \<or> 65 \<le> n \<and> n \<le> 90)"

definition ascii_lower :: "char \<Rightarrow> char" where
  "ascii_lower c = (let n = of_char c :: nat in if 65 \<le> n \<and> n \<le> 90 then char_of (n + 32) else c)"

definition url_parts :: "(string \<Rightarrow> bool) \<Rightarrow> string \<Rightarrow> (string \<times> string) option" where
  "url_parts ip_literal text =
    (let url = filter (\<lambda>c. (of_char c :: nat) \<notin> {9, 10, 13}) (dropWhile (\<lambda>c. of_char c \<le> (32 :: nat)) text);
         before = takeWhile (\<lambda>c. c \<noteq> CHR '':'') url;
         (scheme, rest) = (if before \<noteq> url \<and> before \<noteq> [] \<and> ascii_letter (hd before) \<and> list_all scheme_char before
            then (map ascii_lower before, drop (Suc (length before)) url) else ([], url));
         netloc = (if take 2 rest = ''//'' then takeWhile (\<lambda>c. c \<notin> set ''/?#'') (drop 2 rest) else []);
         opened = CHR ''['' \<in> set netloc; closed = CHR '']'' \<in> set netloc;
         host = takeWhile (\<lambda>c. c \<noteq> CHR '']'') (drop 1 (dropWhile (\<lambda>c. c \<noteq> CHR ''['') netloc))
     in if opened \<noteq> closed \<or> opened \<and> \<not> ip_literal host then None else Some (scheme, netloc))"

definition is_web_link :: "(string \<Rightarrow> bool) \<Rightarrow> string \<Rightarrow> bool" where
  "is_web_link ip_literal value = (case url_parts ip_literal value of None \<Rightarrow> False
     | Some (scheme, netloc) \<Rightarrow> scheme \<in> {''http'', ''https''} \<and> netloc \<noteq> [])"

fun check_refs :: "(string \<Rightarrow> bool) \<Rightarrow> (string \<times> ref_text) list \<Rightarrow> crm_error + unit" where
  "check_refs ip_literal [] = Inr ()"
| "check_refs ip_literal ((t, r) # rs) =
     bindE (require (t \<in> {''document'', ''url''} \<and> (case r of UuidText _ \<Rightarrow> True | OtherText s \<Rightarrow> py_strip s \<noteq> []))
       (ValidationError ''evidence references need a type and a non-blank ref'')) (\<lambda>_.
     bindE (require (t = ''url'' \<longrightarrow> (case r of UuidText _ \<Rightarrow> False | OtherText s \<Rightarrow> is_web_link ip_literal s))
       (ValidationError ''a url evidence reference must be an http:// or https:// link'')) (\<lambda>_.
     check_refs ip_literal rs))"

definition check_evidence_shape :: "(string \<Rightarrow> bool) \<Rightarrow> evidence_given option \<Rightarrow> crm_error + unit" where
  "check_evidence_shape ip_literal ev = (case ev of None \<Rightarrow> Inr () | Some e \<Rightarrow>
     bindE (check_refs ip_literal (eg_refs e)) (\<lambda>_.
     bindE (evidence_document_ids (eg_refs e)) (\<lambda>_. Inr ())))"

definition check_manual_outcome ::
  "(string \<Rightarrow> bool) \<Rightarrow> verification_status \<Rightarrow> evidence_given option \<Rightarrow> crm_error + unit" where
  "check_manual_outcome ip_literal status ev =
     bindE (check_evidence_shape ip_literal ev) (\<lambda>_.
     bindE (require (status \<noteq> V_PENDING)
       (ValidationError ''a manual verification result is recorded with its real outcome'')) (\<lambda>_.
     require (\<not> (status = V_PASSED \<and> (case ev of None \<Rightarrow> True | Some e \<Rightarrow> evidence_is_empty e)))
       (ValidationError ''a manual PASSED result needs evidence'')))"

fun check_documents :: "uuid \<Rightarrow> uuid option \<Rightarrow> crm_db \<Rightarrow> uuid list \<Rightarrow> crm_error + unit" where
  "check_documents company_id deal_id db [] = Inr ()"
| "check_documents company_id deal_id db (i # ids) = (case find (\<lambda>d. doc_id d = i) (documents db) of
     None \<Rightarrow> Inl (ValidationError ''evidence document does not exist'')
   | Some d \<Rightarrow>
     bindE (require (doc_company d = Some company_id \<or> (deal_id \<noteq> None \<and> doc_deal d = deal_id))
       (ValidationError ''evidence document does not belong to this subject'')) (\<lambda>_.
     bindE (require (doc_scan_status d = AVAILABLE)
       (ValidationError ''only an AVAILABLE (scanned clean) document can be evidence'')) (\<lambda>_.
     check_documents company_id deal_id db ids)))"

definition check_evidence_documents ::
  "(string \<Rightarrow> bool) \<Rightarrow> evidence_given option \<Rightarrow> uuid option \<Rightarrow> uuid option \<Rightarrow> crm_db \<Rightarrow> crm_error + unit" where
  "check_evidence_documents ip_literal ev company_id deal_id db =
     bindE (check_evidence_shape ip_literal ev) (\<lambda>_.
     case ev of None \<Rightarrow> Inr () | Some e \<Rightarrow>
     bindE (evidence_document_ids (eg_refs e)) (\<lambda>ids.
     if ids = [] then Inr ()
     else case company_id of
       None \<Rightarrow> Inl (ValidationError ''document evidence cannot be attached to this subject'')
     | Some c \<Rightarrow> check_documents c deal_id db ids))"

section \<open>Adapters\<close>

text \<open>
  \<open>VerificationAdapter\<close> and \<open>BatchVerificationAdapter\<close> of \<open>domain/workflow_dependencies.py\<close>. What a
  vendor answers is outside the program; the manual adapter is its own.
\<close>

record verification_request =
  vq_type :: verification_type
  vq_entity_type :: verification_entity
  vq_entity_reference :: uuid
  vq_payload :: "(string \<times> py_value) list"
  vq_evidence :: "evidence_given option"

record verification_outcome =
  vo_provider :: string
  vo_provider_reference :: "string option"
  vo_status :: verification_status
  vo_normalized :: py_value
  vo_risk_level :: "bc_risk option"
  vo_valid_until :: "instant option"

record verification_adapter =
  va_verify :: "verification_request \<Rightarrow> crm_error + verification_outcome"
  va_verify_batch :: "(verification_request list \<Rightarrow> crm_error + verification_outcome list) option"
  va_status :: "string \<Rightarrow> crm_error + verification_outcome"

type_synonym adapter_registry = "string \<Rightarrow> verification_adapter option"

definition get_adapter :: "adapter_registry \<Rightarrow> string \<Rightarrow> crm_error + verification_adapter" where
  "get_adapter registry name = (case registry name of
     None \<Rightarrow> Inl (ValueError ''Verification adapter class not found in registry'') | Some a \<Rightarrow> Inr a)"

definition MANUAL_PROVIDER :: string where "MANUAL_PROVIDER = ''manual''"

definition py_get :: "(string \<times> py_value) list \<Rightarrow> string \<Rightarrow> py_value" where
  "py_get payload key = (case map_of payload key of None \<Rightarrow> PyNone | Some v \<Rightarrow> v)"

definition status_of_value :: "py_value \<Rightarrow> verification_status option" where
  "status_of_value v = (case v of
     PyText s \<Rightarrow> find (\<lambda>st. verification_status_value st = s) [V_PENDING, V_PASSED, V_FAILED, V_REVIEW]
   | _ \<Rightarrow> None)"

definition risk_of_value :: "py_value \<Rightarrow> bc_risk option" where
  "risk_of_value v = (case v of PyText s \<Rightarrow> find (\<lambda>r. risk_value r = s) [LOW, MEDIUM, HIGH, CRITICAL] | _ \<Rightarrow> None)"

text \<open>
  \<open>dict(payload.get("normalized_result") or \{\})\<close>. A value that is neither a dictionary nor empty is
  Python's \<open>TypeError\<close> (a list of pairs, which \<open>dict\<close> would also take, is not sent).
\<close>

definition falsy :: "py_value \<Rightarrow> bool" where
  "falsy v \<longleftrightarrow> (case v of PyNone \<Rightarrow> True | PyBool b \<Rightarrow> \<not> b | PyText s \<Rightarrow> s = [] | PyList xs \<Rightarrow> xs = []
     | PyNumber s \<Rightarrow> list_all (\<lambda>c. c \<notin> set ''123456789'') s | _ \<Rightarrow> False)"

definition dict_or_empty :: "py_value \<Rightarrow> crm_error + py_value" where
  "dict_or_empty v = (case v of PyDict kvs \<Rightarrow> Inr (PyDict kvs)
     | _ \<Rightarrow> if falsy v then Inr (PyDict []) else Inl (RuntimeError ''TypeError''))"

text \<open>A \<open>provider_reference\<close> that is not text is refused by the column, with the driver's error.\<close>

definition text_or_none :: "py_value \<Rightarrow> crm_error + string option" where
  "text_or_none v = (case v of PyNone \<Rightarrow> Inr None | PyText s \<Rightarrow> Inr (Some s) | _ \<Rightarrow> Inl (RuntimeError ''DataError''))"

definition manual_verify ::
  "(string \<Rightarrow> bool) \<Rightarrow> verification_request \<Rightarrow> crm_error + verification_outcome" where
  "manual_verify ip_literal request =
   (let payload = vq_payload request; raw_status = py_get payload ''status'';
        raw_risk = py_get payload ''risk_level'' in
    bindE (require (raw_status \<noteq> PyNone) (InvalidProviderPayloadError ''requires a status field'')) (\<lambda>_.
    case status_of_value raw_status of None \<Rightarrow> Inl (InvalidProviderPayloadError ''invalid status'')
    | Some status \<Rightarrow>
    bindE (if raw_risk = PyNone then Inr None else case risk_of_value raw_risk of
        None \<Rightarrow> Inl (InvalidProviderPayloadError ''invalid risk_level'') | Some r \<Rightarrow> Inr (Some r)) (\<lambda>risk.
    bindE (case py_get payload ''valid_until'' of PyNone \<Rightarrow> Inr None | PyTime t \<Rightarrow> Inr (Some t)
        | _ \<Rightarrow> Inl (InvalidProviderPayloadError ''valid_until must be a datetime'')) (\<lambda>valid_until.
    bindE (check_manual_outcome ip_literal status (vq_evidence request)) (\<lambda>_.
    bindE (text_or_none (py_get payload ''provider_reference'')) (\<lambda>reference.
    bindE (dict_or_empty (py_get payload ''normalized_result'')) (\<lambda>normalized.
    Inr \<lparr>vo_provider = MANUAL_PROVIDER, vo_provider_reference = reference, vo_status = status,
         vo_normalized = normalized, vo_risk_level = risk, vo_valid_until = valid_until\<rparr>)))))))"

definition manual_adapter :: "(string \<Rightarrow> bool) \<Rightarrow> verification_adapter" where
  "manual_adapter ip_literal = \<lparr>va_verify = manual_verify ip_literal, va_verify_batch = None,
     va_status = (\<lambda>_. Inl (ProviderCapabilityError MANUAL_PROVIDER ''get_verification_status''))\<rparr>"

section \<open>Subjects\<close>

text \<open>\<open>_VALID_ENTITY_TYPES_FOR_CHECK\<close>.\<close>

fun VALID_ENTITY_TYPES_FOR_CHECK :: "verification_type \<Rightarrow> verification_entity list" where
  "VALID_ENTITY_TYPES_FOR_CHECK KYC = [DIRECTOR, BUYER]"
| "VALID_ENTITY_TYPES_FOR_CHECK KYB = [EXPORTER, BUYER]"
| "VALID_ENTITY_TYPES_FOR_CHECK AML = [EXPORTER, BUYER, DIRECTOR]"
| "VALID_ENTITY_TYPES_FOR_CHECK CFT = [EXPORTER, BUYER, DIRECTOR]"
| "VALID_ENTITY_TYPES_FOR_CHECK SANCTIONS = [EXPORTER, BUYER, DIRECTOR]"
| "VALID_ENTITY_TYPES_FOR_CHECK PEP = [EXPORTER, BUYER, DIRECTOR]"
| "VALID_ENTITY_TYPES_FOR_CHECK ADVERSE_MEDIA = [EXPORTER, BUYER, DIRECTOR]"
| "VALID_ENTITY_TYPES_FOR_CHECK COMPANY_REGISTRY = [EXPORTER, BUYER]"
| "VALID_ENTITY_TYPES_FOR_CHECK UBO = [EXPORTER, BUYER]"
| "VALID_ENTITY_TYPES_FOR_CHECK GST = [EXPORTER, BUYER]"
| "VALID_ENTITY_TYPES_FOR_CHECK IEC = [EXPORTER, BUYER]"
| "VALID_ENTITY_TYPES_FOR_CHECK BANK_ACCOUNT = [EXPORTER, BUYER]"
| "VALID_ENTITY_TYPES_FOR_CHECK BUYER_CHECK = [BUYER, EXPORTER]"
| "VALID_ENTITY_TYPES_FOR_CHECK INVOICE_CHECK = [INVOICE, EXPORTER]"
| "VALID_ENTITY_TYPES_FOR_CHECK INVOICE_DUPLICATION = [INVOICE, EXPORTER]"
| "VALID_ENTITY_TYPES_FOR_CHECK SHIPMENT_CHECK = [SHIPMENT, INVOICE, EXPORTER]"
| "VALID_ENTITY_TYPES_FOR_CHECK VESSEL_CHECK = [VESSEL, SHIPMENT, EXPORTER]"
| "VALID_ENTITY_TYPES_FOR_CHECK INSURANCE = [INVOICE, SHIPMENT, EXPORTER]"

definition validate_type_pair :: "verification_type \<Rightarrow> verification_entity \<Rightarrow> crm_error + unit" where
  "validate_type_pair t e = require (e \<in> set (VALID_ENTITY_TYPES_FOR_CHECK t))
     (ValidationError ''verification_type cannot be run against entity_type'')"

record check_subject =
  sb_company :: "uuid option"
  sb_deal :: "uuid option"
  sb_snapshot :: "buyer_identity option"
  sb_subject_company :: "uuid option"

definition no_subject :: check_subject where
  "no_subject = \<lparr>sb_company = None, sb_deal = None, sb_snapshot = None, sb_subject_company = None\<rparr>"

text \<open>\<open>DealBuyerRepository.get\<close> and then \<open>DealRepository.get_by_id\<close>: a buyer row lies with its deal.\<close>

definition deal_of_buyer :: "crm_world \<Rightarrow> uuid \<Rightarrow> (deal_row \<times> deal_buyer) option" where
  "deal_of_buyer w i = (case find (\<lambda>d. map_option db_id (dl_buyer d) = Some i) (deals w) of
     None \<Rightarrow> None | Some d \<Rightarrow> (case dl_buyer d of None \<Rightarrow> None | Some b \<Rightarrow> Some (d, b)))"

definition deal_is_over :: "deal_row \<Rightarrow> bool" where
  "deal_is_over d \<longleftrightarrow> dl_stage d \<in> {HANDED_OVER, DEAL_WITHDRAWN}"

definition resolve_subject ::
  "verification_entity \<Rightarrow> uuid \<Rightarrow> bool \<Rightarrow> crm_world \<Rightarrow> crm_error + check_subject" where
  "resolve_subject entity_type i new_check w =
    (if entity_type = EXPORTER then
       (if profiles (crm w) i = None then Inl (ExporterProfileNotFoundError i)
        else Inr (no_subject\<lparr>sb_company := Some i, sb_subject_company := Some i\<rparr>))
     else if entity_type = BUYER then (case deal_of_buyer w i of
       None \<Rightarrow> Inl (ComplianceInputsBuyerNotFoundError i)
     | Some (d, b) \<Rightarrow>
       bindE (require (\<not> (new_check \<and> deal_is_over d)) (VerificationBuyerDealClosedError i (dl_id d) (dl_stage d))) (\<lambda>_.
       Inr (no_subject\<lparr>sb_company := Some (dl_company d), sb_deal := Some (dl_id d),
         sb_snapshot := Some \<lparr>bi_buyer = db_id b, bi_deal = dl_id d, bi_name = db_name b, bi_country = db_country b,
           bi_registration_number = db_registration_number b, bi_tax_id = db_tax_id b\<rparr>\<rparr>)))
     else Inr no_subject)"

definition subject_company :: "verification_row \<Rightarrow> uuid option" where
  "subject_company r = subject_company_of (vr_entity_type r) (vr_entity_reference r) (vr_subject_company r)"

definition history_target :: "verification_row \<Rightarrow> crm_world \<Rightarrow> check_subject" where
  "history_target r w =
    (let subject = (case resolve_subject (vr_entity_type r) (vr_entity_reference r) False w of
         Inl _ \<Rightarrow> no_subject | Inr s \<Rightarrow> s)
     in if vr_subject_company r \<noteq> None \<and> sb_company subject \<noteq> vr_subject_company r
        then no_subject\<lparr>sb_company := vr_subject_company r, sb_deal := sb_deal subject\<rparr> else subject)"

definition record_check_history ::
  "check_subject \<Rightarrow> string \<Rightarrow> string option \<Rightarrow> uuid option \<Rightarrow> string \<Rightarrow> (string \<times> dval) list \<Rightarrow> string option \<Rightarrow>
   string option \<Rightarrow> crm_world \<Rightarrow> crm_error + crm_world" where
  "record_check_history subject to_value from_value actor_id source details reason event_type w =
    (case sb_company subject of None \<Rightarrow> Inr w
     | Some c \<Rightarrow> world_history c ''verification'' (map_option HText from_value) (HText to_value) actor_id source reason
         (sb_deal subject) event_type details w)"

section \<open>Recording a check\<close>

fun entity_value :: "verification_entity \<Rightarrow> string" where
  "entity_value EXPORTER = ''EXPORTER''"
| "entity_value BUYER = ''BUYER''"
| "entity_value DIRECTOR = ''DIRECTOR''"
| "entity_value INVOICE = ''INVOICE''"
| "entity_value VESSEL = ''VESSEL''"
| "entity_value SHIPMENT = ''SHIPMENT''"

text \<open>The word \<open>platform\<close>, where a user is expected: the id 0, which no user has.\<close>

definition PLATFORM_ACTOR :: uuid where "PLATFORM_ACTOR = 0"

definition result_details :: "verification_row \<Rightarrow> (string \<times> dval) list" where
  "result_details r =
     [(''verification_result_id'', DId (vr_id r)), (''verification_type'', DText (verification_type_value (vr_type r))),
      (''entity_type'', DText (entity_value (vr_entity_type r))), (''entity_reference'', DId (vr_entity_reference r)),
      (''provider'', DText (vr_provider r))] @
     (case vr_cycle r of None \<Rightarrow> [] | Some c \<Rightarrow> [(''cycle_id'', DId c)])"

definition result_from_outcome ::
  "crm_env \<Rightarrow> uuid \<Rightarrow> verification_request \<Rightarrow> verification_outcome \<Rightarrow> check_subject \<Rightarrow> verification_row" where
  "result_from_outcome env i request outcome subject =
     \<lparr>vr_id = i, vr_type = vq_type request, vr_entity_type = vq_entity_type request,
      vr_entity_reference = vq_entity_reference request, vr_subject_company = sb_subject_company subject,
      vr_provider = vo_provider outcome, vr_provider_reference = vo_provider_reference outcome,
      vr_status = vo_status outcome, vr_risk_level = vo_risk_level outcome, vr_performed_at = env_now env,
      vr_valid_until = vo_valid_until outcome, vr_created_at = env_db_now env, vr_normalized = vo_normalized outcome,
      vr_evidence_note = (case vq_evidence request of None \<Rightarrow> None | Some e \<Rightarrow> cleaned_note e),
      vr_evidence_refs = (case vq_evidence request of None \<Rightarrow> [] | Some e \<Rightarrow> eg_refs e),
      vr_snapshot = sb_snapshot subject, vr_cycle = None\<rparr>"

definition stamp_cycle ::
  "crm_env \<Rightarrow> verification_row \<Rightarrow> uuid option \<Rightarrow> string \<Rightarrow> crm_world \<Rightarrow> verification_row \<times> crm_world" where
  "stamp_cycle env r actor_id source w = (case subject_company r of None \<Rightarrow> (r, w)
     | Some c \<Rightarrow> let (cycle, db) = current_or_initial c (case actor_id of None \<Rightarrow> PLATFORM_ACTOR | Some a \<Rightarrow> a)
           (Some source) (env_now env) (crm w)
         in (r\<lparr>vr_cycle := Some (cc_id cycle)\<rparr>, w\<lparr>crm := db\<rparr>))"

definition store_result ::
  "crm_env \<Rightarrow> verification_request \<Rightarrow> verification_outcome \<Rightarrow> check_subject \<Rightarrow> uuid option \<Rightarrow> string \<Rightarrow> crm_world \<Rightarrow>
   crm_error + verification_row \<times> crm_world" where
  "store_result env request outcome subject actor_id source w =
   (let (i, w) = world_uuid w;
        (r, w) = stamp_cycle env (result_from_outcome env i request outcome subject) actor_id source w
    in bindE (record_check_history subject (verification_status_value (vo_status outcome)) None actor_id source
         (result_details r) None None (w\<lparr>crm := (crm w)\<lparr>verifications := verifications (crm w) @ [r]\<rparr>\<rparr>)) (\<lambda>w.
       Inr (r, w)))"

definition check_request ::
  "(string \<Rightarrow> bool) \<Rightarrow> verification_request \<Rightarrow> crm_world \<Rightarrow> crm_error + check_subject" where
  "check_request ip_literal request w =
     bindE (validate_type_pair (vq_type request) (vq_entity_type request)) (\<lambda>_.
     bindE (resolve_subject (vq_entity_type request) (vq_entity_reference request) True w) (\<lambda>subject.
     bindE (check_evidence_documents ip_literal (vq_evidence request) (sb_company subject) (sb_deal subject) (crm w)) (\<lambda>_.
     Inr subject)))"

text \<open>The answer of an automatic qualification criterion, after the commit, is a step of its own.\<close>

definition trigger_verification ::
  "crm_env \<Rightarrow> (string \<Rightarrow> bool) \<Rightarrow> adapter_registry \<Rightarrow> verification_request \<Rightarrow> string \<Rightarrow> uuid option \<Rightarrow> crm_world \<Rightarrow>
   crm_error + verification_row \<times> crm_world" where
  "trigger_verification env ip_literal registry request provider actor_id w =
     bindE (check_request ip_literal request w) (\<lambda>subject.
     bindE (get_adapter registry provider) (\<lambda>adapter.
     bindE (va_verify adapter request) (\<lambda>outcome.
     store_result env request outcome subject actor_id ''verification_service.trigger_verification'' w)))"

fun check_requests ::
  "(string \<Rightarrow> bool) \<Rightarrow> verification_request list \<Rightarrow> crm_world \<Rightarrow> crm_error + check_subject list" where
  "check_requests ip_literal [] w = Inr []"
| "check_requests ip_literal (r # rs) w = bindE (check_request ip_literal r w) (\<lambda>s.
     bindE (check_requests ip_literal rs w) (\<lambda>ss. Inr (s # ss)))"

fun store_results ::
  "crm_env \<Rightarrow> (verification_request \<times> verification_outcome \<times> check_subject) list \<Rightarrow> uuid option \<Rightarrow> crm_world \<Rightarrow>
   crm_error + verification_row list \<times> crm_world" where
  "store_results env [] actor_id w = Inr ([], w)"
| "store_results env ((request, outcome, subject) # rest) actor_id w =
     bindE (store_result env request outcome subject actor_id ''verification_service.trigger_verification_batch'' w) (\<lambda>(r, w).
     bindE (store_results env rest actor_id w) (\<lambda>(rs, w). Inr (r # rs, w)))"

definition trigger_verification_batch ::
  "crm_env \<Rightarrow> (string \<Rightarrow> bool) \<Rightarrow> adapter_registry \<Rightarrow> verification_request list \<Rightarrow> string \<Rightarrow> uuid option \<Rightarrow> crm_world \<Rightarrow>
   crm_error + verification_row list \<times> crm_world" where
  "trigger_verification_batch env ip_literal registry requests provider actor_id w =
     bindE (require (requests \<noteq> []) (ValidationError ''trigger_verification_batch requires at least one request'')) (\<lambda>_.
     bindE (check_requests ip_literal requests w) (\<lambda>subjects.
     bindE (get_adapter registry provider) (\<lambda>adapter.
     case va_verify_batch adapter of None \<Rightarrow> Inl (ProviderCapabilityError provider ''verify_batch'')
     | Some verify_batch \<Rightarrow>
     bindE (verify_batch requests) (\<lambda>outcomes.
     bindE (require (length outcomes = length requests)
       (ValidationError ''the provider returned another number of outcomes'')) (\<lambda>_.
     store_results env (zip requests (zip outcomes subjects)) actor_id w)))))"

section \<open>Reviews\<close>

text \<open>
  \<open>order_chain\<close>: from the review that supersedes nothing along the dictionary of reviews by what
  they supersede. The loop takes one row a round; as many rounds as there are rows are enough for
  a chain, which \<open>Verification_Log\<close> shows the table always holds.
\<close>

definition by_predecessor :: "review_row list \<Rightarrow> uuid option \<Rightarrow> review_row option" where
  "by_predecessor rows k = find (\<lambda>r. rv_supersedes r = k) (rev rows)"

fun walk_chain :: "nat \<Rightarrow> review_row list \<Rightarrow> uuid option \<Rightarrow> review_row list" where
  "walk_chain 0 rows k = []"
| "walk_chain (Suc n) rows k = (case by_predecessor rows k of None \<Rightarrow> []
     | Some r \<Rightarrow> r # walk_chain n rows (Some (rv_id r)))"

definition order_chain :: "review_row list \<Rightarrow> review_row list" where
  "order_chain rows = walk_chain (length rows) rows None"

definition chain_for :: "crm_db \<Rightarrow> uuid \<Rightarrow> review_row list" where
  "chain_for db i = order_chain (filter (\<lambda>r. rv_result r = i) (reviews db))"

definition chain_head :: "review_row list \<Rightarrow> review_row option" where
  "chain_head chain = (if chain = [] then None else Some (last chain))"

definition find_result :: "crm_db \<Rightarrow> uuid \<Rightarrow> verification_row option" where
  "find_result db i = find (\<lambda>r. vr_id r = i) (verifications db)"

definition record_review ::
  "crm_env \<Rightarrow> uuid \<Rightarrow> uuid \<Rightarrow> review_status \<Rightarrow> string option \<Rightarrow> uuid option \<Rightarrow> crm_world \<Rightarrow>
   crm_error + review_row \<times> crm_world" where
  "record_review env result_id reviewed_by status note supersedes w = (case find_result (crm w) result_id of
     None \<Rightarrow> Inl (NotFoundError ''No verification_result found'')
   | Some r \<Rightarrow>
     bindE (require (vr_status r \<noteq> V_PENDING) (VerificationResultNotReviewableError result_id)) (\<lambda>_.
     let head = chain_head (chain_for (crm w) result_id) in
     bindE (require (supersedes = map_option rv_id head)
       (VerificationReviewStaleError result_id (map_option rv_id head))) (\<lambda>_.
     let cleaned = clean_text note in
     bindE (require (\<not> (head \<noteq> None \<and> cleaned = None))
       (ValidationError ''a review that supersedes another must say why (note)'')) (\<lambda>_.
     let (i, w) = world_uuid w;
         review = \<lparr>rv_id = i, rv_result = result_id, rv_status = status, rv_reviewed_by = reviewed_by,
           rv_reviewed_at = env_db_now env, rv_note = cleaned, rv_supersedes = supersedes\<rparr>;
         w = w\<lparr>crm := (crm w)\<lparr>reviews := reviews (crm w) @ [review]\<rparr>\<rparr>
     in bindE (record_check_history (history_target r w) (review_status_value status)
          (map_option (\<lambda>h. review_status_value (rv_status h)) head) (Some reviewed_by)
          ''verification_service.record_review''
          [(''verification_result_id'', DId result_id), (''review_id'', DId i), (''supersedes_review_id'', d_id supersedes),
           (''verification_type'', DText (verification_type_value (vr_type r)))] cleaned (Some ''verification_reviewed'') w)
        (\<lambda>w. Inr (review, w))))))"

record result_view =
  rw_result :: verification_row
  rw_reviews :: "review_row list"

definition get_result_view :: "uuid \<Rightarrow> crm_db \<Rightarrow> crm_error + result_view" where
  "get_result_view i db = (case find_result db i of
     None \<Rightarrow> Inl (NotFoundError ''No verification_result found'')
   | Some r \<Rightarrow> Inr \<lparr>rw_result = r, rw_reviews = chain_for db i\<rparr>)"

section \<open>Polling\<close>

text \<open>
  A poll finds the row, asks its provider with no lock held, and then judges the answer against the
  row as it is under the lock: two transactions' worth of time, so two functions. The second is the
  one that writes.
\<close>

definition poll_found :: "string \<Rightarrow> crm_db \<Rightarrow> crm_error + verification_row" where
  "poll_found reference db =
    (case sort_key (\<lambda>r. - vr_performed_at r) (filter (\<lambda>r. vr_provider_reference r = Some reference) (verifications db)) of
       [] \<Rightarrow> Inl (NotFoundError ''No verification_result found for provider_reference'') | r # _ \<Rightarrow> Inr r)"

definition save_result :: "verification_row \<Rightarrow> crm_db \<Rightarrow> crm_db" where
  "save_result r db = db\<lparr>verifications := map (\<lambda>x. if vr_id x = vr_id r then r else x) (verifications db)\<rparr>"

definition poll_apply ::
  "uuid \<Rightarrow> verification_outcome \<Rightarrow> crm_world \<Rightarrow> crm_error + verification_row \<times> crm_world" where
  "poll_apply i outcome w = (case find_result (crm w) i of
     None \<Rightarrow> Inl (NotFoundError ''No verification_result found for provider_reference'')
   | Some r \<Rightarrow>
     if vo_status outcome = vr_status r \<and> vo_risk_level outcome = vr_risk_level r \<and>
        vo_normalized outcome = vr_normalized r \<and> vo_valid_until outcome = vr_valid_until r then Inr (r, w)
     else if chain_for (crm w) i \<noteq> [] then Inr (r, w)
     else
       let previous = vr_status r;
           r = r\<lparr>vr_status := vo_status outcome, vr_risk_level := vo_risk_level outcome,
             vr_normalized := vo_normalized outcome, vr_valid_until := vo_valid_until outcome\<rparr>;
           w = w\<lparr>crm := save_result r (crm w)\<rparr>
       in bindE (if previous \<noteq> vo_status outcome
            then record_check_history (history_target r w) (verification_status_value (vo_status outcome))
              (Some (verification_status_value previous)) None ''verification_service.get_verification_status''
              (result_details r) None None w
            else Inr w) (\<lambda>w. Inr (r, w)))"

definition get_verification_status ::
  "adapter_registry \<Rightarrow> string \<Rightarrow> crm_world \<Rightarrow> crm_world \<Rightarrow> crm_error + verification_row \<times> crm_world" where
  "get_verification_status registry reference w0 w =
     bindE (poll_found reference (crm w0)) (\<lambda>found.
     bindE (get_adapter registry (vr_provider found)) (\<lambda>adapter.
     bindE (va_status adapter reference) (\<lambda>outcome. poll_apply (vr_id found) outcome w)))"

section \<open>Reads\<close>

definition list_verification_results :: "verification_entity \<Rightarrow> uuid \<Rightarrow> crm_db \<Rightarrow> verification_row list" where
  "list_verification_results entity_type i db = verification_order (filter (\<lambda>r.
     if entity_type = EXPORTER then about_company i r
     else vr_entity_type r = entity_type \<and> vr_entity_reference r = i) (verifications db))"

definition accepts_new_check :: "verification_entity \<Rightarrow> uuid \<Rightarrow> crm_world \<Rightarrow> bool" where
  "accepts_new_check entity_type i w \<longleftrightarrow> entity_type \<noteq> BUYER \<or>
     (case deal_of_buyer w i of None \<Rightarrow> True | Some (d, b) \<Rightarrow> \<not> deal_is_over d)"

end
