(* ===== verification/Verification_Log.thy ===== *)
theory Verification_Log
  imports Verification World_Writes Chains
begin

text \<open>
  What verification promises: a result's reviews are one line that \<open>order_chain\<close> walks to its end,
  every result belongs to its company's cycle, and a reviewed result never changes.
\<close>

section \<open>A result's reviews as a chain\<close>

abbreviation reviews_chained :: "review_row list \<Rightarrow> bool" where
  "reviews_chained \<equiv> chained rv_id rv_result rv_supersedes"

text \<open>Which row supersedes what, in a line: each the one before it.\<close>

lemma linked_priors:
  "linked idf prior prev rs \<Longrightarrow> map prior rs = (if rs = [] then [] else prev # map (Some \<circ> idf) (butlast rs))"
  by (induction rs arbitrary: prev) auto

lemma linked_split:
  "linked idf prior prev (xs @ ys) \<longleftrightarrow> linked idf prior prev xs \<and> linked idf prior (chain_end idf prev xs) ys"
  by (induction xs arbitrary: prev) (auto simp: chain_end_def)

lemma distinct_priors:
  assumes "linked idf prior None rs" and "distinct (map idf rs)"
  shows "distinct (map prior rs)"
proof -
  have "distinct (map idf (butlast rs))" using assms(2) by (metis distinct_butlast map_butlast)
  then have "distinct (map (Some \<circ> idf) (butlast rs))" by (simp add: distinct_map inj_on_def)
  then show ?thesis unfolding linked_priors [OF assms(1)] by auto
qed

lemma by_predecessor_next:
  assumes "linked rv_id rv_supersedes None (xs @ y # ys)" and "distinct (map rv_id (xs @ y # ys))"
  shows "by_predecessor (xs @ y # ys) (chain_end rv_id None xs) = Some y"
proof -
  let ?l = "xs @ y # ys" and ?k = "chain_end rv_id None xs"
  have y: "rv_supersedes y = ?k" using assms(1) by (simp add: linked_split)
  have "filter (\<lambda>r. rv_supersedes r = ?k) ?l = [y]"
  proof -
    have "distinct (map rv_supersedes ?l)" by (rule distinct_priors [OF assms])
    then have "\<forall>r \<in> set xs \<union> set ys. rv_supersedes r \<noteq> ?k" using y by (auto simp: image_iff)
    then show ?thesis using y by (auto simp: filter_empty_conv)
  qed
  from find_single [OF this] show ?thesis by (simp add: by_predecessor_def)
qed

lemma by_predecessor_end:
  assumes "linked rv_id rv_supersedes None l" and "distinct (map rv_id l)"
  shows "l \<noteq> [] \<Longrightarrow> by_predecessor l (Some (rv_id (last l))) = None"
  using linked_last_free [OF assms] by (auto simp: by_predecessor_def find_None_iff)

lemma walk_line:
  assumes "linked rv_id rv_supersedes None (xs @ ys)" and "distinct (map rv_id (xs @ ys))" and "length ys \<le> n"
  shows "walk_chain n (xs @ ys) (chain_end rv_id None xs) = ys"
  using assms
proof (induction ys arbitrary: xs n)
  case Nil
  show ?case
  proof (cases xs)
    case (Cons a as)
    with by_predecessor_end [of xs] Nil show ?thesis by (cases n) (simp_all add: chain_end_def)
  qed (cases n, simp_all add: by_predecessor_def)
next
  case (Cons y ys)
  then obtain m where n: "n = Suc m" "length ys \<le> m" by (cases n) auto
  have e: "chain_end rv_id None (xs @ [y]) = Some (rv_id y)" by (simp add: chain_end_def)
  from Cons.IH [of "xs @ [y]" m] Cons.prems n have "walk_chain m (xs @ y # ys) (Some (rv_id y)) = ys"
    by (simp only: e append.assoc append.simps)
  with by_predecessor_next [OF Cons.prems(1,2)] show ?case by (simp add: n)
qed

lemma chain_for_line:
  assumes "reviews_chained (reviews db)"
  shows "chain_for db i = filter (\<lambda>r. rv_result r = i) (reviews db)"
    and "linked rv_id rv_supersedes None (chain_for db i)" and "distinct (map rv_id (chain_for db i))"
proof -
  let ?l = "filter (\<lambda>r. rv_result r = i) (reviews db)"
  have l: "linked rv_id rv_supersedes None ?l" "distinct (map rv_id ?l)"
    using assms by (auto simp: chained_def distinct_map_filter)
  with walk_line [of "[]" ?l "length ?l"] show c: "chain_for db i = ?l"
    by (simp add: chain_for_def order_chain_def chain_end_def)
  show "linked rv_id rv_supersedes None (chain_for db i)" "distinct (map rv_id (chain_for db i))"
    unfolding c by (rule l)+
qed

text \<open>The loop's last look-up finds nothing, so it ends; and its last row is the one the inputs read.\<close>

lemma chain_for_ends:
  assumes "reviews_chained (reviews db)" and "chain_for db i \<noteq> []"
  shows "by_predecessor (chain_for db i) (Some (rv_id (last (chain_for db i)))) = None"
  by (rule by_predecessor_end [OF chain_for_line(2,3) [OF assms(1)] assms(2)])

lemma chain_head_read:
  "reviews_chained (reviews db) \<Longrightarrow> head_by_result db i = chain_head (chain_for db i)"
  by (simp add: head_by_result_last chain_head_def chain_for_line(1) Let_def)

section \<open>The rows\<close>

text \<open>
  A result's subject fits its kind of check; a company's result names the company and one of the
  company's cycles (\<open>fk_verification_result_cycle_company\<close>), any other no cycle; exactly a buyer's
  carries the snapshot.
\<close>

definition verification_row_ok :: "crm_db \<Rightarrow> verification_row \<Rightarrow> bool" where
  "verification_row_ok db r \<longleftrightarrow> vr_entity_type r \<in> set (VALID_ENTITY_TYPES_FOR_CHECK (vr_type r)) \<and>
     (vr_snapshot r \<noteq> None \<longleftrightarrow> vr_entity_type r = BUYER) \<and>
     (if vr_entity_type r = EXPORTER
      then vr_subject_company r = Some (vr_entity_reference r) \<and> profiles db (vr_entity_reference r) \<noteq> None \<and>
        (\<exists>c \<in> set (cycles db). vr_cycle r = Some (cc_id c) \<and> cc_company c = vr_entity_reference r)
      else vr_subject_company r = None \<and> vr_cycle r = None)"

definition checks_ok :: "crm_db \<Rightarrow> bool" where
  "checks_ok db \<longleftrightarrow> distinct (map vr_id (verifications db)) \<and> reviews_chained (reviews db) \<and>
     (\<forall>r \<in> set (verifications db). vr_id r < next_uuid db \<and> verification_row_ok db r) \<and>
     (\<forall>v \<in> set (reviews db). rv_id v < next_uuid db \<and> (rv_supersedes v \<noteq> None \<longrightarrow> rv_note v \<noteq> None) \<and>
        (\<exists>r \<in> set (verifications db). vr_id r = rv_result v \<and> vr_status r \<noteq> V_PENDING))"

text \<open>A write that leaves the checks alone, and never takes a company or a cycle away, keeps all this.\<close>

lemma checks_ok_kept:
  assumes ok: "checks_ok db" and "verifications db' = verifications db" and "reviews db' = reviews db"
    and "next_uuid db \<le> next_uuid db'" and "\<forall>c. profiles db c \<noteq> None \<longrightarrow> profiles db' c \<noteq> None"
    and "set (cycles db) \<subseteq> set (cycles db')"
  shows "checks_ok db'"
proof -
  have "verification_row_ok db' r" if "verification_row_ok db r" for r
    using that assms(5,6) by (auto simp: verification_row_ok_def split: if_splits)
  then show ?thesis using ok assms(2,3,4) unfolding checks_ok_def by (auto intro: less_le_trans)
qed

lemma checks_ok_result:
  assumes "checks_ok db" and "r \<in> set (verifications db)"
  shows "find_result db (vr_id r) = Some r"
proof -
  have "find (\<lambda>x. vr_id x = vr_id r) rs = Some r" if "distinct (map vr_id rs)" "r \<in> set rs" for rs
    using that by (induction rs) (auto simp: image_iff)
  with assms show ?thesis by (simp add: find_result_def checks_ok_def)
qed

lemma reviewed_result:
  assumes ok: "checks_ok db" and "chain_for db i \<noteq> []"
  shows "\<exists>r. find_result db i = Some r \<and> vr_status r \<noteq> V_PENDING"
proof -
  obtain v where "v \<in> set (reviews db)" "rv_result v = i"
    using assms chain_for_line(1) [of db i] by (auto simp: checks_ok_def filter_empty_conv)
  with ok obtain r where "r \<in> set (verifications db)" "vr_id r = i" "vr_status r \<noteq> V_PENDING"
    unfolding checks_ok_def by blast
  with checks_ok_result [OF ok] show ?thesis by blast
qed

lemma find_result_Some: "find_result db i = Some r \<Longrightarrow> r \<in> set (verifications db) \<and> vr_id r = i"
  by (auto simp: find_result_def dest: find_filter_Some)

lemma record_check_history_write:
  assumes "record_check_history s t f a src det rs ev w = Inr w'"
  shows "\<exists>rows. w' = w\<lparr>crm := (crm w)\<lparr>history := history (crm w) @ rows\<rparr>\<rparr>"
proof (cases "sb_company s")
  case None
  with assms show ?thesis by (intro exI [of _ "[]"]) (cases w, simp add: record_check_history_def)
next
  case (Some c)
  with assms show ?thesis by (auto simp: record_check_history_def elim!: world_history_shape)
qed

section \<open>Recording a result\<close>

lemma stamp_cycle_effect:
  assumes "stamp_cycle env r a src w = (r', w')"
  shows "subject_company r = None \<and> r' = r \<and> w' = w \<or>
    (\<exists>c u cy db. subject_company r = Some c \<and> r' = r\<lparr>vr_cycle := Some (cc_id cy)\<rparr> \<and> w' = w\<lparr>crm := db\<rparr> \<and>
      current_or_initial c u (Some src) (env_now env) (crm w) = (cy, db))"
proof (cases "subject_company r")
  case None
  with assms show ?thesis by (simp add: stamp_cycle_def)
next
  case (Some c)
  define u where "u = (case a of None \<Rightarrow> PLATFORM_ACTOR | Some a \<Rightarrow> a)"
  obtain cy db where e: "current_or_initial c u (Some src) (env_now env) (crm w) = (cy, db)" by fastforce
  from assms have "r' = r\<lparr>vr_cycle := Some (cc_id cy)\<rparr> \<and> w' = w\<lparr>crm := db\<rparr>"
    unfolding stamp_cycle_def Some option.case u_def [symmetric] e Let_def prod.case by blast
  with Some e show ?thesis by blast
qed

lemma current_or_initial_cycle:
  assumes "current_or_initial c a r t db = (cy, db')"
  shows "current_cycle db' c = Some cy" "set (cycles db) \<subseteq> set (cycles db')"
proof -
  have "cycles_of db c = []" if "current_cycle db c = None"
    using that by (auto simp: current_cycle_def split: list.splits)
  then have "filter (\<lambda>x. cc_company x = c) (cycles db) = []" if "current_cycle db c = None"
    using that by (metis cycles_of_def set_empty set_sort)
  then show "current_cycle db' c = Some cy" "set (cycles db) \<subseteq> set (cycles db')"
    using assms by (cases "current_cycle db c"; auto simp: current_or_initial_def fresh_uuid_def Let_def
        current_cycle_def [of "_ :: crm_db"] cycles_of_def)+
qed

text \<open>What the guards have seen to when a result is stored.\<close>

definition subject_fits :: "verification_request \<Rightarrow> check_subject \<Rightarrow> bool" where
  "subject_fits q s \<longleftrightarrow> vq_entity_type q \<in> set (VALID_ENTITY_TYPES_FOR_CHECK (vq_type q)) \<and>
     (sb_snapshot s \<noteq> None \<longleftrightarrow> vq_entity_type q = BUYER) \<and>
     sb_subject_company s = (if vq_entity_type q = EXPORTER then Some (vq_entity_reference q) else None)"

lemma store_result_shape:
  assumes "store_result env q oc s a src w = Inr (r, w')"
  obtains w2 rows where
    "stamp_cycle env (result_from_outcome env (next_uuid (crm w)) q oc s) a src
       (w\<lparr>crm := (crm w)\<lparr>next_uuid := Suc (next_uuid (crm w))\<rparr>\<rparr>) = (r, w2)"
    and "w' = w2\<lparr>crm := (crm w2)\<lparr>verifications := verifications (crm w2) @ [r],
      history := history (crm w2) @ rows\<rparr>\<rparr>"
proof -
  let ?sc = "stamp_cycle env (result_from_outcome env (next_uuid (crm w)) q oc s) a src
       (w\<lparr>crm := (crm w)\<lparr>next_uuid := Suc (next_uuid (crm w))\<rparr>\<rparr>)"
  obtain r0 w2 where sc: "?sc = (r0, w2)" by fastforce
  from assms obtain det t where r: "r0 = r"
    and h: "record_check_history s t None a src det None None
      (w2\<lparr>crm := (crm w2)\<lparr>verifications := verifications (crm w2) @ [r0]\<rparr>\<rparr>) = Inr w'"
    unfolding store_result_def world_uuid_write Let_def prod.case sc bindE_eq_Inr by blast
  from record_check_history_write [OF h] obtain rows where
    "w' = w2\<lparr>crm := (crm w2)\<lparr>verifications := verifications (crm w2) @ [r], history := history (crm w2) @ rows\<rparr>\<rparr>"
    unfolding r by auto
  with that sc r show thesis by blast
qed

text \<open>What these operations may do to the tables, one write after the other.\<close>

definition input_step :: "crm_env \<Rightarrow> crm_db \<Rightarrow> crm_db \<Rightarrow> bool" where
  "input_step env db db' \<longleftrightarrow> input_write db db' \<or>
     (\<exists>c u ref cy. current_or_initial c u ref (env_now env) db = (cy, db'))"

lemma input_stepI:
  "next_uuid db \<le> n \<Longrightarrow> input_step env db (db\<lparr>verifications := vs, reviews := rs, history := history db @ rows, next_uuid := n\<rparr>)"
  unfolding input_step_def input_write_def by blast

lemma input_step_cycle: "current_or_initial c u ref (env_now env) db = (cy, db') \<Longrightarrow> input_step env db db'"
  unfolding input_step_def by blast

lemma input_step_frame:
  assumes "input_step env db db'"
  shows "profiles db' = profiles db" "decisions db' = decisions db" "next_uuid db \<le> next_uuid db'"
    "set (cycles db) \<subseteq> set (cycles db')"
  using assms input_write_frame [of db db'] current_or_initial_frame(1,2,13) current_or_initial_cycle(2)
  unfolding input_step_def by (elim disjE exE; simp; fail)+

lemma input_steps_frame:
  assumes "(input_step env)\<^sup>*\<^sup>* db db'"
  shows "profiles db' = profiles db \<and> decisions db' = decisions db \<and> next_uuid db \<le> next_uuid db' \<and>
    set (cycles db) \<subseteq> set (cycles db')"
  using assms
proof (induction rule: rtranclp_induct)
  case (step y z)
  with input_step_frame [OF step.hyps(2)] show ?case by auto
qed simp

lemma store_result_writes:
  assumes st: "store_result env q oc s a src w = Inr (r, w')"
  shows "(input_step env)\<^sup>*\<^sup>* (crm w) (crm w')" and "\<exists>db. w' = w\<lparr>crm := db\<rparr>"
    and "verifications (crm w') = verifications (crm w) @ [r]" and "reviews (crm w') = reviews (crm w)"
    and "vr_id r = next_uuid (crm w)" and "next_uuid (crm w) < next_uuid (crm w')"
    and "\<exists>x. r = (result_from_outcome env (next_uuid (crm w)) q oc s)\<lparr>vr_cycle := x\<rparr>"
    and "case sb_subject_company s of
       None \<Rightarrow> vq_entity_type q \<noteq> EXPORTER \<longrightarrow> vr_cycle r = None
     | Some c \<Rightarrow> \<exists>cy. current_cycle (crm w') c = Some cy \<and> vr_cycle r = Some (cc_id cy)"
proof -
  define r0 where "r0 = result_from_outcome env (next_uuid (crm w)) q oc s"
  define db1 where "db1 = (crm w)\<lparr>next_uuid := Suc (next_uuid (crm w))\<rparr>"
  from st obtain w2 rows where "stamp_cycle env r0 a src (w\<lparr>crm := db1\<rparr>) = (r, w2)"
    and w': "w' = w2\<lparr>crm := (crm w2)\<lparr>verifications := verifications (crm w2) @ [r], history := history (crm w2) @ rows\<rparr>\<rparr>"
    unfolding r0_def db1_def by (rule store_result_shape)
  from stamp_cycle_effect [OF this(1)] obtain x db2 where r: "r = r0\<lparr>vr_cycle := x\<rparr>" and w2: "w2 = w\<lparr>crm := db2\<rparr>"
    and x: "db2 = db1 \<and> x = None \<and> subject_company r0 = None \<or>
      (\<exists>c u cy. subject_company r0 = Some c \<and> x = Some (cc_id cy) \<and>
        current_or_initial c u (Some src) (env_now env) db1 = (cy, db2))"
  proof (elim disjE exE conjE)
    assume "subject_company r0 = None" "r = r0" "w2 = w\<lparr>crm := db1\<rparr>"
    with that [of None db1] show thesis by (simp add: r0_def result_from_outcome_def)
  next
    fix c u cy db
    assume h: "subject_company r0 = Some c" "r = r0\<lparr>vr_cycle := Some (cc_id cy)\<rparr>" "w2 = (w\<lparr>crm := db1\<rparr>)\<lparr>crm := db\<rparr>"
      "current_or_initial c u (Some src) (env_now env) (crm (w\<lparr>crm := db1\<rparr>)) = (cy, db)"
    with that [OF h(2), of db] show thesis by auto
  qed
  have c: "crm w' = db2\<lparr>verifications := verifications db2 @ [r], history := history db2 @ rows\<rparr>" by (simp add: w' w2)
  have f: "verifications db2 = verifications (crm w)" "reviews db2 = reviews (crm w)"
    "next_uuid (crm w) < next_uuid db2"
    using x current_or_initial_frame(6,7,13) [where db = db1 and db' = db2]
    by (elim disjE exE conjE; fastforce simp: db1_def)+
  have "input_step env (crm w) db1"
    using input_stepI [where db = "crm w" and n = "Suc (next_uuid (crm w))" and env = env and
      vs = "verifications (crm w)" and rs = "reviews (crm w)" and rows = "[]"] by (simp add: db1_def)
  moreover have "db2 = db1 \<or> input_step env db1 db2" using x by (auto intro: input_step_cycle)
  moreover have "input_step env db2 (crm w')"
    using input_stepI [where db = db2 and n = "next_uuid db2" and env = env and
      vs = "verifications db2 @ [r]" and rs = "reviews db2" and rows = rows] by (simp add: c)
  ultimately show "(input_step env)\<^sup>*\<^sup>* (crm w) (crm w')" by (metis converse_rtranclp_into_rtranclp r_into_rtranclp)
  show "\<exists>db. w' = w\<lparr>crm := db\<rparr>" by (rule exI [of _ "crm w'"]) (simp only: c, simp add: w' w2)
  show "verifications (crm w') = verifications (crm w) @ [r]" "reviews (crm w') = reviews (crm w)"
    "next_uuid (crm w) < next_uuid (crm w')" by (simp_all only: c, simp_all add: f)
  show "vr_id r = next_uuid (crm w)" by (simp add: r r0_def result_from_outcome_def)
  show "\<exists>x. r = (result_from_outcome env (next_uuid (crm w)) q oc s)\<lparr>vr_cycle := x\<rparr>" using r unfolding r0_def by blast
  have sub: "subject_company r0 = (case sb_subject_company s of Some c \<Rightarrow> Some c
      | None \<Rightarrow> if vq_entity_type q = EXPORTER then Some (vq_entity_reference q) else None)"
    by (simp add: subject_company_def subject_company_of_def r0_def result_from_outcome_def)
  have rx: "vr_cycle r = x" by (simp add: r)
  show "case sb_subject_company s of
       None \<Rightarrow> vq_entity_type q \<noteq> EXPORTER \<longrightarrow> vr_cycle r = None
     | Some c \<Rightarrow> \<exists>cy. current_cycle (crm w') c = Some cy \<and> vr_cycle r = Some (cc_id cy)"
  proof (cases "subject_company r0")
    case None
    with x show ?thesis unfolding sub rx by (auto split: option.splits)
  next
    case (Some d)
    with x obtain u cy where cy: "x = Some (cc_id cy)" "current_or_initial d u (Some src) (env_now env) db1 = (cy, db2)"
      by auto
    have "current_cycle (crm w') d = current_cycle db2 d" by (simp add: c current_cycle_def cycles_of_def)
    with current_or_initial_cycle(1) [OF cy(2)] cy(1) Some show ?thesis
      unfolding sub rx by (auto split: option.splits if_splits)
  qed
qed

lemma checks_ok_add:
  assumes ok: "checks_ok db" and v: "verifications db' = verifications db @ [r]" and rv: "reviews db' = reviews db"
    and n: "vr_id r = next_uuid db" "next_uuid db < next_uuid db'"
    and p: "profiles db' = profiles db" and c: "set (cycles db) \<subseteq> set (cycles db')" and r: "verification_row_ok db' r"
  shows "checks_ok db'"
proof -
  have "checks_ok (db'\<lparr>verifications := verifications db\<rparr>)" using n c by (intro checks_ok_kept [OF ok]) (auto simp: rv p)
  moreover have "vr_id r \<notin> vr_id ` set (verifications db)" using ok n(1) by (fastforce simp: checks_ok_def)
  moreover have "verification_row_ok (db'\<lparr>verifications := vs\<rparr>) x = verification_row_ok db' x" for vs x
    by (simp add: verification_row_ok_def)
  ultimately show ?thesis using n r unfolding checks_ok_def by (auto simp: v)
qed

text \<open>A request the guards let through is stored as a row that is well formed.\<close>

definition subject_known :: "crm_db \<Rightarrow> verification_request \<Rightarrow> bool" where
  "subject_known db q \<longleftrightarrow> (vq_entity_type q = EXPORTER \<longrightarrow> profiles db (vq_entity_reference q) \<noteq> None)"

lemma check_request_fits:
  assumes "check_request ip q w = Inr s"
  shows "subject_fits q s \<and> subject_known (crm w) q"
  using assms
  by (auto simp: check_request_def validate_type_pair_def resolve_subject_def no_subject_def subject_fits_def
      subject_known_def err_simps split: if_splits option.splits prod.splits)

lemma store_result_ok:
  assumes st: "store_result env q oc s a src w = Inr (r, w')" and ok: "checks_ok (crm w)"
    and s: "subject_fits q s" "subject_known (crm w) q"
  shows "checks_ok (crm w')"
proof -
  note w = store_result_writes [OF st]
  note f = input_steps_frame [OF w(1)]
  from w(7) obtain x where r: "r = (result_from_outcome env (next_uuid (crm w)) q oc s)\<lparr>vr_cycle := x\<rparr>" ..
  have "vr_entity_type r = vq_entity_type q" "vr_type r = vq_type q" "vr_entity_reference r = vq_entity_reference q"
    "vr_subject_company r = sb_subject_company s" "vr_snapshot r = sb_snapshot s"
    by (simp_all add: r result_from_outcome_def)
  then have "verification_row_ok (crm w') r"
    using s w(8) f current_cycle_in unfolding verification_row_ok_def subject_fits_def subject_known_def by fastforce
  with f w(3-6) show ?thesis by (intro checks_ok_add [OF ok]) auto
qed

lemma check_requests_fit:
  "check_requests ip qs w = Inr ss \<Longrightarrow> list_all2 (\<lambda>q s. subject_fits q s \<and> subject_known (crm w) q) qs ss"
  by (induction qs arbitrary: ss) (auto simp: err_simps dest: check_request_fits)

text \<open>Results are added and none is touched: what both triggers do.\<close>

definition results_added :: "crm_env \<Rightarrow> verification_row list \<Rightarrow> crm_world \<Rightarrow> crm_world \<Rightarrow> bool" where
  "results_added env rs w w' \<longleftrightarrow> (input_step env)\<^sup>*\<^sup>* (crm w) (crm w') \<and> (\<exists>db. w' = w\<lparr>crm := db\<rparr>) \<and>
     verifications (crm w') = verifications (crm w) @ rs \<and> reviews (crm w') = reviews (crm w) \<and>
     (checks_ok (crm w) \<longrightarrow> checks_ok (crm w'))"

lemma store_results_added:
  assumes "store_results env xs a w = Inr (rs, w')"
    and "\<forall>(q, oc, s) \<in> set xs. subject_fits q s \<and> subject_known (crm w) q"
  shows "results_added env rs w w'"
  using assms
proof (induction env xs a w arbitrary: rs w' rule: store_results.induct)
  case (1 env a w)
  from 1 have "w' = w" "rs = []" by simp_all
  moreover have "\<exists>db. w = w\<lparr>crm := db\<rparr>" by (rule exI [of _ "crm w"]) simp
  ultimately show ?case by (simp add: results_added_def)
next
  case (2 env q oc s xs a w)
  from 2(2) obtain r w1 rs' where
    st: "store_result env q oc s a ''verification_service.trigger_verification_batch'' w = Inr (r, w1)"
    and tl: "store_results env xs a w1 = Inr (rs', w')" and rs: "rs = r # rs'"
    unfolding store_results.simps bindE_eq_Inr by (auto simp: err_simps split: prod.splits)
  note w = store_result_writes [OF st] and f = input_steps_frame [OF store_result_writes(1) [OF st]]
  have ok: "checks_ok (crm w) \<longrightarrow> checks_ok (crm w1)" using store_result_ok [OF st] 2(3) by simp
  have "results_added env rs' w1 w'"
    using 2(1) [OF st [symmetric, THEN sym] refl tl] 2(3) f by (fastforce simp: subject_known_def)
  with w ok show ?case unfolding results_added_def rs by (auto intro: rtranclp_trans)
qed

lemma trigger_added:
  assumes "trigger_verification env ip reg q prov a w = Inr (r, w')"
  shows "results_added env [r] w w'"
proof -
  from assms obtain s oc src where c: "check_request ip q w = Inr s" and st: "store_result env q oc s a src w = Inr (r, w')"
    unfolding trigger_verification_def bindE_eq_Inr by blast
  from check_request_fits [OF c] store_result_writes [OF st] store_result_ok [OF st]
  show ?thesis by (simp add: results_added_def)
qed

lemma batch_added:
  assumes "trigger_verification_batch env ip reg qs prov a w = Inr (rs, w')"
  shows "results_added env rs w w'"
proof -
  from assms obtain ss ocs where c: "check_requests ip qs w = Inr ss" and l: "length ocs = length qs"
    and st: "store_results env (zip qs (zip ocs ss)) a w = Inr (rs, w')"
    by (auto simp: trigger_verification_batch_def err_simps split: option.splits)
  have "\<forall>(q, oc, s) \<in> set (zip qs (zip ocs ss)). subject_fits q s \<and> subject_known (crm w) q"
    using check_requests_fit [OF c] by (auto simp: set_zip list_all2_conv_all_nth)
  from store_results_added [OF st this] show ?thesis .
qed

section \<open>Reviews\<close>

lemma record_review_effect:
  assumes rr: "record_review env i u st note prior w = Inr (v, w')" and ok: "checks_ok (crm w)"
  shows "\<exists>rows. w' = w\<lparr>crm := (crm w)\<lparr>next_uuid := Suc (next_uuid (crm w)), reviews := reviews (crm w) @ [v],
      history := history (crm w) @ rows\<rparr>\<rparr>"
    and "rv_id v = next_uuid (crm w)" and "rv_result v = i" and "rv_supersedes v = map_option rv_id (head_by_result (crm w) i)"
    and "rv_supersedes v \<noteq> None \<longrightarrow> rv_note v \<noteq> None"
    and "\<exists>r \<in> set (verifications (crm w)). vr_id r = i \<and> vr_status r \<noteq> V_PENDING"
proof -
  have ch: "reviews_chained (reviews (crm w))" using ok by (simp add: checks_ok_def)
  from rr obtain r where r: "find_result (crm w) i = Some r" "vr_status r \<noteq> V_PENDING"
    and sup: "prior = map_option rv_id (head_by_result (crm w) i)" "\<not> (head_by_result (crm w) i \<noteq> None \<and> clean_text note = None)"
    and v: "v = \<lparr>rv_id = next_uuid (crm w), rv_result = i, rv_status = st, rv_reviewed_by = u,
      rv_reviewed_at = env_db_now env, rv_note = clean_text note, rv_supersedes = prior\<rparr>"
    and h: "\<exists>s t f src det ev. record_check_history s t f (Some u) src det (clean_text note) ev
      (w\<lparr>crm := (crm w)\<lparr>next_uuid := Suc (next_uuid (crm w)), reviews := reviews (crm w) @ [v]\<rparr>\<rparr>) = Inr w'"
    unfolding record_review_def world_uuid_write Let_def prod.case chain_head_read [OF ch]
    by (auto simp: err_simps split: option.splits) blast+
  show "\<exists>rows. w' = w\<lparr>crm := (crm w)\<lparr>next_uuid := Suc (next_uuid (crm w)), reviews := reviews (crm w) @ [v],
      history := history (crm w) @ rows\<rparr>\<rparr>"
    using h by (auto dest!: record_check_history_write)
  show "rv_id v = next_uuid (crm w)" "rv_result v = i" "rv_supersedes v = map_option rv_id (head_by_result (crm w) i)"
    "rv_supersedes v \<noteq> None \<longrightarrow> rv_note v \<noteq> None"
    using sup by (auto simp: v)
  show "\<exists>r \<in> set (verifications (crm w)). vr_id r = i \<and> vr_status r \<noteq> V_PENDING"
    using find_result_Some [OF r(1)] r(2) by blast
qed

lemma record_review_ok:
  assumes rr: "record_review env i u st note prior w = Inr (v, w')" and ok: "checks_ok (crm w)"
  shows "checks_ok (crm w')"
proof -
  note e = record_review_effect [OF rr ok]
  from e(1) obtain rows where w': "w' = w\<lparr>crm := (crm w)\<lparr>next_uuid := Suc (next_uuid (crm w)),
      reviews := reviews (crm w) @ [v], history := history (crm w) @ rows\<rparr>\<rparr>" ..
  have ch: "reviews_chained (reviews (crm w))" using ok by (simp add: checks_ok_def)
  have "rv_id v \<notin> set (map rv_id (reviews (crm w)))" using ok e(2) by (fastforce simp: checks_ok_def)
  moreover have "rv_supersedes v = chain_end rv_id None (filter (\<lambda>x. rv_result x = rv_result v) (reviews (crm w)))"
    unfolding e(4) chain_head_read [OF ch] chain_for_line(1) [OF ch] e(3) by (simp add: chain_head_def chain_end_def)
  ultimately have "reviews_chained (reviews (crm w) @ [v])" by (rule chained_append [OF ch])
  moreover have "verification_row_ok (crm w') r = verification_row_ok (crm w) r" for r
    by (simp add: verification_row_ok_def w')
  ultimately show ?thesis using ok e(2,3,5,6) unfolding checks_ok_def by (auto simp: w')
qed

lemma record_review_prior: "record_review env i u st note prior w = Inr (v, w') \<Longrightarrow> rv_supersedes v = prior"
  by (auto simp: record_review_def world_uuid_write err_simps Let_def split: option.splits)

text \<open>A review that has been superseded by another of the chain cannot be superseded once more.\<close>

lemma stale_review:
  assumes ok: "checks_ok (crm w)" and v: "v \<in> set (reviews (crm w))" "rv_result v = i" "rv_supersedes v = prior"
  shows "\<exists>h. record_review env i u st note prior w = Inl (VerificationReviewStaleError i (Some h))"
proof -
  let ?c = "chain_for (crm w) i"
  have ch: "reviews_chained (reviews (crm w))" using ok by (simp add: checks_ok_def)
  have vc: "v \<in> set ?c" using v by (simp add: chain_for_line(1) [OF ch])
  then have ne: "?c \<noteq> []" by auto
  from reviewed_result [OF ok ne] obtain r where r: "find_result (crm w) i = Some r" "vr_status r \<noteq> V_PENDING" by blast
  have "prior \<noteq> Some (rv_id (last ?c))"
    using linked_last_free [OF chain_for_line(2,3) [OF ch] ne _ vc] v(3) by simp
  with r ne show ?thesis by (simp add: record_review_def chain_head_def err_simps require_def)
qed

section \<open>Polling\<close>

lemma save_result_other:
  "vr_id x \<noteq> vr_id r \<Longrightarrow> x \<in> set (verifications db) \<Longrightarrow> x \<in> set (verifications (save_result r db))"
  by (force simp: save_result_def)

text \<open>A poll changes nothing, or the row of a result nobody has reviewed, and only what the provider says of it.\<close>

lemma poll_apply_effect:
  assumes pa: "poll_apply i oc w = Inr (r', w')" and ok: "checks_ok (crm w)"
  obtains "w' = w"
  | r rows where "find_result (crm w) i = Some r" and "\<forall>v \<in> set (reviews (crm w)). rv_result v \<noteq> i"
    and "r' = r\<lparr>vr_status := vo_status oc, vr_risk_level := vo_risk_level oc, vr_normalized := vo_normalized oc,
      vr_valid_until := vo_valid_until oc\<rparr>"
    and "w' = w\<lparr>crm := (save_result r' (crm w))\<lparr>history := history (crm w) @ rows\<rparr>\<rparr>"
proof -
  have ch: "reviews_chained (reviews (crm w))" using ok by (simp add: checks_ok_def)
  from pa obtain r where r: "find_result (crm w) i = Some r" by (auto simp: poll_apply_def split: option.splits)
  define q where "q = r\<lparr>vr_status := vo_status oc, vr_risk_level := vo_risk_level oc, vr_normalized := vo_normalized oc,
      vr_valid_until := vo_valid_until oc\<rparr>"
  have hist: "history (save_result q (crm w)) = history (crm w)" by (simp add: save_result_def)
  show thesis
  proof (cases "w' = w")
    case False
    with pa have un: "chain_for (crm w) i = []"
      and x: "(if vr_status r \<noteq> vo_status oc
            then record_check_history (history_target q (w\<lparr>crm := save_result q (crm w)\<rparr>)) (verification_status_value (vo_status oc))
              (Some (verification_status_value (vr_status r))) None ''verification_service.get_verification_status''
              (result_details q) None None (w\<lparr>crm := save_result q (crm w)\<rparr>)
            else Inr (w\<lparr>crm := save_result q (crm w)\<rparr>)) = Inr w'" and r': "r' = q"
      unfolding poll_apply_def r option.case Let_def q_def [symmetric] by (auto simp: bindE_eq_Inr split: if_splits)
    have "\<exists>rows. w' = w\<lparr>crm := (save_result q (crm w))\<lparr>history := history (crm w) @ rows\<rparr>\<rparr>"
    proof (cases "vr_status r = vo_status oc")
      case True
      with x show ?thesis by (intro exI [of _ "[]"]) (simp add: hist [symmetric])
    next
      case False
      with x have "record_check_history (history_target q (w\<lparr>crm := save_result q (crm w)\<rparr>)) (verification_status_value (vo_status oc))
              (Some (verification_status_value (vr_status r))) None ''verification_service.get_verification_status''
              (result_details q) None None (w\<lparr>crm := save_result q (crm w)\<rparr>) = Inr w'" by simp
      from record_check_history_write [OF this] show ?thesis by (simp add: hist)
    qed
    moreover have "\<forall>v \<in> set (reviews (crm w)). rv_result v \<noteq> i"
      using un unfolding chain_for_line(1) [OF ch] by (simp add: filter_empty_conv)
    ultimately show thesis using that(2) [OF r _ _] r' unfolding q_def by blast
  qed (rule that(1))
qed

lemma poll_apply_ok:
  assumes pa: "poll_apply i oc w = Inr (r', w')" and ok: "checks_ok (crm w)"
  shows "checks_ok (crm w')"
  using pa ok
proof (cases rule: poll_apply_effect)
  case 1
  with ok show ?thesis by simp
next
  case (2 r rows)
  note fr = find_result_Some [OF 2(1)]
  have ids: "vr_id r' = i" "map vr_id (verifications (crm w')) = map vr_id (verifications (crm w))"
    using fr by (simp_all add: 2(3,4) save_result_def comp_def)
  have set: "set (verifications (crm w')) \<subseteq> insert r' (set (verifications (crm w)))"
    by (auto simp: 2(4) save_result_def)
  have rest: "reviews (crm w') = reviews (crm w)" "next_uuid (crm w') = next_uuid (crm w)" by (simp_all add: 2(4) save_result_def)
  have row: "verification_row_ok (crm w') x = verification_row_ok (crm w) x" for x
    by (simp add: verification_row_ok_def 2(4) save_result_def)
  have rok: "vr_id r < next_uuid (crm w)" "verification_row_ok (crm w) r" using ok fr by (auto simp: checks_ok_def)
  then have r'ok: "vr_id r' < next_uuid (crm w)" "verification_row_ok (crm w) r'"
    by (simp_all add: 2(3) verification_row_ok_def)
  have "\<exists>x \<in> set (verifications (crm w')). vr_id x = rv_result v \<and> vr_status x \<noteq> V_PENDING"
    if v: "v \<in> set (reviews (crm w))" for v
  proof -
    from ok v obtain x where x: "x \<in> set (verifications (crm w))" "vr_id x = rv_result v" "vr_status x \<noteq> V_PENDING"
      unfolding checks_ok_def by blast
    with 2(2) v have "vr_id x \<noteq> vr_id r'" by (auto simp: ids(1))
    from save_result_other [OF this x(1)] have "x \<in> set (verifications (crm w'))" by (simp add: 2(4))
    with x show ?thesis by blast
  qed
  with ok set r'ok show ?thesis unfolding checks_ok_def rest ids(2) row by blast
qed

section \<open>What any of these leaves standing\<close>

text \<open>
  Reviews are only appended; no result goes away; what a result is about and what it rests on never
  change, and once it is reviewed nothing of it does.
\<close>

definition same_check :: "verification_row \<Rightarrow> verification_row \<Rightarrow> bool" where
  "same_check r r' \<longleftrightarrow> r' = r\<lparr>vr_status := vr_status r', vr_risk_level := vr_risk_level r',
     vr_normalized := vr_normalized r', vr_valid_until := vr_valid_until r'\<rparr>"

definition checks_grow :: "crm_db \<Rightarrow> crm_db \<Rightarrow> bool" where
  "checks_grow db db' \<longleftrightarrow> (\<exists>vs. reviews db' = reviews db @ vs) \<and>
     (\<forall>r \<in> set (verifications db). \<exists>r' \<in> set (verifications db'). same_check r r' \<and>
        ((\<exists>v \<in> set (reviews db). rv_result v = vr_id r) \<longrightarrow> r' = r))"

lemma same_check_refl [simp]: "same_check r r"
  by (simp add: same_check_def)

lemma checks_grow_kept:
  "\<exists>rs. verifications db' = verifications db @ rs \<Longrightarrow> \<exists>vs. reviews db' = reviews db @ vs \<Longrightarrow> checks_grow db db'"
  unfolding checks_grow_def by (auto intro: bexI [rotated])

lemma poll_apply_grow:
  assumes pa: "poll_apply i oc w = Inr (r', w')" and ok: "checks_ok (crm w)"
  shows "checks_grow (crm w) (crm w')"
  using pa ok
proof (cases rule: poll_apply_effect)
  case 1
  then show ?thesis by (intro checks_grow_kept) auto
next
  case (2 r rows)
  note fr = find_result_Some [OF 2(1)]
  have i: "vr_id r' = i" using fr by (simp add: 2(3))
  have "\<exists>x' \<in> set (verifications (crm w')). same_check x x' \<and>
        ((\<exists>v \<in> set (reviews (crm w)). rv_result v = vr_id x) \<longrightarrow> x' = x)"
    if x: "x \<in> set (verifications (crm w))" for x
  proof (cases "vr_id x = i")
    case True
    with checks_ok_result [OF ok x] 2(1) have "x = r" by simp
    moreover have "r' \<in> set (verifications (crm w'))" using fr i by (auto simp: 2(4) save_result_def)
    moreover have "same_check r r'" by (simp add: same_check_def 2(3))
    ultimately show ?thesis using 2(2) True by auto
  next
    case False
    then have "x \<in> set (verifications (crm w'))" using save_result_other [OF _ x, of r'] by (simp add: i 2(4))
    then show ?thesis by (auto intro: bexI [rotated])
  qed
  then show ?thesis by (simp add: checks_grow_def 2(4) save_result_def)
qed

text \<open>The invariant and this, for the writes that leave the checks alone.\<close>

definition checks_move :: "crm_db \<Rightarrow> crm_db \<Rightarrow> bool" where
  "checks_move db db' \<longleftrightarrow> checks_ok db' \<and> checks_grow db db'"

lemma checks_move_kept:
  assumes "checks_ok db" and "verifications db' = verifications db" and "reviews db' = reviews db"
    and "next_uuid db \<le> next_uuid db'" and "\<forall>c. profiles db c \<noteq> None \<longrightarrow> profiles db' c \<noteq> None"
    and "set (cycles db) \<subseteq> set (cycles db')"
  shows "checks_move db db'"
  using checks_ok_kept [OF assms] checks_grow_kept [of db' db] assms(2,3) by (simp add: checks_move_def)

lemma checks_move_history: "history_write db db' \<Longrightarrow> checks_ok db \<Longrightarrow> checks_move db db'"
  using history_write_frame [of db db'] by (intro checks_move_kept) auto

lemma checks_move_company: "company_write c p db db' \<Longrightarrow> checks_ok db \<Longrightarrow> checks_move db db'"
  using company_write_frame [of c p db db'] by (intro checks_move_kept) auto

definition check_write :: "crm_env \<Rightarrow> crm_world \<Rightarrow> crm_world \<Rightarrow> bool" where
  "check_write env w w' \<longleftrightarrow> (input_step env)\<^sup>*\<^sup>* (crm w) (crm w') \<and> (\<exists>db. w' = w\<lparr>crm := db\<rparr>) \<and>
     checks_move (crm w) (crm w')"

lemma added_write: "results_added env rs w w' \<Longrightarrow> checks_ok (crm w) \<Longrightarrow> check_write env w w'"
  by (auto simp: results_added_def check_write_def checks_move_def intro: checks_grow_kept)

lemma reviewed_write:
  assumes rr: "record_review env i u st note prior w = Inr (v, w')" and ok: "checks_ok (crm w)"
  shows "check_write env w w'"
proof -
  from record_review_effect(1) [OF rr ok] obtain rows where w': "w' = w\<lparr>crm := (crm w)\<lparr>next_uuid := Suc (next_uuid (crm w)),
      reviews := reviews (crm w) @ [v], history := history (crm w) @ rows\<rparr>\<rparr>" ..
  have c: "crm w' = (crm w)\<lparr>reviews := reviews (crm w) @ [v], history := history (crm w) @ rows,
      next_uuid := Suc (next_uuid (crm w))\<rparr>" by (rule crm_db.equality) (simp_all add: w')
  have "input_step env (crm w) (crm w')"
    using input_stepI [where db = "crm w" and n = "Suc (next_uuid (crm w))" and env = env and
      vs = "verifications (crm w)" and rs = "reviews (crm w) @ [v]" and rows = rows] by (simp add: c)
  moreover have "\<exists>db. w' = w\<lparr>crm := db\<rparr>" unfolding w' by blast
  moreover have "checks_grow (crm w) (crm w')" by (rule checks_grow_kept) (simp_all add: w')
  ultimately show ?thesis using record_review_ok [OF rr ok] by (simp add: check_write_def checks_move_def)
qed

lemma polled_write:
  assumes pa: "poll_apply i oc w = Inr (r', w')" and ok: "checks_ok (crm w)"
  shows "check_write env w w'"
proof -
  have "(input_step env)\<^sup>*\<^sup>* (crm w) (crm w') \<and> (\<exists>db. w' = w\<lparr>crm := db\<rparr>)"
    using pa ok
  proof (cases rule: poll_apply_effect)
    case 1
    moreover have "\<exists>db. w = w\<lparr>crm := db\<rparr>" by (rule exI [of _ "crm w"]) simp
    ultimately show ?thesis by simp
  next
    case (2 r rows)
    have "input_step env (crm w) (crm w')"
      using input_stepI [where db = "crm w" and n = "next_uuid (crm w)" and env = env and
        vs = "verifications (save_result r' (crm w))" and rs = "reviews (crm w)" and rows = rows]
      by (simp add: 2(4) save_result_def)
    moreover have "\<exists>db. w' = w\<lparr>crm := db\<rparr>" unfolding 2(4) by blast
    ultimately show ?thesis by simp
  qed
  with poll_apply_ok [OF pa ok] poll_apply_grow [OF pa ok] show ?thesis by (simp add: check_write_def checks_move_def)
qed

end
