(* ===== verification/World_System.thy ===== *)
theory World_System
  imports Deal_Rows Qualification_Log Sanctions_Log Verification_Log
begin

text \<open>
  The CRM as one system: a step relation with a rule per operation of the services around a company
  (background check, verification, conversation, deals, qualification, sanctions, required documents) and one for
  the settings they read, the states reachable from empty tables, and what holds in all of them.
\<close>

section \<open>Who writes the company's gauges\<close>

text \<open>
  \<open>crm_step\<close> lets the rest of the CRM write any column the background check does not own. Here the
  conversation, the qualification and the journey have owners of their own, so a step of that
  relation is one of the record only if it leaves them alone, and a promotion to \<open>CUSTOMER\<close> comes
  with a decision that clears.
\<close>

definition conversation_kept :: "crm_db \<Rightarrow> crm_db \<Rightarrow> bool" where
  "conversation_kept db db' \<longleftrightarrow> (\<forall>c. case profiles db c of
     None \<Rightarrow> (\<forall>p'. profiles db' c = Some p' \<longrightarrow> conversation_of p' = NOT_CONTACTED \<and> check_back_on p' = None)
   | Some p \<Rightarrow> (\<exists>p'. profiles db' c = Some p' \<and> conversation_of p' = conversation_of p \<and>
       check_back_on p' = check_back_on p))"

definition governed :: "crm_db \<Rightarrow> crm_db \<Rightarrow> bool" where
  "governed db db' \<longleftrightarrow> qualification_kept db db' \<and> conversation_kept db db'"

text \<open>The results and reviews have the verification service as their writer.\<close>

definition checks_kept :: "crm_db \<Rightarrow> crm_db \<Rightarrow> bool" where
  "checks_kept db db' \<longleftrightarrow> verifications db' = verifications db \<and> reviews db' = reviews db"

lemma conversation_kept_same: "profiles db' = profiles db \<Longrightarrow> conversation_kept db db'"
  by (auto simp: conversation_kept_def split: option.splits)

lemma governed_same:
  assumes "profiles db' = profiles db" and "next_uuid db \<le> next_uuid db'"
    and "\<exists>ds. decisions db' = decisions db @ ds"
  shows "governed db db'"
  using assms by (auto simp: governed_def qualification_kept_def conversation_kept_def split: option.splits)

lemma governed_row:
  assumes "profiles db' = (profiles db)(c \<mapsto> p')" and "profiles db c = Some p"
    and "next_uuid db \<le> next_uuid db'" and "\<exists>ds. decisions db' = decisions db @ ds"
    and "qualification_of p' = qualification_of p" "conversation_of p' = conversation_of p"
      "check_back_on p' = check_back_on p"
    and "journey_of p' = journey_of p \<or> journey_of p = PROSPECT \<and> journey_of p' = CUSTOMER \<and>
      (\<exists>d \<in> set (decisions db'). dn_company d = c \<and> dn_to d = CLEAR)"
  shows "governed db db'"
  using assms by (auto simp: governed_def qualification_kept_def conversation_kept_def split: option.splits)

lemma conversation_kept_trans:
  assumes a: "conversation_kept x y" and b: "conversation_kept y z"
  shows "conversation_kept x z"
  unfolding conversation_kept_def
proof
  fix c
  note ac = a [unfolded conversation_kept_def, rule_format, of c]
  note bc = b [unfolded conversation_kept_def, rule_format, of c]
  show "case profiles x c of
     None \<Rightarrow> (\<forall>p'. profiles z c = Some p' \<longrightarrow> conversation_of p' = NOT_CONTACTED \<and> check_back_on p' = None)
   | Some p \<Rightarrow> (\<exists>p'. profiles z c = Some p' \<and> conversation_of p' = conversation_of p \<and>
       check_back_on p' = check_back_on p)"
    using ac bc by (cases "profiles x c"; cases "profiles y c") auto
qed

lemma governed_trans: "governed x y \<Longrightarrow> governed y z \<Longrightarrow> governed x z"
  by (auto simp: governed_def intro: qualification_kept_trans conversation_kept_trans)

text \<open>Every operation of the background check does leave them alone.\<close>

lemma gauge_row_gauges:
  "qualification_of (gauge_row env p r b e) = qualification_of p"
  "conversation_of (gauge_row env p r b e) = conversation_of p"
  "check_back_on (gauge_row env p r b e) = check_back_on p"
  "journey_of (gauge_row env p r b e) = journey_of p"
  by (simp_all add: gauge_row_def reviewer_set_def Let_def)

lemma move_governed:
  assumes p: "profiles db (customer_id p) = Some p" and am: "apply_move env p r db = Inr (res, p', db')"
  shows "governed db db'"
proof -
  obtain tx q claim expires where q: "\<exists>rm. q = p\<lparr>rm_user_id := rm\<rparr>"
    and row: "p' = gauge_row env q r (claim \<or> move_reclaims p r) expires \<or>
         mr_to r = CLEAR \<and> journey_of p = PROSPECT \<and>
         p' = (gauge_row env q r (claim \<or> move_reclaims p r) expires)\<lparr>journey_of := CUSTOMER\<rparr>"
    and ds: "decisions db' = decisions db @ [mv_decision res]"
    and pr: "profiles db' = (profiles db)(customer_id p \<mapsto> p')" and fr: "move_frame db db'"
    by (rule apply_move_effect [OF am p], rule that, assumption+)
  have "dn_company (mv_decision res) = customer_id p" "dn_to (mv_decision res) = mr_to r"
    using apply_move_step(5,7) [OF p am] by simp_all
  then show ?thesis
    using row q ds fr by (intro governed_row [OF pr p]) (auto simp: move_frame_def gauge_row_gauges)
qed

lemma write_governed:
  assumes "profile_write c p' db db'" and "profiles db c = Some p"
    and "\<exists>u. p' = p \<or> p' = reviewer_set env p u"
  shows "governed db db'"
  using assms(3) profile_write_frame [OF assms(1)]
  by (intro governed_row [OF profile_write_frame(1) [OF assms(1)] assms(2)]) (auto simp: reviewer_set_def)

lemma service_step_governed:
  assumes ok: "system_ok db" and st: "crm_step env db db'"
  shows "governed db db' \<or>
     (\<exists>c p p'. profiles db c = Some p \<and> other_columns p p' \<and> profile_write c p' db db') \<or>
     (\<exists>c p. profiles db c = None \<and> new_company c p \<and> db' = save_profile p db)"
proof -
  note k = system_okD(5) [OF ok]
  have moved: "governed db1 db2"
    if "profiles db1 c = Some p" "keyed db1" "apply_move env p r db1 = Inr (res, p', db2)" for c p r db1 res p' db2
    using that move_governed [OF _ that(3)] keyedD by metis
  have resolved: "governed db1 db2" if "resolve env q oc a reason did src db1 = Inr (rs, db2)"
    for q oc a reason did src db1 rs db2
    using that resolve_step [OF that] by (intro governed_same) (auto elim!: resolve_effect)
  from st show ?thesis
  proof (cases rule: crm_step_cases)
    case (move c r x)
    then obtain p res p' where "profiles db c = Some p" "apply_move env p r db = Inr (res, p', db')"
      by (auto simp: move_def bindE_eq_Inr lock_profile_eq_Inr)
    with moved k show ?thesis by blast
  next
    case (cycle c kind reason a role y)
    let ?src = "''background_check_service.start_cycle''"
    obtain p prev db1 cy db2 where p: "profiles db c = Some p"
      and ci: "current_or_initial c a (Some ?src) (env_now env) db = (prev, db1)"
      and n: "next_uuid db1 \<le> cc_id cy" "cc_id cy < next_uuid db2"
      and d2: "\<exists>rows n. db2 = db1\<lparr>cycles := cycles db1 @ [cy], history := history db1 @ rows, next_uuid := n\<rparr>"
      and fin: "background_check p \<noteq> CLEAR \<and> db' = db2 \<and> sc_reopen y = None \<or>
        background_check p = CLEAR \<and> (\<exists>i res p'. next_uuid db1 \<le> i \<and> i < next_uuid db2 \<and>
          apply_move env p (reopen_request cy i a role kind (the (strip_if_given reason))) db2
            = Inr (res, p', db') \<and> sc_reopen y = Some (to_view (mv_decision res) (mv_evidence res)))"
      by (rule start_cycle_effect [OF cycle], rule that, assumption+)
    note f = current_or_initial_frame [OF ci]
    have same: "decisions db2 = decisions db" "profiles db2 = profiles db" using d2 f by auto
    have g2: "governed db db2" by (rule governed_same) (use same f n in auto)
    have "keyed db2" using k same by (simp add: keyed_def)
    with fin p same moved governed_trans [OF g2] g2 show ?thesis by metis
  next
    case (propose c t reason risk a role seen v)
    obtain p q and pr :: bc_proposal where p: "profiles db c = Some p"
      and q: "q = p \<and> ((background_check p, t) \<in> set REVIEWER_MOVES \<longrightarrow> reviewer_id p = Some a) \<or>
      (background_check p, t) \<in> set REVIEWER_MOVES \<and> reviewer_id p = None \<and> rm_user_id p \<noteq> Some a \<and>
      q = reviewer_set env p (Some a)"
      and n: "next_uuid db \<le> pr_id pr" "pr_id pr < next_uuid db'"
      and tb: "decisions db' = decisions db" "profiles db' = (profiles db)(c \<mapsto> q)"
      by (rule propose_effect [OF propose k], rule that, assumption+)
    then have "governed db db'" by (intro governed_row [OF tb(2) p]) (auto simp: reviewer_set_def)
    then show ?thesis ..
  next
    case (approve c pid a role perms w)
    then obtain p q res p' db1 rs where "profiles db c = Some p"
      and am: "apply_move env p ((plain_move (pr_to q) [pr_from q] (pr_created_by q) role (pr_reason q)
         (pr_risk q) None)\<lparr>mr_approval := Some (q, a)\<rparr>) db = Inr (res, p', db1)"
      and rs: "resolve env q APPROVED a None (Some (dn_id (mv_decision res)))
         ''background_check_service.approve'' db1 = Inr (rs, db')"
      by (elim approve_effect)
    with moved [OF _ k am] governed_trans [OF _ resolved [OF rs]] show ?thesis by blast
  next
    case (reject c pid reason a role v)
    then show ?thesis by (elim reject_effect) (use resolved in blast)
  next
    case (withdraw c pid reason a role perms v)
    then show ?thesis by (elim withdraw_effect) (use resolved in blast)
  next
    case (claim c a role p')
    then have "governed db db'" by (elim claim_review_effect [OF _ k]) (auto intro: write_governed)
    then show ?thesis ..
  next
    case (assign c u reason a role perms p')
    then have "governed db db'" by (elim assign_review_effect [OF _ k]) (auto intro: write_governed)
    then show ?thesis ..
  next
    case (release c msg a role perms p')
    then have "governed db db'" by (elim release_review_effect [OF _ k]) (auto intro: write_governed)
    then show ?thesis ..
  next
    case (columns c p p')
    then show ?thesis by blast
  next
    case (company c p)
    then show ?thesis by blast
  next
    case (inputs n)
    then have "governed db db'" by (intro governed_same) auto
    then show ?thesis ..
  next
    case first_input
    then have "governed db db'" using current_or_initial_frame [OF first_input] by (intro governed_same) auto
    then show ?thesis ..
  qed
qed

section \<open>Steps and reachable states\<close>

definition registrations_kept :: "gstin_row list \<Rightarrow> gstin_row list \<Rightarrow> bool" where
  "registrations_kept gs gs' \<longleftrightarrow>
     (\<forall>r \<in> set gs. \<exists>r' \<in> set gs'. gs_id r' = gs_id r \<and> gs_company r' = gs_company r)"

inductive world_step :: "crm_env \<Rightarrow> true_match_approval \<Rightarrow> crm_world \<Rightarrow> crm_world \<Rightarrow> bool" for env mode where
  recorded: "crm_step env (crm w) db \<Longrightarrow> governed (crm w) db \<Longrightarrow> checks_kept (crm w) db \<Longrightarrow>
    world_step env mode w (w\<lparr>crm := db\<rparr>)"
| checked: "trigger_verification env ip reg q prov a w = Inr (r, w') \<Longrightarrow> world_step env mode w w'"
| batched: "trigger_verification_batch env ip reg qs prov a w = Inr (rs, w') \<Longrightarrow> world_step env mode w w'"
| polled: "poll_apply i oc w = Inr (r, w') \<Longrightarrow> world_step env mode w w'"
| reviewed: "record_review env i u st note prior w = Inr (v, w') \<Longrightarrow> world_step env mode w w'"
| conversed: "set_conversation env c v reason d a (crm w) = Inr (p, db) \<Longrightarrow>
    world_step env mode w (w\<lparr>crm := db\<rparr>)"
| opened: "open_deal env c reference a terms w = Inr (dv, w') \<Longrightarrow> world_step env mode w w'"
| staged: "transition_stage env later i to_stage reason a w = Inr (dv, w') \<Longrightarrow> world_step env mode w w'"
| bought: "set_buyer_company env i b a w = Inr (dv, w') \<Longrightarrow> world_step env mode w w'"
| branched: "set_invoicing_branch env i g a w = Inr (dv, w') \<Longrightarrow> world_step env mode w w'"
| termed: "set_terms env i ts a w = Inr (dv, w') \<Longrightarrow> world_step env mode w w'"
| assessed: "record_outcome env c oc codes note a src kd role perms rm w = Inr (x, w') \<Longrightarrow> world_step env mode w w'"
| partnered: "record_partner_decision env c q src a ref w = Inr (x, w') \<Longrightarrow> world_step env mode w w'"
| resulted: "record_results env c es a src kd w = Inr (rows, w') \<Longrightarrow> world_step env mode w w'"
| criterion: "create_criterion key d a w = Inr (cr, w') \<or> add_version key d a w = Inr (cr, w') \<Longrightarrow>
    world_step env mode w w'"
| screened: "record_run env mode c typ given ref codes hits terms prov pref note actor w = Inr (rv, w') \<Longrightarrow>
    world_step env mode w w'"
| hit_decided: "decide_hit env mode h dis reason actor w = Inr (rv, w') \<Longrightarrow> world_step env mode w w'"
| match_confirmed: "confirm_true_match env mode h actor w = Inr (rv, w') \<Longrightarrow> world_step env mode w w'"
| match_rejected: "reject_true_match env mode h reason actor w = Inr (rv, w') \<Longrightarrow> world_step env mode w w'"
| required: "set_requirement types cat typ act a w = Inr (row, w') \<Longrightarrow> world_step env mode w w'"
| settings: "registrations_kept (registrations w) gs \<Longrightarrow> world_step env mode w
    (w\<lparr>registrations := gs, contacts := cts, payment_terms := pts, sanctions_lists := sls\<rparr>)"

definition empty_world :: "(uuid \<Rightarrow> staff_member option) \<Rightarrow> crm_world" where
  "empty_world st = \<lparr>crm = empty_db st, deals = [], registrations = [], contacts = [], payment_terms = [],
     requirements = [], relationships = [], sanctions_lists = [], sanctions_runs = [], sanctions_hits = [],
     dispositions = [], audit_log = [], criteria = [], qualification_results = [], qualification_outcomes = []\<rparr>"

inductive world_reachable :: "(crm_env \<Rightarrow> true_match_approval \<Rightarrow> bool) \<Rightarrow> crm_world \<Rightarrow> bool" for policy where
  world_initial: "world_reachable policy (empty_world st)"
| world_next: "world_reachable policy w \<Longrightarrow> policy env mode \<Longrightarrow> world_step env mode w w' \<Longrightarrow> world_reachable policy w'"

text \<open>The company tables of such a state are tables the background check's relation reaches.\<close>

lemma input_write_step: "input_write db db' \<Longrightarrow> crm_step env db db'"
proof -
  assume "input_write db db'"
  then obtain vs rs rows n where n: "next_uuid db \<le> n"
    and db': "db' = db\<lparr>verifications := vs, reviews := rs, history := history db @ rows, next_uuid := n\<rparr>"
    by (auto simp: input_write_def)
  have "db' = db\<lparr>verifications := vs, reviews := rs, screenings := screenings db,
      documents := documents db, buyers := buyers db, staff := staff db, history := history db @ rows,
      next_uuid := n\<rparr>" unfolding db' by (rule crm_db.equality) simp_all
  with crm_step.inputs [OF n] show ?thesis by metis
qed

lemma history_write_step: "history_write db db' \<Longrightarrow> crm_step env db db'"
  by (rule input_write_step [OF input_write_history])

lemma company_write_steps:
  assumes "company_write c p' db db'" and "profiles db c = Some p" and "other_columns p p'"
  shows "(crm_step env)\<^sup>*\<^sup>* db db'"
proof -
  from assms(1) obtain rows n where n: "next_uuid db \<le> n"
    and db': "db' = db\<lparr>profiles := (profiles db)(c \<mapsto> p'), history := history db @ rows, next_uuid := n\<rparr>"
    by (auto simp: company_write_def)
  let ?m = "db\<lparr>next_uuid := n\<rparr>"
  have "history_write db ?m"
    unfolding history_write_def using n by (intro exI [of _ "[]"] exI [of _ n]) (simp add: crm_db.equality)
  then have 1: "crm_step env db ?m" by (rule history_write_step)
  have "profile_write c p' ?m db'"
    unfolding profile_write_def db' by (rule exI [of _ rows]) (rule crm_db.equality, simp_all)
  then have "crm_step env ?m db'" by (intro crm_step.columns [OF _ assms(3)]) (simp_all add: assms(2))
  with 1 show ?thesis by simp
qed

section \<open>What every reachable state satisfies\<close>

definition conversations_ok :: "crm_db \<Rightarrow> bool" where
  "conversations_ok db \<longleftrightarrow> (\<forall>c p. profiles db c = Some p \<longrightarrow> conversation_checks p)"

definition world_ok :: "crm_world \<Rightarrow> bool" where
  "world_ok w \<longleftrightarrow> deals_ok w \<and> qualification_ok w \<and> criteria_ok (criteria w) \<and> requirements_ok w \<and>
     conversations_ok (crm w) \<and> checks_ok (crm w)"

text \<open>
  What a step owes: the company tables move as above, the invariants hold, and deals that are over and
  checks that are reviewed stay.
\<close>

definition step_ok :: "crm_env \<Rightarrow> crm_world \<Rightarrow> crm_world \<Rightarrow> bool" where
  "step_ok env w w' \<longleftrightarrow> (crm_step env)\<^sup>*\<^sup>* (crm w) (crm w') \<and> world_ok w' \<and>
     (\<forall>d \<in> set (deals w). is_terminal (dl_stage d) \<longrightarrow> d \<in> set (deals w')) \<and> checks_grow (crm w) (crm w')"

lemma conversations_kept:
  assumes "conversations_ok db" and k: "conversation_kept db db'"
  shows "conversations_ok db'"
  unfolding conversations_ok_def
proof (intro allI impI)
  fix c p' assume p': "profiles db' c = Some p'"
  note kc = k [unfolded conversation_kept_def, rule_format, of c]
  show "conversation_checks p'"
  proof (cases "profiles db c")
    case None
    with kc p' show ?thesis by (simp add: conversation_checks_def)
  next
    case (Some p)
    with assms(1) have "conversation_checks p" by (simp add: conversations_ok_def)
    with kc Some p' show ?thesis by (auto simp: conversation_checks_def)
  qed
qed

lemma conversations_row:
  assumes "conversations_ok db" and "profiles db' = (profiles db)(c \<mapsto> p')" and "conversation_checks p'"
  shows "conversations_ok db'"
  using assms by (simp add: conversations_ok_def)

lemma governed_referents:
  assumes "governed (crm w) (crm w')" and "registrations_kept (registrations w) (registrations w')"
    and "set (relationships w) \<subseteq> set (relationships w')"
  shows "referents_kept w w'"
proof -
  note kc = assms(1) [unfolded governed_def qualification_kept_def, THEN conjunct1, THEN conjunct2,
      THEN conjunct2, rule_format]
  have "\<exists>p'. profiles (crm w') c = Some p' \<and> (journey_of p \<noteq> LEAD \<longrightarrow> journey_of p' \<noteq> LEAD)"
    if "profiles (crm w) c = Some p" for c p
    using kc [of c] that by auto
  then show ?thesis
    using assms by (auto simp: referents_kept_def governed_def qualification_kept_def registrations_kept_def)
qed

lemma registrations_kept_refl [simp]: "registrations_kept gs gs"
  by (auto simp: registrations_kept_def)

text \<open>A step that leaves the deals alone, and one that updates a deal.\<close>

lemma quiet_step:
  assumes ok: "world_ok w" and s: "(crm_step env)\<^sup>*\<^sup>* (crm w) (crm w')" and g: "governed (crm w) (crm w')"
    and "deals w' = deals w" and "relationships w' = relationships w"
    and "registrations_kept (registrations w) (registrations w')"
    and "qualification_outcomes w' = qualification_outcomes w"
    and "criteria_ok (criteria w')" and "requirements_ok w'" and "checks_move (crm w) (crm w')"
  shows "step_ok env w w'"
proof -
  have "referents_kept w w'" by (rule governed_referents [OF g]) (use assms in simp_all)
  then have "deals_ok w'" using ok assms(4) deals_ok_kept by (auto simp: world_ok_def)
  moreover have "qualification_ok w'"
    using ok g assms(7) qualification_ok_kept by (auto simp: world_ok_def governed_def)
  moreover have "conversations_ok (crm w')"
    using ok g conversations_kept by (auto simp: world_ok_def governed_def)
  ultimately show ?thesis using assms(4,8-10) s by (simp add: step_ok_def world_ok_def checks_move_def)
qed

lemma history_governed: "history_write db db' \<Longrightarrow> governed db db'"
  by (rule governed_same) (simp_all add: history_write_frame)

lemma deal_step:
  assumes ok: "world_ok w" and u: "deal_update w d d' w'" and d: "deals_ok w'"
  shows "step_ok env w w'"
proof -
  from u obtain db rs where hw: "history_write (crm w) db"
    and w': "w' = (save_deal d' w)\<lparr>crm := db, relationships := relationships w @ rs\<rparr>"
    by (auto simp: deal_update_def)
  have c: "crm w' = db" by (simp add: w')
  have "(crm_step env)\<^sup>*\<^sup>* (crm w) (crm w')" using history_write_step [OF hw] by (simp add: c r_into_rtranclp)
  moreover have "governed (crm w) (crm w')" using history_governed [OF hw] by (simp add: c)
  then have "qualification_ok w'" "conversations_ok (crm w')"
    using ok qualification_ok_kept [of w w'] conversations_kept
    by (auto simp: world_ok_def governed_def w' save_deal_def)
  moreover have "criteria w' = criteria w" "requirements w' = requirements w" by (simp_all add: w' save_deal_def)
  moreover have "\<forall>x \<in> set (deals w). is_terminal (dl_stage x) \<longrightarrow> x \<in> set (deals w')"
    using update_keeps_terminal [OF _ u] ok by (simp add: world_ok_def)
  moreover have "checks_move (crm w) (crm w')" using checks_move_history [OF hw] ok by (simp add: c world_ok_def)
  ultimately show ?thesis using ok d by (simp add: step_ok_def world_ok_def requirements_ok_def checks_move_def)
qed

lemma same_step: "world_ok w \<Longrightarrow> step_ok env w w"
  by (auto simp: step_ok_def intro: checks_grow_kept)

text \<open>A step that rewrites one company's row.\<close>

lemma row_step:
  assumes ok: "world_ok w" and cw: "company_write c p' (crm w) (crm w')" and p: "profiles (crm w) c = Some p"
    and oc: "other_columns p p'" and cc: "conversation_checks p'"
    and j: "journey_of p \<noteq> LEAD \<longrightarrow> journey_of p' \<noteq> LEAD"
    and q: "qualification_ok w'" and "deals w' = deals w" and "relationships w' = relationships w"
    and "registrations w' = registrations w" and "criteria w' = criteria w" and "requirements w' = requirements w"
  shows "step_ok env w w'"
proof -
  note f = company_write_frame [OF cw]
  have "referents_kept w w'" using p j f assms(9,10) by (auto simp: referents_kept_def)
  then have "deals_ok w'" using ok assms(8) deals_ok_kept by (auto simp: world_ok_def)
  moreover have "conversations_ok (crm w')"
    using ok cc by (intro conversations_row [OF _ f(1)]) (auto simp: world_ok_def)
  moreover have "checks_move (crm w) (crm w')" using checks_move_company [OF cw] ok by (simp add: world_ok_def)
  ultimately show ?thesis
    using company_write_steps [OF cw p oc] ok q assms(8,11,12)
    by (simp add: step_ok_def world_ok_def requirements_ok_def checks_move_def)
qed

lemma gauge_write_step:
  assumes ok: "world_ok w" and "gauge_write w w'" and q: "qualification_ok w'"
  shows "step_ok env w w'"
proof -
  from assms(2) obtain c p p' rs os where p: "profiles (crm w) c = Some p"
    and cw: "company_write c p' (crm w) (crm w')" and oc: "other_columns p p'"
    and same: "conversation_of p' = conversation_of p" "check_back_on p' = check_back_on p"
    and j: "journey_of p \<noteq> LEAD \<longrightarrow> journey_of p' \<noteq> LEAD"
    and w': "w' = w\<lparr>crm := crm w', qualification_results := qualification_results w @ rs,
        qualification_outcomes := qualification_outcomes w @ os\<rparr>"
    unfolding gauge_write_def by (elim exE conjE) (rule that, assumption+)
  have "conversation_checks p" using ok p by (simp add: world_ok_def conversations_ok_def)
  then have "conversation_checks p'" using same by (simp add: conversation_checks_def)
  then show ?thesis by (rule row_step [OF ok cw p oc _ j q]) (subst w', simp)+
qed

lemma opened_step:
  assumes ok: "world_ok w" and k: "keyed (crm w)" and o: "open_deal env c reference a terms w = Inr (v, w')"
  shows "step_ok env' w w'"
proof -
  have d: "deals_ok w'" "set (deals w) \<subseteq> set (deals w')"
    using deals_ok_open [OF _ k o] ok by (auto simp: world_ok_def)
  obtain d r p p' db where p: "profiles (crm w) c = Some p"
    and w': "w' = w\<lparr>crm := crm w', deals := deals w @ [d]\<rparr>"
    and h: "history_write (crm w) db" and pw: "profile_write c p' db (crm w')"
    and p': "p' = p \<and> conversation_of p = READY_NOW \<or> p' = p\<lparr>conversation_of := READY_NOW, check_back_on := None\<rparr>"
    by (rule open_deal_effect [OF o k]) blast
  have cw: "company_write c p' (crm w) (crm w')"
    by (rule company_write_trans [OF company_write_history [OF h p] company_write_profile [OF pw]])
  have oc: "other_columns p p'" using p' by (auto simp: other_columns_def)
  have "conversation_checks p" using ok p by (simp add: world_ok_def conversations_ok_def)
  then have "conversation_checks p'" using p' by (auto simp: conversation_checks_def)
  then have "conversations_ok (crm w')"
    using ok by (intro conversations_row [OF _ company_write_frame(1) [OF cw]]) (auto simp: world_ok_def)
  moreover have "qualification_ok w'"
  proof (rule qualification_ok_kept)
    show "qualification_ok w" using ok by (simp add: world_ok_def)
    show "qualification_kept (crm w) (crm w')" by (rule qualification_kept_write [OF cw p]) (use p' in auto)
    show "qualification_outcomes w' = qualification_outcomes w" by (subst w') simp
  qed
  moreover have "criteria w' = criteria w" "requirements w' = requirements w" by (subst w', simp)+
  moreover have "checks_move (crm w) (crm w')" using checks_move_company [OF cw] ok by (simp add: world_ok_def)
  ultimately show ?thesis
    using d ok company_write_steps [OF cw p oc]
    by (auto simp: step_ok_def world_ok_def requirements_ok_def checks_move_def)
qed

lemma sanctions_step:
  assumes ok: "world_ok w" and "sanctions_write w w'"
  shows "step_ok env w w'"
proof -
  from assms(2) obtain db rs hs ds au where hw: "history_write (crm w) db"
    and w': "w' = w\<lparr>crm := db, sanctions_runs := sanctions_runs w @ rs, sanctions_hits := sanctions_hits w @ hs,
        dispositions := dispositions w @ ds, audit_log := audit_log w @ au\<rparr>"
    by (auto simp: sanctions_write_def)
  show ?thesis
    by (rule quiet_step [OF ok])
      (use ok hw history_write_step [OF hw] history_governed [OF hw] checks_move_history [OF hw] in
        \<open>simp_all add: w' world_ok_def requirements_ok_def r_into_rtranclp\<close>)
qed

lemma conversed_step:
  assumes ok: "world_ok w" and k: "keyed (crm w)"
    and s: "set_conversation env c v reason d a (crm w) = Inr (p', db)"
  shows "step_ok env w (w\<lparr>crm := db\<rparr>)"
proof -
  from s k obtain p where p: "profiles (crm w) c = Some p"
    and p': "p' = p\<lparr>conversation_of := v, check_back_on := (if v = NOT_NOW then d else None)\<rparr>"
    and cc: "conversation_checks p'" and pw: "profile_write c p' (crm w) db"
    by (rule set_conversation_effect)
  let ?w' = "w\<lparr>crm := db\<rparr>"
  have cw: "company_write c p' (crm w) (crm ?w')" using company_write_profile [OF pw] by simp
  have "qualification_ok ?w'"
  proof (rule qualification_ok_kept)
    show "qualification_ok w" using ok by (simp add: world_ok_def)
    show "qualification_kept (crm w) (crm ?w')" by (rule qualification_kept_write [OF cw p]) (simp_all add: p')
  qed simp
  then show ?thesis
    by (intro row_step [OF ok cw p _ cc]) (simp_all add: p' other_columns_def)
qed

text \<open>A step of the verification service, and the background check's, which leave the checks alone.\<close>

lemma input_steps:
  assumes "(input_step env)\<^sup>*\<^sup>* db db'"
  shows "(crm_step env)\<^sup>*\<^sup>* db db' \<and> governed db db'"
  using assms
proof (induction rule: rtranclp_induct)
  case base
  show ?case by (simp add: governed_same)
next
  case (step y z)
  have "crm_step env y z"
    using step.hyps(2) crm_step.first_input input_write_step unfolding input_step_def by blast
  moreover have "governed y z" using input_step_frame [OF step.hyps(2)] by (intro governed_same) simp_all
  ultimately show ?case using step.IH governed_trans by (metis rtranclp.rtrancl_into_rtrancl)
qed

lemma check_step:
  assumes ok: "world_ok w" and "check_write env w w'"
  shows "step_ok env w w'"
proof -
  from assms(2) obtain db where s: "(input_step env)\<^sup>*\<^sup>* (crm w) (crm w')" and w': "w' = w\<lparr>crm := db\<rparr>"
    and m: "checks_move (crm w) (crm w')" by (auto simp: check_write_def)
  show ?thesis
    by (rule quiet_step [OF ok _ _ _ _ _ _ _ _ m])
      (use input_steps [OF s] ok in \<open>simp_all add: w' world_ok_def requirements_ok_def\<close>)
qed

lemma governed_companies: "governed db db' \<Longrightarrow> profiles db c \<noteq> None \<Longrightarrow> profiles db' c \<noteq> None"
  unfolding governed_def conversation_kept_def by (elim conjE, drule spec [of _ c]) auto

lemma recorded_checks:
  assumes "system_ok db" and "checks_ok db" and st: "crm_step env db db'" and "governed db db'" and "checks_kept db db'"
  shows "checks_move db db'"
proof (rule checks_move_kept [OF assms(2)])
  show "set (cycles db) \<subseteq> set (cycles db')" using step_effect(1) [OF assms(1) st] by (auto simp: appends_def)
  show "\<forall>c. profiles db c \<noteq> None \<longrightarrow> profiles db' c \<noteq> None" using governed_companies [OF assms(4)] by blast
qed (use assms(4,5) in \<open>auto simp: checks_kept_def governed_def qualification_kept_def\<close>)

lemma world_step_ok:
  assumes ok: "world_ok w" and sys: "system_ok (crm w)" and st: "world_step env mode w w'"
  shows "step_ok env w w'"
proof -
  note k = system_okD(5) [OF sys]
  have parts: "deals_ok w" "qualification_ok w" "criteria_ok (criteria w)" "requirements_ok w" "checks_ok (crm w)"
    using ok by (simp_all add: world_ok_def)
  have updated: "step_ok env w w'" if "deals_ok w'" "w' = w \<or> (\<exists>d d'. deal_update w d d' w')"
    using that deal_step [OF ok] same_step [OF ok] by blast
  have quiet: "step_ok env w w'"
    if "history_write (crm w) (crm w')" "deals w' = deals w" "relationships w' = relationships w"
      "registrations_kept (registrations w) (registrations w')" "qualification_outcomes w' = qualification_outcomes w"
      "criteria_ok (criteria w')" "requirements_ok w'"
    using that history_write_step history_governed checks_move_history [OF _ parts(5)] by (intro quiet_step [OF ok]) auto
  have check: "step_ok env w w'" if "check_write env w w'" using check_step [OF ok that] .
  from st show ?thesis
  proof cases
    case (recorded db)
    then have "checks_move (crm w) (crm w')" using recorded_checks [OF sys parts(5)] by simp
    with recorded show ?thesis using parts by (intro quiet_step [OF ok]) (auto simp: requirements_ok_def)
  next
    case checked
    with added_write [OF trigger_added parts(5)] check show ?thesis by blast
  next
    case batched
    with added_write [OF batch_added parts(5)] check show ?thesis by blast
  next
    case polled
    with polled_write [OF _ parts(5)] check show ?thesis by blast
  next
    case reviewed
    with reviewed_write [OF _ parts(5)] check show ?thesis by blast
  next
    case (conversed c v reason d a p db)
    then show ?thesis using conversed_step [OF ok k] by simp
  next
    case (opened c reference a terms dv)
    then show ?thesis by (rule opened_step [OF ok k])
  next
    case (staged later i to_stage reason a dv)
    obtain v ev where "dv = (v, ev)" by (cases dv)
    with staged deals_ok_transition [OF parts(1)] show ?thesis
      by (intro updated) (auto elim: transition_effect)
  next
    case bought
    with deals_ok_buyer [OF parts(1)] show ?thesis by (intro updated) (auto elim: set_buyer_effect)
  next
    case branched
    with deals_ok_branch [OF parts(1)] show ?thesis by (intro updated) (auto elim: set_branch_effect)
  next
    case termed
    with deals_ok_terms [OF parts(1)] show ?thesis by (intro updated) (auto elim: set_terms_effect)
  next
    case assessed
    from record_outcome_step [OF assessed k parts(2)] show ?thesis by (intro gauge_write_step [OF ok])
  next
    case partnered
    from record_partner_step [OF partnered k parts(2)] show ?thesis by (intro gauge_write_step [OF ok])
  next
    case resulted
    then show ?thesis
    proof (rule record_results_step)
      fix db rows
      assume "history_write (crm w) db"
        "w' = w\<lparr>crm := db, qualification_results := qualification_results w @ rows\<rparr>"
      then show ?thesis using parts by (intro quiet) (simp_all add: requirements_ok_def)
    qed
  next
    case (criterion key d a cr)
    note c = criterion_written [OF criterion parts(3)]
    show ?thesis
    proof (rule quiet)
      show "history_write (crm w) (crm w')" "criteria_ok (criteria w')" by (rule c)+
      show "deals w' = deals w" "relationships w' = relationships w"
        "registrations_kept (registrations w) (registrations w')"
        "qualification_outcomes w' = qualification_outcomes w" by (subst c(2), simp)+
      have "requirements w' = requirements w" by (subst c(2)) simp
      with parts(4) show "requirements_ok w'" by (simp add: requirements_ok_def)
    qed
  next
    case screened
    from sanctions_step [OF ok record_run_step(1) [OF screened]] show ?thesis .
  next
    case hit_decided
    from sanctions_step [OF ok decide_hit_step(1) [OF hit_decided]] show ?thesis .
  next
    case match_confirmed
    from sanctions_step [OF ok confirm_step(1) [OF match_confirmed]] show ?thesis .
  next
    case match_rejected
    from sanctions_step [OF ok reject_step(1) [OF match_rejected]] show ?thesis .
  next
    case (required types cat ty act a row)
    then have w': "w' = w\<lparr>requirements := requirements w @ [row]\<rparr>"
      by (auto simp: set_requirement_def Let_def err_simps)
    from set_requirement_ok(1) [OF required parts(4)] parts show ?thesis by (intro quiet) (simp_all add: w')
  next
    case settings
    then show ?thesis using parts by (intro quiet) (simp_all add: requirements_ok_def)
  qed
qed

lemma world_ok_empty: "world_ok (empty_world st)" "sanctions_ok (empty_world st)"
  by (simp_all add: world_ok_def deals_ok_def qualification_ok_def criteria_ok_def requirements_ok_def
      conversations_ok_def checks_ok_def empty_world_def empty_db_def outcomes_of_def sanctions_ok_def chain_of_def)

lemma reachable_steps: "(crm_step env)\<^sup>*\<^sup>* db db' \<Longrightarrow> reachable policy db \<Longrightarrow> policy env \<Longrightarrow> reachable policy db'"
  by (induction rule: rtranclp_induct) (auto intro: reachable.step)

text \<open>The invariants, and the link to the background check's own reachable states.\<close>

definition check_policy :: "(crm_env \<Rightarrow> true_match_approval \<Rightarrow> bool) \<Rightarrow> crm_env \<Rightarrow> bool" where
  "check_policy policy env \<longleftrightarrow> (\<exists>mode. policy env mode)"

lemma world_reachable_ok:
  assumes "world_reachable policy w"
  shows "world_ok w \<and> reachable (check_policy policy) (crm w)"
  using assms
proof (induction rule: world_reachable.induct)
  case (world_initial st)
  have "crm (empty_world st) = empty_db st" by (simp add: empty_world_def)
  with world_ok_empty reachable.initial show ?case by metis
next
  case (world_next w env mode w')
  then have "step_ok env w w'" using world_step_ok reachable_ok by blast
  moreover have "check_policy policy env" using world_next.hyps(2) by (auto simp: check_policy_def)
  ultimately show ?case using world_next.IH reachable_steps by (auto simp: step_ok_def)
qed

text \<open>Any number of steps.\<close>

definition world_run :: "(crm_env \<Rightarrow> true_match_approval \<Rightarrow> bool) \<Rightarrow> crm_world \<Rightarrow> crm_world \<Rightarrow> bool" where
  "world_run policy = (\<lambda>x y. \<exists>env mode. policy env mode \<and> world_step env mode x y)\<^sup>*\<^sup>*"

lemma world_run_keeps:
  assumes "world_run policy w w'" and "world_reachable policy w"
  shows "world_reachable policy w' \<and> set (reviews (crm w)) \<subseteq> set (reviews (crm w'))"
  using assms unfolding world_run_def
proof (induction rule: rtranclp_induct)
  case (step x y)
  then obtain env mode where x: "world_reachable policy x" "policy env mode" "world_step env mode x y" by blast
  then have "step_ok env x y" using world_step_ok [OF _ reachable_ok] world_reachable_ok by blast
  then have "set (reviews (crm x)) \<subseteq> set (reviews (crm y))" by (auto simp: step_ok_def checks_grow_def)
  with step x world_next [OF x] show ?case by blast
qed simp

text \<open>The decisions on hits, while a second approval is asked for.\<close>

lemma step_ids:
  assumes "system_ok db" and "crm_step env db db'"
  shows "next_uuid db \<le> next_uuid db'"
  using service_step_governed [OF assms]
  by (auto simp: governed_def qualification_kept_def profile_write_frame save_profile_def)

lemma steps_ids:
  assumes "(crm_step env)\<^sup>*\<^sup>* db db'" and "system_ok db"
  shows "next_uuid db \<le> next_uuid db' \<and> system_ok db'"
  using assms
  by (induction rule: rtranclp_induct) (auto intro: order_trans [OF _ step_ids] system_ok_step)

lemma deal_update_dispositions: "deal_update w d d' w' \<Longrightarrow> dispositions w' = dispositions w"
  by (auto simp: deal_update_def save_deal_def)

lemma gauge_write_dispositions: "gauge_write w w' \<Longrightarrow> dispositions w' = dispositions w"
  unfolding gauge_write_def by (elim exE conjE) (erule ssubst, simp)

lemma sanctions_ok_step:
  assumes ok: "sanctions_ok w" and w: "world_ok w" "system_ok (crm w)" and st: "world_step env mode w w'"
    and m: "mode \<noteq> SINGLE"
  shows "sanctions_ok w'"
proof -
  have n: "next_uuid (crm w) \<le> next_uuid (crm w')"
    using world_step_ok [OF w st] steps_ids [OF _ w(2)] by (auto simp: step_ok_def)
  note k = system_okD(5) [OF w(2)]
  have q: "qualification_ok w" using w(1) by (simp add: world_ok_def)
  have kept: "sanctions_ok w'" if "dispositions w' = dispositions w"
    using that n by (rule sanctions_ok_kept [OF ok])
  have check: "sanctions_ok w'" if "check_write env w w'" using that kept by (auto simp: check_write_def)
  have c: "checks_ok (crm w)" using w(1) by (simp add: world_ok_def)
  from st show ?thesis
  proof cases
    case checked
    with added_write [OF trigger_added c] check show ?thesis by blast
  next
    case batched
    with added_write [OF batch_added c] check show ?thesis by blast
  next
    case polled
    with polled_write [OF _ c] check show ?thesis by blast
  next
    case reviewed
    with reviewed_write [OF _ c] check show ?thesis by blast
  next
    case screened
    from record_run_step(2) [OF screened m ok] show ?thesis .
  next
    case hit_decided
    from decide_hit_step(2) [OF hit_decided m ok] show ?thesis .
  next
    case match_confirmed
    from confirm_step(2) [OF match_confirmed m ok] show ?thesis .
  next
    case match_rejected
    from reject_step(2) [OF match_rejected ok] show ?thesis .
  next
    case (opened c reference a terms dv)
    then show ?thesis by (elim open_deal_effect [OF _ k]) (rule kept, erule ssubst, simp)
  next
    case (staged later i to_stage reason a dv)
    obtain v ev where "dv = (v, ev)" by (cases dv)
    with staged show ?thesis
      by (intro kept) (auto elim!: transition_effect dest: deal_update_dispositions)
  next
    case bought
    then show ?thesis by (intro kept) (auto elim!: set_buyer_effect dest: deal_update_dispositions)
  next
    case branched
    then show ?thesis by (intro kept) (auto elim!: set_branch_effect dest: deal_update_dispositions)
  next
    case termed
    then show ?thesis by (intro kept) (auto elim!: set_terms_effect dest: deal_update_dispositions)
  next
    case assessed
    from record_outcome_step(2) [OF assessed k q] show ?thesis
      by (intro kept gauge_write_dispositions)
  next
    case partnered
    from record_partner_step(2) [OF partnered k q] show ?thesis
      by (intro kept gauge_write_dispositions)
  next
    case resulted
    then show ?thesis by (elim record_results_step) (rule kept, erule ssubst, simp)
  next
    case (criterion key d a cr)
    from w(1) have "criteria_ok (criteria w)" by (simp add: world_ok_def)
    from criterion_written(2) [OF criterion this] show ?thesis by (intro kept) (erule ssubst, simp)
  next
    case required
    then show ?thesis by (intro kept) (auto simp: set_requirement_def Let_def err_simps)
  qed (rule kept, simp)+
qed

lemma world_reachable_sanctions:
  assumes "world_reachable policy w" and "\<And>env mode. policy env mode \<Longrightarrow> mode \<noteq> SINGLE"
  shows "sanctions_ok w"
  using assms(1)
proof (induction rule: world_reachable.induct)
  case (world_initial st)
  show ?case by (rule world_ok_empty)
next
  case (world_next w env mode w')
  then show ?case
    using sanctions_ok_step [of w env mode w'] world_reachable_ok [of policy w] reachable_ok assms(2) by blast
qed

lemma true_match_final:
  assumes ok: "sanctions_ok w" and d: "d \<in> set (dispositions w)" and tm: "hd_disposition d = TRUE_MATCH"
  shows "two_officers (dispositions w) d" and "current_disposition w (hd_hit d) = Inr d"
proof -
  show "two_officers (dispositions w) d" using assms by (auto simp: sanctions_ok_def)
  have dc: "d \<in> set (chain_of w (hd_hit d))" using d by (simp add: chain_of_def)
  then have ne: "chain_of w (hd_hit d) \<noteq> []" by auto
  have "d \<notin> set (butlast (chain_of w (hd_hit d)))" using ok tm by (auto simp: sanctions_ok_def)
  moreover have "set (chain_of w (hd_hit d)) = insert (last (chain_of w (hd_hit d))) (set (butlast (chain_of w (hd_hit d))))"
    using ne by (metis append_butlast_last_id list.simps(15) rotate1.simps(2) set_append set_rotate1)
  ultimately have "d = last (chain_of w (hd_hit d))" using dc by blast
  with current_disposition_last [OF _ ne] ok show "current_disposition w (hd_hit d) = Inr d"
    by (simp add: sanctions_ok_def)
qed

end
