(* ===== verification/Completion.thy ===== *)
theory Completion
  imports System
begin

text \<open>
  When an operation returns. The background check's operations can also fail for reasons no
  caller is told of: a history word too long for its column, two heads of one chain
  (\<open>MultipleResultsFound\<close>), or a cleared company with no clearing decision (the
  \<open>RuntimeError\<close> of the promotion). In a state whose chains are well formed none of those
  happens: an operation returns exactly when its stated guards hold.
\<close>

section \<open>The words of the history fit their columns\<close>

lemma bc_value_fits: "returns (require_value (HText (bc_value s)) MAX_VALUE)"
  by (induction s) (code_simp+)

lemma returns_bindE_I: "m = Inr x \<Longrightarrow> returns (f x) \<Longrightarrow> returns (bindE m f)"
  by simp

lemma returns_if: "returns m \<Longrightarrow> returns m' \<Longrightarrow> returns (if c then m else m')"
  by simp

lemma user_fits: "returns (require_value (user_or_unassigned u) MAX_VALUE)"
proof (cases u)
  case None
  have "returns (require_value (HText ''UNASSIGNED'') MAX_VALUE)" by code_simp
  with None show ?thesis by (simp add: user_or_unassigned_def)
qed (simp add: user_or_unassigned_def)

lemma dimensions_fit:
  "returns (require_text ''background_check'' MAX_DIMENSION)"
  "returns (require_text ''background_check_assignment'' MAX_DIMENSION)"
  "returns (require_text ''background_check_approval'' MAX_DIMENSION)"
  "returns (require_text ''relationship_manager'' MAX_DIMENSION)"
  "returns (require_text ''check_cycle'' MAX_DIMENSION)"
  "returns (require_text ''journey'' MAX_DIMENSION)"
  by code_simp+

lemma journey_fits: "returns (require_value (HText (journey_value j)) MAX_VALUE)"
  by (induction j) (code_simp+)

lemma outcome_fits: "returns (require_value (HText (outcome_value oc)) MAX_VALUE)"
  by (induction oc) (code_simp+)

lemma open_fits: "returns (require_value (HText ''OPEN'') MAX_VALUE)"
  by code_simp

lemma method_sources: "m \<in> snd ` set METHOD_FOR_MOVE \<Longrightarrow> good_source (bc_source m)"
proof -
  have "list_all (\<lambda>m. good_source (bc_source m)) (map snd METHOD_FOR_MOVE)" by code_simp
  then show "m \<in> snd ` set METHOD_FOR_MOVE \<Longrightarrow> good_source (bc_source m)"
    by (auto simp: list_all_iff)
qed

lemmas history_fits = fits_words bc_value_fits user_fits journey_fits outcome_fits open_fits
  dimensions_fit

lemma set_reviewer_returns:
  assumes "good_source src"
  shows "\<exists>row. set_reviewer env p u ev a reason src db =
    Inr (reviewer_set env p u, (save_profile (reviewer_set env p u) db)\<lparr>history := history db @ [row]\<rparr>)"
proof -
  have "fits ''background_check_assignment'' (Some (user_or_unassigned (reviewer_id p)))
      (user_or_unassigned u) src"
    using assms by (intro history_fits)
  then show ?thesis
    by (cases u) (auto simp: set_reviewer_def Let_def record_history_fits reviewer_set_def intro!: exI)
qed

lemma set_relationship_manager_returns:
  assumes "good_source src"
  shows "returns (set_relationship_manager p u reason a role perms src run byp db) \<longleftrightarrow>
    u = rm_user_id p \<or>
    (byp \<or> may_set_relationship_manager a role perms (rm_user_id p) u) \<and>
    (rm_user_id p = None \<or> clean_text reason \<noteq> None) \<and>
    (case u of None \<Rightarrow> True | Some i \<Rightarrow> returns (require_eligible_relationship_manager i db))"
proof -
  have f: "fits ''relationship_manager'' (Some (user_or_unassigned v)) (user_or_unassigned w) src" for v w
    using assms by (intro history_fits)
  show ?thesis
    by (cases u) (auto simp: set_relationship_manager_def Let_def record_history_fits [OF f]
        bindE_eq_Inr returns_iff)
qed

definition rm_ready :: "exporter_profile \<Rightarrow> uuid option \<Rightarrow> uuid \<Rightarrow> user_role \<Rightarrow> permission list \<Rightarrow> crm_db \<Rightarrow> bool" where
  "rm_ready p u a role perms db \<longleftrightarrow> pipeline_st p = NOT_IN_PIPELINE \<or>
     (case rm_user_id p of Some current \<Rightarrow> u = None \<or> u = Some current
      | None \<Rightarrow> (\<exists>i. u = Some i \<and> may_set_relationship_manager (Some a) (Some role) perms None u \<and>
          returns (require_eligible_relationship_manager i db)))"

lemma ensure_relationship_manager_returns:
  assumes "good_source src"
  shows "returns (ensure_relationship_manager p u act (Some a) (Some role) perms src db) \<longleftrightarrow>
    rm_ready p u a role perms db"
proof (cases "pipeline_st p = NOT_IN_PIPELINE \<or> rm_user_id p \<noteq> None \<or> u = None")
  case True
  then show ?thesis
    by (auto simp: ensure_relationship_manager_def rm_ready_def split: option.splits)
next
  case False
  then obtain i where "pipeline_st p \<noteq> NOT_IN_PIPELINE" "rm_user_id p = None" "u = Some i" by auto
  then show ?thesis
    using set_relationship_manager_returns [OF assms, of p u None "Some a" "Some role" perms None False db]
    by (auto simp: ensure_relationship_manager_def rm_ready_def returns_iff bindE_eq_Inr)
qed

section \<open>The promotion\<close>

text \<open>
  The promotion's \<open>RuntimeError\<close> needs a company that reads \<open>CLEAR\<close> and current without a
  clearing decision or a risk; a decision to \<open>CLEAR\<close> carries a risk.
\<close>

lemma latest_risk_Some:
  assumes "d \<in> set (decisions db)" and "dn_company d = c" and "dn_risk d \<noteq> None"
  shows "latest_risk c db \<noteq> None"
proof -
  let ?f = "filter (\<lambda>d. dn_company d = c \<and> dn_risk d \<noteq> None) (decisions db)"
  have "d \<in> set (newest_first dn_decided_at dn_id ?f)" using assms by simp
  from length_pos_if_in_set [OF this]
  obtain x xs where x: "newest_first dn_decided_at dn_id ?f = x # xs"
    unfolding length_greater_0_conv neq_Nil_conv by blast
  then have "x \<in> set ?f" by (metis list.set_intros(1) set_newest_first)
  with x show ?thesis by (simp add: latest_risk_def)
qed

lemma promote_returns:
  assumes src: "good_source src" and p: "profiles db (customer_id p) = Some p"
    and lt: "latest_for_company (customer_id p) db = Inr prev"
    and risk: "\<And>d. prev = Some d \<Longrightarrow> dn_to d = CLEAR \<Longrightarrow> dn_risk d \<noteq> None"
  shows "returns (promote_to_customer_if_ready env p a cause src db)"
proof -
  from company_inputs_eq_Inr [of "customer_id p" db] p
  obtain inputs where inp: "company_inputs (customer_id p) db = Inr inputs" by (auto simp: returns_iff)
  obtain s where st: "standing (customer_id p) db = Inr s" and
    s: "st_risk s = latest_risk (customer_id p) db"
      "st_clearing_decision s = map_option dn_id (case prev of None \<Rightarrow> None
           | Some d \<Rightarrow> if background_check p = CLEAR \<and> dn_to d = CLEAR then Some d else None)"
      "st_expires_at s = map_option (\<lambda>d. clear_expiry (dn_decided_at d) (dn_expires_at d)) (case prev of None \<Rightarrow> None
           | Some d \<Rightarrow> if background_check p = CLEAR \<and> dn_to d = CLEAR then Some d else None)"
    using p lt by (simp add: standing_def Let_def)
  have f: "fits ''journey'' (Some (HText (journey_value PROSPECT))) (HText (journey_value CUSTOMER)) src"
    using src by (intro history_fits)
  show ?thesis
  proof (cases "journey_of p = PROSPECT \<and> is_clear_and_current s (env_now env)")
    case False
    then show ?thesis
      by (auto simp: promote_to_customer_if_ready_def facts_for_company_def st inp)
  next
    case True
    then obtain d where d: "prev = Some d" "background_check p = CLEAR" "dn_to d = CLEAR"
      by (auto simp: is_clear_and_current_def s split: option.splits if_splits)
    obtain r where "st_risk s = Some r" "st_clearing_decision s = Some (dn_id d)"
      using latest_risk_Some [of d db "customer_id p"] latest_for_company_in [of "customer_id p" db d] lt d risk
      by (auto simp: s)
    with True show ?thesis
      by (simp add: promote_to_customer_if_ready_def facts_for_company_def st inp Let_def
          record_history_fits [OF f [unfolded journey_value.simps]])
  qed
qed

section \<open>The move\<close>

text \<open>
  The guards of \<open>_apply_move\<close>, in its order. What is not among them never fails.
\<close>

definition move_guard :: "crm_env \<Rightarrow> exporter_profile \<Rightarrow> move_request \<Rightarrow> crm_db \<Rightarrow> bool" where
  "move_guard env p r db \<longleftrightarrow>
     returns (check_move p r) \<and> returns (approval_gate env p r db) \<and> returns (move_claims p r) \<and>
     (start_needs_rm p r \<longrightarrow> rm_ready p (mr_rm_user r) (mr_actor r) (mr_role r) (mr_permissions r) db) \<and>
     (mr_to r = CLEAR \<longrightarrow> 1 \<le> env_clear_validity_days env \<and>
        (\<exists>inputs. company_inputs (customer_id p) db = Inr inputs \<and>
           clear_ready inputs (mr_risk r)
             (select_evidence inputs (company_documents db (customer_id p))) CLEAR_POLICY))"

definition known_method :: "move_request \<Rightarrow> bool" where
  "known_method r \<longleftrightarrow> (case mr_method r of None \<Rightarrow> True | Some m \<Rightarrow> m \<in> snd ` set METHOD_FOR_MOVE)"

lemma method_known:
  assumes "check_move p r = Inr (tx, m)" and "known_method r"
  shows "good_source (bc_source m)"
proof -
  have "map_of MOVES (background_check p, mr_to r) \<noteq> None"
    using assms(1) by (auto simp: check_move_Inr)
  then have "the (map_of METHOD_FOR_MOVE (background_check p, mr_to r)) \<in> snd ` set METHOD_FOR_MOVE"
    by (cases "background_check p"; cases "mr_to r") (simp_all add: MOVES_def METHOD_FOR_MOVE_def)
  then have "m \<in> snd ` set METHOD_FOR_MOVE"
    using assms by (auto simp: check_move_Inr known_method_def split: option.splits)
  then show ?thesis by (rule method_sources)
qed

lemma move_gauge_returns:
  assumes "good_source src"
  shows "returns (move_gauge env p r claim reclaim e src db)"
proof -
  have s: "returns (set_reviewer env p' u ev a t src db')" for p' u ev a t db'
    using set_reviewer_returns [OF assms, of env p' u ev a t db'] by (auto simp: returns_iff)
  then have 1: "returns (if mr_to r \<in> set DECIDED \<and> reviewer_id p \<noteq> None
          then set_reviewer env p None REVIEW_ENDED (Some (mr_actor r)) None src db
          else Inr (p, db))" by simp
  then obtain p1 db1 where "(if mr_to r \<in> set DECIDED \<and> reviewer_id p \<noteq> None
          then set_reviewer env p None REVIEW_ENDED (Some (mr_actor r)) None src db
          else Inr (p, db)) = Inr (p1, db1)" by (auto simp: returns_iff)
  then show ?thesis
    unfolding move_gauge_def by (simp add: Let_def s)
qed

theorem apply_move_returns:
  assumes ok: "chain_ok db" and p: "profiles db (customer_id p) = Some p"
    and so: "sound_request r db" and kn: "known_method r"
  shows "returns (apply_move env p r db) \<longleftrightarrow> move_guard env p r db"
proof
  assume "returns (apply_move env p r db)"
  then obtain res p' db' where am: "apply_move env p r db = Inr (res, p', db')"
    by (auto simp: returns_iff)
  from am obtain tx meth claim q dba where cm: "check_move p r = Inr (tx, meth)"
    and g: "approval_gate env p r db = Inr ()" and c: "move_claims p r = Inr claim"
    and rm: "(if start_needs_rm p r
           then ensure_relationship_manager p (mr_rm_user r) ''start the background check''
                  (Some (mr_actor r)) (Some (mr_role r)) (mr_permissions r)
                  (bc_source meth) db
           else Inr (p, db)) = Inr (q, dba)"
    by (rule apply_move_steps)
  obtain inputs where inp: "company_inputs (customer_id p) db = Inr inputs"
    and ev: "mv_evidence res = select_evidence inputs (company_documents db (customer_id p))"
    and rdy: "mr_to r = CLEAR \<longrightarrow> clear_ready inputs (mr_risk r) (mv_evidence res) CLEAR_POLICY"
    and v: "mr_to r = CLEAR \<longrightarrow> 1 \<le> env_clear_validity_days env"
    by (rule apply_move_effect [OF am p], rule that, assumption+)
  have "start_needs_rm p r \<longrightarrow> rm_ready p (mr_rm_user r) (mr_actor r) (mr_role r) (mr_permissions r) db"
    using rm ensure_relationship_manager_returns [OF method_known [OF cm kn], of p "mr_rm_user r"
        "''start the background check''" "mr_actor r" "mr_role r" "mr_permissions r" db]
    by (auto simp: returns_iff)
  with cm g c inp ev rdy v show "move_guard env p r db"
    by (auto simp: move_guard_def)
next
  assume g: "move_guard env p r db"
  let ?c = "customer_id p"
  from g obtain tx meth claim where cm: "check_move p r = Inr (tx, meth)"
    and ag: "approval_gate env p r db = Inr ()" and mc: "move_claims p r = Inr claim"
    by (auto simp: move_guard_def returns_iff)
  note src = method_known [OF cm kn]
  have "returns (if start_needs_rm p r
           then ensure_relationship_manager p (mr_rm_user r) ''start the background check''
                  (Some (mr_actor r)) (Some (mr_role r)) (mr_permissions r)
                  (bc_source meth) db
           else Inr (p, db))"
    using g by (simp add: move_guard_def ensure_relationship_manager_returns [OF src])
  then obtain q dba where rm: "(if start_needs_rm p r
           then ensure_relationship_manager p (mr_rm_user r) ''start the background check''
                  (Some (mr_actor r)) (Some (mr_role r)) (mr_permissions r)
                  (bc_source meth) db
           else Inr (p, db)) = Inr (q, dba)" by (auto simp: returns_iff)
  then have q: "\<exists>rm. q = p\<lparr>rm_user_id := rm\<rparr>" and wa: "profile_write ?c q db dba"
    using p ensure_relationship_manager_effect(1,2) profile_write_refl [OF p]
    by (auto split: if_splits intro: exI [of _ "rm_user_id p"])
  note fa = profile_write_frame [OF wa]
  from company_inputs_eq_Inr [of ?c db] p obtain inputs where inp: "company_inputs ?c db = Inr inputs"
    by (auto simp: returns_iff)
  have inpa: "company_inputs ?c dba = Inr inputs"
    using inp p by (simp add: company_inputs_cong [of dba ?c db] fa)
  let ?ev = "select_evidence inputs (company_documents dba ?c)"
  have cp: "(if mr_to r = CLEAR then require_clear_prerequisites ?c inputs (mr_risk r) ?ev else Inr ()) = Inr ()"
    using g inp by (auto simp: move_guard_def require_clear_prerequisites_Inr
        company_documents_cong [OF fa(10)])
  obtain cy dbb where dc: "decision_cycle env ?c r (bc_source meth) dba = (cy, dbb)" by fastforce
  obtain n cs where dbb: "dbb = dba\<lparr>cycles := cs, next_uuid := n\<rparr>" and n: "next_uuid dba \<le> n"
    using decision_cycle_effect(3) [OF dc] by blast
  obtain prev where lt: "latest_for_company ?c db = Inr prev"
    using chain_ok_latest [OF ok] by blast
  then have ltb: "latest_for_company ?c dbb = Inr prev"
    unfolding latest_for_company_cong [of dbb db, unfolded dbb, simplified, OF fa(2)] dbb .
  have "returns (if mr_to r = CLEAR
           then bindE (clear_validity env) (\<lambda>v. Inr (Some (env_db_now env + v))) else Inr None)"
    using g by (auto simp: move_guard_def clear_validity_def)
  then obtain expires where ex: "(if mr_to r = CLEAR
           then bindE (clear_validity env) (\<lambda>v. Inr (Some (env_db_now env + v))) else Inr None) = Inr expires"
    by (auto simp: returns_iff)
  obtain i dbi where di: "(case mr_decision_id r of Some i \<Rightarrow> (i, dbb) | None \<Rightarrow> fresh_uuid dbb) = (i, dbi)"
    by fastforce
  let ?d = "decision_row env q r tx i prev cy expires"
  let ?dbr = "record_decision_rows ?d (evidence_rows ?ev) dbi"
  obtain pg dbg where mg: "move_gauge env q r claim (move_reclaims p r) expires (bc_source meth) ?dbr
      = Inr (pg, dbg)"
    using move_gauge_returns [OF src] by (auto simp: returns_iff) blast
  have qk: "customer_id q = ?c" "background_check q = background_check p" using q by auto
  have pq: "profiles ?dbr (customer_id q) = Some q"
    using di by (auto simp: dbb fa(1) qk fresh_uuid_def split: option.splits)
  note ge = move_gauge_effect [OF mg pq reclaims_not_decided [of p r]]
  have pk: "customer_id pg = ?c" by (simp add: ge(1) qk)
  have pgr: "profiles dbg ?c = Some pg" using profile_write_frame(1) [OF ge(2)] by (simp add: qk)
  have ids: "i \<notin> dn_id ` set (decisions db)"
  proof (cases "mr_decision_id r")
    case None
    then have "next_uuid db \<le> i" using di n fa(13) by (auto simp: dbb fresh_uuid_def)
    then show ?thesis using chain_okD(3) [OF ok] by fastforce
  next
    case (Some j)
    with di so show ?thesis by (auto simp: sound_request_def)
  qed
  have dg: "decisions dbg = decisions db @ [?d]"
    using profile_write_frame(2) [OF ge(2)] di
    by (auto simp: dbb fa(2) fresh_uuid_def split: option.splits)
  have ch: "decisions_chained (decisions db @ [?d])"
    by (rule append_decision_chained [OF chain_okD(2) [OF ok], where prev = prev])
      (simp_all add: ids qk lt)
  have f: "fits ''background_check'' (Some (HText (bc_value (background_check p))))
      (HText (bc_value (mr_to r))) (bc_source meth)"
    using src by (intro history_fits)
  let ?row = "made_row ?c ''background_check'' (Some (HText (bc_value (background_check p))))
        (HText (bc_value (mr_to r))) (Some (mr_actor r)) (bc_source meth) tx None None
        [(''decision_id'', DId i),
         (''supersedes_decision_id'', d_id (map_option dn_id prev)),
         (''risk_rating'', d_risk (mr_risk r)), (''evidence_count'', DNum (evidence_count ?ev)),
         (''cycle_id'', DId (cc_id cy)), (''rules_version'', DText CURRENT_CLEAR_RULES),
         (''proposal_id'', d_id (map_option (\<lambda>(q, _). pr_id q) (mr_approval r))),
         (''approved_by'', d_id (map_option snd (mr_approval r))),
         (''expires_at'', d_time expires)]"
  let ?dbh = "dbg\<lparr>history := history dbg @ [?row]\<rparr>"
  have lth: "latest_for_company ?c ?dbh = Inr (Some ?d)"
    using latest_of_chain [of ?dbh ?c] ch by (simp add: dg decisions_of_def qk)
  have "dn_to ?d = CLEAR \<Longrightarrow> dn_risk ?d \<noteq> None"
    using cm by (simp add: check_move_Inr)
  then have pr: "returns (promote_to_customer_if_ready env pg (Some (mr_actor r))
      ''background_check_clear'' (bc_source meth) ?dbh)"
    by (intro promote_returns [OF src, where prev = "Some ?d"]) (auto simp: pgr pk lth)
  have "returns (if mr_to r = CLEAR
      then promote_to_customer_if_ready env pg (Some (mr_actor r)) ''background_check_clear''
        (bc_source meth) ?dbh
      else Inr (None, pg, ?dbh))" using pr by (rule returns_if) simp
  then obtain ann pf dbf where pr': "(if mr_to r = CLEAR
      then promote_to_customer_if_ready env pg (Some (mr_actor r)) ''background_check_clear''
        (bc_source meth) ?dbh
      else Inr (None, pg, ?dbh)) = Inr (ann, pf, dbf)" by (auto simp only: returns_iff split_paired_Ex)
  show "returns (apply_move env p r db)"
    unfolding apply_move_def Let_def cm bindE_simps prod.case ag mc rm inpa cp
      dc [unfolded decision_cycle_def] ltb ex di mg record_history_fits [OF f] pr'
    by simp
qed

text \<open>A public move of an existing company.\<close>

theorem move_returns:
  assumes ok: "system_ok db" and pub: "public_request r" and kn: "known_method r"
  shows "returns (move env c r db) \<longleftrightarrow> (\<exists>p. profiles db c = Some p \<and> move_guard env p r db)"
proof (cases "profiles db c")
  case None
  then show ?thesis by (simp add: move_def lock_profile_def)
next
  case (Some p)
  have k: "customer_id p = c" by (rule keyedD [OF system_okD(5) [OF ok] Some])
  have "sound_request r db" using pub by (simp add: sound_request_def public_request_def)
  from apply_move_returns [OF system_okD(1) [OF ok] _ this kn, of p env] Some k
  have a: "returns (apply_move env p r db) \<longleftrightarrow> move_guard env p r db" by simp
  have "returns (move env c r db) \<longleftrightarrow> returns (apply_move env p r db)"
    using Some by (cases "apply_move env p r db") (auto simp: move_def lock_profile_def)
  with a Some show ?thesis by simp
qed

section \<open>Proposing\<close>

lemma service_sources:
  "good_source ''background_check_service.propose''" "good_source ''background_check_service.approve''"
  "good_source ''background_check_service.reject''" "good_source ''background_check_service.withdraw''"
  "good_source ''background_check_service.start_cycle''"
  by code_simp+

lemma chain_ok_head:
  assumes "chain_ok db" and "profiles db c = Some p" and "background_check p \<noteq> NOT_STARTED"
  shows "\<exists>d. latest_for_company c db = Inr (Some d)"
  using chain_ok_latest [OF assms(1), of c] chain_okD(8) [OF assms(1,2)] assms(3)
  by (auto simp: gauge_after_def split: if_splits)

lemma approval_from: "(f, t) \<in> set APPROVAL_MOVES \<Longrightarrow> f \<noteq> NOT_STARTED"
  by (auto simp: APPROVAL_MOVES_def)

definition propose_guard ::
  "crm_env \<Rightarrow> uuid \<Rightarrow> bc_state \<Rightarrow> string option \<Rightarrow> bc_risk option \<Rightarrow> uuid \<Rightarrow> user_role \<Rightarrow>
   bc_state option \<Rightarrow> crm_db \<Rightarrow> bool" where
  "propose_guard env c t reason risk a role seen db \<longleftrightarrow> (\<exists>p. profiles db c = Some p \<and>
     (background_check p, t) \<in> set APPROVAL_MOVES \<and>
     returns (check_move p ((plain_move t [background_check p] a role reason risk None)\<lparr>mr_seen := seen\<rparr>)) \<and>
     open_proposals db c = [] \<and>
     ((background_check p, t) \<in> set REVIEWER_MOVES \<longrightarrow>
        reviewer_id p = Some a \<or> reviewer_id p = None \<and> rm_user_id p \<noteq> Some a) \<and>
     (t = CLEAR \<longrightarrow> (\<exists>inputs. company_inputs c db = Inr inputs \<and>
        clear_ready inputs risk (select_evidence inputs (company_documents db c)) CLEAR_POLICY)))"

lemma check_reviewer_move_returns:
  "returns (check_reviewer_move p a) \<longleftrightarrow>
     reviewer_id p = Some a \<or> reviewer_id p = None \<and> rm_user_id p \<noteq> Some a"
  by (auto simp: check_reviewer_move_def refuse_reviewer_is_rm_def require_def split: option.splits)

lemma check_move_expected:
  "background_check p \<in> set f \<Longrightarrow> background_check p \<in> set f' \<Longrightarrow>
   check_move p ((plain_move t f a role reason risk m)\<lparr>mr_seen := seen\<rparr>)
    = check_move p ((plain_move t f' a role reason risk m)\<lparr>mr_seen := seen\<rparr>)"
  by (simp add: check_move_def plain_move_def Let_def split: option.split)

lemma check_move_origins:
  assumes "(background_check p, t) \<in> set APPROVAL_MOVES"
  shows "check_move p ((plain_move t (map fst (filter (\<lambda>(_, t'). t' = t) APPROVAL_MOVES)) a role reason risk None)
      \<lparr>mr_seen := seen\<rparr>)
    = check_move p ((plain_move t [background_check p] a role reason risk None)\<lparr>mr_seen := seen\<rparr>)"
  by (rule check_move_expected) (use assms in \<open>simp_all only: approval_origin, simp\<close>)

theorem propose_returns:
  assumes ok: "system_ok db"
  shows "returns (propose env c t reason risk a role seen db) \<longleftrightarrow>
    propose_guard env c t reason risk a role seen db"
proof
  assume "returns (propose env c t reason risk a role seen db)"
  then obtain out db' where pr: "propose env c t reason risk a role seen db = Inr (out, db')"
    by (auto simp: returns_iff)
  obtain p inputs ev q and pr :: bc_proposal where "profiles db c = Some p"
    and "(background_check p, t) \<in> set APPROVAL_MOVES"
    and cm: "\<exists>m. check_move p ((plain_move t [background_check p] a role reason risk None)\<lparr>mr_seen := seen\<rparr>)
      = Inr (pr_reason pr, m)"
    and "open_proposals db c = []"
    and "company_inputs c db = Inr inputs" and "ev = select_evidence inputs (company_documents db c)"
    and "t = CLEAR \<longrightarrow> clear_ready inputs risk ev CLEAR_POLICY"
    and "q = p \<and> ((background_check p, t) \<in> set REVIEWER_MOVES \<longrightarrow> reviewer_id p = Some a) \<or>
      (background_check p, t) \<in> set REVIEWER_MOVES \<and> reviewer_id p = None \<and> rm_user_id p \<noteq> Some a \<and>
      q = reviewer_set env p (Some a)"
    by (rule propose_effect [OF pr system_okD(5) [OF ok]], rule that, assumption+)
  then show "propose_guard env c t reason risk a role seen db"
    unfolding propose_guard_def by (intro exI [of _ p]) (auto simp: returns_iff)
next
  assume "propose_guard env c t reason risk a role seen db"
  then obtain p where p: "profiles db c = Some p"
    and am: "(background_check p, t) \<in> set APPROVAL_MOVES"
    and cm: "returns (check_move p ((plain_move t [background_check p] a role reason risk None)\<lparr>mr_seen := seen\<rparr>))"
    and np: "open_proposals db c = []"
    and rv: "(background_check p, t) \<in> set REVIEWER_MOVES \<longrightarrow> returns (check_reviewer_move p a)"
    and rdy: "t = CLEAR \<longrightarrow> (\<exists>inputs. company_inputs c db = Inr inputs \<and>
        clear_ready inputs risk (select_evidence inputs (company_documents db c)) CLEAR_POLICY)"
    unfolding propose_guard_def check_reviewer_move_returns by blast
  let ?src = "''background_check_service.propose''"
  let ?org = "map fst (filter (\<lambda>(_, t'). t' = t) APPROVAL_MOVES)"
  from cm obtain tx m where cm': "check_move p ((plain_move t ?org a role reason risk None)\<lparr>mr_seen := seen\<rparr>)
      = Inr (tx, m)" by (auto simp: check_move_origins [OF am] returns_iff)
  have "background_check p \<in> set ?org" using am by (simp only: approval_origin)
  then have org: "?org \<noteq> []" by (rule list.set_cases) simp_all
  have "returns (if (background_check p, t) \<in> set REVIEWER_MOVES then check_reviewer_move p a else Inr False)"
    using rv by simp
  then obtain claim where cl: "(if (background_check p, t) \<in> set REVIEWER_MOVES
      then check_reviewer_move p a else Inr False) = Inr claim" by (auto simp only: returns_iff)
  from company_inputs_eq_Inr [of c db] p obtain inputs where inp: "company_inputs c db = Inr inputs"
    by (auto simp: returns_iff)
  have cp: "(if t = CLEAR then require_clear_prerequisites c inputs risk
      (select_evidence inputs (company_documents db c)) else Inr ()) = Inr ()"
    using rdy inp by (auto simp: require_clear_prerequisites_Inr)
  obtain d where d: "latest_for_company c db = Inr (Some d)"
    using chain_ok_head [OF system_okD(1) [OF ok] p] approval_from [OF am] by blast
  have aw: "refuse_if_awaiting_approval c db = Inr ()" using np by (simp add: refuse_if_awaiting_approval_Inr)
  obtain cy db1 where cy: "current_or_initial c a (Some ?src) (env_now env) db = (cy, db1)" by fastforce
  have "returns (if claim then set_reviewer env p (Some a) REVIEW_CLAIMED (Some a) None ?src db1 else Inr (p, db1))"
    using set_reviewer_returns [OF service_sources(1), of env p "Some a" REVIEW_CLAIMED "Some a" None db1]
    by auto
  then obtain q db2 where q: "(if claim then set_reviewer env p (Some a) REVIEW_CLAIMED (Some a) None ?src db1
      else Inr (p, db1)) = Inr (q, db2)" by (auto simp only: returns_iff split_paired_Ex)
  have f: "fits ''background_check_approval'' None (HText ''OPEN'') ?src"
    by (simp add: fits_def history_fits service_sources)
  have lk: "lock_profile c db = Inr p" using p by (simp add: lock_profile_def)
  show "returns (propose env c t reason risk a role seen db)"
    unfolding propose_def lk bindE_simps Let_def if_not_P [OF org] cm' prod.case aw cl inp cp d
      option.case cy q fresh_uuid_def record_history_fits [OF f]
    by simp
qed

section \<open>Resolving\<close>

lemma resolve_returns:
  assumes "good_source src"
  shows "returns (resolve env q oc a reason did src db)"
proof -
  have "fits ''background_check_approval'' (Some (HText ''OPEN'')) (HText (outcome_value oc)) src"
    using assms by (intro history_fits)
  then show ?thesis by (simp add: resolve_def Let_def fresh_uuid_def record_history_fits)
qed

definition approve_guard :: "crm_env \<Rightarrow> uuid \<Rightarrow> uuid \<Rightarrow> uuid \<Rightarrow> user_role \<Rightarrow> permission list \<Rightarrow> crm_db \<Rightarrow> bool" where
  "approve_guard env c pid a role perms db \<longleftrightarrow> (\<exists>p q inputs. profiles db c = Some p \<and>
     open_proposal_to_resolve c pid role db = Inr q \<and> company_inputs c db = Inr inputs \<and>
     a \<noteq> pr_created_by q \<and> reviewer_id p \<noteq> Some a \<and> rm_user_id p \<noteq> Some a \<and>
     (pr_to q = CLEAR \<and> (pr_risk q = Some HIGH \<or> pr_risk q = Some CRITICAL) \<longrightarrow>
        holds perms APPROVE_HIGH_RISK) \<and>
     inputs_fingerprint env inputs (select_evidence inputs (company_documents db c)) = pr_fingerprint q \<and>
     \<not> no_text (strip_if_given (pr_reason q)) \<and>
     (pr_to q = CLEAR \<longrightarrow> 1 \<le> env_clear_validity_days env \<and>
        clear_ready inputs (pr_risk q) (select_evidence inputs (company_documents db c)) CLEAR_POLICY))"

lemma staleness_of_open:
  assumes ok: "system_ok db" and p: "profiles db c = Some p"
    and q: "open_proposal_to_resolve c pid role db = Inr q"
    and inp: "company_inputs c db = Inr inputs"
  shows "staleness env p q db = Inr (if inputs_fingerprint env inputs
      (select_evidence inputs (company_documents db c)) = pr_fingerprint q then None
    else Some ''its inputs changed since it was proposed'')"
    and "background_check p = pr_from q" and "(pr_from q, pr_to q) \<in> set APPROVAL_MOVES"
    and "pr_company q = c" and "q \<in> set (open_proposals db c)"
proof -
  note o = open_proposal_to_resolve_Inr [OF q]
  show in_op: "q \<in> set (open_proposals db c)" using o by (simp add: open_proposals_in)
  show comp: "pr_company q = c" using o(4) .
  show "(pr_from q, pr_to q) \<in> set APPROVAL_MOVES"
    using approval_okD(3) [OF system_okD(4) [OF ok] o(2)] by (simp add: proposal_checks_def)
  have rest: "rests_on_head db q" by (rule approval_okD(8) [OF system_okD(4) [OF ok] in_op])
  then have ne: "decisions_of db c \<noteq> []"
    and hd: "dn_id (last (decisions_of db c)) = pr_based_on q" "dn_to (last (decisions_of db c)) = pr_from q"
    by (simp_all add: rests_on_head_def comp)
  show g: "background_check p = pr_from q"
    using chain_okD(8) [OF system_okD(1) [OF ok] p] ne hd by (simp add: gauge_after_def)
  have l: "latest_for_company c db = Inr (Some (last (decisions_of db c)))"
    using chain_ok_latest [OF system_okD(1) [OF ok], of c] ne by simp
  have k: "customer_id p = c" by (rule keyedD [OF system_okD(5) [OF ok] p])
  show "staleness env p q db = Inr (if inputs_fingerprint env inputs
      (select_evidence inputs (company_documents db c)) = pr_fingerprint q then None
    else Some ''its inputs changed since it was proposed'')"
    by (simp add: staleness_def k g l hd inp)
qed

lemma approval_roles: "(f, t) \<in> set APPROVAL_MOVES \<Longrightarrow> map_of MOVES (f, t) = Some [COMPLIANCE]"
  by (auto simp: APPROVAL_MOVES_def MOVES_def)

text \<open>
  An approval returns exactly when the proposal is open, the checker is another compliance
  officer with no part in the case, the senior permission is held where it is needed, and
  the inputs are those the proposal was made on.
\<close>

theorem approve_returns:
  assumes ok: "system_ok db"
  shows "returns (approve env c pid a role perms db) \<longleftrightarrow> approve_guard env c pid a role perms db"
proof
  assume "returns (approve env c pid a role perms db)"
  then obtain w db' where ap: "approve env c pid a role perms db = Inr (w, db')"
    by (auto simp: returns_iff)
  then obtain p q res p' db1 where p: "profiles db c = Some p"
    and o: "open_proposal_to_resolve c pid role db = Inr q" and ne: "a \<noteq> pr_created_by q"
    and cf: "reviewer_id p \<noteq> Some a" "rm_user_id p \<noteq> Some a"
    and sn: "needs_senior_checker (pr_to q) (pr_risk q) \<longrightarrow> holds perms APPROVE_HIGH_RISK"
    and st: "staleness env p q db = Inr None"
    and am: "apply_move env p ((plain_move (pr_to q) [pr_from q] (pr_created_by q) role (pr_reason q)
         (pr_risk q) None)\<lparr>mr_approval := Some (q, a)\<rparr>) db = Inr (res, p', db1)"
    by (elim approve_effect) 
  have k: "customer_id p = c" by (rule keyedD [OF system_okD(5) [OF ok] p])
  obtain tx m inputs where cm: "check_move p ((plain_move (pr_to q) [pr_from q] (pr_created_by q) role (pr_reason q)
         (pr_risk q) None)\<lparr>mr_approval := Some (q, a)\<rparr>) = Inr (tx, m)"
    and inp: "company_inputs (customer_id p) db = Inr inputs"
    and ev: "mv_evidence res = select_evidence inputs (company_documents db (customer_id p))"
    and rdy: "mr_to ((plain_move (pr_to q) [pr_from q] (pr_created_by q) role (pr_reason q)
         (pr_risk q) None)\<lparr>mr_approval := Some (q, a)\<rparr>) = CLEAR \<longrightarrow> clear_ready inputs (mr_risk ((plain_move (pr_to q) [pr_from q] (pr_created_by q) role (pr_reason q)
         (pr_risk q) None)\<lparr>mr_approval := Some (q, a)\<rparr>)) (mv_evidence res) CLEAR_POLICY"
    and v: "mr_to ((plain_move (pr_to q) [pr_from q] (pr_created_by q) role (pr_reason q)
         (pr_risk q) None)\<lparr>mr_approval := Some (q, a)\<rparr>) = CLEAR \<longrightarrow> 1 \<le> env_clear_validity_days env"
    by (rule apply_move_effect [OF am], unfold k, rule p, rule that [unfolded k], assumption+)
  have fp: "inputs_fingerprint env inputs (select_evidence inputs (company_documents db c)) = pr_fingerprint q"
    using staleness_of_open(1) [OF ok p o, of inputs env] inp st by (simp add: k split: if_splits)
  have "\<not> no_text (strip_if_given (pr_reason q))"
    using cm staleness_of_open(2,3) [OF ok p o] inp
    by (auto simp: check_move_Inr plain_move_def k APPROVAL_MOVES_def)
  with p o inp ne cf sn fp rdy v ev show "approve_guard env c pid a role perms db"
    by (auto simp: approve_guard_def k plain_move_def needs_senior_checker_iff)
next
  assume "approve_guard env c pid a role perms db"
  then obtain p q inputs where p: "profiles db c = Some p"
    and o: "open_proposal_to_resolve c pid role db = Inr q" and inp: "company_inputs c db = Inr inputs"
    and ne: "a \<noteq> pr_created_by q" and cf: "reviewer_id p \<noteq> Some a" "rm_user_id p \<noteq> Some a"
    and sn: "needs_senior_checker (pr_to q) (pr_risk q) \<longrightarrow> holds perms APPROVE_HIGH_RISK"
    and fp: "inputs_fingerprint env inputs (select_evidence inputs (company_documents db c)) = pr_fingerprint q"
    and tx: "\<not> no_text (strip_if_given (pr_reason q))"
    and rdy: "pr_to q = CLEAR \<longrightarrow> 1 \<le> env_clear_validity_days env \<and>
        clear_ready inputs (pr_risk q) (select_evidence inputs (company_documents db c)) CLEAR_POLICY"
    unfolding approve_guard_def needs_senior_checker_iff by blast
  let ?r = "(plain_move (pr_to q) [pr_from q] (pr_created_by q) role (pr_reason q)
         (pr_risk q) None)\<lparr>mr_approval := Some (q, a)\<rparr>"
  note so = staleness_of_open [OF ok p o inp]
  note op = open_proposal_to_resolve_Inr [OF o]
  have k: "customer_id p = c" by (rule keyedD [OF system_okD(5) [OF ok] p])
  have role: "role = COMPLIANCE" using op(1) by (simp add: CHECKER_ROLES_def)
  have risk: "pr_risk q \<noteq> None \<longleftrightarrow> pr_to q = CLEAR"
    using approval_okD(3) [OF system_okD(4) [OF ok] op(2)] by (auto simp: proposal_checks_def)
  have cm: "returns (check_move p ?r)"
    using so(2) approval_roles [OF so(3)] tx risk unfolding returns_iff
    by (auto simp: check_move_Inr plain_move_def role)
  have "move_guard env p ?r db"
    using cm rdy inp approval_from [OF so(3) [folded so(2)]]
    by (auto simp: move_guard_def approval_gate_def move_claims_def start_needs_rm_def k plain_move_def)
  then have "returns (apply_move env p ?r db)"
    using ne p k by (subst apply_move_returns [OF system_okD(1) [OF ok]])
      (simp_all add: sound_request_def known_method_def plain_move_def)
  then obtain res p' db1 where am: "apply_move env p ?r db = Inr (res, p', db1)"
    by (auto simp: returns_iff)
  have rs: "returns (resolve env q APPROVED a None (Some (dn_id (mv_decision res)))
       ''background_check_service.approve'' db1)"
    by (rule resolve_returns [OF service_sources(2)])
  have lk: "lock_profile c db = Inr p" using p by (simp add: lock_profile_def)
  have cc: "refuse_checker_conflict p q a = Inr ()" using cf by (simp add: refuse_checker_conflict_Inr)
  have "\<not> (needs_senior_checker (pr_to q) (pr_risk q) \<and> \<not> holds perms APPROVE_HIGH_RISK)" using sn by blast
  with rs show "returns (approve env c pid a role perms db)"
    by (auto simp: approve_def lk o ne cc so(1) fp am returns_iff)
qed

text \<open>A rejection needs a checker and a reason; a withdrawal its proposer, or an assigner when the proposer has left.\<close>

theorem reject_returns:
  "returns (reject env c pid reason a role db) \<longleftrightarrow> (\<exists>p q. profiles db c = Some p \<and>
     open_proposal_to_resolve c pid role db = Inr q \<and> a \<noteq> pr_created_by q \<and>
     reviewer_id p \<noteq> Some a \<and> rm_user_id p \<noteq> Some a \<and> \<not> no_text (strip_if_given reason))"
  (is "?l = ?r")
proof
  assume ?l
  then obtain v db' where "reject env c pid reason a role db = Inr (v, db')" by (auto simp: returns_iff)
  then show ?r by (elim reject_effect) blast
next
  assume ?r
  then obtain p q where p: "lock_profile c db = Inr p" and q: "open_proposal_to_resolve c pid role db = Inr q"
    and n: "a \<noteq> pr_created_by q" and cc: "refuse_checker_conflict p q a = Inr ()"
    and t: "\<not> no_text (strip_if_given reason)"
    by (auto simp: lock_profile_eq_Inr refuse_checker_conflict_Inr)
  have "returns (resolve env q REJECTED a (strip_if_given reason) None ''background_check_service.reject'' db)"
    by (rule resolve_returns [OF service_sources(3)])
  then show ?l by (auto simp: reject_def p q n cc t returns_iff)
qed

theorem withdraw_returns:
  "returns (withdraw env c pid reason a role perms db) \<longleftrightarrow> (\<exists>q. profiles db c \<noteq> None \<and>
     open_proposal_to_resolve c pid role db = Inr q \<and>
     (a = pr_created_by q \<or> holds perms ASSIGN_REVIEWS \<and>
      (case staff db (pr_created_by q) of None \<Rightarrow> True
       | Some m \<Rightarrow> \<not> (sm_active m \<and> sm_role m \<in> set REVIEWER_ROLES))))"
  (is "?l = ?r")
proof
  assume ?l
  then obtain v db' where "withdraw env c pid reason a role perms db = Inr (v, db')" by (auto simp: returns_iff)
  then show ?r by (elim withdraw_effect) (intro exI conjI, simp, assumption+)
next
  assume ?r
  then obtain p q where p: "lock_profile c db = Inr p" and q: "open_proposal_to_resolve c pid role db = Inr q"
    and w: "a = pr_created_by q \<or> holds perms ASSIGN_REVIEWS \<and>
      (case staff db (pr_created_by q) of None \<Rightarrow> True
       | Some m \<Rightarrow> \<not> (sm_active m \<and> sm_role m \<in> set REVIEWER_ROLES))"
    by (auto simp: lock_profile_eq_Inr)
  have r: "returns (resolve env q WITHDRAWN a t None ''background_check_service.withdraw'' db)" for t
    by (rule resolve_returns [OF service_sources(4)])
  then obtain R D where r': "\<And>t. resolve env q WITHDRAWN a t None ''background_check_service.withdraw'' db
      = Inr (R t, D t)" unfolding returns_iff split_paired_Ex by metis
  from w show ?l
    by (auto simp: withdraw_def p q Let_def r' find_staff_member_def split: option.splits)
qed

section \<open>Starting a cycle\<close>

definition cycle_guard :: "crm_env \<Rightarrow> uuid \<Rightarrow> cycle_kind \<Rightarrow> string option \<Rightarrow> uuid \<Rightarrow> user_role \<Rightarrow> crm_db \<Rightarrow> bool" where
  "cycle_guard env c kind reason a role db \<longleftrightarrow> (\<exists>p. profiles db c = Some p \<and> role = COMPLIANCE \<and>
     kind \<in> set STARTABLE_CYCLE_KINDS \<and> \<not> no_text (strip_if_given reason) \<and>
     background_check p \<in> set CYCLE_START_STATES \<and> open_proposals db c = [] \<and>
     current_cycle_is_empty c (snd (current_or_initial c a (Some ''background_check_service.start_cycle'')
       (env_now env) db)) = Inr False)"

lemma decimal_digits_le: "n < 10 ^ k \<Longrightarrow> 0 < k \<Longrightarrow> decimal_digits n \<le> k"
proof (induction k arbitrary: n)
  case (Suc k)
  show ?case
  proof (cases "n < 10")
    case True
    then show ?thesis by (simp add: decimal_digits.simps [of n])
  next
    case False
    with Suc.prems have "n div 10 < 10 ^ k" "0 < k" by (auto intro: Nat.gr0I)
    from Suc.IH [OF this] show ?thesis by (subst decimal_digits.simps) simp
  qed
qed simp

lemma labelled_reason: "kind \<in> set STARTABLE_CYCLE_KINDS \<Longrightarrow>
   \<not> no_text (strip_if_given (Some (the (map_of CYCLE_LABELS kind) @ '': '' @ t)))"
proof -
  assume "kind \<in> set STARTABLE_CYCLE_KINDS"
  then have "CHR ''R'' \<in> set (the (map_of CYCLE_LABELS kind) @ '': '' @ t)"
    by (auto simp: STARTABLE_CYCLE_KINDS_def CYCLE_LABELS_def)
  moreover have "\<not> py_space (CHR ''R'')" by code_simp
  ultimately show ?thesis by (auto simp: strip_if_given_def py_strip_eq_Nil simp del: append_assoc)
qed

lemma number_value: "returns (require_value (HNumber n) MAX_VALUE) \<longleftrightarrow> decimal_digits n \<le> MAX_VALUE"
  by (simp add: require_value_def require_def)

lemma cycle_numbers_fit:
  assumes ok: "cycles_ok db" and few: "length (cycles db) < 10 ^ 60"
    and ci: "current_or_initial c a src at db = (prev, db1)" and n: "n \<le> Suc (cc_number prev)"
  shows "returns (require_value (HNumber n) MAX_VALUE)"
proof -
  have len: "length (company_cycles db c) \<le> length (cycles db)"
    by (simp add: company_cycles_def)
  have "cc_number prev \<le> Suc (length (cycles db))"
    using current_or_initial_cases [OF ci] current_cycle_last [OF ok, of c] len
    by (auto split: if_splits)
  then have "n \<le> Suc (Suc (10 ^ 60))" using n few by linarith
  also have "\<dots> < 10 ^ 61" by simp
  finally have "decimal_digits n \<le> 61" by (intro decimal_digits_le) simp_all
  then show ?thesis unfolding number_value by (simp add: MAX_VALUE_def)
qed

theorem start_cycle_returns:
  assumes ok: "system_ok db" and few: "length (cycles db) < 10 ^ 60"
  shows "returns (start_cycle env c kind reason a role db) \<longleftrightarrow> cycle_guard env c kind reason a role db"
proof
  assume "returns (start_cycle env c kind reason a role db)"
  then obtain out db' where sc: "start_cycle env c kind reason a role db = Inr (out, db')"
    by (auto simp: returns_iff)
  obtain p prev db1 where "profiles db c = Some p" and "role = COMPLIANCE"
    and "kind \<in> set STARTABLE_CYCLE_KINDS" and "\<not> no_text (strip_if_given reason)"
    and "background_check p \<in> set CYCLE_START_STATES" and "open_proposals db c = []"
    and "current_or_initial c a (Some ''background_check_service.start_cycle'') (env_now env) db
      = (prev, db1)"
    and "current_cycle_is_empty c db1 = Inr False"
    by (rule start_cycle_effect [OF sc], rule that, assumption+)
  then show "cycle_guard env c kind reason a role db"
    unfolding cycle_guard_def by (intro exI [of _ p]) auto
next
  assume "cycle_guard env c kind reason a role db"
  then obtain p prev db1 where p: "profiles db c = Some p" and role: "role = COMPLIANCE"
    and kind: "kind \<in> set STARTABLE_CYCLE_KINDS" and tx: "\<not> no_text (strip_if_given reason)"
    and cs: "background_check p \<in> set CYCLE_START_STATES" and np: "open_proposals db c = []"
    and ci: "current_or_initial c a (Some ''background_check_service.start_cycle'') (env_now env) db
      = (prev, db1)"
    and em: "current_cycle_is_empty c db1 = Inr False"
    unfolding cycle_guard_def by (metis prod.collapse)
  let ?src = "''background_check_service.start_cycle''"
  have lk: "lock_profile c db = Inr p" using p by (simp add: lock_profile_def)
  have aw: "refuse_if_awaiting_approval c db = Inr ()" using np by (simp add: refuse_if_awaiting_approval_Inr)
  have f: "fits ''check_cycle'' (Some (HNumber (cc_number prev))) (HNumber (cc_number (fst (add_next_cycle c prev kind t a
      ?src r rv at dbx)))) ?src" for t r rv at dbx
    using cycle_numbers_fit [OF system_okD(3) [OF ok] few ci] dimensions_fit service_sources
    by (simp add: fits_def add_next_cycle_def fresh_uuid_def Let_def)
  show "returns (start_cycle env c kind reason a role db)"
  proof (cases "background_check p = CLEAR")
    case False
    then show ?thesis
      using role kind tx cs
      by (simp add: start_cycle_def lk CYCLE_ROLES_def Let_def aw ci em record_history_fits [OF f] split_beta)
  next
    case True
    let ?i = "next_uuid db1"
    let ?t = "the (strip_if_given reason)"
    obtain cy dbb where an: "add_next_cycle c prev kind ?t a ?src (Some (UuidText ?i)) CURRENT_CLEAR_RULES
        (env_now env) (db1\<lparr>next_uuid := Suc ?i\<rparr>) = (cy, dbb)" by fastforce
    then have dbb: "decisions dbb = decisions db1" "evidence dbb = evidence db1" "profiles dbb = profiles db1"
        "proposals dbb = proposals db1" "resolutions dbb = resolutions db1" "?i < next_uuid dbb"
      by (auto simp: add_next_cycle_def fresh_uuid_def Let_def)
    note f1 = current_or_initial_frame [OF ci]
    have am: "returns (apply_move env p (reopen_request cy ?i a role kind ?t) (dbb\<lparr>history := h\<rparr>))" for h
    proof -
      let ?db2 = "dbb\<lparr>history := h\<rparr>"
      have same: "decisions ?db2 = decisions db" "evidence ?db2 = evidence db" "profiles ?db2 = profiles db"
        "proposals ?db2 = proposals db" "resolutions ?db2 = resolutions db"
        and n: "?i < next_uuid ?db2" using dbb f1 by auto
      have k: "customer_id p = c" by (rule keyedD [OF system_okD(5) [OF ok] p])
      have ch: "chain_ok ?db2"
        using f1(13) n by (intro chain_ok_frame [OF system_okD(1) [OF ok] same(1,2)])
          (simp_all add: rows_keep_gauge_same [OF system_okD(5) [OF ok]] same)
      have fresh: "?i \<notin> dn_id ` set (decisions db)"
        using chain_okD(3) [OF system_okD(1) [OF ok]] f1(13) by fastforce
      have "open_proposals ?db2 c = []" using np open_proposals_cong [OF same(4,5)] by simp
      then have ag: "approval_gate env p (reopen_request cy ?i a role kind ?t) ?db2 = Inr ()"
        by (simp add: approval_gate_def reopen_request_def plain_move_def True APPROVAL_MOVES_def k
            refuse_if_awaiting_approval_Inr)
      have cm: "returns (check_move p (reopen_request cy ?i a role kind ?t))"
        using labelled_reason [OF kind, of ?t] True
        by (auto simp: returns_iff check_move_Inr reopen_request_def plain_move_def map_of_MOVES role)
      have "move_guard env p (reopen_request cy ?i a role kind ?t) ?db2"
        using ag cm by (auto simp: move_guard_def move_claims_def start_needs_rm_def True REVIEWER_MOVES_def
            reopen_request_def plain_move_def)
      moreover have "sound_request (reopen_request cy ?i a role kind ?t) ?db2"
        using n fresh same(1) by (simp add: sound_request_def reopen_request_def plain_move_def)
      moreover have "known_method (reopen_request cy ?i a role kind ?t)"
        by (simp add: known_method_def reopen_request_def plain_move_def METHOD_FOR_MOVE_def)
      ultimately show ?thesis using ch p same(3) k by (simp add: apply_move_returns)
    qed
    then obtain R P D where am': "\<And>h. apply_move env p (reopen_request cy ?i a role kind ?t)
        (dbb\<lparr>history := h\<rparr>) = Inr (R h, P h, D h)"
      unfolding returns_iff split_paired_Ex by metis
    have f': "fits ''check_cycle'' (Some (HNumber (cc_number prev))) (HNumber (cc_number cy)) ?src"
      using f [of ?t "Some (UuidText ?i)" CURRENT_CLEAR_RULES "env_now env" "db1\<lparr>next_uuid := Suc ?i\<rparr>"]
      by (simp add: an)
    show ?thesis
      using role kind tx True cs
      by (simp add: start_cycle_def lk CYCLE_ROLES_def Let_def aw ci em fresh_uuid_def an
          record_history_fits [OF f'] am' [unfolded reopen_request_def role append.simps])
  qed
qed

end
