(* ===== verification/Sample_Run.thy ===== *)
theory Sample_Run
  imports Completion
begin

text \<open>
  One company taken through the whole life of a check: entered, put under review by its
  relationship manager, its checks and screening answered, proposed for \<open>CLEAR\<close> by one
  compliance officer, approved by another, and re-opened by a new check cycle. Each state
  is computed from the one before by the model's own operation; the properties are applied
  at these states.
\<close>

section \<open>The people, the settings and the inputs\<close>

definition rm_one :: uuid where "rm_one = 901"
definition officer_a :: uuid where "officer_a = 902"
definition officer_b :: uuid where "officer_b = 903"
definition company :: uuid where "company = 800"

lemmas sample_ids = rm_one_def officer_a_def officer_b_def company_def

definition sample_staff :: "uuid \<Rightarrow> staff_member option" where
  "sample_staff u =
     (if u = rm_one then Some \<lparr>sm_id = rm_one, sm_name = ''R'', sm_role = OPERATIONS, sm_active = True\<rparr>
      else if u = officer_a
      then Some \<lparr>sm_id = officer_a, sm_name = ''A'', sm_role = COMPLIANCE, sm_active = True\<rparr>
      else if u = officer_b
      then Some \<lparr>sm_id = officer_b, sm_name = ''B'', sm_role = COMPLIANCE, sm_active = True\<rparr>
      else None)"

definition sample_env :: crm_env where
  "sample_env = \<lparr>env_now = 5000, env_db_now = 5000, env_maker_checker = True,
     env_clear_validity_days = 365,
     env_sha256 = (\<lambda>d. 100 * length (fp_verifications d) + 10 * length (fp_screening d)
       + length (fp_documents d))\<rparr>"

definition sample_company :: exporter_profile where
  "sample_company = \<lparr>customer_id = company, ep_name = Some ''Acme'', ep_country = Some ''IN'', ep_pan = None,
     ep_gstins = [], ep_registration_number = None, ep_default_term = None,
     pipeline_st = IN_PIPELINE, journey_of = PROSPECT, qualification_of = QUALIFIED,
     marker_of = MARKER_NONE, marker_reason = None, conversation_of = READY_NOW,
     check_back_on = None, background_check = NOT_STARTED, bc_expires_at = None,
     reviewer_id = None, reviewer_assigned_at = None, rm_user_id = None\<rparr>"

definition sample_result :: "uuid \<Rightarrow> verification_type \<Rightarrow> verification_row" where
  "sample_result i t = \<lparr>vr_id = i, vr_type = t, vr_entity_type = EXPORTER, vr_entity_reference = company,
     vr_subject_company = None, vr_provider = ''registry'', vr_provider_reference = Some ''ref'',
     vr_status = V_PASSED, vr_risk_level = None, vr_performed_at = 6000, vr_valid_until = None,
     vr_created_at = 6000, vr_normalized = PyDict [], vr_evidence_note = None, vr_evidence_refs = [],
     vr_snapshot = None, vr_cycle = None\<rparr>"

definition sample_screening :: "screening_row list" where
  "sample_screening = map (\<lambda>(i, key). \<lparr>si_id = i, si_company = company, si_item_key = key,
     si_status = S_PASSED, si_reviewed_by = officer_a, si_reviewed_at = 6000,
     si_created_at = 6000, si_cycle = None\<rparr>) (zip [710..<717] SCREENING_CATALOGUE)"

definition sample_document :: crm_document where
  "sample_document = \<lparr>doc_id = 720, doc_company = Some company, doc_deal = None, doc_category = ENTITY_KYC,
     doc_type = ''incorporation'',
     doc_scan_status = AVAILABLE, doc_uploaded_at = 5500\<rparr>"

section \<open>The run\<close>

text \<open>
  Each state is the operation's own result; \<open>started_db\<close> and its successors are that state
  spelled out, but for the history rows.
\<close>

definition run_entered :: crm_db where
  "run_entered = save_profile sample_company (empty_db sample_staff)"

definition run_started :: crm_db where
  "run_started = snd (projr (start_review sample_env company rm_one OPERATIONS [] (Some rm_one) True
     run_entered))"

definition run_answered :: crm_db where
  "run_answered = run_started\<lparr>verifications := [sample_result 701 KYB, sample_result 702 AML,
       sample_result 703 SANCTIONS],
     reviews := [], screenings := sample_screening, documents := [sample_document],
     buyers := [], staff := sample_staff, history := history run_started @ []\<rparr>"

definition run_proposed :: crm_db where
  "run_proposed = snd (projr (propose sample_env company CLEAR (Some ''all checks passed'') (Some LOW)
     officer_a COMPLIANCE None run_answered))"

definition run_approved :: crm_db where
  "run_approved = snd (projr (approve sample_env company 2 officer_b COMPLIANCE [] run_proposed))"

definition run_recycled :: crm_db where
  "run_recycled = snd (projr (start_cycle sample_env company RE_KYC (Some ''yearly'') officer_a COMPLIANCE
     run_approved))"

section \<open>Evaluating it\<close>

lemma sample_sources:
  "good_source ''background_check_service.start_review''"
  "good_source ''background_check_service.propose''"
  "good_source ''background_check_service.approve''"
  "good_source ''background_check_service.clear''"
  "good_source ''background_check_service.start_cycle''"
  "good_source ''background_check_service.reopen''"
  by code_simp+

lemma number_fits: "n < 10 \<Longrightarrow> returns (require_value (HNumber n) MAX_VALUE)"
  by (simp add: require_value_def decimal_digits.simps MAX_VALUE_def)

lemmas table_simps = MOVES_def NO_TEXT_REQUIRED_def RISK_REQUIRED_def APPROVAL_MOVES_def
  REVIEWER_MOVES_def CLAIMING_MOVES_def DECIDED_def METHOD_FOR_MOVE_def RM_ROLES_def
  REVIEWER_ROLES_def CHECKER_ROLES_def UNDER_REVIEW_def
lemmas read_simps = lock_profile_def company_inputs_def current_cycle_def initial_cycle_def
  cycles_of_def verification_order_def verification_inputs_def latest_for_company_def
  unsuperseded_def open_for_company_def open_proposals_def resolution_of_def select_evidence_def
  company_documents_all owned_by_def find_staff_member_def latest_screening_def
  screening_item_def SCREENING_CATALOGUE_def List.map_filter_def
lemmas write_simps = save_profile_def record_history_fits history_fits sample_sources fresh_uuid_def
  record_decision_rows_def decision_row_def evidence_rows_def bc_source_def current_or_initial_def
lemmas start_simps = start_review_def move_def apply_move_def check_move_def plain_move_def
  strip_if_given_def approval_gate_def refuse_if_awaiting_approval_def move_claims_def
  move_reclaims_def start_needs_rm_def ensure_relationship_manager_def
  set_relationship_manager_def may_set_relationship_manager_def holds_def
  require_eligible_relationship_manager_def move_gauge_def

definition start_decision :: bc_decision where
  "start_decision = \<lparr>dn_id = 1, dn_company = company, dn_from = NOT_STARTED, dn_to = IN_REVIEW,
      dn_decided_by = rm_one, dn_decided_by_kind = MANUAL_KIND, dn_source = MANUAL_SOURCE,
      dn_decided_at = 5000, dn_reason = None, dn_risk = None, dn_supersedes = None,
      dn_rules_version = Some CURRENT_CLEAR_RULES, dn_cycle = Some 0, dn_proposal = None,
      dn_approved_by = None, dn_approved_at = None, dn_expires_at = None\<rparr>"

definition first_cycle :: check_cycle where
  "first_cycle = \<lparr>cc_id = 0, cc_company = company, cc_number = 1, cc_kind = INITIAL, cc_reason = None,
      cc_started_at = 5000, cc_rules_version = None, cc_created_by = rm_one,
      cc_source = CYCLE_SOURCE_FIRST_INPUT,
      cc_source_ref = Some (OtherText ''background_check_service.start_review'')\<rparr>"

definition started_db :: "history_row list \<Rightarrow> crm_db" where
  "started_db h = \<lparr>profiles = Map.empty(company \<mapsto>
         sample_company\<lparr>rm_user_id := Some rm_one, background_check := IN_REVIEW\<rparr>),
     decisions = [start_decision], evidence = [], proposals = [], resolutions = [],
     cycles = [first_cycle], verifications = [], reviews = [], screenings = [], documents = [],
     buyers = [], history = h, staff = sample_staff, next_uuid = 2\<rparr>"

lemma start_runs: "\<exists>x h. start_review sample_env company rm_one OPERATIONS [] (Some rm_one) True run_entered
    = Inr (x, started_db h)"
  by (simp add: started_db_def run_entered_def sample_company_def empty_db_def sample_env_def
      sample_ids sample_staff_def start_decision_def first_cycle_def Let_def
      table_simps read_simps write_simps start_simps
      del: bc_value.simps journey_value.simps outcome_value.simps)

lemma run_started_eq: "\<exists>h. run_started = started_db h"
  and run_started_returns: "\<exists>x. start_review sample_env company rm_one OPERATIONS [] (Some rm_one) True
    run_entered = Inr (x, run_started)"
  using start_runs by (auto simp: run_started_def)

text \<open>The answered checks, as the background check reads them.\<close>

definition answered_result :: "uuid \<Rightarrow> verification_type \<Rightarrow> verification_input" where
  "answered_result i t = \<lparr>vi_id = i, vi_type = t, vi_entity_type = EXPORTER, vi_provider = ''registry'',
     vi_status = V_PASSED, vi_risk_level = None, vi_performed_at = 6000, vi_is_placeholder = False,
     vi_latest_review_id = None, vi_latest_review_status = None, vi_latest_reviewed_at = None,
     vi_evidence_document_ids = [], vi_cycle = Some 0\<rparr>"

definition answered_inputs :: company_compliance_inputs where
  "answered_inputs = \<lparr>ci_company = company, ci_catalogue = SCREENING_CATALOGUE,
     ci_screening = map (\<lambda>(i, key). \<lparr>sin_key = key, sin_row = Some i, sin_status = Some S_PASSED,
        sin_reviewed_by = Some officer_a, sin_reviewed_at = Some 6000, sin_cycle = Some 0\<rparr>)
       (zip [710..<717] SCREENING_CATALOGUE),
     ci_verifications = [answered_result 703 SANCTIONS, answered_result 702 AML, answered_result 701 KYB],
     ci_current_cycle = Some 0\<rparr>"

definition answered_evidence :: evidence_selection where
  "answered_evidence = \<lparr>es_verifications = [(703, None), (702, None), (701, None)],
     es_screening = [710..<717], es_documents = [720]\<rparr>"

definition answered_db :: "history_row list \<Rightarrow> crm_db" where
  "answered_db h = (started_db h)\<lparr>verifications := [sample_result 701 KYB, sample_result 702 AML,
       sample_result 703 SANCTIONS], screenings := sample_screening, documents := [sample_document]\<rparr>"

lemma run_answered_eq: "\<exists>h. run_answered = answered_db h"
proof -
  obtain h where e: "run_started = started_db h" using run_started_eq by blast
  have "run_answered = answered_db h"
    unfolding run_answered_def e answered_db_def by (simp add: started_db_def)
  then show ?thesis by blast
qed

lemma answered_reads: "company_inputs company (answered_db []) = Inr answered_inputs"
  by code_simp

lemma sample_reads:
  assumes "profiles db company \<noteq> None" and "cycles db = [first_cycle]"
    and "verifications db = [sample_result 701 KYB, sample_result 702 AML, sample_result 703 SANCTIONS]"
    and "reviews db = []" and "screenings db = sample_screening"
  shows "company_inputs company db = Inr answered_inputs"
  unfolding answered_reads [symmetric]
  by (rule company_inputs_cong) (use assms in \<open>simp_all add: answered_db_def started_db_def\<close>)

lemma sample_selects:
  "documents db = [sample_document] \<Longrightarrow>
   select_evidence answered_inputs (company_documents db company) = answered_evidence"
  by (simp add: company_documents_all owned_by_def sample_document_def
      select_evidence_def answered_inputs_def answered_result_def answered_evidence_def
      SERVABLE_SCAN_STATUS_def SCREENING_CATALOGUE_def List.map_filter_def sample_ids upt_rec)

lemma answered_ready: "clear_ready answered_inputs (Some LOW) answered_evidence CLEAR_POLICY"
  unfolding evaluate_clear_prerequisites_Nil [symmetric] by code_simp

definition clear_proposal :: bc_proposal where
  "clear_proposal = \<lparr>pr_id = 2, pr_company = company, pr_based_on = 1, pr_from = IN_REVIEW, pr_to = CLEAR,
     pr_risk = Some LOW, pr_reason = Some ''all checks passed'', pr_fingerprint = 371,
     pr_evidence_count = 11, pr_cycle = 0, pr_rules_version = CURRENT_CLEAR_RULES,
     pr_created_by = officer_a, pr_created_at = 5000, pr_source = ''background_check_service.propose''\<rparr>"

definition proposed_db :: "history_row list \<Rightarrow> crm_db" where
  "proposed_db h = (answered_db h)\<lparr>profiles := Map.empty(company \<mapsto>
         sample_company\<lparr>rm_user_id := Some rm_one, background_check := IN_REVIEW,
           reviewer_id := Some officer_a, reviewer_assigned_at := Some 5000\<rparr>),
     proposals := [clear_proposal], next_uuid := 3\<rparr>"

lemmas input_defs = company_inputs_def select_evidence_def company_documents_all

lemma sample_fingerprint: "inputs_fingerprint sample_env answered_inputs answered_evidence = 371"
  by code_simp

lemma sample_reason: "strip_if_given (Some ''all checks passed'') = Some ''all checks passed''"
  by code_simp

lemma propose_runs: "\<exists>v h'. propose sample_env company CLEAR (Some ''all checks passed'') (Some LOW)
     officer_a COMPLIANCE None (answered_db h) = Inr (v, proposed_db h')"
proof -
  have p: "lock_profile company (answered_db h) = Inr (sample_company\<lparr>rm_user_id := Some rm_one,
      background_check := IN_REVIEW\<rparr>)"
    by (simp add: lock_profile_def answered_db_def started_db_def)
  have cur: "current_cycle (answered_db h) company = Some first_cycle"
    by (simp add: current_cycle_def cycles_of_def answered_db_def started_db_def first_cycle_def)
  have lt: "latest_for_company company (answered_db h) = Inr (Some start_decision)"
    by (simp add: latest_for_company_def unsuperseded_def answered_db_def started_db_def start_decision_def)
  have n: "open_for_company (answered_db h) company = None"
    by (simp add: open_for_company_def open_proposals_def answered_db_def started_db_def)
  let ?p = "sample_company\<lparr>rm_user_id := Some rm_one, background_check := IN_REVIEW\<rparr>"
  obtain row where sr: "set_reviewer sample_env ?p (Some officer_a) REVIEW_CLAIMED (Some officer_a) None
      ''background_check_service.propose'' (answered_db h) = Inr (reviewer_set sample_env ?p (Some officer_a),
        (save_profile (reviewer_set sample_env ?p (Some officer_a)) (answered_db h))
          \<lparr>history := history (answered_db h) @ [row]\<rparr>)"
    using set_reviewer_returns [OF sample_sources(2), of sample_env ?p "Some officer_a" REVIEW_CLAIMED
      "Some officer_a" None "answered_db h"] by blast
  have rd: "company_inputs company (answered_db h) = Inr answered_inputs"
    by (rule sample_reads) (simp_all add: answered_db_def started_db_def)
  have sl: "select_evidence answered_inputs (company_documents (answered_db h) company) = answered_evidence"
    by (rule sample_selects) (simp add: answered_db_def)
  have cr: "check_reviewer_move ?p officer_a = Inr True"
    by (simp add: check_reviewer_move_def refuse_reviewer_is_rm_def sample_company_def sample_ids)
  have f: "fits ''background_check_approval'' None (HText ''OPEN'') ''background_check_service.propose''"
    by (simp add: fits_def history_fits sample_sources)
  show ?thesis
    by (simp add: propose_def p Let_def table_simps check_move_def plain_move_def sample_reason
        refuse_if_awaiting_approval_def n cr sr rd sl
        require_clear_prerequisites_def evaluate_clear_prerequisites_Nil answered_ready lt
        current_or_initial_def cur fresh_uuid_def add_proposal_def record_history_fits [OF f]
        sample_fingerprint)
      (simp add: proposed_db_def answered_db_def started_db_def save_profile_def reviewer_set_def
        clear_proposal_def sample_env_def sample_company_def start_decision_def first_cycle_def
        answered_evidence_def evidence_count_def sample_ids)
qed

lemma run_proposed_eq: "\<exists>h. run_proposed = proposed_db h"
  and run_proposed_returns: "\<exists>v. propose sample_env company CLEAR (Some ''all checks passed'') (Some LOW)
     officer_a COMPLIANCE None run_answered = Inr (v, run_proposed)"
proof -
  obtain h where a: "run_answered = answered_db h" using run_answered_eq by blast
  from propose_runs [of h] show "\<exists>h. run_proposed = proposed_db h"
    and "\<exists>v. propose sample_env company CLEAR (Some ''all checks passed'') (Some LOW)
     officer_a COMPLIANCE None run_answered = Inr (v, run_proposed)"
    by (auto simp: run_proposed_def a)
qed

definition clear_decision :: bc_decision where
  "clear_decision = \<lparr>dn_id = 3, dn_company = company, dn_from = IN_REVIEW, dn_to = CLEAR,
      dn_decided_by = officer_a, dn_decided_by_kind = MANUAL_KIND, dn_source = MANUAL_SOURCE,
      dn_decided_at = 5000, dn_reason = Some ''all checks passed'', dn_risk = Some LOW,
      dn_supersedes = Some 1, dn_rules_version = Some CURRENT_CLEAR_RULES, dn_cycle = Some 0,
      dn_proposal = Some 2, dn_approved_by = Some officer_b, dn_approved_at = Some 5000,
      dn_expires_at = Some (5000 + days 365)\<rparr>"

definition clear_resolution :: bc_resolution where
  "clear_resolution = \<lparr>rs_id = 4, rs_proposal = 2, rs_proposed_by = officer_a, rs_outcome = APPROVED,
     rs_reason = None, rs_decision = Some 3, rs_created_by = officer_b, rs_created_at = 5000,
     rs_source = ''background_check_service.approve''\<rparr>"

definition approved_db :: "history_row list \<Rightarrow> crm_db" where
  "approved_db h = (proposed_db h)\<lparr>profiles := Map.empty(company \<mapsto>
         sample_company\<lparr>rm_user_id := Some rm_one, background_check := CLEAR,
           bc_expires_at := Some (5000 + days 365), journey_of := CUSTOMER\<rparr>),
     decisions := [start_decision, clear_decision],
     evidence := map (\<lambda>e. e\<lparr>ev_decision := 3\<rparr>) (evidence_rows answered_evidence),
     resolutions := [clear_resolution], next_uuid := 5\<rparr>"

lemma approve_runs: "\<exists>v h'. approve sample_env company 2 officer_b COMPLIANCE [] (proposed_db h)
    = Inr (v, approved_db h')"
proof -
  define p where "p = sample_company\<lparr>rm_user_id := Some rm_one, background_check := IN_REVIEW,
           reviewer_id := Some officer_a, reviewer_assigned_at := Some 5000\<rparr>"
  define r where "r = (plain_move CLEAR [IN_REVIEW] officer_a COMPLIANCE
        (Some ''all checks passed'') (Some LOW) None)\<lparr>mr_approval := Some (clear_proposal, officer_b)\<rparr>"
  define db where "db = proposed_db h"
  note db_simps = db_def proposed_db_def answered_db_def started_db_def
  have pf: "customer_id p = company" "background_check p = IN_REVIEW" "reviewer_id p = Some officer_a"
    "rm_user_id p = Some rm_one" by (simp_all add: p_def sample_company_def)
  have rf: "mr_to r = CLEAR" "mr_actor r = officer_a" "mr_risk r = Some LOW" "mr_cycle r = None"
    "mr_decision_id r = None" "mr_approval r = Some (clear_proposal, officer_b)"
    by (simp_all add: r_def plain_move_def)
  have lk: "lock_profile company db = Inr p" and pd: "profiles db company = Some p"
    by (simp_all add: lock_profile_def db_def proposed_db_def p_def)
  have cur: "current_cycle db company = Some first_cycle"
    by (simp add: current_cycle_def cycles_of_def db_simps first_cycle_def)
  have lt: "latest_for_company company db = Inr (Some start_decision)"
    by (simp add: latest_for_company_def unsuperseded_def db_simps start_decision_def)
  have op: "open_proposal_to_resolve company 2 COMPLIANCE db = Inr clear_proposal"
    by (simp add: open_proposal_to_resolve_def CHECKER_ROLES_def get_proposal_for_company_def
        db_simps clear_proposal_def resolution_of_def)
  have rd: "company_inputs company db = Inr answered_inputs"
    by (rule sample_reads) (simp_all add: db_simps)
  have sl: "select_evidence answered_inputs (company_documents db company) = answered_evidence"
    by (rule sample_selects) (simp add: db_simps)
  have st: "staleness sample_env p clear_proposal db = Inr None"
    by (simp add: staleness_def clear_proposal_def pf lt rd sl sample_fingerprint start_decision_def)
  have cc: "refuse_checker_conflict p clear_proposal officer_b = Inr ()"
    by (simp add: refuse_checker_conflict_Inr pf sample_ids)
  have cm: "check_move p r = Inr (Some ''all checks passed'', ''clear'')"
    by (simp add: check_move_def pf r_def plain_move_def Let_def table_simps sample_reason)
  have nrm: "\<not> start_needs_rm p r" "\<not> move_reclaims p r"
    by (simp_all add: start_needs_rm_def move_reclaims_def table_simps pf rf)
  let ?dbr = "record_decision_rows clear_decision (evidence_rows answered_evidence) (db\<lparr>next_uuid := 4\<rparr>)"
  obtain row where sr: "set_reviewer sample_env p None REVIEW_ENDED (Some officer_a) None
      ''background_check_service.clear'' ?dbr = Inr (reviewer_set sample_env p None,
        (save_profile (reviewer_set sample_env p None) ?dbr)\<lparr>history := history ?dbr @ [row]\<rparr>)"
    using set_reviewer_returns [OF sample_sources(4)] by blast
  have dr: "decision_row sample_env p r (Some ''all checks passed'') 3 (Some start_decision) first_cycle
      (Some (5000 + days 365)) = clear_decision"
    by (simp add: decision_row_def clear_decision_def pf rf sample_env_def
        start_decision_def first_cycle_def clear_proposal_def)
  have ev: "env_db_now sample_env = 5000" "env_clear_validity_days sample_env = 365" "env_now sample_env = 5000"
    by (simp_all add: sample_env_def)
  have nx: "next_uuid db = 3" by (simp add: db_simps)
  define p1 where "p1 = sample_company\<lparr>rm_user_id := Some rm_one, background_check := CLEAR,
           bc_expires_at := Some (5000 + days 365)\<rparr>"
  define g where "g h = (approved_db h)\<lparr>profiles := Map.empty(company \<mapsto> p1), resolutions := [], next_uuid := 4\<rparr>" for h
  note g_simps = g_def approved_db_def db_simps
  have "\<exists>h. move_gauge sample_env p r False False (Some (5000 + days 365)) ''background_check_service.clear'' ?dbr
    = Inr (p1, g h)"
    by (simp add: move_gauge_def rf pf DECIDED_def sr Let_def)
      (simp add: g_simps p_def p1_def reviewer_set_def sample_company_def save_profile_def record_decision_rows_def
        clear_decision_def)
  then obtain h1 where mg: "move_gauge sample_env p r False False (Some (5000 + days 365))
      ''background_check_service.clear'' ?dbr = Inr (p1, g h1)" by blast
  have f1: "fits ''background_check'' (Some (HText ''IN_REVIEW'')) (HText ''CLEAR'') ''background_check_service.clear''"
    using history_fits(1) [OF dimensions_fit(1) sample_sources(4) bc_value_fits bc_value_fits, of IN_REVIEW CLEAR] by simp
  have f2: "fits ''journey'' (Some (HText ''PROSPECT'')) (HText ''CUSTOMER'') ''background_check_service.clear''"
    using history_fits(1) [OF dimensions_fit(6) sample_sources(4) journey_fits journey_fits, of PROSPECT CUSTOMER] by simp
  have pr: "\<exists>a w. promote_to_customer_if_ready sample_env p1 (Some officer_a) ''background_check_clear''
      ''background_check_service.clear'' ((g h1)\<lparr>history := h2\<rparr>)
     = Inr (a, p1\<lparr>journey_of := CUSTOMER\<rparr>, (approved_db w)\<lparr>resolutions := [], next_uuid := 4\<rparr>)" for h2
  proof -
    let ?db = "(g h1)\<lparr>history := h2\<rparr>"
    have l: "latest_for_company company ?db = Inr (Some clear_decision)"
      by (simp add: latest_for_company_def unsuperseded_def g_simps start_decision_def clear_decision_def)
    have k: "latest_risk company ?db = Some LOW"
      by (simp add: latest_risk_def newest_first_def g_simps start_decision_def clear_decision_def)
    have i: "company_inputs company ?db = Inr answered_inputs"
      by (rule sample_reads) (simp_all add: g_simps)
    have "profiles ?db company = Some p1" by (simp add: g_def)
    then show ?thesis
      by (simp add: promote_to_customer_if_ready_def facts_for_company_def standing_def l k i Let_def
          is_clear_and_current_def st_is_clear_def clear_decision_def clear_expiry_def
          p1_def sample_company_def ev days_def record_history_fits [OF f2])
        (simp add: g_simps save_profile_def p1_def sample_company_def days_def)
  qed
  then obtain A W where pr': "\<And>h2. promote_to_customer_if_ready sample_env p1 (Some officer_a)
      ''background_check_clear'' ''background_check_service.clear'' ((g h1)\<lparr>history := h2\<rparr>)
     = Inr (A h2, p1\<lparr>journey_of := CUSTOMER\<rparr>, (approved_db (W h2))\<lparr>resolutions := [], next_uuid := 4\<rparr>)"
    by metis
  have rq: "require_clear_prerequisites company answered_inputs (Some LOW) answered_evidence = Inr ()"
    by (simp add: require_clear_prerequisites_Inr answered_ready)
  have mv: "\<exists>res p' h'. apply_move sample_env p r db
      = Inr (res, p', (approved_db h')\<lparr>resolutions := [], next_uuid := 4\<rparr>) \<and> mv_decision res = clear_decision"
    by (auto simp: apply_move_def cm nrm Let_def approval_gate_def move_claims_def pf rf
       rd sl rq current_or_initial_def cur lt clear_validity_def
       ev bc_source_def fresh_uuid_def nx dr mg record_history_fits [OF f1] pr')
  then obtain res p' h' where am: "apply_move sample_env p r db
      = Inr (res, p', (approved_db h')\<lparr>resolutions := [], next_uuid := 4\<rparr>)"
    and d: "mv_decision res = clear_decision" by blast
  have f3: "fits ''background_check_approval'' (Some (HText ''OPEN'')) (HText ''APPROVED'') ''background_check_service.approve''"
    using history_fits(1) [OF dimensions_fit(3) sample_sources(3) outcome_fits open_fits, of APPROVED] by simp
  have rs: "\<exists>rs w. resolve sample_env clear_proposal APPROVED officer_b None (Some 3)
      ''background_check_service.approve'' ((approved_db h')\<lparr>resolutions := [], next_uuid := 4\<rparr>)
    = Inr (rs, approved_db w)"
    by (simp add: resolve_def Let_def fresh_uuid_def record_history_fits [OF f3] add_resolution_def ev)
      (simp add: approved_db_def clear_resolution_def clear_proposal_def proposed_db_def answered_db_def started_db_def)
  have cp: "pr_to clear_proposal = CLEAR" "pr_from clear_proposal = IN_REVIEW"
    "pr_created_by clear_proposal = officer_a" "pr_reason clear_proposal = Some ''all checks passed''"
    "pr_risk clear_proposal = Some LOW" by (simp_all add: clear_proposal_def)
  have "officer_b \<noteq> officer_a" "\<not> needs_senior_checker CLEAR (Some LOW)" "dn_id clear_decision = 3"
    by (simp_all add: sample_ids needs_senior_checker_iff clear_decision_def)
  with rs show ?thesis
    unfolding db_def [symmetric]
    by (auto simp: approve_def lk op st cc cp am [unfolded r_def] d)
qed

lemma run_approved_eq: "\<exists>h. run_approved = approved_db h"
  and run_approved_returns: "\<exists>v. approve sample_env company 2 officer_b COMPLIANCE [] run_proposed
     = Inr (v, run_approved)"
proof -
  obtain h where a: "run_proposed = proposed_db h" using run_proposed_eq by blast
  from approve_runs [of h] show "\<exists>h. run_approved = approved_db h"
    and "\<exists>v. approve sample_env company 2 officer_b COMPLIANCE [] run_proposed = Inr (v, run_approved)"
    by (auto simp: run_approved_def a)
qed

lemma run_recycled_returns: "\<exists>v. start_cycle sample_env company RE_KYC (Some ''yearly'') officer_a COMPLIANCE
     run_approved = Inr (v, run_recycled)"
  if "system_ok run_approved"
proof -
  obtain h where a: "run_approved = approved_db h" using run_approved_eq by blast
  let ?p = "sample_company\<lparr>rm_user_id := Some rm_one, background_check := CLEAR,
           bc_expires_at := Some (5000 + days 365), journey_of := CUSTOMER\<rparr>"
  have cur: "current_cycle (approved_db h) company = Some first_cycle"
    by (simp add: current_cycle_def cycles_of_def approved_db_def proposed_db_def answered_db_def
        started_db_def first_cycle_def)
  have rd: "company_inputs company (approved_db h) = Inr answered_inputs"
    by (rule sample_reads) (simp_all add: approved_db_def proposed_db_def answered_db_def started_db_def)
  have "profiles (approved_db h) company = Some ?p" by (simp add: approved_db_def)
  moreover have "\<not> no_text (strip_if_given (Some ''yearly''))" by code_simp
  moreover have "open_proposals (approved_db h) company = []"
    by (simp add: open_proposals_def resolution_of_def approved_db_def proposed_db_def clear_proposal_def
        clear_resolution_def)
  moreover have "current_cycle_is_empty company (approved_db h) = Inr False"
    by (simp add: current_cycle_is_empty_def rd answered_inputs_def)
  ultimately have "cycle_guard sample_env company RE_KYC (Some ''yearly'') officer_a COMPLIANCE (approved_db h)"
    unfolding cycle_guard_def
    by (intro exI [of _ ?p]) (simp add: STARTABLE_CYCLE_KINDS_def CYCLE_START_STATES_def current_or_initial_def cur)
  moreover have "length (cycles (approved_db h)) < 10 ^ 60"
    by (simp add: approved_db_def proposed_db_def answered_db_def started_db_def)
  ultimately have "returns (start_cycle sample_env company RE_KYC (Some ''yearly'') officer_a COMPLIANCE run_approved)"
    using start_cycle_returns [OF that] by (simp add: a)
  then show ?thesis by (auto simp: run_recycled_def returns_iff)
qed

section \<open>The run is reachable\<close>

text \<open>Under the policy that maker-checker is on.\<close>

lemma sample_step: "reachable env_maker_checker db \<Longrightarrow> crm_step sample_env db db' \<Longrightarrow>
   reachable env_maker_checker db'"
  by (rule reachable.step [where policy = env_maker_checker and env = sample_env])
    (simp_all add: sample_env_def)

lemma reachable_entered: "reachable env_maker_checker run_entered"
  unfolding run_entered_def
  by (rule sample_step [OF reachable.initial], rule crm_step.company [where c = company])
    (simp_all add: empty_db_def new_company_def sample_company_def)

lemma reachable_started: "reachable env_maker_checker run_started"
  using run_started_returns sample_step [OF reachable_entered crm_step.start] by blast

lemma reachable_answered: "reachable env_maker_checker run_answered"
proof -
  have "db\<lparr>verifications := vs, reviews := rs, screenings := ss, documents := ds, buyers := bs,
      staff := st, history := hs, next_uuid := next_uuid db\<rparr> = db\<lparr>verifications := vs, reviews := rs,
      screenings := ss, documents := ds, buyers := bs, staff := st, history := hs\<rparr>"
    for db vs rs ss ds bs st hs
    by (cases db) simp
  from sample_step [OF reachable_started crm_step.inputs [OF order_refl], unfolded this] show ?thesis
    unfolding run_answered_def .
qed

lemma reachable_proposed: "reachable env_maker_checker run_proposed"
  using run_proposed_returns sample_step [OF reachable_answered crm_step.proposed] by blast

lemma reachable_approved: "reachable env_maker_checker run_approved"
  using run_approved_returns sample_step [OF reachable_proposed crm_step.approved] by blast

lemma reachable_recycled: "reachable env_maker_checker run_recycled"
  using run_recycled_returns [OF reachable_ok [OF reachable_approved]]
    sample_step [OF reachable_approved crm_step.cycled] by blast

lemmas sample_reachable = reachable_entered reachable_started reachable_answered reachable_proposed
  reachable_approved reachable_recycled

section \<open>Its tables\<close>

definition proposed_company :: exporter_profile where
  "proposed_company = sample_company\<lparr>rm_user_id := Some rm_one, background_check := IN_REVIEW,
     reviewer_id := Some officer_a, reviewer_assigned_at := Some 5000\<rparr>"

definition cleared_company :: exporter_profile where
  "cleared_company = sample_company\<lparr>rm_user_id := Some rm_one, background_check := CLEAR,
     bc_expires_at := Some (5000 + days 365), journey_of := CUSTOMER\<rparr>"

lemmas sample_dbs = approved_db_def proposed_db_def answered_db_def started_db_def

lemma run_proposed_tables:
  "profiles run_proposed company = Some proposed_company" "decisions run_proposed = [start_decision]"
  "proposals run_proposed = [clear_proposal]" "resolutions run_proposed = []"
  "cycles run_proposed = [first_cycle]" "staff run_proposed = sample_staff"
  "open_proposals run_proposed company = [clear_proposal]"
  "company_inputs company run_proposed = Inr answered_inputs"
  "documents run_proposed = [sample_document]"
proof -
  obtain h where e: "run_proposed = proposed_db h" using run_proposed_eq by blast
  show "profiles run_proposed company = Some proposed_company" "decisions run_proposed = [start_decision]"
    "proposals run_proposed = [clear_proposal]" "resolutions run_proposed = []"
    "cycles run_proposed = [first_cycle]" "staff run_proposed = sample_staff"
    "open_proposals run_proposed company = [clear_proposal]"
    "documents run_proposed = [sample_document]"
    by (simp_all add: e sample_dbs proposed_company_def open_proposals_def resolution_of_def
        clear_proposal_def)
  show "company_inputs company run_proposed = Inr answered_inputs"
    by (rule sample_reads) (simp_all add: e sample_dbs)
qed

lemma run_approved_tables:
  "profiles run_approved company = Some cleared_company"
  "decisions run_approved = [start_decision, clear_decision]"
  "proposals run_approved = [clear_proposal]" "resolutions run_approved = [clear_resolution]"
  "cycles run_approved = [first_cycle]" "open_proposals run_approved company = []"
  "company_inputs company run_approved = Inr answered_inputs"
proof -
  obtain h where e: "run_approved = approved_db h" using run_approved_eq by blast
  show "profiles run_approved company = Some cleared_company"
    "decisions run_approved = [start_decision, clear_decision]"
    "proposals run_approved = [clear_proposal]" "resolutions run_approved = [clear_resolution]"
    "cycles run_approved = [first_cycle]" "open_proposals run_approved company = []"
    by (simp_all add: e sample_dbs cleared_company_def open_proposals_def resolution_of_def
        clear_proposal_def clear_resolution_def)
  show "company_inputs company run_approved = Inr answered_inputs"
    by (rule sample_reads) (simp_all add: e sample_dbs)
qed

end
