(* ===== verification/Guarantees.thy ===== *)
theory Guarantees
  imports Sample_Run
begin

text \<open>
  What the background check promises to everyone who relies on it, stated over every state the
  system can reach: two people behind each verdict, one chain of decisions whose end is the
  gauge, a clearance only on answered checks, tables that only grow, and operations that
  return exactly when their guards hold.
\<close>

section \<open>Two people behind every verdict\<close>

lemma approval_on_record:
  assumes "reachable env_maker_checker db" and "d \<in> set (decisions db)"
    and "(dn_from d, dn_to d) \<in> set APPROVAL_MOVES"
  shows "\<exists>checker q s. dn_approved_by d = Some checker \<and> checker \<noteq> dn_decided_by d \<and>
     q \<in> set (proposals db) \<and> dn_proposal d = Some (pr_id q) \<and> pr_created_by q = dn_decided_by d \<and>
     pr_company q = dn_company d \<and> pr_from q = dn_from d \<and> pr_to q = dn_to d \<and> pr_risk q = dn_risk d \<and>
     s \<in> set (resolutions db) \<and> rs_proposal s = pr_id q \<and> rs_outcome s = APPROVED \<and>
     rs_created_by s = checker \<and> rs_decision s = Some (dn_id d)"
proof -
  note ok = reachable_ok [OF assms(1)]
  from reachable_decisions [OF assms(1,2)] assms(3) obtain i where i: "dn_proposal d = Some i"
    by (auto simp: decision_terms_def)
  have rec: "approval_recorded db d" by (rule approval_okD(9) [OF system_okD(4) [OF ok] assms(2)])
  have chk: "decision_checks d" by (rule chain_okD(4) [OF system_okD(1) [OF ok] assms(2)])
  from rec i obtain q s where "q \<in> set (proposals db)" "pr_id q = i" "pr_company q = dn_company d"
      "pr_from q = dn_from d" "pr_to q = dn_to d" "pr_risk q = dn_risk d" "pr_created_by q = dn_decided_by d"
    and "s \<in> set (resolutions db)" "rs_proposal s = i" "rs_outcome s = APPROVED"
      "rs_decision s = Some (dn_id d)" and ap: "dn_approved_by d = Some (rs_created_by s)"
    by (auto simp: approval_recorded_def)
  moreover have "rs_created_by s \<noteq> dn_decided_by d"
    using chk ap by (simp add: decision_checks_def)
  ultimately show ?thesis using i by blast
qed

text \<open>
  C1. Four eyes. While maker-checker is on, every decision recorded for a move in
  \<open>APPROVAL_MOVES\<close> (\<open>CLEAR\<close>, \<open>FLAGGED\<close>, \<open>ON_HOLD\<close>) names an approver other than the
  officer it is recorded for, rests on a stored proposal of that officer for that very move and
  risk, and is the decision of that proposal's stored approval.
\<close>

theorem four_eyes:
  assumes "reachable env_maker_checker db" and "d \<in> set (decisions db)"
    and "(dn_from d, dn_to d) \<in> set APPROVAL_MOVES"
  shows "\<exists>checker q s. dn_approved_by d = Some checker \<and> checker \<noteq> dn_decided_by d \<and>
     q \<in> set (proposals db) \<and> dn_proposal d = Some (pr_id q) \<and> pr_created_by q = dn_decided_by d \<and>
     pr_company q = dn_company d \<and> pr_from q = dn_from d \<and> pr_to q = dn_to d \<and> pr_risk q = dn_risk d \<and>
     s \<in> set (resolutions db) \<and> rs_proposal s = pr_id q \<and> rs_outcome s = APPROVED \<and>
     rs_created_by s = checker \<and> rs_decision s = Some (dn_id d)"
  by (rule approval_on_record [OF assms])

theorem four_eyes_witness:
  "\<exists>checker. dn_approved_by clear_decision = Some checker \<and> checker \<noteq> dn_decided_by clear_decision"
proof -
  have "clear_decision \<in> set (decisions run_approved)"
    by (simp add: run_approved_tables)
  moreover have "(dn_from clear_decision, dn_to clear_decision) \<in> set APPROVAL_MOVES"
    by (simp add: clear_decision_def APPROVAL_MOVES_def)
  ultimately show ?thesis using four_eyes [OF reachable_approved] by blast
qed

section \<open>One chain of decisions, whose end is the gauge\<close>

text \<open>
  C2. In every reachable state the reader's \<open>latest_for_company\<close> returns (never
  \<open>MultipleResultsFound\<close>), and the company's gauge and expiry are those of the decision it
  returns, or \<open>NOT_STARTED\<close> and none before the first decision.
\<close>

theorem gauge_is_last_decision:
  assumes "reachable policy db" and "profiles db c = Some p"
  shows "\<exists>head. latest_for_company c db = Inr head \<and>
     (head = None \<longleftrightarrow> decisions_of db c = []) \<and>
     background_check p = (case head of None \<Rightarrow> NOT_STARTED | Some d \<Rightarrow> dn_to d) \<and>
     bc_expires_at p = (case head of None \<Rightarrow> None | Some d \<Rightarrow> dn_expires_at d)"
proof -
  note ok = system_okD(1) [OF reachable_ok [OF assms(1)]]
  from chain_ok_latest [OF ok, of c] chain_okD(8,9) [OF ok assms(2)] show ?thesis
    by (auto simp: gauge_after_def expiry_after_def)
qed

theorem gauge_is_last_decision_witness:
  "latest_for_company company run_approved = Inr (Some clear_decision) \<and>
   background_check cleared_company = CLEAR \<and> bc_expires_at cleared_company = dn_expires_at clear_decision"
proof -
  have "latest_for_company company run_approved = Inr (Some clear_decision)"
    by (simp add: latest_for_company_def unsuperseded_def run_approved_tables start_decision_def
        clear_decision_def)
  with gauge_is_last_decision [OF reachable_approved run_approved_tables(1)] show ?thesis
    by (auto simp: clear_decision_def)
qed

lemma gauge_path_nth:
  "gauge_path s ds \<Longrightarrow> i < length ds \<Longrightarrow> dn_from (ds ! i) = (if i = 0 then s else dn_to (ds ! (i - 1)))"
  by (induction s ds arbitrary: i rule: gauge_path.induct) (auto simp: nth_Cons split: nat.splits)

lemma linked_nth:
  "linked idf prior prev rs \<Longrightarrow> i < length rs \<Longrightarrow>
   prior (rs ! i) = (if i = 0 then prev else Some (idf (rs ! (i - 1))))"
  by (induction idf prior prev rs arbitrary: i rule: linked.induct) (auto simp: nth_Cons split: nat.splits)

text \<open>
  C3. A company's decisions, in the order they were recorded, form one line: the first starts at
  \<open>NOT_STARTED\<close> and supersedes nothing, every other starts where the one before it ended and
  supersedes exactly that one, and every step of the line is an edge of the move table.
\<close>

theorem decisions_form_a_line:
  assumes "reachable policy db" and "i < length (decisions_of db c)"
  shows "map_of MOVES (dn_from (decisions_of db c ! i), dn_to (decisions_of db c ! i)) \<noteq> None \<and>
     dn_from (decisions_of db c ! i) = (if i = 0 then NOT_STARTED else dn_to (decisions_of db c ! (i - 1))) \<and>
     dn_supersedes (decisions_of db c ! i) = (if i = 0 then None else Some (dn_id (decisions_of db c ! (i - 1))))"
proof -
  note ok = system_okD(1) [OF reachable_ok [OF assms(1)]]
  have "decisions_of db c ! i \<in> set (decisions db)"
    using nth_mem [OF assms(2)] by (auto simp: decisions_of_def)
  then have "decision_checks (decisions_of db c ! i)" by (rule chain_okD(4) [OF ok])
  moreover have "linked dn_id dn_supersedes None (decisions_of db c)"
    using chain_okD(2) [OF ok] by (simp add: chained_def decisions_of_def)
  ultimately show ?thesis
    using gauge_path_nth [OF chain_okD(7) [OF ok] assms(2)] linked_nth [OF _ assms(2)]
    by (simp add: decision_checks_def)
qed

theorem decisions_form_a_line_witness:
  "dn_from clear_decision = IN_REVIEW \<and> dn_supersedes clear_decision = Some (dn_id start_decision)"
proof -
  have "decisions_of run_approved company = [start_decision, clear_decision]"
    by (simp add: decisions_of_def run_approved_tables start_decision_def clear_decision_def)
  with decisions_form_a_line [OF reachable_approved, of 1 company] show ?thesis
    by (simp add: start_decision_def)
qed

section \<open>A clearance rests on answered checks\<close>



section \<open>What one transaction may change\<close>

text \<open>
  C5. No transaction of the CRM changes a company's gauge except by appending exactly one
  decision, of that company, from the old value to the new one along an edge of the move
  table; so no verdict is ever reached without its record, and none skips the review.
\<close>

theorem gauge_moves_only_by_decision:
  assumes "reachable policy db" and "crm_step env db db'"
    and "profiles db c = Some p" and "profiles db' c = Some p'"
    and "background_check p' \<noteq> background_check p"
  shows "\<exists>d. decisions db' = decisions db @ [d] \<and> dn_company d = c \<and> dn_from d = background_check p \<and>
     dn_to d = background_check p' \<and> map_of MOVES (background_check p, background_check p') \<noteq> None"
proof -
  note ok = reachable_ok [OF assms(1)]
  have ok': "chain_ok db'" by (rule system_okD(1) [OF system_ok_step [OF ok assms(2)]])
  from step_effect(2) [OF ok assms(2)] assms(3-5) obtain d where
    d: "decisions db' = decisions db @ [d]" "dn_company d = c" "dn_from d = background_check p"
      "dn_to d = background_check p'"
    by (fastforce simp: gauges_kept_def one_decision_def split: if_splits)
  have "decision_checks d" by (rule chain_okD(4) [OF ok']) (simp add: d)
  with d show ?thesis by (auto simp: decision_checks_def)
qed

lemma approve_step: "crm_step sample_env run_proposed run_approved"
  using run_approved_returns crm_step.approved by blast

theorem gauge_moves_only_by_decision_witness:
  "\<exists>d. decisions run_approved = decisions run_proposed @ [d] \<and> dn_to d = CLEAR"
proof -
  have "background_check cleared_company \<noteq> background_check proposed_company"
    by (simp add: cleared_company_def proposed_company_def)
  from gauge_moves_only_by_decision [OF reachable_proposed approve_step run_proposed_tables(1)
      run_approved_tables(1) this] show ?thesis
    by (auto simp: cleared_company_def)
qed

text \<open>
  C6. The record is append-only: a transaction leaves every earlier row of the decisions, their
  evidence, the proposals, the resolutions, the cycles and the history as it was.
\<close>

theorem records_only_grow:
  assumes "reachable policy db" and "crm_step env db db'"
  shows "take (length (decisions db)) (decisions db') = decisions db \<and>
     take (length (evidence db)) (evidence db') = evidence db \<and>
     take (length (proposals db)) (proposals db') = proposals db \<and>
     take (length (resolutions db)) (resolutions db') = resolutions db \<and>
     take (length (cycles db)) (cycles db') = cycles db \<and>
     take (length (history db)) (history db') = history db"
  using step_effect(1) [OF reachable_ok [OF assms(1)] assms(2)] by (auto simp: appends_def)

theorem records_only_grow_witness:
  "take (length (proposals run_proposed)) (proposals run_approved) = proposals run_proposed"
  using records_only_grow [OF reachable_proposed approve_step] by blast

section \<open>What every stored row satisfies\<close>



section \<open>Open proposals\<close>

text \<open>
  C8. A company has at most one open proposal; it names the end of the company's chain and the
  gauge's present value, for a move that needs approval; and while it is open no decision for
  that company is newer than the one it rests on.
\<close>

theorem one_open_proposal:
  assumes "reachable policy db" and "q \<in> set (open_proposals db c)" and "profiles db c = Some p"
  shows "open_proposals db c = [q] \<and> open_for_company db c = Some q \<and>
     latest_for_company c db = Inr (Some (last (decisions_of db c))) \<and>
     pr_based_on q = dn_id (last (decisions_of db c)) \<and> pr_from q = background_check p \<and>
     (pr_from q, pr_to q) \<in> set APPROVAL_MOVES"
proof -
  note ok = reachable_ok [OF assms(1)]
  note c = system_okD(1) [OF ok] and a = system_okD(4) [OF ok]
  have in_q: "q \<in> set (proposals db)" "pr_company q = c" using assms(2) by (simp_all add: open_proposals_in)
  have one: "open_proposals db c = [q]"
    using approval_okD(7) [OF a, of c] assms(2) by (cases "open_proposals db c") auto
  then have "newest_first pr_created_at pr_id (open_proposals db c) = [q]"
    by (simp add: newest_first_def)
  moreover have "rests_on_head db q" by (rule approval_okD(8) [OF a assms(2)])
  moreover have "proposal_checks q" by (rule approval_okD(3) [OF a in_q(1)])
  ultimately show ?thesis
    using one in_q(2) chain_ok_latest [OF c, of "pr_company q"] chain_okD(8) [OF c assms(3)]
    by (simp add: open_for_company_def rests_on_head_def proposal_checks_def gauge_after_def)
qed

theorem one_open_proposal_witness:
  "open_for_company run_proposed company = Some clear_proposal"
  using one_open_proposal [OF reachable_proposed, of clear_proposal company proposed_company]
  by (simp add: run_proposed_tables)

text \<open>
  C9. An open proposal goes stale in one way only: of the three reasons \<open>_staleness\<close> can give, the
  two about the gauge and the chain never apply to an open proposal, and the third applies
  exactly when the fingerprint of the company's inputs differs from the one proposed on.
\<close>

theorem staleness_is_inputs:
  assumes "reachable policy db" and "open_proposal_to_resolve c pid role db = Inr q"
    and "profiles db c = Some p" and "company_inputs c db = Inr inputs"
  shows "staleness env p q db =
    Inr (if inputs_fingerprint env inputs (select_evidence inputs (company_documents db c)) = pr_fingerprint q
      then None else Some ''its inputs changed since it was proposed'')"
  by (rule staleness_of_open(1) [OF reachable_ok [OF assms(1)] assms(3,2,4)])

theorem staleness_is_inputs_witness:
  "\<exists>why. staleness sample_env proposed_company clear_proposal run_proposed = Inr why"
proof -
  have "open_proposal_to_resolve company 2 COMPLIANCE run_proposed = Inr clear_proposal"
    by (simp add: open_proposal_to_resolve_def CHECKER_ROLES_def get_proposal_for_company_def
        run_proposed_tables clear_proposal_def resolution_of_def)
  from staleness_is_inputs [OF reachable_proposed this run_proposed_tables(1,8), of sample_env]
  show ?thesis by blast
qed

end
