(* ===== verification/Handover_Gate.thy ===== *)
theory Handover_Gate
  imports World_System Guarantees
begin

text \<open>
  What it takes to hand a deal over: the guard's ten conditions as one statement about the tables,
  and what a handover that went through says of the company's background check.
\<close>

section \<open>The guard, read off the tables\<close>

definition both_checks :: "(check_state \<Rightarrow> bool) \<Rightarrow> verification_input list \<Rightarrow> bool" where
  "both_checks P checks \<longleftrightarrow> P (check_state checks SANCTIONS) \<and> P (check_state checks AML)"

definition clear_now :: "crm_db \<Rightarrow> uuid \<Rightarrow> instant \<Rightarrow> bool" where
  "clear_now db c now \<longleftrightarrow> (\<exists>dec. latest_for_company c db = Inr (Some dec) \<and> dn_to dec = CLEAR \<and>
     now < clear_expiry (dn_decided_at dec) (dn_expires_at dec))"

definition buyer_ready :: "crm_db \<Rightarrow> deal_row \<Rightarrow> bool" where
  "buyer_ready db d \<longleftrightarrow> (case dl_buyer_company d of
     Some b \<Rightarrow> (\<exists>inputs. company_inputs b db = Inr inputs \<and>
       both_checks (\<lambda>s. s = CHECK_PASSED) (ci_verifications inputs))
   | None \<Rightarrow> (\<exists>buyer checks. dl_buyer d = Some buyer \<and> buyer_checks (db_id buyer) db = Inr checks \<and>
       both_checks (\<lambda>s. s = CHECK_PASSED) checks))"

definition branch_ready :: "crm_world \<Rightarrow> deal_row \<Rightarrow> bool" where
  "branch_ready w d \<longleftrightarrow> (case dl_branch d of
     None \<Rightarrow> \<not> has_active_registrations w (dl_company d)
   | Some g \<Rightarrow> \<not> fst (branch_is_flagged w g) \<and> fst (branch_is_active w g))"

definition handover_ready :: "crm_env \<Rightarrow> deal_row \<Rightarrow> crm_world \<Rightarrow> bool" where
  "handover_ready env d w \<longleftrightarrow>
     (\<exists>p. profiles (crm w) (dl_company d) = Some p \<and> journey_of p = CUSTOMER \<and> background_check p = CLEAR) \<and>
     clear_now (crm w) (dl_company d) (env_now env) \<and>
     (\<exists>inputs. company_inputs (dl_company d) (crm w) = Inr inputs \<and>
        both_checks (\<lambda>s. s \<noteq> CHECK_FAILED) (ci_verifications inputs)) \<and>
     has_active_primary_contact w (dl_company d) \<and> is_flagged (dl_company d) w = Inr False \<and>
     missing_for_deal w (dl_id d) = [] \<and> buyer_ready (crm w) d \<and> branch_ready w d"

text \<open>A seller whose check is \<open>CLEAR\<close>, and a buyer of either kind.\<close>

lemma seller_facts:
  assumes "profiles db c = Some p" and "background_check p = CLEAR"
  shows "(\<exists>f. facts_for_company c t db = Inr f \<and> seller_facts_hold f) \<longleftrightarrow> clear_now db c t \<and>
     (\<exists>inputs. company_inputs c db = Inr inputs \<and>
        both_checks (\<lambda>s. s \<noteq> CHECK_FAILED) (ci_verifications inputs))"
proof (cases "latest_for_company c db")
  case (Inr latest)
  with assms show ?thesis
    by (cases latest) (auto simp: facts_for_company_def standing_def seller_facts_hold_def clear_now_def
      both_checks_def is_clear_and_current_def st_is_clear_def Let_def err_simps)
qed (use assms in \<open>simp add: facts_for_company_def standing_def clear_now_def err_simps\<close>)

lemma company_buyer_facts:
  assumes "chain_ok db"
  shows "(\<exists>f. facts_for_company b t db = Inr f \<and> buyer_facts_hold f) \<longleftrightarrow>
     (\<exists>inputs. company_inputs b db = Inr inputs \<and>
        both_checks (\<lambda>s. s = CHECK_PASSED) (ci_verifications inputs))"
proof (cases "profiles db b")
  case None
  then show ?thesis by (simp add: facts_for_company_def standing_def company_inputs_def err_simps)
next
  case (Some p)
  then show ?thesis using chain_ok_latest [OF assms, of b]
    by (auto simp: facts_for_company_def standing_def both_checks_def buyer_facts_hold_def Let_def err_simps)
qed

lemma legacy_buyer_facts:
  "(\<exists>f. facts_for_legacy_buyer b t db = Inr f \<and> buyer_facts_hold f) \<longleftrightarrow>
     (\<exists>checks. buyer_checks b db = Inr checks \<and> both_checks (\<lambda>s. s = CHECK_PASSED) checks)"
  by (auto simp: facts_for_legacy_buyer_def both_checks_def buyer_facts_hold_def err_simps)

lemma guard_opens_iff:
  assumes ok: "chain_ok (crm w)" and b: "dl_buyer_company d \<noteq> None \<or> dl_buyer d \<noteq> None"
  shows "handover_blocked_reason env d w = Inr None \<longleftrightarrow> handover_ready env d w"
proof (cases "profiles (crm w) (dl_company d)")
  case None
  then show ?thesis by (simp add: handover_blocked_reason_def handover_ready_def)
next
  case (Some p)
  let ?s = "\<lambda>fl. handover_subject_of env d p fl w" and ?p = "crm_providers w"
  have buyer: "hs_buyer_company (?s fl) \<noteq> None \<or> hs_legacy_buyer (?s fl) \<noteq> None" for fl
    using b by (simp add: handover_subject_of_def)
  have bf: "(\<exists>f. buyer_facts (?s fl) ?p = Inr (Some f) \<and> buyer_facts_hold f) \<longleftrightarrow> buyer_ready (crm w) d" for fl
    using b company_buyer_facts [OF ok] legacy_buyer_facts
    by (auto simp: buyer_facts_def handover_subject_of_def crm_providers_def err_simps buyer_ready_def
        split: option.splits)
  have br: "branch_holds (?s fl) ?p \<longleftrightarrow> branch_ready w d" for fl
    by (simp add: branch_holds_def branch_ready_def handover_subject_of_def crm_providers_def split: option.split)
  have known: "buyer_ready (crm w) d \<Longrightarrow> dl_buyer_company d = Some c \<Longrightarrow> profiles (crm w) c \<noteq> None" for c
    by (cases "profiles (crm w) c") (auto simp: buyer_ready_def company_inputs_def)
  have bc: "bc_value x = ''CLEAR'' \<longleftrightarrow> x = CLEAR" and j: "journey_value y = ''CUSTOMER'' \<longleftrightarrow> y = CUSTOMER" for x y
    using bc_value_inject [of x CLEAR] journey_value_inject [of y CUSTOMER] by (simp_all del: bc_value_inject journey_value_inject)
  have sf: "(\<exists>f. hp_company ?p (dl_company d) t = Inr (Some f) \<and> seller_facts_hold f) \<longleftrightarrow>
      (\<exists>f. facts_for_company (dl_company d) t (crm w) = Inr f \<and> seller_facts_hold f)" for t
    by (auto simp: crm_providers_def err_simps)
  have sel: "hs_journey (?s fl) = journey_value (journey_of p)" "hs_background_check (?s fl) = Some (bc_value (background_check p))"
    "hs_has_contact (?s fl) = has_active_primary_contact w (dl_company d)" "hs_sanctions_flagged (?s fl) = fl"
    "hp_missing ?p (hs_deal (?s fl)) = missing_for_deal w (dl_id d)" "hs_seller (?s fl) = dl_company d"
    "hs_now (?s fl) = env_now env" for fl
    by (simp_all add: handover_subject_of_def crm_providers_def)
  have "handover_blocked_reason env d w = Inr None \<longleftrightarrow> (\<forall>c. dl_buyer_company d = Some c \<longrightarrow> profiles (crm w) c \<noteq> None) \<and>
      (\<exists>fl. is_flagged (dl_company d) w = Inr fl \<and> blocked_reason (?s fl) ?p = Inr None)"
    by (auto simp: handover_blocked_reason_def Some err_simps split: option.split)
  also have "\<dots> \<longleftrightarrow> handover_ready env d w"
  proof (cases "background_check p = CLEAR")
    case True
    show ?thesis
      unfolding crm_reader.guard_open_iff [OF buyer] bf br sel sf handover_ready_def seller_facts [OF Some True]
      using known True by (auto simp: Some j)
  next
    case False
    then show ?thesis
      unfolding crm_reader.guard_open_iff [OF buyer] sel handover_ready_def by (simp add: Some bc)
  qed
  finally show ?thesis .
qed

section \<open>When a handover returns\<close>

lemma deal_words:
  "good_source ''deal_service.transition_stage''" "returns (require_text ''deal'' MAX_DIMENSION)"
  "returns (require_value (HText (deal_stage_value s)) MAX_VALUE)"
  by (code_simp, code_simp, induction s) code_simp+

lemmas deal_fits = fits_words [OF deal_words(2,1,3,3)]

lemma handed_over_view: "dl_stage x = HANDED_OVER \<Longrightarrow> returns (deal_view_of env x w)"
  by (simp add: deal_view_of_def allowed_stage_moves_def PERMITTED_STAGE_MOVES_def)

lemma returns_then: "returns m \<Longrightarrow> (\<And>x. returns (f x)) \<Longrightarrow> returns (bindE m f)"
  by (auto simp: returns_iff)

lemma handover_returns:
  assumes ok: "chain_ok (crm w)"
  shows "returns (transition_stage env later i HANDED_OVER reason a w) \<longleftrightarrow> (\<exists>d. find_deal w i = Some d \<and>
     dl_stage d = GATHERING_PAPERWORK \<and> clean_text reason = None \<and>
     (dl_buyer_company d \<noteq> None \<or> dl_buyer d \<noteq> None) \<and> handover_ready env d w)"
proof
  assume "returns (transition_stage env later i HANDED_OVER reason a w)"
  then obtain v ev w' where "transition_stage env later i HANDED_OVER reason a w = Inr ((v, ev), w')"
    by (auto simp: returns_iff)
  then obtain d where d: "find_deal w i = Some d" and to: "HANDED_OVER \<in> set (PERMITTED_STAGE_MOVES (dl_stage d))"
    and r: "clean_text reason = None" and b: "dl_buyer_company d \<noteq> None \<or> dl_buyer d \<noteq> None"
    and g: "handover_blocked_reason env d w = Inr None"
    by (rule transition_effect) auto
  have "dl_stage d = GATHERING_PAPERWORK"
    using to by (cases "dl_stage d") (auto simp: PERMITTED_STAGE_MOVES_def)
  with d r b g guard_opens_iff [OF ok b] show "\<exists>d. find_deal w i = Some d \<and>
     dl_stage d = GATHERING_PAPERWORK \<and> clean_text reason = None \<and>
     (dl_buyer_company d \<noteq> None \<or> dl_buyer d \<noteq> None) \<and> handover_ready env d w" by blast
next
  assume "\<exists>d. find_deal w i = Some d \<and> dl_stage d = GATHERING_PAPERWORK \<and> clean_text reason = None \<and>
     (dl_buyer_company d \<noteq> None \<or> dl_buyer d \<noteq> None) \<and> handover_ready env d w"
  then obtain d where d: "find_deal w i = Some d" "dl_stage d = GATHERING_PAPERWORK" "clean_text reason = None"
    and b: "dl_buyer_company d \<noteq> None \<or> dl_buyer d \<noteq> None" and rdy: "handover_ready env d w" by blast
  have g: "handover_blocked_reason env d w = Inr None" using guard_opens_iff [OF ok b] rdy by blast
  have stage: "\<not> is_terminal GATHERING_PAPERWORK"
    "HANDED_OVER \<in> set (PERMITTED_STAGE_MOVES GATHERING_PAPERWORK)" "HANDED_OVER \<notin> set DEAL_NEEDS_REASON"
    by (simp_all add: is_terminal_def PERMITTED_STAGE_MOVES_def DEAL_NEEDS_REASON_def)
  have "\<not> (dl_buyer_company d = None \<and> dl_buyer d = None)" using b by simp
  then show "returns (transition_stage env later i HANDED_OVER reason a w)"
    unfolding transition_stage_def require_deal_def d(1) option.case bindE_simps Let_def d(2,3)
    by (simp add: stage g world_history_def record_history_fits [OF deal_fits] handed_over_view returns_then
        del: deal_stage_value.simps)
qed

section \<open>A handover that went through\<close>

lemma clear_decision_two_people:
  assumes "reachable env_maker_checker db" and "d \<in> set (decisions db)" and "dn_to d = CLEAR"
  shows "\<exists>checker. dn_approved_by d = Some checker \<and> checker \<noteq> dn_decided_by d"
proof -
  note ok = system_okD(1) [OF reachable_ok [OF assms(1)]]
  have chk: "decision_checks d" by (rule chain_okD(4) [OF ok assms(2)])
  then have "(dn_from d, dn_to d) \<in> set APPROVAL_MOVES"
    using assms(3) by (cases "dn_from d") (auto simp: decision_checks_def MOVES_def APPROVAL_MOVES_def)
  from approval_on_record [OF assms(1,2) this] show ?thesis by blast
qed

lemma found_after:
  assumes "find_deal w i = Some d" and "deal_update w d d' w'"
  shows "find_deal w' i = Some d'"
proof -
  have id: "dl_id d = i" "dl_id d' = i" using assms find_deal_Some [OF assms(1)] by (auto simp: deal_update_def)
  have "find (\<lambda>x. dl_id x = i) (map (\<lambda>x. if dl_id x = i then d' else x) ds) = Some d'"
    if "find (\<lambda>x. dl_id x = i) ds = Some d" for ds
    using that id by (induction ds) auto
  with assms id show ?thesis by (auto simp: deal_update_def find_deal_def save_deal_def)
qed

lemma snapshot_of_snapshot: "take_snapshot (d\<lparr>dl_snapshot := x\<rparr>) t w = take_snapshot d t w"
  by (simp add: take_snapshot_def buyer_details_of_def term_of_def split: option.split)

lemma handed_over:
  assumes r: "reachable env_maker_checker (crm w)"
    and tr: "transition_stage env later i HANDED_OVER reason a w = Inr ((v, ev), w')"
  shows "\<exists>d dec checker. find_deal w i = Some d \<and> dl_stage d = GATHERING_PAPERWORK \<and> handover_ready env d w \<and>
     latest_for_company (dl_company d) (crm w) = Inr (Some dec) \<and> dn_to dec = CLEAR \<and>
     env_now env < clear_expiry (dn_decided_at dec) (dn_expires_at dec) \<and>
     dn_approved_by dec = Some checker \<and> checker \<noteq> dn_decided_by dec \<and>
     (\<exists>d'. find_deal w' i = Some d' \<and> dl_stage d' = HANDED_OVER \<and> dl_handed_over_at d' = Some later \<and>
        dl_snapshot d' = Some (take_snapshot d' later w))"
proof -
  from tr obtain d where d: "find_deal w i = Some d"
    and to: "HANDED_OVER \<in> set (PERMITTED_STAGE_MOVES (dl_stage d))"
    and b: "dl_buyer_company d \<noteq> None \<or> dl_buyer d \<noteq> None"
    and g: "handover_blocked_reason env d w = Inr None"
    and u: "deal_update w d (moved_deal HANDED_OVER (clean_text reason) later d w) w'"
    by (rule transition_effect) blast
  note ok = system_okD(1) [OF reachable_ok [OF r]]
  have rdy: "handover_ready env d w" using guard_opens_iff [OF ok b] g by blast
  then obtain dec where dec: "latest_for_company (dl_company d) (crm w) = Inr (Some dec)" "dn_to dec = CLEAR"
      "env_now env < clear_expiry (dn_decided_at dec) (dn_expires_at dec)"
    by (auto simp: handover_ready_def clear_now_def)
  have "dec \<in> set (decisions (crm w))" by (rule latest_for_company_in [OF dec(1)])
  from clear_decision_two_people [OF r this dec(2)] obtain checker where
    "dn_approved_by dec = Some checker" "checker \<noteq> dn_decided_by dec" by blast
  moreover have "dl_stage d = GATHERING_PAPERWORK"
    using to by (cases "dl_stage d") (auto simp: PERMITTED_STAGE_MOVES_def)
  moreover have "find_deal w' i = Some (moved_deal HANDED_OVER (clean_text reason) later d w)"
    by (rule found_after [OF d u])
  ultimately show ?thesis
    using d rdy dec by (auto simp: moved_deal_def Let_def snapshot_of_snapshot)
qed

end
