(* ===== verification/Operations.thy ===== *)
theory Operations
  imports Guarantees
begin

text \<open>
  When the service's operations return, what a new cycle does, and that what a screen is
  offered is what the service accepts.
\<close>

section \<open>Guards and nothing else\<close>

lemma move_accepted:
  assumes "reachable policy db" and "public_request r" and "known_method r"
  shows "returns (move env c r db) \<longleftrightarrow> (\<exists>p. profiles db c = Some p \<and>
     returns (check_move p r) \<and>
     \<not> (env_maker_checker env \<and> (background_check p, mr_to r) \<in> set APPROVAL_MOVES) \<and>
     open_proposals db c = [] \<and>
     ((background_check p, mr_to r) \<in> set REVIEWER_MOVES \<longrightarrow>
        reviewer_id p = Some (mr_actor r) \<or> reviewer_id p = None \<and> rm_user_id p \<noteq> Some (mr_actor r)) \<and>
     (start_needs_rm p r \<longrightarrow> rm_ready p (mr_rm_user r) (mr_actor r) (mr_role r) (mr_permissions r) db) \<and>
     (mr_to r = CLEAR \<longrightarrow> 1 \<le> env_clear_validity_days env \<and>
        clear_prerequisites c db = Inr [] \<and> mr_risk r \<noteq> None))"
proof -
  note ok = reachable_ok [OF assms(1)]
  have "move_guard env p r db \<longleftrightarrow>
     returns (check_move p r) \<and>
     \<not> (env_maker_checker env \<and> (background_check p, mr_to r) \<in> set APPROVAL_MOVES) \<and>
     open_proposals db c = [] \<and>
     ((background_check p, mr_to r) \<in> set REVIEWER_MOVES \<longrightarrow>
        reviewer_id p = Some (mr_actor r) \<or> reviewer_id p = None \<and> rm_user_id p \<noteq> Some (mr_actor r)) \<and>
     (start_needs_rm p r \<longrightarrow> rm_ready p (mr_rm_user r) (mr_actor r) (mr_role r) (mr_permissions r) db) \<and>
     (mr_to r = CLEAR \<longrightarrow> 1 \<le> env_clear_validity_days env \<and>
        clear_prerequisites c db = Inr [] \<and> mr_risk r \<noteq> None)"
    if p: "profiles db c = Some p" for p
  proof -
    have k: "customer_id p = c" by (rule keyedD [OF system_okD(5) [OF ok] p])
    obtain inputs where inp: "company_inputs c db = Inr inputs"
      using company_inputs_eq_Inr [of c db] p by (auto simp: returns_iff)
    have ag: "returns (approval_gate env p r db) \<longleftrightarrow>
        \<not> (env_maker_checker env \<and> (background_check p, mr_to r) \<in> set APPROVAL_MOVES) \<and> open_proposals db c = []"
      using assms(2) by (auto simp: approval_gate_def public_request_def returns_iff k
          refuse_if_awaiting_approval_Inr)
    have mc: "returns (move_claims p r) \<longleftrightarrow> ((background_check p, mr_to r) \<in> set REVIEWER_MOVES \<longrightarrow>
        reviewer_id p = Some (mr_actor r) \<or> reviewer_id p = None \<and> rm_user_id p \<noteq> Some (mr_actor r))"
      using assms(2) by (simp add: move_claims_def public_request_def check_reviewer_move_returns)
    have cp: "clear_prerequisites c db = Inr [] \<longleftrightarrow>
        clear_ready inputs (Some LOW) (select_evidence inputs (company_documents db c)) CLEAR_POLICY"
      by (simp add: clear_prerequisites_def inp evaluate_clear_prerequisites_Nil)
    have "clear_ready inputs (mr_risk r) ev CLEAR_POLICY \<longleftrightarrow>
        clear_ready inputs (Some LOW) ev CLEAR_POLICY \<and> mr_risk r \<noteq> None" for ev
      by (auto simp: clear_ready_def)
    then show ?thesis unfolding move_guard_def ag mc k cp using inp by auto
  qed
  then show ?thesis unfolding move_returns [OF ok assms(2,3)] by blast
qed

text \<open>
  C10. A public move returns exactly when its stated guards hold: the move exists from the value
  the company is at, the caller's role, text and risk fit it, maker-checker does not ask for an
  approval and none is awaited, the review is the caller's (or free, and the caller is not the
  relationship manager), a start names a manager, and for \<open>CLEAR\<close> every prerequisite is met.
  Nothing else (a second chain head, a history word that does not fit, the promotion's
  \<open>RuntimeError\<close>) ever makes it fail.
\<close>

theorem move_returns_iff:
  assumes "reachable policy db" and "public_request r" and "known_method r"
  shows "returns (move env c r db) \<longleftrightarrow> (\<exists>p. profiles db c = Some p \<and>
     returns (check_move p r) \<and>
     \<not> (env_maker_checker env \<and> (background_check p, mr_to r) \<in> set APPROVAL_MOVES) \<and>
     open_proposals db c = [] \<and>
     ((background_check p, mr_to r) \<in> set REVIEWER_MOVES \<longrightarrow>
        reviewer_id p = Some (mr_actor r) \<or> reviewer_id p = None \<and> rm_user_id p \<noteq> Some (mr_actor r)) \<and>
     (start_needs_rm p r \<longrightarrow> rm_ready p (mr_rm_user r) (mr_actor r) (mr_role r) (mr_permissions r) db) \<and>
     (mr_to r = CLEAR \<longrightarrow> 1 \<le> env_clear_validity_days env \<and>
        clear_prerequisites c db = Inr [] \<and> mr_risk r \<noteq> None))"
  by (rule move_accepted [OF assms])

theorem move_returns_iff_witness:
  "returns (start_review sample_env company rm_one OPERATIONS [] (Some rm_one) True run_entered) \<and>
   returns (check_move sample_company ((plain_move IN_REVIEW [NOT_STARTED] rm_one OPERATIONS None None
     (Some ''start_review''))\<lparr>mr_permissions := [], mr_rm_user := Some rm_one, mr_require_rm := True\<rparr>))"
proof -
  let ?r = "(plain_move IN_REVIEW [NOT_STARTED] rm_one OPERATIONS None None
      (Some ''start_review''))\<lparr>mr_permissions := [], mr_rm_user := Some rm_one, mr_require_rm := True\<rparr>"
  have r: "returns (move sample_env company ?r run_entered)"
    using run_started_returns by (auto simp: start_review_def returns_iff)
  have p: "profiles run_entered company = Some sample_company"
    by (simp add: run_entered_def sample_company_def)
  have "public_request ?r" by (simp add: public_request_def plain_move_def)
  moreover have "known_method ?r" by (simp add: known_method_def plain_move_def METHOD_FOR_MOVE_def)
  ultimately have "returns (check_move sample_company ?r)"
    using move_returns_iff [OF reachable_entered, of ?r sample_env company] r p by auto
  with r show ?thesis by (simp add: start_review_def)
qed

lemma approve_accepted:
  assumes "reachable policy db"
  shows "returns (approve env c pid a role perms db) \<longleftrightarrow> (\<exists>p q inputs. profiles db c = Some p \<and>
     open_proposal_to_resolve c pid role db = Inr q \<and> company_inputs c db = Inr inputs \<and>
     a \<noteq> pr_created_by q \<and> checker_conflict a (reviewer_id p) (rm_user_id p) = None \<and>
     (needs_senior_checker (pr_to q) (pr_risk q) \<longrightarrow> APPROVE_HIGH_RISK \<in> set perms) \<and>
     staleness env p q db = Inr None \<and>
     \<not> no_text (strip_if_given (pr_reason q)) \<and>
     (pr_to q = CLEAR \<longrightarrow> 1 \<le> env_clear_validity_days env \<and>
        clear_ready inputs (pr_risk q) (select_evidence inputs (company_documents db c)) CLEAR_POLICY))"
proof -
  note ok = reachable_ok [OF assms]
  show ?thesis
    unfolding approve_returns [OF ok] approve_guard_def checker_conflict_None needs_senior_checker_iff holds_def
    using staleness_of_open(1) [OF ok] by (auto split: if_splits)
qed

text \<open>
  C11. An approval returns exactly when the proposal is open and of this company, the checker is
  a compliance officer other than its proposer, neither reviewer nor relationship manager, holds
  the senior permission when the proposal clears at \<open>HIGH\<close> or \<open>CRITICAL\<close> risk, the inputs are
  still those of the proposal, and for \<open>CLEAR\<close> the prerequisites still hold.
\<close>

theorem approve_returns_iff:
  assumes "reachable policy db"
  shows "returns (approve env c pid a role perms db) \<longleftrightarrow> (\<exists>p q inputs. profiles db c = Some p \<and>
     open_proposal_to_resolve c pid role db = Inr q \<and> company_inputs c db = Inr inputs \<and>
     a \<noteq> pr_created_by q \<and> checker_conflict a (reviewer_id p) (rm_user_id p) = None \<and>
     (needs_senior_checker (pr_to q) (pr_risk q) \<longrightarrow> APPROVE_HIGH_RISK \<in> set perms) \<and>
     staleness env p q db = Inr None \<and>
     \<not> no_text (strip_if_given (pr_reason q)) \<and>
     (pr_to q = CLEAR \<longrightarrow> 1 \<le> env_clear_validity_days env \<and>
        clear_ready inputs (pr_risk q) (select_evidence inputs (company_documents db c)) CLEAR_POLICY))"
  by (rule approve_accepted [OF assms])

theorem approve_returns_iff_witness:
  "returns (approve sample_env company 2 officer_b COMPLIANCE [] run_proposed) \<and>
   \<not> returns (approve sample_env company 2 officer_a COMPLIANCE [] run_proposed)"
proof -
  have "open_proposal_to_resolve company 2 COMPLIANCE run_proposed = Inr clear_proposal"
    by (simp add: open_proposal_to_resolve_def CHECKER_ROLES_def get_proposal_for_company_def
        run_proposed_tables clear_proposal_def resolution_of_def)
  moreover have "pr_created_by clear_proposal = officer_a" by (simp add: clear_proposal_def)
  ultimately have "\<not> returns (approve sample_env company 2 officer_a COMPLIANCE [] run_proposed)"
    using approve_returns_iff [OF reachable_proposed, of sample_env company 2 officer_a COMPLIANCE "[]"]
    by auto
  moreover have "returns (approve sample_env company 2 officer_b COMPLIANCE [] run_proposed)"
    using run_approved_returns by (auto simp: returns_iff)
  ultimately show ?thesis by blast
qed

lemma check_move_returns:
  "returns (check_move p ((plain_move t [background_check p] a role reason risk None)\<lparr>mr_seen := seen\<rparr>)) \<longleftrightarrow>
     (seen = None \<or> seen = Some (background_check p)) \<and>
     (\<exists>roles. map_of MOVES (background_check p, t) = Some roles \<and> role \<in> set roles) \<and>
     (\<not> no_text (strip_if_given reason) \<or> (background_check p, t) = (NOT_STARTED, IN_REVIEW)) \<and>
     (risk \<noteq> None \<longleftrightarrow> t = CLEAR)"
  by (simp add: returns_iff split_paired_Ex check_move_Inr plain_move_def)

lemma propose_accepted:
  assumes "reachable policy db"
  shows "returns (propose env c t reason risk a role seen db) \<longleftrightarrow> (\<exists>p. profiles db c = Some p \<and>
     (background_check p, t) \<in> set APPROVAL_MOVES \<and> (seen = None \<or> seen = Some (background_check p)) \<and>
     role = COMPLIANCE \<and> \<not> no_text (strip_if_given reason) \<and> (risk \<noteq> None \<longleftrightarrow> t = CLEAR) \<and>
     open_proposals db c = [] \<and>
     ((background_check p, t) \<in> set REVIEWER_MOVES \<longrightarrow>
        reviewer_id p = Some a \<or> reviewer_id p = None \<and> rm_user_id p \<noteq> Some a) \<and>
     (t = CLEAR \<longrightarrow> clear_prerequisites c db = Inr []))"
proof -
  note ok = reachable_ok [OF assms]
  have ready: "(\<exists>inputs. company_inputs c db = Inr inputs \<and>
        clear_ready inputs risk (select_evidence inputs (company_documents db c)) CLEAR_POLICY) \<longleftrightarrow>
      clear_prerequisites c db = Inr [] \<and> risk \<noteq> None" for risk
    by (auto simp: clear_prerequisites_def bindE_eq_Inr evaluate_clear_prerequisites_Nil clear_ready_def)
  show ?thesis
    unfolding propose_returns [OF ok] propose_guard_def check_move_returns ready
    using approval_roles approval_from by fastforce
qed

text \<open>
  A proposal returns exactly when its move is one that needs approval, the value the caller saw
  (if given) is still the company's, the caller is a compliance officer with a reason, a risk comes
  with \<open>CLEAR\<close> and only then, no proposal is open, the review is the caller's or free to take, and
  for \<open>CLEAR\<close> every prerequisite is met.
\<close>

theorem propose_returns_iff:
  assumes "reachable policy db"
  shows "returns (propose env c t reason risk a role seen db) \<longleftrightarrow> (\<exists>p. profiles db c = Some p \<and>
     (background_check p, t) \<in> set APPROVAL_MOVES \<and> (seen = None \<or> seen = Some (background_check p)) \<and>
     role = COMPLIANCE \<and> \<not> no_text (strip_if_given reason) \<and> (risk \<noteq> None \<longleftrightarrow> t = CLEAR) \<and>
     open_proposals db c = [] \<and>
     ((background_check p, t) \<in> set REVIEWER_MOVES \<longrightarrow>
        reviewer_id p = Some a \<or> reviewer_id p = None \<and> rm_user_id p \<noteq> Some a) \<and>
     (t = CLEAR \<longrightarrow> clear_prerequisites c db = Inr []))"
  by (rule propose_accepted [OF assms])

theorem propose_returns_iff_witness:
  "returns (propose sample_env company CLEAR (Some ''all checks passed'') (Some LOW) officer_a COMPLIANCE
     None run_answered) \<and> clear_prerequisites company run_answered = Inr []"
proof -
  have r: "returns (propose sample_env company CLEAR (Some ''all checks passed'') (Some LOW) officer_a
      COMPLIANCE None run_answered)"
    using run_proposed_returns by (auto simp: returns_iff)
  then show ?thesis
    using propose_returns_iff [OF reachable_answered, of sample_env company CLEAR "Some ''all checks passed''"
        "Some LOW" officer_a COMPLIANCE None] by auto
qed

end
