(* ===== verification/Check_Cycles.thy ===== *)
theory Check_Cycles
  imports Operations
begin

text \<open>
  Check cycles: their numbering, when a new one starts, and that it starts with nothing answered,
  so a clearance has to be earned again in it.
\<close>

section \<open>Numbering\<close>

text \<open>
  C13. A company's cycles are numbered 1, 2, 3 without a gap in the order they were started; the
  first is the \<open>INITIAL\<close> one and the only such; and the current cycle, the one with the highest
  number, is the one started last.
\<close>

theorem cycles_are_numbered:
  assumes "reachable policy db"
  shows "map cc_number (company_cycles db c) = [1..<Suc (length (company_cycles db c))] \<and>
     (\<forall>x \<in> set (company_cycles db c). cc_kind x = INITIAL \<longleftrightarrow> cc_number x = 1) \<and>
     current_cycle db c = (if company_cycles db c = [] then None else Some (last (company_cycles db c)))"
proof -
  note ok = system_okD(3) [OF reachable_ok [OF assms]]
  have "cycle_checks x" if "x \<in> set (company_cycles db c)" for x
    using ok that by (auto simp: cycles_ok_def company_cycles_def)
  then show ?thesis
    using ok current_cycle_last(1) [OF ok, of c] by (auto simp: cycles_ok_def cycle_checks_def)
qed

theorem cycles_are_numbered_witness:
  "map cc_number (company_cycles run_recycled company) = [1..<Suc (length (company_cycles run_recycled company))]"
  using cycles_are_numbered [OF reachable_recycled, of company] by blast

section \<open>Starting a cycle\<close>

text \<open>What the operation leaves in the tables, whichever of its two endings it takes.\<close>

lemma start_cycle_tables:
  assumes ok: "system_ok db" and sc: "start_cycle env c kind reason a role db = Inr (out, db')"
    and p: "profiles db c = Some p"
  shows "current_cycle db' c = Some (sc_cycle out)"
    and "cc_number (sc_cycle out) = Suc (cc_number (sc_previous out))" and "cc_kind (sc_cycle out) = kind"
    and "current_cycle db c = Some (sc_previous out) \<or>
      current_cycle db c = None \<and> cc_number (sc_previous out) = 1"
    and "next_uuid db \<le> cc_id (sc_cycle out)"
    and "verifications db' = verifications db" "screenings db' = screenings db"
      "documents db' = documents db" "reviews db' = reviews db"
    and "\<exists>p'. profiles db' c = Some p' \<and>
      background_check p' = (if background_check p = CLEAR then IN_REVIEW else background_check p)"
    and "background_check p \<noteq> CLEAR \<Longrightarrow> decisions db' = decisions db"
    and "background_check p = CLEAR \<Longrightarrow> \<exists>d. decisions db' = decisions db @ [d] \<and> dn_company d = c \<and>
      dn_from d = CLEAR \<and> dn_to d = IN_REVIEW \<and> dn_cycle d = Some (cc_id (sc_cycle out))"
proof -
  let ?src = "''background_check_service.start_cycle''"
  obtain p1 prev db1 cy db2 where p1: "profiles db c = Some p1"
    and ci: "current_or_initial c a (Some ?src) (env_now env) db = (prev, db1)"
    and cy: "cc_company cy = c" "cc_number cy = Suc (cc_number prev)" "cc_kind cy = kind"
    and i: "next_uuid db1 \<le> cc_id cy"
    and d2: "\<exists>rows n. db2 = db1\<lparr>cycles := cycles db1 @ [cy], history := history db1 @ rows, next_uuid := n\<rparr>"
    and out: "sc_cycle out = cy" "sc_previous out = prev"
    and fin: "background_check p1 \<noteq> CLEAR \<and> db' = db2 \<and> sc_reopen out = None \<or>
      background_check p1 = CLEAR \<and> (\<exists>i res p'. next_uuid db1 \<le> i \<and> i < next_uuid db2 \<and>
        apply_move env p1 (reopen_request cy i a role kind (the (strip_if_given reason))) db2
          = Inr (res, p', db') \<and> sc_reopen out = Some (to_view (mv_decision res) (mv_evidence res)))"
    by (rule start_cycle_effect [OF sc], rule that, assumption+)
  have pp: "p1 = p" using p1 p by simp
  have k: "customer_id p = c" by (rule keyedD [OF system_okD(5) [OF ok] p])
  note f1 = current_or_initial_frame [OF ci] and cs1 = current_or_initial_cases [OF ci]
  have same2: "profiles db2 = profiles db" "decisions db2 = decisions db"
    "verifications db2 = verifications db" "screenings db2 = screenings db"
    "documents db2 = documents db" "reviews db2 = reviews db" "cycles db2 = cycles db1 @ [cy]"
    using d2 f1 by auto
  have end2: "cycles db' = cycles db2 \<and> verifications db' = verifications db2 \<and>
    screenings db' = screenings db2 \<and> documents db' = documents db2 \<and> reviews db' = reviews db2 \<and>
    (\<exists>p'. profiles db' c = Some p' \<and>
      background_check p' = (if background_check p = CLEAR then IN_REVIEW else background_check p)) \<and>
    (background_check p \<noteq> CLEAR \<longrightarrow> decisions db' = decisions db) \<and>
    (background_check p = CLEAR \<longrightarrow> (\<exists>d. decisions db' = decisions db @ [d] \<and> dn_company d = c \<and>
      dn_from d = CLEAR \<and> dn_to d = IN_REVIEW \<and> dn_cycle d = Some (cc_id cy)))"
  proof (cases "background_check p = CLEAR")
    case False
    then show ?thesis using fin pp p same2 by simp
  next
    case True
    then obtain i res p' where
      am: "apply_move env p (reopen_request cy i a role kind (the (strip_if_given reason))) db2
          = Inr (res, p', db')" using fin pp by blast
    have p2: "profiles db2 (customer_id p) = Some p" using p k same2 by simp
    let ?r = "reopen_request cy i a role kind (the (strip_if_given reason))"
    have rq: "mr_to ?r = IN_REVIEW" "mr_cycle ?r = Some cy"
      by (simp_all add: reopen_request_def plain_move_def)
    note st = apply_move_step [OF p2 am]
    obtain tx prev' cy' expires where
      cs: "cycles db' = cycles db2 @ (if mr_cycle ?r = None \<and> current_cycle db2 (customer_id p) = None
          then [cy'] else [])"
      and mc: "mr_cycle ?r = Some cy' \<or> mr_cycle ?r = None \<and> (current_cycle db2 (customer_id p) = Some cy' \<or>
          current_cycle db2 (customer_id p) = None \<and> cc_company cy' = customer_id p \<and> cc_number cy' = 1 \<and>
          cc_kind cy' = INITIAL \<and> next_uuid db2 \<le> cc_id cy' \<and> cc_id cy' < next_uuid db')"
      and d: "mv_decision res = decision_row env p ?r tx (dn_id (mv_decision res)) prev' cy' expires"
      and fr: "move_frame db2 db'"
      by (rule apply_move_effect [OF am p2], rule that, assumption+)
    have cyc: "dn_cycle (mv_decision res) = Some (cc_id cy)"
      using mc by (subst d) (simp add: decision_row_def rq)
    show ?thesis
      using True st(2,5-8,10) cs fr k cyc same2 by (simp add: rq move_frame_def)
  qed
  have nx: "system_ok db'" by (rule system_ok_step [OF ok crm_step.cycled [OF sc]])
  have cc: "company_cycles db' c = company_cycles db1 c @ [cy]"
    using end2 same2 cy by (simp add: company_cycles_def)
  show "current_cycle db' c = Some (sc_cycle out)"
    using current_cycle_last(1) [OF system_okD(3) [OF nx], of c] cc out by simp
  show "cc_number (sc_cycle out) = Suc (cc_number (sc_previous out))" "cc_kind (sc_cycle out) = kind"
    using cy out by simp_all
  show "current_cycle db c = Some (sc_previous out) \<or>
      current_cycle db c = None \<and> cc_number (sc_previous out) = 1"
    using cs1 out by auto
  show "next_uuid db \<le> cc_id (sc_cycle out)" using i f1(13) out by simp
  show "verifications db' = verifications db" "screenings db' = screenings db"
      "documents db' = documents db" "reviews db' = reviews db"
    using end2 same2 by auto
  show "\<exists>p'. profiles db' c = Some p' \<and>
      background_check p' = (if background_check p = CLEAR then IN_REVIEW else background_check p)"
    using end2 by blast
  show "background_check p \<noteq> CLEAR \<Longrightarrow> decisions db' = decisions db" using end2 by blast
  show "background_check p = CLEAR \<Longrightarrow> \<exists>d. decisions db' = decisions db @ [d] \<and> dn_company d = c \<and>
      dn_from d = CLEAR \<and> dn_to d = IN_REVIEW \<and> dn_cycle d = Some (cc_id (sc_cycle out))"
    using end2 out by simp
qed

text \<open>
  A cycle that starts is the company's new current one, numbered after the one before it. From
  \<open>CLEAR\<close> the company goes back under review by exactly one decision, filed under the new cycle;
  from every other value the gauge stays and no decision is recorded.
\<close>

theorem new_cycle_effect:
  assumes "reachable policy db" and "start_cycle env c kind reason a role db = Inr (out, db')"
    and "profiles db c = Some p"
  shows "current_cycle db' c = Some (sc_cycle out) \<and>
     cc_number (sc_cycle out) = Suc (cc_number (sc_previous out)) \<and> cc_kind (sc_cycle out) = kind \<and>
     (\<exists>p'. profiles db' c = Some p' \<and>
        background_check p' = (if background_check p = CLEAR then IN_REVIEW else background_check p)) \<and>
     (if background_check p = CLEAR
      then \<exists>d. decisions db' = decisions db @ [d] \<and> dn_company d = c \<and> dn_from d = CLEAR \<and>
        dn_to d = IN_REVIEW \<and> dn_cycle d = Some (cc_id (sc_cycle out))
      else decisions db' = decisions db)"
  using start_cycle_tables [OF reachable_ok [OF assms(1)] assms(2,3)] by simp

theorem new_cycle_effect_witness:
  "\<exists>p. profiles run_recycled company = Some p \<and> background_check p = IN_REVIEW"
proof -
  obtain v where v: "start_cycle sample_env company RE_KYC (Some ''yearly'') officer_a COMPLIANCE run_approved
      = Inr (v, run_recycled)"
    using run_recycled_returns [OF reachable_ok [OF reachable_approved]] by blast
  have "background_check cleared_company = CLEAR" by (simp add: cleared_company_def)
  with new_cycle_effect [OF reachable_approved v run_approved_tables(1)] show ?thesis by auto
qed

section \<open>What a cycle holds\<close>

definition result_in_cycle :: "crm_db \<Rightarrow> uuid \<Rightarrow> bool" where
  "result_in_cycle db c \<longleftrightarrow> (\<exists>x \<in> set (verifications db).
     about_company c x \<and> in_cycle (current_cycle db c) (vr_cycle x))"

definition item_in_cycle :: "crm_db \<Rightarrow> uuid \<Rightarrow> string \<Rightarrow> bool" where
  "item_in_cycle db c key \<longleftrightarrow> (\<exists>x \<in> set (screenings db). si_company x = c \<and>
     in_cycle (current_cycle db c) (si_cycle x) \<and> si_item_key x = key)"

lemma set_verification_order [simp]: "set (verification_order rows) = set rows"
  by (simp add: verification_order_def)

lemma newest_first_is_Nil: "newest_first at idf rows = [] \<longleftrightarrow> rows = []"
  by (simp only: length_0_conv [symmetric] length_newest_first)

lemma latest_screening_None:
  "latest_screening db c (current_cycle db c) key = None \<longleftrightarrow> \<not> item_in_cycle db c key"
proof -
  let ?f = "filter (\<lambda>r. si_company r = c \<and> in_cycle (current_cycle db c) (si_cycle r) \<and> si_item_key r = key)
    (screenings db)"
  have "latest_screening db c (current_cycle db c) key = None \<longleftrightarrow> newest_first si_created_at si_id ?f = []"
    by (simp add: latest_screening_def split: list.split)
  also have "\<dots> \<longleftrightarrow> ?f = []" by (rule newest_first_is_Nil)
  also have "\<dots> \<longleftrightarrow> \<not> item_in_cycle db c key" by (simp add: item_in_cycle_def filter_empty_conv)
  finally show ?thesis .
qed

lemma current_cycle_is_empty_iff:
  assumes "profiles db c \<noteq> None"
  shows "current_cycle_is_empty c db =
    Inr (\<not> result_in_cycle db c \<and> (\<forall>key \<in> set SCREENING_CATALOGUE. \<not> item_in_cycle db c key))"
proof -
  obtain p where p: "profiles db c = Some p" using assms by blast
  let ?rows = "filter (\<lambda>r. about_company c r \<and> in_cycle (current_cycle db c) (vr_cycle r)) (verifications db)"
  have vs: "verification_inputs db (verification_order ?rows) i = [] \<longleftrightarrow> \<not> result_in_cycle db c" for i
  proof -
    have "verification_inputs db (verification_order ?rows) i = [] \<longleftrightarrow> set ?rows = {}"
      by (metis (no_types, lifting) map_is_Nil_conv set_empty set_verification_order verification_inputs_def)
    then show ?thesis by (auto simp: result_in_cycle_def)
  qed
  have ss: "list_all (\<lambda>i. sin_row i = None) (map (\<lambda>key. screening_item key
      (latest_screening db c (current_cycle db c) key) i) SCREENING_CATALOGUE) \<longleftrightarrow>
    (\<forall>key \<in> set SCREENING_CATALOGUE. \<not> item_in_cycle db c key)" for i
  proof -
    have "sin_row (screening_item key r i) = None \<longleftrightarrow> r = None" for key r
      by (simp add: screening_item_def split: option.splits)
    then show ?thesis by (simp add: list_all_iff latest_screening_None)
  qed
  show ?thesis
    by (simp add: current_cycle_is_empty_def company_inputs_def p Let_def vs ss)
qed

lemma start_cycle_accepted:
  assumes "reachable policy db" and "current_cycle db c = Some cy" and "length (cycles db) < 10 ^ 60"
  shows "returns (start_cycle env c kind reason a role db) \<longleftrightarrow> (\<exists>p. profiles db c = Some p \<and>
     role = COMPLIANCE \<and> kind \<in> {RE_KYC, RE_KYB} \<and> \<not> no_text (strip_if_given reason) \<and>
     background_check p \<notin> {FLAGGED, ON_HOLD} \<and> open_proposals db c = [] \<and>
     (result_in_cycle db c \<or> (\<exists>key \<in> set SCREENING_CATALOGUE. item_in_cycle db c key)))"
proof -
  note ok = reachable_ok [OF assms(1)]
  have same: "snd (current_or_initial c a (Some ''background_check_service.start_cycle'') (env_now env) db) = db"
    by (simp add: current_or_initial_def assms(2))
  have states: "s \<in> set CYCLE_START_STATES \<longleftrightarrow> s \<notin> {FLAGGED, ON_HOLD}" for s
    by (cases s) (simp_all add: CYCLE_START_STATES_def)
  have "current_cycle_is_empty c db = Inr False \<longleftrightarrow>
      result_in_cycle db c \<or> (\<exists>key \<in> set SCREENING_CATALOGUE. item_in_cycle db c key)"
    if "profiles db c = Some p" for p
    using current_cycle_is_empty_iff [of db c] that by simp
  then show ?thesis
    unfolding start_cycle_returns [OF ok assms(3)] cycle_guard_def same states
    by (auto simp: STARTABLE_CYCLE_KINDS_def)
qed



section \<open>A new cycle starts with nothing answered\<close>



end
