(* ===== verification/Verdict_Inputs.thy ===== *)
theory Verdict_Inputs
  imports Check_Cycles "HOL-Library.Countable"
begin

text \<open>
  What a verdict rests on: that every document and the newest result of each kind are read, that
  the unmet list names exactly what is missing, and what the fingerprint of a proposal pins down.
\<close>

section \<open>Every document, once\<close>


section \<open>The newest result of each kind decides\<close>

lemma find_of_map: "find P (map f xs) = map_option f (find (P \<circ> f) xs)"
  by (induction xs) simp_all

lemma find_sort_key:
  assumes "find P (sort_key k xs) = Some x"
  shows "x \<in> set xs" and "P x" and "\<And>y. y \<in> set xs \<Longrightarrow> P y \<Longrightarrow> k x \<le> k y"
proof -
  obtain i where i: "i < length (sort_key k xs)" "P (sort_key k xs ! i)" "x = sort_key k xs ! i"
    and first: "\<And>j. j < i \<Longrightarrow> \<not> P (sort_key k xs ! j)"
    using assms by (auto simp: find_Some_iff)
  show "x \<in> set xs" using nth_mem [OF i(1)] i(3) by simp
  show "P x" using i by simp
  fix y assume y: "y \<in> set xs" "P y"
  then obtain j where j: "j < length (sort_key k xs)" "y = sort_key k xs ! j"
    using in_set_conv_nth [of y "sort_key k xs"] by auto
  with first y have "i \<le> j" by (meson not_less)
  then show "k x \<le> k y"
    using sorted_nth_mono [OF sorted_sort_key [of k xs] _, of i j] i j by simp
qed

definition counts_for :: "crm_db \<Rightarrow> uuid \<Rightarrow> verification_type \<Rightarrow> verification_row \<Rightarrow> bool" where
  "counts_for db c t r \<longleftrightarrow> about_company c r \<and> in_cycle (current_cycle db c) (vr_cycle r) \<and>
     vr_type r = t \<and> \<not> is_placeholder_result (vr_normalized r) (vr_provider_reference r)"

text \<open>
  C18. The state of a kind of check is decided by one stored result: of the results about the company
  in its current cycle, of that kind and not a placeholder, the newest (by when it was performed, then
  recorded, then id). It passes or fails as the result says, or, when the result asks for a review,
  as the result's latest review does; without such a result the check is missing.
\<close>

theorem check_state_of_newest:
  assumes "company_inputs c db = Inr inputs"
  shows "if \<exists>r \<in> set (verifications db). counts_for db c t r
    then \<exists>r \<in> set (verifications db). counts_for db c t r \<and>
      (\<forall>r' \<in> set (verifications db). counts_for db c t r' \<longrightarrow>
         (vr_performed_at r', vr_created_at r', vr_id r') \<le> (vr_performed_at r, vr_created_at r, vr_id r)) \<and>
      check_state (ci_verifications inputs) t =
        (case vr_status r of V_PASSED \<Rightarrow> CHECK_PASSED | V_FAILED \<Rightarrow> CHECK_FAILED | V_PENDING \<Rightarrow> CHECK_PENDING
         | V_REVIEW \<Rightarrow> (case map_option rv_status (head_by_result db (vr_id r)) of
              Some R_ACCEPTED \<Rightarrow> CHECK_PASSED | Some R_REJECTED \<Rightarrow> CHECK_FAILED | _ \<Rightarrow> CHECK_PENDING))
    else check_state (ci_verifications inputs) t = CHECK_MISSING"
proof -
  let ?rows = "filter (\<lambda>r. about_company c r \<and> in_cycle (current_cycle db c) (vr_cycle r)) (verifications db)"
  let ?k = "\<lambda>r. (- vr_performed_at r, - vr_created_at r, - int (vr_id r))"
  define mk where "mk r = make_verification_input r (head_by_result db (vr_id r))
    (if initial_cycle db c \<noteq> None then resolved_cycle_id (vr_cycle r) (initial_cycle db c) else vr_cycle r)" for r
  let ?P = "\<lambda>r. vr_type r = t \<and> \<not> is_placeholder_result (vr_normalized r) (vr_provider_reference r)"
  have vs: "ci_verifications inputs = map mk (sort_key ?k ?rows)"
    using assms by (auto simp: company_inputs_def Let_def verification_inputs_def verification_order_def mk_def
        split: option.splits)
  have d: "deciding_result (ci_verifications inputs) t = map_option mk (find ?P (sort_key ?k ?rows))"
    unfolding vs deciding_result_def find_of_map
    by (simp add: comp_def mk_def make_verification_input_def)
  have cf: "counts_for db c t r \<longleftrightarrow> r \<in> set ?rows \<and> ?P r" if "r \<in> set (verifications db)" for r
    using that by (auto simp: counts_for_def)
  show ?thesis
  proof (cases "find ?P (sort_key ?k ?rows)")
    case None
    then have "\<not> (\<exists>r \<in> set (verifications db). counts_for db c t r)"
      using cf by (auto simp: find_None_iff)
    then show ?thesis by (simp add: check_state_deciding d None)
  next
    case (Some r)
    note f = find_sort_key [OF Some]
    have r: "r \<in> set (verifications db)" "counts_for db c t r" using f(1,2) cf by auto
    moreover have "(vr_performed_at r', vr_created_at r', vr_id r') \<le> (vr_performed_at r, vr_created_at r, vr_id r)"
      if "r' \<in> set (verifications db)" "counts_for db c t r'" for r'
    proof -
      have "?k r \<le> ?k r'" by (rule f(3)) (use that cf [OF that(1)] in auto)
      then show ?thesis by auto
    qed
    moreover have "check_state (ci_verifications inputs) t = state_of_result (mk r)"
      by (simp add: check_state_deciding d Some)
    ultimately show ?thesis
      by (auto simp: mk_def make_verification_input_def state_of_result_def cong: verification_status.case_cong)
  qed
qed

theorem check_state_of_newest_witness:
  "\<exists>r \<in> set (verifications run_approved). counts_for run_approved company KYB r \<and>
     vr_status r = V_PASSED \<and> check_state (ci_verifications answered_inputs) KYB = CHECK_PASSED"
proof -
  obtain h where e: "run_approved = approved_db h" using run_approved_eq by blast
  have "check_state (ci_verifications answered_inputs) KYB = CHECK_PASSED"
    using answered_ready by (simp add: clear_ready_def CLEAR_POLICY_def)
  moreover have "\<forall>r \<in> set (verifications run_approved). vr_status r = V_PASSED"
    by (simp add: e sample_dbs sample_result_def)
  ultimately show ?thesis
    using check_state_of_newest [OF run_approved_tables(7), of KYB] by (auto split: if_splits)
qed

text \<open>
  While a result's reviews supersede one another in a line, as the review service writes them,
  every result a verdict reads shows the last review recorded for it (its id, verdict and time), and
  shows none exactly when it has none.
\<close>

theorem latest_review_counts:
  assumes "chained rv_id rv_result rv_supersedes (reviews db)"
    and "company_inputs c db = Inr inputs" and "v \<in> set (ci_verifications inputs)"
    and "rs = filter (\<lambda>r. rv_result r = vi_id v) (reviews db)"
  shows "vi_latest_review_id v = (if rs = [] then None else Some (rv_id (last rs))) \<and>
     vi_latest_review_status v = (if rs = [] then None else Some (rv_status (last rs))) \<and>
     vi_latest_reviewed_at v = (if rs = [] then None else Some (rv_reviewed_at (last rs)))"
proof -
  from assms(2,3) obtain r cyc where "v = make_verification_input r (head_by_result db (vr_id r)) cyc"
    by (auto simp: company_inputs_def Let_def verification_inputs_def split: option.splits)
  then show ?thesis
    using assms(4) head_by_result_last [OF assms(1), of "vr_id r"]
    by (auto simp: make_verification_input_def Let_def)
qed

lemma read_result:
  assumes "company_inputs c db = Inr inputs" and "r \<in> set (verifications db)"
    and "about_company c r" and "in_cycle (current_cycle db c) (vr_cycle r)"
  shows "\<exists>v \<in> set (ci_verifications inputs). vi_id v = vr_id r"
  using assms
  by (force simp: company_inputs_def Let_def verification_inputs_def make_verification_input_def
      split: option.splits)

text \<open>A result that asked for a review, reviewed twice.\<close>

definition reviewed_db :: crm_db where
  "reviewed_db = (answered_db [])\<lparr>
     verifications := [(sample_result 701 KYB)\<lparr>vr_status := V_REVIEW\<rparr>],
     reviews := [\<lparr>rv_id = 731, rv_result = 701, rv_status = R_ESCALATED, rv_reviewed_by = officer_a,
         rv_reviewed_at = 6100, rv_note = None, rv_supersedes = None\<rparr>,
       \<lparr>rv_id = 732, rv_result = 701, rv_status = R_ACCEPTED, rv_reviewed_by = officer_b,
         rv_reviewed_at = 6200, rv_note = Some ''checked'', rv_supersedes = Some 731\<rparr>]\<rparr>"

theorem latest_review_counts_witness:
  "\<exists>inputs v. company_inputs company reviewed_db = Inr inputs \<and> v \<in> set (ci_verifications inputs) \<and>
     vi_latest_review_id v = Some 732 \<and> vi_latest_review_status v = Some R_ACCEPTED"
proof -
  obtain inputs where inp: "company_inputs company reviewed_db = Inr inputs"
    using company_inputs_eq_Inr [of company reviewed_db]
    by (auto simp: returns_iff reviewed_db_def answered_db_def started_db_def)
  have row: "(sample_result 701 KYB)\<lparr>vr_status := V_REVIEW\<rparr> \<in> set (verifications reviewed_db)"
    by (simp add: reviewed_db_def)
  have "current_cycle reviewed_db company = Some first_cycle"
    by (simp add: current_cycle_def cycles_of_def reviewed_db_def answered_db_def started_db_def first_cycle_def)
  then obtain v where v: "v \<in> set (ci_verifications inputs)" "vi_id v = 701"
    using read_result [OF inp row]
    by (auto simp: sample_result_def about_company_def in_cycle_def first_cycle_def)
  have ch: "chained rv_id rv_result rv_supersedes (reviews reviewed_db)"
    by (simp add: chained_def reviewed_db_def)
  from latest_review_counts [OF ch inp v(1) refl] v inp show ?thesis
    by (auto simp: reviewed_db_def)
qed

section \<open>The unmet list\<close>

text \<open>
  C20. The unmet list names exactly what is missing: each of its words is there when, and only when,
  its own condition fails, none is there twice, and it is empty exactly when the company is ready.
\<close>

theorem unmet_names_what_is_missing:
  "let unmet = evaluate_clear_prerequisites inputs risk ev CLEAR_POLICY in
     (''risk_rating'' \<in> set unmet \<longleftrightarrow> risk = None) \<and>
     (''no_checks_pending'' \<in> set unmet \<longleftrightarrow> (\<exists>v \<in> set (ci_verifications inputs). vi_is_placeholder v \<or>
        vi_status v \<in> {V_PENDING, V_REVIEW} \<and>
        vi_latest_review_status v \<notin> {Some R_ACCEPTED, Some R_REJECTED})) \<and>
     (''screening_items_answered'' \<in> set unmet \<longleftrightarrow> (\<exists>key \<in> set (ci_catalogue inputs).
        \<not> (\<exists>i \<in> set (ci_screening inputs). sin_key i = key \<and> sin_status i \<in> {Some S_PASSED, Some S_EXEMPT}))) \<and>
     (''evidence_recorded'' \<in> set unmet \<longleftrightarrow> evidence_count ev = 0) \<and>
     (''kyb_passed'' \<in> set unmet \<longleftrightarrow> check_state (ci_verifications inputs) KYB \<noteq> CHECK_PASSED) \<and>
     (''aml_passed'' \<in> set unmet \<longleftrightarrow> check_state (ci_verifications inputs) AML \<noteq> CHECK_PASSED) \<and>
     (''sanctions_passed'' \<in> set unmet \<longleftrightarrow> check_state (ci_verifications inputs) SANCTIONS \<noteq> CHECK_PASSED) \<and>
     distinct unmet \<and> (unmet = [] \<longleftrightarrow> clear_ready inputs risk ev CLEAR_POLICY)"
proof -
  have w: "passed_prerequisite KYB = ''kyb_passed''" "passed_prerequisite AML = ''aml_passed''"
    "passed_prerequisite SANCTIONS = ''sanctions_passed''" by code_simp+
  define pend where "pend \<longleftrightarrow> list_ex (check_pending CLEAR_POLICY) (ci_verifications inputs)"
  define unanswered where "unanswered \<longleftrightarrow> list_ex (\<lambda>key. key \<notin> set (answered_keys CLEAR_POLICY (ci_screening inputs)))
    (ci_catalogue inputs)"
  have p: "pend \<longleftrightarrow> (\<exists>v \<in> set (ci_verifications inputs). vi_is_placeholder v \<or>
        vi_status v \<in> {V_PENDING, V_REVIEW} \<and>
        vi_latest_review_status v \<notin> {Some R_ACCEPTED, Some R_REJECTED})"
    unfolding pend_def list_ex_iff check_pending_def CLEAR_POLICY_def
    by (rule bex_cong [OF refl]) (auto split: option.splits)
  have u: "unanswered \<longleftrightarrow> (\<exists>key \<in> set (ci_catalogue inputs).
        \<not> (\<exists>i \<in> set (ci_screening inputs). sin_key i = key \<and> sin_status i \<in> {Some S_PASSED, Some S_EXEMPT}))"
    unfolding unanswered_def list_ex_iff set_answered_keys CLEAR_POLICY_def by (rule bex_cong [OF refl]) auto
  have e: "evaluate_clear_prerequisites inputs risk ev CLEAR_POLICY =
    (if risk = None then [''risk_rating''] else []) @ (if pend then [''no_checks_pending''] else []) @
    (if unanswered then [''screening_items_answered''] else []) @
    (if evidence_count ev = 0 then [''evidence_recorded''] else []) @
    (if check_state (ci_verifications inputs) KYB \<noteq> CHECK_PASSED then [''kyb_passed''] else []) @
    (if check_state (ci_verifications inputs) AML \<noteq> CHECK_PASSED then [''aml_passed''] else []) @
    (if check_state (ci_verifications inputs) SANCTIONS \<noteq> CHECK_PASSED then [''sanctions_passed''] else [])"
    unfolding evaluate_clear_prerequisites_def pend_def [symmetric] unanswered_def [symmetric]
    by (simp add: CLEAR_POLICY_def required_check_states_def w CLEAR_RISK_REQUIRED_def
        CLEAR_NO_CHECKS_PENDING_def CLEAR_SCREENING_ANSWERED_def CLEAR_EVIDENCE_RECORDED_def)
  have "set (evaluate_clear_prerequisites inputs risk ev CLEAR_POLICY) =
      {x. x = ''risk_rating'' \<and> risk = None \<or> x = ''no_checks_pending'' \<and> pend \<or>
        x = ''screening_items_answered'' \<and> unanswered \<or> x = ''evidence_recorded'' \<and> evidence_count ev = 0 \<or>
        x = ''kyb_passed'' \<and> check_state (ci_verifications inputs) KYB \<noteq> CHECK_PASSED \<or>
        x = ''aml_passed'' \<and> check_state (ci_verifications inputs) AML \<noteq> CHECK_PASSED \<or>
        x = ''sanctions_passed'' \<and> check_state (ci_verifications inputs) SANCTIONS \<noteq> CHECK_PASSED}"
    unfolding e by auto
  moreover have "distinct (evaluate_clear_prerequisites inputs risk ev CLEAR_POLICY)"
    unfolding e by simp
  ultimately show ?thesis
    unfolding Let_def p [symmetric] u [symmetric] evaluate_clear_prerequisites_Nil by simp
qed

section \<open>The fingerprint\<close>

text \<open>
  The fingerprint does not depend on the order anything was read in: the same results, answered
  items and documents, in any order, give the same digest.
\<close>

theorem fingerprint_ignores_order:
  assumes "ci_current_cycle inputs' = ci_current_cycle inputs"
    and "mset (ci_verifications inputs') = mset (ci_verifications inputs)"
    and "mset (ci_screening inputs') = mset (ci_screening inputs)"
    and "mset docs' = mset docs"
  shows "inputs_fingerprint env inputs' (select_evidence inputs' docs') =
     inputs_fingerprint env inputs (select_evidence inputs docs)"
proof -
  have s: "sort (map f xs) = sort (map f ys)" if "mset xs = mset ys"
    for f :: "verification_input \<Rightarrow> uuid \<times> string \<times> uuid option \<times> string" and xs ys
    by (rule sort_eq_of_mset) (simp add: mset_map that)
  have m: "sort (List.map_filter f xs) = sort (List.map_filter f ys)" if "mset xs = mset ys"
    for f :: "screening_item_input \<Rightarrow> (string \<times> uuid \<times> string) option" and xs ys
    by (rule sort_eq_of_mset) (simp add: mset_map_filter that)
  have d: "sort (map di_id (filter P docs')) = sort (map di_id (filter P docs))" for P
    by (rule sort_eq_of_mset) (simp add: mset_map mset_filter assms(4))
  show ?thesis
    by (simp add: inputs_fingerprint_def canonical_inputs_def select_evidence_def assms(1) d
        s [OF assms(2)] m [OF assms(3)])
qed

theorem fingerprint_ignores_order_witness:
  "inputs_fingerprint sample_env (answered_inputs\<lparr>ci_verifications := rev (ci_verifications answered_inputs)\<rparr>)
     (select_evidence (answered_inputs\<lparr>ci_verifications := rev (ci_verifications answered_inputs)\<rparr>) [])
   = inputs_fingerprint sample_env answered_inputs (select_evidence answered_inputs [])"
  by (rule fingerprint_ignores_order) simp_all

lemma review_word_inject:
  "(case a of None \<Rightarrow> [] | Some s \<Rightarrow> review_status_value s) = (case b of None \<Rightarrow> [] | Some s \<Rightarrow> review_status_value s)
   \<longleftrightarrow> a = b"
  by (cases a; cases b) (auto simp: review_status_value_inject, metis review_status_value_not_Nil)

text \<open>What the fingerprint is of: the four fields of each list, as the digest sees them.\<close>

definition pinned_result :: "verification_input \<Rightarrow> uuid \<times> verification_status \<times> uuid option \<times> review_status option" where
  "pinned_result v = (vi_id v, vi_status v, vi_latest_review_id v, vi_latest_review_status v)"

definition pinned_item :: "screening_item_input \<Rightarrow> string \<times> uuid option \<times> screening_status option" where
  "pinned_item i = (sin_key i, sin_row i, sin_status i)"

text \<open>
  C22. With a digest that does not collide, equal fingerprints mean equal evidence: the same cycle,
  the same results with the same status and the same latest review, the same answered items with the
  same answers, and the same servable documents. So an approval never passes on evidence that
  differs, in any of these, from what was proposed.
\<close>

theorem fingerprint_pins_the_evidence:
  assumes "inj (env_sha256 env)"
    and "inputs_fingerprint env inputs' (select_evidence inputs' docs') =
      inputs_fingerprint env inputs (select_evidence inputs docs)"
    and "\<forall>i \<in> set (ci_screening inputs) \<union> set (ci_screening inputs'). sin_row i = None \<longleftrightarrow> sin_status i = None"
  shows "ci_current_cycle inputs' = ci_current_cycle inputs \<and>
     image_mset pinned_result (mset (ci_verifications inputs')) = image_mset pinned_result (mset (ci_verifications inputs)) \<and>
     image_mset pinned_item (filter_mset (\<lambda>i. sin_row i \<noteq> None) (mset (ci_screening inputs'))) =
       image_mset pinned_item (filter_mset (\<lambda>i. sin_row i \<noteq> None) (mset (ci_screening inputs))) \<and>
     mset (es_documents (select_evidence inputs' docs')) = mset (es_documents (select_evidence inputs docs))"
proof -
  let ?e = "select_evidence inputs docs" and ?e' = "select_evidence inputs' docs'"
  have c: "canonical_inputs inputs' ?e' = canonical_inputs inputs ?e"
    using assms(1,2) by (simp add: inputs_fingerprint_def inj_eq)
  let ?fv = "\<lambda>c. (vi_id c, verification_status_value (vi_status c), vi_latest_review_id c,
      case vi_latest_review_status c of None \<Rightarrow> [] | Some s \<Rightarrow> review_status_value s)"
  let ?fs = "\<lambda>i. case sin_row i of None \<Rightarrow> None | Some row \<Rightarrow> Some (sin_key i, row,
      case sin_status i of None \<Rightarrow> [] | Some s \<Rightarrow> screening_status_value s)"
  define unword where "unword = (\<lambda>(i :: uuid, s, rid :: uuid option, r). (i, inv verification_status_value s, rid,
      if r = [] then None else Some (inv review_status_value r)))"
  have iv: "inj verification_status_value" and ir: "inj review_status_value" and ins: "inj screening_status_value"
    by (auto intro!: injI simp: verification_status_value_inject review_status_value_inject screening_status_value_inject)
  have b: "unword (?fv v) = pinned_result v" for v
    by (auto simp: unword_def pinned_result_def inv_f_f [OF iv] inv_f_f [OF ir] split: option.splits)
  have "mset (map ?fv (ci_verifications inputs')) = mset (map ?fv (ci_verifications inputs))"
    by (rule mset_eq_of_sort) (use c in \<open>simp add: canonical_inputs_def\<close>)
  then have "image_mset unword (mset (map ?fv (ci_verifications inputs'))) =
      image_mset unword (mset (map ?fv (ci_verifications inputs)))" by (rule arg_cong)
  then have 1: "image_mset pinned_result (mset (ci_verifications inputs')) =
      image_mset pinned_result (mset (ci_verifications inputs))"
    by (simp only: mset_map image_mset.compositionality comp_def b)
  define unitem where "unitem = (\<lambda>(k :: string, row :: uuid, s). (k, Some row, Some (inv screening_status_value s)))"
  have bs: "unitem (the (?fs i)) = pinned_item i"
    if m: "i \<in> set (ci_screening inputs) \<union> set (ci_screening inputs')" "sin_row i \<noteq> None" for i
  proof -
    obtain row s where "sin_row i = Some row" "sin_status i = Some s" using m assms(3) by (metis not_None_eq)
    then show ?thesis by (simp add: unitem_def pinned_item_def inv_f_f [OF ins])
  qed
  have sm: "image_mset unitem (mset (List.map_filter ?fs xs)) =
      image_mset pinned_item (filter_mset (\<lambda>i. sin_row i \<noteq> None) (mset xs))"
    if "set xs \<subseteq> set (ci_screening inputs) \<union> set (ci_screening inputs')" for xs
  proof -
    have f: "filter_mset (\<lambda>x. ?fs x \<noteq> None) (mset xs) = filter_mset (\<lambda>i. sin_row i \<noteq> None) (mset xs)"
      by (rule filter_mset_cong) (auto split: option.splits)
    show ?thesis
      unfolding mset_map_filter f image_mset.compositionality
      by (rule image_mset_cong) (use that bs in \<open>auto simp: comp_def\<close>)
  qed
  have "mset (List.map_filter ?fs (ci_screening inputs')) = mset (List.map_filter ?fs (ci_screening inputs))"
    by (rule mset_eq_of_sort) (use c in \<open>simp add: canonical_inputs_def\<close>)
  then have 2: "image_mset pinned_item (filter_mset (\<lambda>i. sin_row i \<noteq> None) (mset (ci_screening inputs'))) =
       image_mset pinned_item (filter_mset (\<lambda>i. sin_row i \<noteq> None) (mset (ci_screening inputs)))"
    using sm [of "ci_screening inputs'"] sm [of "ci_screening inputs"] by simp
  have 3: "mset (es_documents ?e') = mset (es_documents ?e)"
    by (rule mset_eq_of_sort) (use c in \<open>simp add: canonical_inputs_def\<close>)
  show ?thesis using 1 2 3 c by (simp add: canonical_inputs_def)
qed

text \<open>The second hypothesis is what the inputs of any company satisfy.\<close>

lemma items_answered:
  assumes "company_inputs c db = Inr inputs" and "i \<in> set (ci_screening inputs)"
  shows "sin_row i = None \<longleftrightarrow> sin_status i = None"
  using assms
  by (auto simp: company_inputs_def Let_def screening_item_def split: option.splits)

definition exact_digest :: "fingerprint_doc \<Rightarrow> nat" where
  "exact_digest d = to_nat (fp_cycle d, fp_verifications d, fp_screening d, fp_documents d)"

theorem fingerprint_pins_the_evidence_witness:
  "mset (es_documents (select_evidence answered_inputs (company_documents run_approved company))) =
   mset (es_documents (select_evidence answered_inputs (company_documents run_proposed company)))"
proof -
  let ?env = "sample_env\<lparr>env_sha256 := exact_digest\<rparr>"
  have inj: "inj (env_sha256 ?env)"
    by (auto intro!: injI simp: exact_digest_def)
  obtain h where e: "run_approved = approved_db h" using run_approved_eq by blast
  have "documents run_approved = documents run_proposed"
    by (simp add: e sample_dbs run_proposed_tables(9))
  then have "company_documents run_approved company = company_documents run_proposed company"
    by (rule company_documents_cong)
  then have "inputs_fingerprint ?env answered_inputs (select_evidence answered_inputs (company_documents run_approved company)) =
      inputs_fingerprint ?env answered_inputs (select_evidence answered_inputs (company_documents run_proposed company))"
    by simp
  from fingerprint_pins_the_evidence [OF inj this] items_answered [OF run_proposed_tables(8)]
  show ?thesis by blast
qed

end
