(* ===== verification/Background_Check_Api.thy ===== *)
theory Background_Check_Api
  imports Approval
begin

text \<open>
  The routes of \<open>api/background_check_router.py\<close>: which permission each asks for, what the company's
  background check shows its reader (the moves, the cycles, the review's and the proposal's actions
  offered to this caller), and how a request to move becomes a decision or a proposal. With the
  permission checks of \<open>platform/authorization/services.py\<close> and the list of \<open>application/rekyc_due.py\<close>.
  Names of people are left out of the responses.
\<close>

section \<open>Permissions\<close>

datatype api_error = Forbidden "permission list" | Refused crm_error

definition has_permission :: "permission list \<Rightarrow> permission \<Rightarrow> bool" where
  "has_permission granted permission \<longleftrightarrow> permission \<in> set granted"

definition require_permission :: "permission \<Rightarrow> permission list \<Rightarrow> api_error + unit" where
  "require_permission permission granted =
     require (permission \<in> set granted) (Forbidden [permission])"

definition require_any_permission :: "permission list \<Rightarrow> permission list \<Rightarrow> api_error + unit" where
  "require_any_permission permissions granted =
     require (list_ex (\<lambda>p. p \<in> set granted) permissions) (Forbidden permissions)"

definition BACKGROUND_CHECK_MOVE :: "permission list" where
  "BACKGROUND_CHECK_MOVE = [(''exporters'', ''transition''), (''compliance'', ''decide'')]"
definition COMPLIANCE_APPROVE :: permission where
  "COMPLIANCE_APPROVE = (''compliance'', ''approve'')"
definition COMPLIANCE_DECIDE :: permission where
  "COMPLIANCE_DECIDE = (''compliance'', ''decide'')"
definition COMPLIANCE_VIEW :: permission where
  "COMPLIANCE_VIEW = (''compliance'', ''view'')"

text \<open>An exception of the service leaves the route as it is.\<close>

definition served :: "crm_error + 'a \<Rightarrow> api_error + 'a" where
  "served m = (case m of Inl e \<Rightarrow> Inl (Refused e) | Inr x \<Rightarrow> Inr x)"

lemma returns_served [simp]: "returns (served m) = returns m"
  by (simp add: served_def returns_def split: sum.splits)

lemma served_eq_Inr [simp]: "served m = Inr x \<longleftrightarrow> m = Inr x"
  by (simp add: served_def split: sum.splits)

lemma require_permission_Inr [simp]: "require_permission p g = Inr u \<longleftrightarrow> p \<in> set g"
  by (simp add: require_permission_def require_eq_Inr)

lemma require_any_permission_Inr [simp]:
  "require_any_permission ps g = Inr u \<longleftrightarrow> (\<exists>p \<in> set ps. p \<in> set g)"
  by (simp add: require_any_permission_def require_eq_Inr list_ex_iff)

section \<open>What a proposal offers its reader\<close>

definition REVIEWER_DESTINATIONS :: "bc_state list" where
  "REVIEWER_DESTINATIONS = [MORE_INFO, CLEAR, FLAGGED]"

definition approval_eligibility ::
  "proposal_view_row \<Rightarrow> uuid \<Rightarrow> permission list \<Rightarrow> uuid option \<Rightarrow> uuid option \<Rightarrow> string option \<times> bool" where
  "approval_eligibility view viewer_id permissions reviewer relationship_manager =
     (if viewer_id = pr_created_by (pv_proposal view) then (None, False)
      else case checker_conflict viewer_id reviewer relationship_manager of
        Some why \<Rightarrow> (Some (''You cannot approve this: '' @ why @ ''.''), True)
      | None \<Rightarrow>
          if needs_senior_checker (pr_to (pv_proposal view)) (pr_risk (pv_proposal view)) \<and>
             \<not> holds permissions APPROVE_HIGH_RISK
          then (Some ''A senior approver must approve a high-risk Clear.'', False)
          else (None, False))"

definition proposal_is_open :: "proposal_view_row \<Rightarrow> bool" where
  "proposal_is_open view \<longleftrightarrow> pv_status view = PROPOSAL_OPEN"

record proposal_response =
  prs_view :: proposal_view_row
  prs_stale_reason :: "string option"
  prs_allowed_actions :: "proposal_action list"
  prs_approval_blocked_reason :: "string option"
  prs_needs_senior_approval :: bool

definition make_proposal_response ::
  "proposal_view_row \<Rightarrow> string option \<Rightarrow> uuid \<Rightarrow> permission list \<Rightarrow> uuid option \<Rightarrow> uuid option \<Rightarrow>
   proposal_response" where
  "make_proposal_response view stale_reason viewer_id permissions reviewer relationship_manager =
   (let proposed_by = pr_created_by (pv_proposal view);
        actions = proposal_actions (proposal_is_open view) proposed_by viewer_id
          (has_permission permissions COMPLIANCE_APPROVE) (stale_reason \<noteq> None);
        (blocked, bars_reject) = (if proposal_is_open view
           then approval_eligibility view viewer_id permissions reviewer relationship_manager
           else (None, False));
        barred = (if bars_reject then [PROPOSAL_APPROVE, PROPOSAL_REJECT] else [PROPOSAL_APPROVE]);
        actions = (if proposal_is_open view \<and> blocked \<noteq> None
           then filter (\<lambda>a. a \<notin> set barred) actions else actions);
        actions = (if proposal_is_open view \<and> viewer_id \<noteq> proposed_by \<and>
             has_permission permissions COMPLIANCE_DECIDE \<and> holds permissions ASSIGN_REVIEWS
           then actions @ [PROPOSAL_WITHDRAW] else actions)
    in \<lparr>prs_view = view, prs_stale_reason = (if proposal_is_open view then stale_reason else None),
        prs_allowed_actions = actions, prs_approval_blocked_reason = blocked,
        prs_needs_senior_approval =
          needs_senior_checker (pr_to (pv_proposal view)) (pr_risk (pv_proposal view))\<rparr>)"

section \<open>Reading a company's background check\<close>

text \<open>\<open>rekyc_due_window\<close> of \<open>compliance_settings.py\<close>, of the setting's number of days.\<close>

definition rekyc_due_window :: "int \<Rightarrow> crm_error + int" where
  "rekyc_due_window window_days = (if window_days < 0
     then Inl (ValueError ''CRM_REKYC_DUE_WINDOW_DAYS must be at least 0'')
     else Inr (days window_days))"

record background_check_response =
  bgr_value :: bc_state
  bgr_risk :: "bc_risk option"
  bgr_latest_decision :: "uuid option"
  bgr_clearing_decision :: "uuid option"
  bgr_decided_at :: "instant option"
  bgr_allowed_moves :: "background_check_move list"
  bgr_clear_blocked_reasons :: "string list"
  bgr_compliance :: party_compliance_facts
  bgr_current_cycle :: "check_cycle option"
  bgr_allowed_cycle_actions :: "cycle_action list"
  bgr_awaiting_approval :: bool
  bgr_open_proposal :: "proposal_response option"
  bgr_required_checks :: "(verification_type \<times> check_state) list"
  bgr_rekyc_due :: bool
  bgr_reviewer :: "uuid option"
  bgr_reviewer_assigned_at :: "instant option"
  bgr_reviewer_inactive :: bool
  bgr_review_actions :: "review_action list"
  bgr_rm_required :: bool

definition may_make_reviewer_moves :: "exporter_profile \<Rightarrow> uuid \<Rightarrow> bool" where
  "may_make_reviewer_moves p viewer_id = (case reviewer_id p of
     Some holder \<Rightarrow> holder = viewer_id | None \<Rightarrow> rm_user_id p \<noteq> Some viewer_id)"

definition moves_shown :: "crm_env \<Rightarrow> exporter_profile \<Rightarrow> uuid \<Rightarrow> user_role \<Rightarrow> background_check_move list" where
  "moves_shown env p viewer_id viewer_role =
     filter (\<lambda>m. may_make_reviewer_moves p viewer_id \<or> background_check p \<noteq> IN_REVIEW \<or>
         bm_to m \<notin> set REVIEWER_DESTINATIONS)
       (allowed_moves env (background_check p) viewer_role)"

definition is_rekyc_due :: "party_compliance_facts \<Rightarrow> instant \<Rightarrow> int \<Rightarrow> crm_error + bool" where
  "is_rekyc_due facts now window_days = (case (pf_is_clear facts, pf_clear_expires_at facts) of
     (True, Some expires_at) \<Rightarrow>
        bindE (rekyc_due_window window_days) (\<lambda>w. Inr (expires_at \<le> now + w))
   | _ \<Rightarrow> Inr False)"

definition background_check_standing ::
  "crm_env \<Rightarrow> int \<Rightarrow> uuid \<Rightarrow> uuid \<Rightarrow> user_role \<Rightarrow> permission list \<Rightarrow> crm_db \<Rightarrow>
   crm_error + background_check_response" where
  "background_check_standing env window_days company_id viewer_id viewer_role permissions db =
   bindE (standing company_id db) (\<lambda>s.
   bindE (lock_profile company_id db) (\<lambda>p.
   let current = st_value s in
   bindE (if current = IN_REVIEW then clear_prerequisites company_id db else Inr []) (\<lambda>blocked.
   bindE (facts_for_company company_id (env_now env) db) (\<lambda>facts.
   bindE (open_proposal env company_id db) (\<lambda>awaiting.
   bindE (cycle_actions company_id current viewer_role db) (\<lambda>cycles_offered.
   bindE (required_checks company_id db) (\<lambda>required.
   bindE (is_rekyc_due facts (env_now env) window_days) (\<lambda>due.
   Inr \<lparr>bgr_value = current, bgr_risk = st_risk s, bgr_latest_decision = st_latest_decision s,
        bgr_clearing_decision = st_clearing_decision s, bgr_decided_at = st_decided_at s,
        bgr_allowed_moves = (if awaiting \<noteq> None then [] else moves_shown env p viewer_id viewer_role),
        bgr_clear_blocked_reasons = blocked, bgr_compliance = facts,
        bgr_current_cycle = current_cycle db company_id, bgr_allowed_cycle_actions = cycles_offered,
        bgr_awaiting_approval = (awaiting \<noteq> None),
        bgr_open_proposal = map_option (\<lambda>(view, stale_reason).
          make_proposal_response view stale_reason viewer_id permissions (reviewer_id p) (rm_user_id p)) awaiting,
        bgr_required_checks = required, bgr_rekyc_due = due, bgr_reviewer = reviewer_id p,
        bgr_reviewer_assigned_at = reviewer_assigned_at p,
        bgr_reviewer_inactive = (case reviewer_id p of None \<Rightarrow> False
          | Some u \<Rightarrow> (case find_staff_member db u of None \<Rightarrow> True | Some m \<Rightarrow> \<not> sm_active m)),
        bgr_review_actions = review_actions p viewer_id viewer_role permissions
          (map_option (\<lambda>(view, _). pr_created_by (pv_proposal view)) awaiting),
        bgr_rm_required = (current = NOT_STARTED \<and> pipeline_st p = IN_PIPELINE \<and> rm_user_id p = None)\<rparr>))))))))"

definition get_background_check ::
  "crm_env \<Rightarrow> int \<Rightarrow> uuid \<Rightarrow> uuid \<Rightarrow> user_role \<Rightarrow> permission list \<Rightarrow> crm_db \<Rightarrow>
   api_error + background_check_response" where
  "get_background_check env window_days company_id viewer_id viewer_role permissions db =
     bindE (require_permission COMPLIANCE_VIEW permissions) (\<lambda>_.
     served (background_check_standing env window_days company_id viewer_id viewer_role permissions db))"

section \<open>Moving the check\<close>

datatype recorded = Proposed proposal_response | Decided moved

definition record_background_check_decision ::
  "crm_env \<Rightarrow> uuid \<Rightarrow> bc_state \<Rightarrow> string option \<Rightarrow> bc_risk option \<Rightarrow> bc_state option \<Rightarrow> uuid option \<Rightarrow>
   uuid \<Rightarrow> user_role \<Rightarrow> permission list \<Rightarrow> crm_db \<Rightarrow> api_error + recorded \<times> crm_db" where
  "record_background_check_decision env company_id to_value reason risk from_value rm_user
     actor_id actor_role permissions db =
   bindE (require_any_permission BACKGROUND_CHECK_MOVE permissions) (\<lambda>_.
   if needs_approval env to_value
   then bindE (served (propose env company_id to_value reason risk actor_id actor_role from_value db))
          (\<lambda>(view, db). Inr (Proposed (make_proposal_response view None actor_id permissions None None), db))
   else bindE (served (record_decision env company_id to_value reason risk actor_id actor_role from_value
            permissions rm_user db)) (\<lambda>(m, db). Inr (Decided m, db)))"

definition start_check_cycle ::
  "crm_env \<Rightarrow> uuid \<Rightarrow> cycle_kind \<Rightarrow> string option \<Rightarrow> uuid \<Rightarrow> user_role \<Rightarrow> permission list \<Rightarrow> crm_db \<Rightarrow>
   api_error + started_cycle \<times> crm_db" where
  "start_check_cycle env company_id kind reason actor_id actor_role permissions db =
     bindE (require_permission COMPLIANCE_DECIDE permissions) (\<lambda>_.
     served (start_cycle env company_id kind reason actor_id actor_role db))"

definition approve_background_check_proposal ::
  "crm_env \<Rightarrow> uuid \<Rightarrow> uuid \<Rightarrow> uuid \<Rightarrow> user_role \<Rightarrow> permission list \<Rightarrow> crm_db \<Rightarrow>
   api_error + approved_proposal \<times> crm_db" where
  "approve_background_check_proposal env company_id proposal_id actor_id actor_role permissions db =
     bindE (require_permission COMPLIANCE_APPROVE permissions) (\<lambda>_.
     served (approve env company_id proposal_id actor_id actor_role permissions db))"

definition reject_background_check_proposal ::
  "crm_env \<Rightarrow> uuid \<Rightarrow> uuid \<Rightarrow> string option \<Rightarrow> uuid \<Rightarrow> user_role \<Rightarrow> permission list \<Rightarrow> crm_db \<Rightarrow>
   api_error + proposal_view_row \<times> crm_db" where
  "reject_background_check_proposal env company_id proposal_id reason actor_id actor_role permissions db =
     bindE (require_permission COMPLIANCE_APPROVE permissions) (\<lambda>_.
     served (reject env company_id proposal_id reason actor_id actor_role db))"

definition withdraw_background_check_proposal ::
  "crm_env \<Rightarrow> uuid \<Rightarrow> uuid \<Rightarrow> string option \<Rightarrow> uuid \<Rightarrow> user_role \<Rightarrow> permission list \<Rightarrow> crm_db \<Rightarrow>
   api_error + proposal_view_row \<times> crm_db" where
  "withdraw_background_check_proposal env company_id proposal_id reason actor_id actor_role permissions db =
     bindE (require_permission COMPLIANCE_DECIDE permissions) (\<lambda>_.
     served (withdraw env company_id proposal_id reason actor_id actor_role permissions db))"

section \<open>Who holds the review\<close>

text \<open>
  Each commits and then reads the standing: the answer is that reading, beside the committed state.
\<close>

definition claim_background_check_review ::
  "crm_env \<Rightarrow> int \<Rightarrow> uuid \<Rightarrow> uuid \<Rightarrow> user_role \<Rightarrow> permission list \<Rightarrow> crm_db \<Rightarrow>
   api_error + (crm_error + background_check_response) \<times> crm_db" where
  "claim_background_check_review env window_days company_id actor_id actor_role permissions db =
     bindE (require_permission COMPLIANCE_DECIDE permissions) (\<lambda>_.
     bindE (served (claim_review env company_id actor_id actor_role db)) (\<lambda>(p, db).
     Inr (background_check_standing env window_days company_id actor_id actor_role permissions db, db)))"

definition assign_background_check_review ::
  "crm_env \<Rightarrow> int \<Rightarrow> uuid \<Rightarrow> uuid \<Rightarrow> string option \<Rightarrow> uuid \<Rightarrow> user_role \<Rightarrow> permission list \<Rightarrow> crm_db \<Rightarrow>
   api_error + (crm_error + background_check_response) \<times> crm_db" where
  "assign_background_check_review env window_days company_id user_id reason actor_id actor_role
     permissions db =
     bindE (require_permission COMPLIANCE_DECIDE permissions) (\<lambda>_.
     bindE (served (assign_review env company_id user_id reason actor_id actor_role permissions db)) (\<lambda>(p, db).
     Inr (background_check_standing env window_days company_id actor_id actor_role permissions db, db)))"

definition release_background_check_review ::
  "crm_env \<Rightarrow> int \<Rightarrow> uuid \<Rightarrow> string option \<Rightarrow> uuid \<Rightarrow> user_role \<Rightarrow> permission list \<Rightarrow> crm_db \<Rightarrow>
   api_error + (crm_error + background_check_response) \<times> crm_db" where
  "release_background_check_review env window_days company_id note actor_id actor_role permissions db =
     bindE (require_permission COMPLIANCE_DECIDE permissions) (\<lambda>_.
     bindE (served (release_review env company_id note actor_id actor_role permissions db)) (\<lambda>(p, db).
     Inr (background_check_standing env window_days company_id actor_id actor_role permissions db, db)))"

section \<open>Companies due for Re-KYC\<close>

text \<open>
  \<open>rekyc_due\<close>: the rows of the company table, in the order \<open>company_ids\<close> lists their keys, whose
  \<open>CLEAR\<close> expires before the given instant, soonest first, one page of them and their number.
\<close>

record rekyc_company =
  rk_company :: uuid
  rk_name :: "string option"
  rk_journey :: journey
  rk_background_check :: bc_state
  rk_expires_at :: instant
  rk_is_expired :: bool
  rk_cycle_number :: "nat option"
  rk_pipeline :: pipeline_status

definition max_cycle_number :: "crm_db \<Rightarrow> uuid \<Rightarrow> nat option" where
  "max_cycle_number db company_id =
     (case filter (\<lambda>c. cc_company c = company_id) (cycles db) of [] \<Rightarrow> None
      | cs \<Rightarrow> Some (Max (set (map cc_number cs))))"

definition rekyc_rows :: "uuid list \<Rightarrow> instant \<Rightarrow> crm_db \<Rightarrow> (instant \<times> exporter_profile) list" where
  "rekyc_rows company_ids before_at db =
     sort_key (\<lambda>(e, p). (e, customer_id p))
       (List.map_filter (\<lambda>c. case profiles db c of None \<Rightarrow> None
          | Some p \<Rightarrow> if background_check p = CLEAR
              then (case bc_expires_at p of None \<Rightarrow> None
                    | Some e \<Rightarrow> if e < before_at then Some (e, p) else None)
              else None) company_ids)"

definition rekyc_due ::
  "uuid list \<Rightarrow> instant \<Rightarrow> instant \<Rightarrow> nat \<Rightarrow> nat \<Rightarrow> crm_db \<Rightarrow> rekyc_company list \<times> nat" where
  "rekyc_due company_ids before_at now limit offset db =
     (let rows = rekyc_rows company_ids before_at db in
      (map (\<lambda>(e, p). \<lparr>rk_company = customer_id p, rk_name = ep_name p, rk_journey = journey_of p,
          rk_background_check = background_check p, rk_expires_at = e, rk_is_expired = (e \<le> now),
          rk_cycle_number = max_cycle_number db (customer_id p), rk_pipeline = pipeline_st p\<rparr>)
         (take limit (drop offset rows)),
       length rows))"

definition list_rekyc_due ::
  "crm_env \<Rightarrow> int \<Rightarrow> uuid list \<Rightarrow> instant option \<Rightarrow> nat \<Rightarrow> nat \<Rightarrow> permission list \<Rightarrow> crm_db \<Rightarrow>
   api_error + (rekyc_company list \<times> nat) \<times> instant" where
  "list_rekyc_due env window_days company_ids before_at limit offset permissions db =
     bindE (require_permission COMPLIANCE_VIEW permissions) (\<lambda>_.
     bindE (case before_at of Some b \<Rightarrow> Inr b
        | None \<Rightarrow> served (bindE (rekyc_due_window window_days) (\<lambda>w. Inr (env_now env + w)))) (\<lambda>cutoff.
     Inr (rekyc_due company_ids cutoff (env_now env) limit offset db, cutoff)))"

end
