(* ===== verification/Offers.thy ===== *)
theory Offers
  imports Verdict_Inputs Background_Check_Api
begin

text \<open>
  What the screen is offered against what the service accepts: the read of a company's background
  check names the moves, the cycles, the review's actions and the proposal's actions open to its
  reader, and each offer is compared with the operation it leads to.
\<close>

section \<open>The read\<close>

lemma open_for_company_only:
  assumes "reachable policy db"
  shows "open_for_company db c = (case open_proposals db c of [] \<Rightarrow> None | q # _ \<Rightarrow> Some q)"
proof (cases "open_proposals db c")
  case Nil
  then show ?thesis using open_for_company_None [of db c] by simp
next
  case (Cons q qs)
  then have "q \<in> set (open_proposals db c)" by simp
  moreover have "length (open_proposals db c) \<le> 1"
    by (rule approval_okD(7) [OF system_okD(4) [OF reachable_ok [OF assms]]])
  ultimately have "open_proposals db c = [q]" using Cons by simp
  then show ?thesis by (simp add: open_for_company_def newest_first_def)
qed

lemma standing_of_company:
  assumes "reachable policy db" and "profiles db c = Some p"
  shows "\<exists>s. standing c db = Inr s \<and> st_value s = background_check p"
  using assms(2) chain_ok_latest [OF system_okD(1) [OF reachable_ok [OF assms(1)]], of c]
  by (auto simp: standing_def Let_def)

lemma staleness_returns:
  assumes "reachable policy db" and "profiles db (customer_id p) \<noteq> None"
  shows "returns (staleness env p q db)"
proof -
  have "returns (latest_for_company (customer_id p) db)"
    using chain_ok_latest [OF system_okD(1) [OF reachable_ok [OF assms(1)]], of "customer_id p"] by simp
  then obtain h where h: "latest_for_company (customer_id p) db = Inr h" by (auto simp: returns_iff)
  obtain inputs where "company_inputs (customer_id p) db = Inr inputs"
    using company_inputs_eq_Inr [of "customer_id p" db] assms(2) by (auto simp: returns_iff)
  with h show ?thesis by (simp add: staleness_def Let_def)
qed

lemma returns_answer: "returns (bindE m (\<lambda>(x, y). Inr (f x y))) \<longleftrightarrow> returns m"
  by (cases m) auto

text \<open>What a reader sees, field by field.\<close>

lemma standing_response:
  assumes "background_check_standing env w c a role perms db = Inr resp"
    and "profiles db c = Some p"
  shows "bgr_value resp = background_check p"
    and "bgr_awaiting_approval resp \<longleftrightarrow> open_for_company db c \<noteq> None"
    and "bgr_allowed_moves resp = (if open_for_company db c \<noteq> None then [] else moves_shown env p a role)"
    and "background_check p = IN_REVIEW \<Longrightarrow> clear_prerequisites c db = Inr (bgr_clear_blocked_reasons resp)"
    and "bgr_review_actions resp = review_actions p a role perms (map_option pr_created_by (open_for_company db c))"
    and "cycle_actions c (background_check p) role db = Inr (bgr_allowed_cycle_actions resp)"
    and "open_for_company db c = Some q \<Longrightarrow> \<exists>why. staleness env p q db = Inr why \<and>
      bgr_open_proposal resp = Some (make_proposal_response (proposal_view q None) why a perms (reviewer_id p) (rm_user_id p))"
    and "open_for_company db c = None \<Longrightarrow> bgr_open_proposal resp = None"
proof -
  obtain s blocked facts awaiting offered required due where
    s: "standing c db = Inr s"
    and b: "(if st_value s = IN_REVIEW then clear_prerequisites c db else Inr []) = Inr blocked"
    and aw: "open_proposal env c db = Inr awaiting"
    and cy: "cycle_actions c (st_value s) role db = Inr offered"
    and resp: "bgr_value resp = st_value s" "bgr_clear_blocked_reasons resp = blocked"
      "bgr_allowed_moves resp = (if awaiting \<noteq> None then [] else moves_shown env p a role)"
      "bgr_allowed_cycle_actions resp = offered" "bgr_awaiting_approval resp = (awaiting \<noteq> None)"
      "bgr_open_proposal resp = map_option (\<lambda>(view, stale_reason).
          make_proposal_response view stale_reason a perms (reviewer_id p) (rm_user_id p)) awaiting"
      "bgr_review_actions resp = review_actions p a role perms
          (map_option (\<lambda>(view, _). pr_created_by (pv_proposal view)) awaiting)"
    using assms
    by (auto simp: background_check_standing_def Let_def bindE_eq_Inr lock_profile_eq_Inr)
  have v: "st_value s = background_check p"
    using s assms(2) by (auto simp: standing_def Let_def bindE_eq_Inr)
  show "bgr_value resp = background_check p" using resp v by simp
  show "background_check p = IN_REVIEW \<Longrightarrow> clear_prerequisites c db = Inr (bgr_clear_blocked_reasons resp)"
    using b resp v by simp
  show "cycle_actions c (background_check p) role db = Inr (bgr_allowed_cycle_actions resp)"
    using cy resp v by simp
  have a: "awaiting = None \<longleftrightarrow> open_for_company db c = None"
    "open_for_company db c = Some q \<Longrightarrow> \<exists>why. staleness env p q db = Inr why \<and> awaiting = Some (proposal_view q None, why)" for q
    using aw assms(2) by (auto simp: open_proposal_def bindE_eq_Inr split: option.splits)
  show "bgr_awaiting_approval resp \<longleftrightarrow> open_for_company db c \<noteq> None"
    "bgr_allowed_moves resp = (if open_for_company db c \<noteq> None then [] else moves_shown env p a role)"
    using resp a(1) by simp_all
  show "bgr_review_actions resp = review_actions p a role perms (map_option pr_created_by (open_for_company db c))"
    using resp(7) a(1) a(2) by (cases "open_for_company db c") (auto simp: proposal_view_def)
  show "open_for_company db c = Some q \<Longrightarrow> \<exists>why. staleness env p q db = Inr why \<and>
      bgr_open_proposal resp = Some (make_proposal_response (proposal_view q None) why a perms (reviewer_id p) (rm_user_id p))"
    using a(2) resp(6) by fastforce
  show "open_for_company db c = None \<Longrightarrow> bgr_open_proposal resp = None"
    using a(1) resp(6) by simp
qed

lemma read_returns:
  assumes "reachable policy db" and "0 \<le> window_days"
  shows "returns (background_check_standing env window_days c a role perms db) \<longleftrightarrow> profiles db c \<noteq> None"
proof
  assume "returns (background_check_standing env window_days c a role perms db)"
  then show "profiles db c \<noteq> None"
    by (auto simp: background_check_standing_def returns_bindE lock_profile_eq_Inr)
next
  assume "profiles db c \<noteq> None"
  then obtain p where p: "profiles db c = Some p" by blast
  have k: "customer_id p = c" by (rule keyedD [OF system_okD(5) [OF reachable_ok [OF assms(1)]] p])
  obtain s where s: "standing c db = Inr s" "st_value s = background_check p"
    using standing_of_company [OF assms(1) p] by blast
  obtain inputs where i: "company_inputs c db = Inr inputs"
    using company_inputs_eq_Inr [of c db] p by (auto simp: returns_iff)
  have "returns (open_proposal env c db)"
    using p staleness_returns [OF assms(1), of p env] k
    by (auto simp: open_proposal_def returns_iff bindE_eq_Inr split: option.splits)
  then obtain aw where aw: "open_proposal env c db = Inr aw" by (auto simp: returns_iff)
  have rk: "\<exists>due. is_rekyc_due facts now window_days = Inr due" for facts now
    using assms(2) by (auto simp: is_rekyc_due_def rekyc_due_window_def split: bool.splits option.splits)
  have cy: "\<exists>x. cycle_actions c v role db = Inr x" for v
    by (simp add: cycle_actions_def current_cycle_is_empty_def i Let_def)
  show "returns (background_check_standing env window_days c a role perms db)"
    by (cases "background_check p = IN_REVIEW")
      (simp_all add: background_check_standing_def s p lock_profile_def facts_for_company_def i
        clear_prerequisites_def required_checks_def Let_def returns_bindE aw cy rk)
qed

text \<open>
  C23. Reading a company's background check works for every company in the table and for no other
  id: in a reachable state nothing on the way (a second chain head, a proposal whose company is gone)
  makes it fail, as long as the Re-KYC window is not negative.
\<close>

theorem read_always_works:
  assumes "reachable policy db" and "0 \<le> window_days"
  shows "returns (background_check_standing env window_days c a role perms db) \<longleftrightarrow> profiles db c \<noteq> None"
  by (rule read_returns [OF assms])

theorem read_always_works_witness:
  "returns (background_check_standing sample_env 30 company officer_b COMPLIANCE [] run_approved)"
  using read_always_works [OF reachable_approved, of 30] by (simp add: run_approved_tables)

section \<open>The moves\<close>

lemma may_move_iff:
  "may_make_reviewer_moves p a \<longleftrightarrow> reviewer_id p = Some a \<or> reviewer_id p = None \<and> rm_user_id p \<noteq> Some a"
  by (auto simp: may_make_reviewer_moves_def split: option.splits)

lemma moves_shown_iff:
  "m \<in> set (moves_shown env p a role) \<longleftrightarrow> (\<exists>t roles. map_of MOVES (background_check p, t) = Some roles \<and>
     role \<in> set roles \<and> ((background_check p, t) \<in> set REVIEWER_MOVES \<longrightarrow> may_make_reviewer_moves p a) \<and>
     m = \<lparr>bm_to = t, bm_reason_required = (background_check p \<noteq> NOT_STARTED),
          bm_risk_required = (t = CLEAR),
          bm_approval_required = (env_maker_checker env \<and> (background_check p, t) \<in> set APPROVAL_MOVES)\<rparr>)"
  (is "_ \<longleftrightarrow> ?r")
proof -
  have moves: "m \<in> set (allowed_moves env s role) \<longleftrightarrow> (\<exists>t roles. map_of MOVES (s, t) = Some roles \<and>
     role \<in> set roles \<and>
     m = \<lparr>bm_to = t, bm_reason_required = (s \<noteq> NOT_STARTED), bm_risk_required = (t = CLEAR),
          bm_approval_required = (env_maker_checker env \<and> (s, t) \<in> set APPROVAL_MOVES)\<rparr>)" for s
    unfolding map_of_MOVES
    by (cases s) (auto simp: allowed_moves_def MOVES_def NO_TEXT_REQUIRED_def RISK_REQUIRED_def)
  have dest: "background_check p \<noteq> IN_REVIEW \<or> t \<notin> set REVIEWER_DESTINATIONS \<longleftrightarrow>
      (background_check p, t) \<notin> set REVIEWER_MOVES" for t
    by (auto simp: REVIEWER_DESTINATIONS_def REVIEWER_MOVES_def)
  have "m \<in> set (moves_shown env p a role) \<longleftrightarrow> m \<in> set (allowed_moves env (background_check p) role) \<and>
      (may_make_reviewer_moves p a \<or> (background_check p, bm_to m) \<notin> set REVIEWER_MOVES)"
    using dest by (simp add: moves_shown_def)
  then show ?thesis unfolding moves by auto
qed

lemma moves_shown_ex:
  "(\<exists>m \<in> set (moves_shown env p a role). bm_to m = t \<and> P m) \<longleftrightarrow>
     (\<exists>roles. map_of MOVES (background_check p, t) = Some roles \<and> role \<in> set roles) \<and>
     ((background_check p, t) \<in> set REVIEWER_MOVES \<longrightarrow> may_make_reviewer_moves p a) \<and>
     P \<lparr>bm_to = t, bm_reason_required = (background_check p \<noteq> NOT_STARTED),
          bm_risk_required = (t = CLEAR),
          bm_approval_required = (env_maker_checker env \<and> (background_check p, t) \<in> set APPROVAL_MOVES)\<rparr>"
  (is "?l \<longleftrightarrow> ?r")
proof
  assume ?l
  then obtain m where m: "m \<in> set (moves_shown env p a role)" "bm_to m = t" "P m" by blast
  from m(1) [unfolded moves_shown_iff] m(2,3) show ?r by auto
next
  assume r: ?r
  let ?m = "\<lparr>bm_to = t, bm_reason_required = (background_check p \<noteq> NOT_STARTED),
          bm_risk_required = (t = CLEAR),
          bm_approval_required = (env_maker_checker env \<and> (background_check p, t) \<in> set APPROVAL_MOVES)\<rparr>"
  from r have "?m \<in> set (moves_shown env p a role)" unfolding moves_shown_iff by blast
  with r show ?l by (intro bexI [of _ ?m]) simp_all
qed

lemma needs_approval_iff:
  "map_of MOVES (s, t) = Some roles \<Longrightarrow>
   needs_approval env t \<longleftrightarrow> env_maker_checker env \<and> (s, t) \<in> set APPROVAL_MOVES"
  by (auto simp: needs_approval_def map_of_MOVES APPROVAL_MOVES_def)

text \<open>What a request to move has to meet, whichever of the two operations serves it.\<close>

definition may_move_to ::
  "uuid \<Rightarrow> exporter_profile \<Rightarrow> bc_state \<Rightarrow> string option \<Rightarrow> bc_risk option \<Rightarrow> bc_state option \<Rightarrow> uuid \<Rightarrow>
   user_role \<Rightarrow> crm_db \<Rightarrow> bool" where
  "may_move_to c p t reason risk seen a role db \<longleftrightarrow>
     (seen = None \<or> seen = Some (background_check p)) \<and> open_proposals db c = [] \<and>
     (\<exists>roles. map_of MOVES (background_check p, t) = Some roles \<and> role \<in> set roles) \<and>
     ((background_check p, t) \<in> set REVIEWER_MOVES \<longrightarrow> may_make_reviewer_moves p a) \<and>
     (background_check p \<noteq> NOT_STARTED \<longrightarrow> \<not> no_text (strip_if_given reason)) \<and> (t = CLEAR \<longleftrightarrow> risk \<noteq> None) \<and>
     (t = CLEAR \<longrightarrow> clear_prerequisites c db = Inr [])"

lemma propose_may_move:
  assumes "reachable policy db" and "profiles db c = Some p" and "needs_approval env t"
  shows "returns (propose env c t reason risk a role seen db) \<longleftrightarrow> may_move_to c p t reason risk seen a role db"
proof -
  have app: "(s, t) \<in> set APPROVAL_MOVES \<longleftrightarrow> map_of MOVES (s, t) \<noteq> None" for s
    using assms(3) approval_roles needs_approval_iff [of s t _ env] by auto
  have "(\<exists>roles. map_of MOVES (s, t) = Some roles \<and> role \<in> set roles) \<longleftrightarrow>
      (s, t) \<in> set APPROVAL_MOVES \<and> role = COMPLIANCE" for s
    using app [of s] approval_roles [of s t] by auto
  then show ?thesis
    unfolding propose_accepted [OF assms(1)] may_move_to_def may_move_iff
    using assms(2) approval_from [of "background_check p" t] by auto
qed

definition decision_request ::
  "bc_state \<Rightarrow> string option \<Rightarrow> bc_risk option \<Rightarrow> uuid \<Rightarrow> user_role \<Rightarrow> bc_state option \<Rightarrow> permission list \<Rightarrow>
   uuid option \<Rightarrow> move_request" where
  "decision_request t reason risk a role seen perms rm =
     (plain_move t (map (\<lambda>((f, _), _). f) (filter (\<lambda>((_, t'), _). t' = t) MOVES)) a role reason risk None)
       \<lparr>mr_seen := seen, mr_permissions := perms, mr_rm_user := rm\<rparr>"

lemma decision_request_simps [simp]:
  "mr_to (decision_request t reason risk a role seen perms rm) = t"
  "mr_actor (decision_request t reason risk a role seen perms rm) = a"
  "mr_role (decision_request t reason risk a role seen perms rm) = role"
  "mr_risk (decision_request t reason risk a role seen perms rm) = risk"
  "mr_rm_user (decision_request t reason risk a role seen perms rm) = rm"
  "mr_permissions (decision_request t reason risk a role seen perms rm) = perms"
  "mr_require_rm (decision_request t reason risk a role seen perms rm)"
  "public_request (decision_request t reason risk a role seen perms rm)"
  "known_method (decision_request t reason risk a role seen perms rm)"
  by (simp_all add: decision_request_def plain_move_def public_request_def known_method_def)

lemma decision_request_checked:
  "returns (check_move p (decision_request t reason risk a role seen perms rm)) \<longleftrightarrow>
     (seen = None \<or> seen = Some (background_check p)) \<and>
     (\<exists>roles. map_of MOVES (background_check p, t) = Some roles \<and> role \<in> set roles) \<and>
     (background_check p \<noteq> NOT_STARTED \<longrightarrow> \<not> no_text (strip_if_given reason)) \<and> (t = CLEAR \<longleftrightarrow> risk \<noteq> None)"
proof -
  have o: "s \<in> set (map (\<lambda>((f, _), _). f) (filter (\<lambda>((_, t'), _). t' = t) MOVES)) \<longleftrightarrow> map_of MOVES (s, t) \<noteq> None"
    for s by (cases s; cases t) (simp_all add: MOVES_def)
  have "map_of MOVES (s, t) \<noteq> None \<Longrightarrow> s = NOT_STARTED \<longleftrightarrow> (s, t) = (NOT_STARTED, IN_REVIEW)" for s
    by (auto simp: map_of_MOVES)
  then show ?thesis
    unfolding returns_iff split_paired_Ex check_move_Inr
    by (auto simp: decision_request_def plain_move_def o simp del: set_map)
qed

lemma decision_may_move:
  assumes "reachable policy db" and "profiles db c = Some p" and "\<not> needs_approval env t"
  shows "returns (record_decision env c t reason risk a role seen perms rm db) \<longleftrightarrow>
    may_move_to c p t reason risk seen a role db \<and> (t = CLEAR \<longrightarrow> 1 \<le> env_clear_validity_days env) \<and>
    (background_check p = NOT_STARTED \<longrightarrow> rm_ready p rm a role perms db)"
proof -
  let ?r = "decision_request t reason risk a role seen perms rm"
  have rd: "returns (record_decision env c t reason risk a role seen perms rm db) \<longleftrightarrow> returns (move env c ?r db)"
  proof (cases "map (\<lambda>((f, _), _). f) (filter (\<lambda>((_, t'), _). t' = t) MOVES) = []")
    case True
    then have "map_of MOVES (s, t) = None" for s
      by (auto simp: filter_empty_conv map_of_eq_None_iff)
    then have "\<not> returns (check_move p ?r)" by (simp add: decision_request_checked)
    then have "\<not> returns (move env c ?r db)"
      using move_accepted [OF assms(1), of ?r env c] assms(2) by auto
    with True show ?thesis by (simp add: record_decision_def Let_def)
  next
    case False
    then show ?thesis by (simp add: record_decision_def decision_request_def Let_def)
  qed
  have np: "\<not> (env_maker_checker env \<and> (background_check p, t) \<in> set APPROVAL_MOVES)"
    using assms(3) by (auto simp: needs_approval_def list_ex_iff)
  have st: "start_needs_rm p ?r \<longleftrightarrow> background_check p = NOT_STARTED"
    if "map_of MOVES (background_check p, t) \<noteq> None"
    using that by (auto simp: start_needs_rm_def map_of_MOVES)
  have cl: "risk \<noteq> None" if "t = CLEAR \<longleftrightarrow> risk \<noteq> None" "t = CLEAR" using that by blast
  show ?thesis
    unfolding rd move_accepted [OF assms(1) decision_request_simps(8,9), of env c] decision_request_checked
      decision_request_simps may_move_to_def may_move_iff assms(2) option.inject ex_simps simp_thms
    using np st cl by blast
qed

text \<open>
  C24. What is offered is what is accepted. For a caller with one of the route's permissions, a
  request to move the check is accepted exactly when its destination is among the moves the read
  offers that caller, the value it was made from (if given) is the current one, it brings the reason
  and the risk the offer asks for, nothing blocks a \<open>CLEAR\<close>, and a start names a manager where one is
  needed.
\<close>

theorem offered_moves_are_accepted:
  assumes "reachable policy db" and "profiles db c = Some p"
    and "background_check_standing env w c a role perms db = Inr resp"
    and "(''exporters'', ''transition'') \<in> set perms \<or> (''compliance'', ''decide'') \<in> set perms"
  shows "returns (record_background_check_decision env c t reason risk seen rm a role perms db) \<longleftrightarrow>
     (seen = None \<or> seen = Some (bgr_value resp)) \<and>
     (\<exists>m \<in> set (bgr_allowed_moves resp). bm_to m = t \<and>
        (bm_reason_required m \<longrightarrow> \<not> no_text (strip_if_given reason)) \<and> (bm_risk_required m \<longleftrightarrow> risk \<noteq> None) \<and>
        (t = CLEAR \<longrightarrow> bgr_clear_blocked_reasons resp = [] \<and>
           (bm_approval_required m \<or> 1 \<le> env_clear_validity_days env))) \<and>
     (bgr_value resp = NOT_STARTED \<longrightarrow> rm_ready p rm a role perms db)"
proof -
  note r = standing_response [OF assms(3,2)]
  have allowed: "require_any_permission BACKGROUND_CHECK_MOVE perms = Inr ()"
    using assms(4) by (auto simp: BACKGROUND_CHECK_MOVE_def)
  have blocked: "clear_prerequisites c db = Inr [] \<longleftrightarrow> bgr_clear_blocked_reasons resp = []"
    if "background_check p = IN_REVIEW" using r(4) [OF that] by simp
  have none: "open_for_company db c = None \<longleftrightarrow> open_proposals db c = []" by (rule open_for_company_None)
  define offered where "offered \<longleftrightarrow> (\<exists>m \<in> set (bgr_allowed_moves resp). bm_to m = t \<and>
        (bm_reason_required m \<longrightarrow> \<not> no_text (strip_if_given reason)) \<and> (bm_risk_required m \<longleftrightarrow> risk \<noteq> None) \<and>
        (t = CLEAR \<longrightarrow> bgr_clear_blocked_reasons resp = [] \<and>
           (bm_approval_required m \<or> 1 \<le> env_clear_validity_days env)))"
  have off: "offered \<longleftrightarrow> open_proposals db c = [] \<and>
     (\<exists>roles. map_of MOVES (background_check p, t) = Some roles \<and> role \<in> set roles) \<and>
     ((background_check p, t) \<in> set REVIEWER_MOVES \<longrightarrow> may_make_reviewer_moves p a) \<and>
     (background_check p \<noteq> NOT_STARTED \<longrightarrow> \<not> no_text (strip_if_given reason)) \<and> (t = CLEAR \<longleftrightarrow> risk \<noteq> None) \<and>
     (t = CLEAR \<longrightarrow> bgr_clear_blocked_reasons resp = [] \<and>
        (env_maker_checker env \<and> (background_check p, t) \<in> set APPROVAL_MOVES \<or> 1 \<le> env_clear_validity_days env))"
  proof (cases "open_proposals db c = []")
    case True
    then have m: "bgr_allowed_moves resp = moves_shown env p a role" using none by (simp add: r(3))
    show ?thesis unfolding offered_def m moves_shown_ex using True by auto
  next
    case False
    then show ?thesis using none by (simp add: r(3) offered_def)
  qed
  have to_clear: "background_check p = IN_REVIEW" if "map_of MOVES (background_check p, CLEAR) = Some roles" for roles
    using that by (auto simp: map_of_MOVES)
  have mv: "may_move_to c p t reason risk seen a role db \<and>
      (t = CLEAR \<longrightarrow> needs_approval env t \<or> 1 \<le> env_clear_validity_days env) \<longleftrightarrow>
      (seen = None \<or> seen = Some (background_check p)) \<and> offered"
    unfolding off may_move_to_def using blocked to_clear needs_approval_iff [of "background_check p" t _ env] by auto
  show ?thesis
  proof (cases "needs_approval env t")
    case True
    have ns: "background_check p \<noteq> NOT_STARTED" if "may_move_to c p t reason risk seen a role db"
      using that True needs_approval_iff [of "background_check p" t _ env] approval_from
      by (auto simp: may_move_to_def)
    have "returns (record_background_check_decision env c t reason risk seen rm a role perms db) \<longleftrightarrow>
        may_move_to c p t reason risk seen a role db"
      by (simp add: record_background_check_decision_def allowed True returns_answer
          propose_may_move [OF assms(1,2) True])
    with mv ns True show ?thesis unfolding offered_def [symmetric] r(1) by blast
  next
    case False
    have "returns (record_background_check_decision env c t reason risk seen rm a role perms db) \<longleftrightarrow>
        returns (record_decision env c t reason risk a role seen perms rm db)"
      by (simp add: record_background_check_decision_def allowed False returns_answer)
    with mv decision_may_move [OF assms(1,2) False] False show ?thesis
      unfolding offered_def [symmetric] r(1) by blast
  qed
qed

theorem offered_moves_are_accepted_witness:
  "\<exists>resp. background_check_standing sample_env 30 company officer_a COMPLIANCE [(''compliance'', ''decide'')]
       run_answered = Inr resp \<and> (\<exists>m \<in> set (bgr_allowed_moves resp). bm_to m = CLEAR) \<and>
     bgr_clear_blocked_reasons resp = []"
proof -
  let ?perms = "[(''compliance'', ''decide'')]"
  obtain h where e: "run_answered = answered_db h" using run_answered_eq by blast
  have "profiles run_answered company \<noteq> None" by (simp add: e sample_dbs)
  then obtain p where p: "profiles run_answered company = Some p" by blast
  obtain resp where resp: "background_check_standing sample_env 30 company officer_a COMPLIANCE ?perms run_answered = Inr resp"
    using read_returns [OF reachable_answered, of 30 sample_env company officer_a COMPLIANCE ?perms] p
    by (auto simp: returns_iff)
  have "needs_approval sample_env CLEAR" by (simp add: needs_approval_def sample_env_def APPROVAL_MOVES_def)
  moreover have allowed: "require_any_permission BACKGROUND_CHECK_MOVE ?perms = Inr ()"
    by (simp add: BACKGROUND_CHECK_MOVE_def)
  moreover have "returns (propose sample_env company CLEAR (Some ''all checks passed'') (Some LOW) officer_a
      COMPLIANCE None run_answered)" using run_proposed_returns by (auto simp: returns_iff)
  ultimately have "returns (record_background_check_decision sample_env company CLEAR (Some ''all checks passed'')
      (Some LOW) None None officer_a COMPLIANCE ?perms run_answered)"
    by (simp add: record_background_check_decision_def returns_answer allowed)
  with offered_moves_are_accepted [OF reachable_answered p resp, of CLEAR "Some ''all checks passed''" "Some LOW" None None]
    resp show ?thesis by auto
qed

section \<open>The cycles\<close>



section \<open>The review\<close>

lemma review_sources:
  "good_source ''background_check_service.claim_review''"
  "good_source ''background_check_service.assign_review''"
  "good_source ''background_check_service.release_review''"
  by code_simp+

lemma set_reviewer_does_return:
  "good_source src \<Longrightarrow> returns (set_reviewer env p u ev a reason src db)"
  unfolding returns_iff by (drule set_reviewer_returns) blast

lemma decide_route:
  "(''compliance'', ''decide'') \<in> set perms \<Longrightarrow> require_permission COMPLIANCE_DECIDE perms = Inr ()"
  "(''compliance'', ''approve'') \<in> set perms \<Longrightarrow> require_permission COMPLIANCE_APPROVE perms = Inr ()"
  by (simp_all add: require_permission_def COMPLIANCE_DECIDE_def COMPLIANCE_APPROVE_def)

text \<open>
  The review's actions are offered exactly when they are accepted: taking an unassigned review,
  handing one back, and assigning it to somebody, which a caller may do exactly when it is offered and
  the target already holds it or is an active compliance officer who does not manage the company, with
  a reason if the review is taken from someone.
\<close>

theorem review_actions_are_accepted:
  assumes "reachable policy db" and "profiles db c = Some p"
    and "background_check_standing env w c a role perms db = Inr resp"
    and "(''compliance'', ''decide'') \<in> set perms"
  shows "(REVIEW_ACTION_CLAIM \<in> set (bgr_review_actions resp) \<longleftrightarrow> reviewer_id p = None \<and>
       returns (claim_background_check_review env w c a role perms db)) \<and>
     (REVIEW_ACTION_RELEASE \<in> set (bgr_review_actions resp) \<longleftrightarrow> reviewer_id p \<noteq> None \<and>
       returns (release_background_check_review env w c note a role perms db)) \<and>
     (returns (assign_background_check_review env w c u reason a role perms db) \<longleftrightarrow>
       REVIEW_ACTION_ASSIGN \<in> set (bgr_review_actions resp) \<and>
       (reviewer_id p = Some u \<or> rm_user_id p \<noteq> Some u \<and> (reviewer_id p = None \<or> clean_text reason \<noteq> None) \<and>
          (\<exists>m. staff db u = Some m \<and> sm_active m \<and> sm_role m \<in> set REVIEWER_ROLES)))"
proof -
  note acts = standing_response(5) [OF assms(3,2)]
  have rc: "reviewer_checks p"
    using system_okD(2) [OF reachable_ok [OF assms(1)]] assms(2) by (simp add: review_ok_def)
  then have under: "background_check p \<in> set UNDER_REVIEW" if "reviewer_id p \<noteq> None"
    using that by (auto simp: reviewer_checks_def UNDER_REVIEW_def)
  note ret = review_sources [THEN set_reviewer_does_return]
  have claim: "returns (claim_background_check_review env w c a role perms db) \<longleftrightarrow>
      role \<in> set REVIEWER_ROLES \<and> background_check p \<in> set UNDER_REVIEW \<and>
      (reviewer_id p = Some a \<or> reviewer_id p = None \<and> rm_user_id p \<noteq> Some a)"
    unfolding claim_background_check_review_def decide_route(1) [OF assms(4)] bindE_simps returns_answer returns_served
    using assms(2) ret(1)
    by (auto simp: claim_review_def lock_profile_def returns_bindE require_eq_Inr require_under_review_def
        refuse_reviewer_is_rm_def split: option.splits)
  have release: "returns (release_background_check_review env w c note a role perms db) \<longleftrightarrow>
      (case reviewer_id p of None \<Rightarrow> True | Some holder \<Rightarrow> (holder = a \<or> holds perms ASSIGN_REVIEWS) \<and>
        (case open_for_company db c of None \<Rightarrow> True | Some q \<Rightarrow> pr_created_by q \<noteq> holder))"
    unfolding release_background_check_review_def decide_route(1) [OF assms(4)] bindE_simps returns_answer returns_served
    using assms(2) ret(3)
    by (auto simp: release_review_def lock_profile_def returns_bindE require_eq_Inr split: option.splits)
  have assign: "returns (assign_background_check_review env w c u reason a role perms db) \<longleftrightarrow>
      holds perms ASSIGN_REVIEWS \<and> background_check p \<in> set UNDER_REVIEW \<and>
      (reviewer_id p = Some u \<or> rm_user_id p \<noteq> Some u \<and> (reviewer_id p = None \<or> clean_text reason \<noteq> None) \<and>
          (\<exists>m. staff db u = Some m \<and> sm_active m \<and> sm_role m \<in> set REVIEWER_ROLES))"
    unfolding assign_background_check_review_def decide_route(1) [OF assms(4)] bindE_simps returns_answer returns_served
    using assms(2) ret(2)
    by (auto simp: assign_review_def lock_profile_def returns_bindE require_eq_Inr require_under_review_def
        refuse_reviewer_is_rm_def find_staff_member_def Let_def split: option.splits)
  show ?thesis
    unfolding claim release assign acts review_actions_def Let_def
    using under by (cases "reviewer_id p"; cases "open_for_company db c") auto
qed

theorem review_actions_are_accepted_witness:
  "\<exists>resp. background_check_standing sample_env 30 company officer_a COMPLIANCE [(''compliance'', ''decide'')]
       run_proposed = Inr resp \<and> REVIEW_ACTION_RELEASE \<notin> set (bgr_review_actions resp) \<and>
     \<not> returns (release_background_check_review sample_env 30 company None officer_a COMPLIANCE
         [(''compliance'', ''decide'')] run_proposed)"
proof -
  let ?perms = "[(''compliance'', ''decide'')]"
  obtain resp where resp: "background_check_standing sample_env 30 company officer_a COMPLIANCE ?perms run_proposed = Inr resp"
    using read_returns [OF reachable_proposed, of 30 sample_env company officer_a COMPLIANCE ?perms] run_proposed_tables(1)
    by (auto simp: returns_iff)
  have "open_for_company run_proposed company = Some clear_proposal"
    by (simp add: open_for_company_only [OF reachable_proposed] run_proposed_tables)
  then have "REVIEW_ACTION_RELEASE \<notin> set (bgr_review_actions resp)"
    using standing_response(5) [OF resp run_proposed_tables(1)]
    by (simp add: review_actions_def proposed_company_def clear_proposal_def Let_def)
  moreover have "reviewer_id proposed_company \<noteq> None" by (simp add: proposed_company_def)
  ultimately show ?thesis
    using review_actions_are_accepted [OF reachable_proposed run_proposed_tables(1) resp, of None] resp by auto
qed

end
