(* ===== verification/Proposal_Offers.thy ===== *)
theory Proposal_Offers
  imports Offers
begin

text \<open>
  What a reader may do with an open proposal, against what the service then accepts, and the one
  place where the two differ.
\<close>

section \<open>A stored reason keeps its text\<close>

lemma py_strip_idem: "py_strip (py_strip s) = py_strip s"
proof -
  let ?u = "dropWhile py_space s"
  let ?v = "rev (dropWhile py_space (rev ?u))"
  have idem: "dropWhile P (dropWhile P xs) = dropWhile P xs" for P and xs :: string
    by (induction xs) auto
  have v: "py_strip s = ?v" by (simp add: py_strip_def)
  have "dropWhile py_space ?v = ?v"
  proof (cases "?v = []")
    case False
    have "?u = ?v @ rev (takeWhile py_space (rev ?u))"
      by (metis rev_append rev_rev_ident takeWhile_dropWhile_id)
    then have "hd ?u = hd ?v" using False by (metis hd_append2)
    moreover have "?u \<noteq> []" using False by (metis dropWhile.simps(1) rev.simps(1))
    ultimately have "\<not> py_space (hd ?v)" using hd_dropWhile by metis
    with False show ?thesis by (cases ?v) auto
  next
    case True
    show ?thesis unfolding True by simp
  qed
  then have "py_strip ?v = rev (dropWhile py_space (rev ?v))" by (simp add: py_strip_def)
  then show ?thesis unfolding v by (simp add: idem)
qed

lemma strip_if_given_idem: "\<not> no_text (strip_if_given r) \<Longrightarrow> strip_if_given (strip_if_given r) = strip_if_given r"
  by (auto simp: strip_if_given_def py_strip_idem split: option.splits if_splits)

lemma step_proposals:
  assumes ok: "system_ok db" and st: "crm_step env db db'"
  shows "proposals db' = proposals db \<or> (\<exists>pr :: bc_proposal. proposals db' = proposals db @ [pr] \<and>
     \<not> no_text (strip_if_given (pr_reason pr)))"
proof -
  note k = system_okD(5) [OF ok]
  have moved: "proposals db2 = proposals db1"
    if "apply_move env p r db1 = Inr (res, p', db2)" "profiles db1 (customer_id p) = Some p" for p r db1 res p' db2
    using that by (elim apply_move_effect) (auto simp: move_frame_def)
  have resolved: "proposals db2 = proposals db1"
    if "resolve env q oc a reason did src db1 = Inr (rs, db2)" for q oc a reason did src db1 rs db2
    using that by (auto elim!: resolve_effect)
  from st show ?thesis
  proof (cases rule: crm_step_cases)
    case (move c r x)
    then obtain p res p' where p: "profiles db c = Some p" and am: "apply_move env p r db = Inr (res, p', db')"
      by (auto simp: move_def bindE_eq_Inr lock_profile_eq_Inr)
    with keyedD [OF k p] moved [OF am] show ?thesis by simp
  next
    case (cycle c kind reason a role y)
    let ?src = "''background_check_service.start_cycle''"
    obtain p prev db1 cy db2 where p: "profiles db c = Some p"
      and ci: "current_or_initial c a (Some ?src) (env_now env) db = (prev, db1)"
      and d2: "\<exists>rows n. db2 = db1\<lparr>cycles := cycles db1 @ [cy], history := history db1 @ rows, next_uuid := n\<rparr>"
      and fin: "background_check p \<noteq> CLEAR \<and> db' = db2 \<and> sc_reopen y = None \<or>
        background_check p = CLEAR \<and> (\<exists>i res p'. next_uuid db1 \<le> i \<and> i < next_uuid db2 \<and>
          apply_move env p (reopen_request cy i a role kind (the (strip_if_given reason))) db2
            = Inr (res, p', db') \<and> sc_reopen y = Some (to_view (mv_decision res) (mv_evidence res)))"
      by (rule start_cycle_effect [OF cycle], rule that, assumption+)
    note f = current_or_initial_frame [OF ci]
    have "profiles db2 (customer_id p) = Some p" using d2 f p keyedD [OF k p] by auto
    then show ?thesis using fin moved d2 f by fastforce
  next
    case (propose c t reason risk a role seen v)
    obtain p and pr :: bc_proposal where
      cm: "\<exists>m. check_move p ((plain_move t [background_check p] a role reason risk None)\<lparr>mr_seen := seen\<rparr>)
        = Inr (pr_reason pr, m)"
      and am: "(background_check p, t) \<in> set APPROVAL_MOVES"
      and ps: "proposals db' = proposals db @ [pr]"
      by (rule propose_effect [OF propose k], rule that, assumption+)
    have "pr_reason pr = strip_if_given reason" "\<not> no_text (strip_if_given reason)"
      using cm am approval_from by (auto simp: check_move_Inr plain_move_def)
    with ps show ?thesis by (simp add: strip_if_given_idem)
  next
    case (approve c pid a role perms w)
    then obtain p q res p' db1 rs where p: "profiles db c = Some p"
      and am: "apply_move env p ((plain_move (pr_to q) [pr_from q] (pr_created_by q) role (pr_reason q)
         (pr_risk q) None)\<lparr>mr_approval := Some (q, a)\<rparr>) db = Inr (res, p', db1)"
      and rs: "resolve env q APPROVED a None (Some (dn_id (mv_decision res)))
         ''background_check_service.approve'' db1 = Inr (rs, db')"
      by (elim approve_effect)
    with keyedD [OF k p] moved [OF am] resolved [OF rs] show ?thesis by simp
  next
    case (reject c pid reason a role v)
    then show ?thesis by (elim reject_effect) (simp add: resolved)
  next
    case (withdraw c pid reason a role perms v)
    then show ?thesis by (elim withdraw_effect) (simp add: resolved)
  next
    case (claim c a role p')
    then show ?thesis by (elim claim_review_effect [OF _ k]) (simp add: profile_write_frame)
  next
    case (assign c u reason a role perms p')
    then show ?thesis by (elim assign_review_effect [OF _ k]) (simp add: profile_write_frame)
  next
    case (release c msg a role perms p')
    then show ?thesis by (elim release_review_effect [OF _ k]) (simp add: profile_write_frame)
  next
    case columns
    then show ?thesis by (simp add: profile_write_frame)
  next
    case first_input
    then show ?thesis by (simp add: current_or_initial_frame)
  qed simp_all
qed

lemma reachable_reasons:
  assumes "reachable policy db" and "q \<in> set (proposals db)"
  shows "\<not> no_text (strip_if_given (pr_reason q))"
  using assms
proof (induction rule: reachable.induct)
  case (step db env db')
  from step_proposals [OF reachable_ok [OF step.hyps(1)] step.hyps(3)] step.prems step.IH
  show ?case by auto
qed (simp add: empty_db_def)

section \<open>Approving and rejecting\<close>

lemma offered_on_proposal:
  assumes "reachable policy db" and "profiles db c = Some p" and "open_proposals db c = [q]"
    and "background_check_standing env w c a role perms db = Inr resp"
  shows "\<exists>why. staleness env p q db = Inr why \<and> bgr_open_proposal resp =
    Some (make_proposal_response (proposal_view q None) why a perms (reviewer_id p) (rm_user_id p))"
  using standing_response(7) [OF assms(4,2), of q]
  by (simp add: open_for_company_only [OF assms(1)] assms(3))

text \<open>
  C27. For a compliance officer who holds the route's permission, approving an open proposal is
  accepted exactly when it is offered (and, for \<open>CLEAR\<close>, the prerequisites still hold and the validity
  setting is sound), and rejecting it exactly when that is offered and a reason is given.
\<close>

theorem proposal_actions_are_accepted:
  assumes "reachable policy db" and "profiles db c = Some p" and "open_proposals db c = [q]"
    and "background_check_standing env w c a COMPLIANCE perms db = Inr resp"
    and "(''compliance'', ''approve'') \<in> set perms" and "bgr_open_proposal resp = Some pr"
  shows "(returns (approve_background_check_proposal env c (pr_id q) a COMPLIANCE perms db) \<longleftrightarrow>
       PROPOSAL_APPROVE \<in> set (prs_allowed_actions pr) \<and>
       (pr_to q = CLEAR \<longrightarrow> clear_prerequisites c db = Inr [] \<and> 1 \<le> env_clear_validity_days env)) \<and>
     (returns (reject_background_check_proposal env c (pr_id q) reason a COMPLIANCE perms db) \<longleftrightarrow>
       PROPOSAL_REJECT \<in> set (prs_allowed_actions pr) \<and> \<not> no_text (strip_if_given reason))"
proof -
  note ok = reachable_ok [OF assms(1)]
  have q: "q \<in> set (proposals db)" "pr_company q = c" "resolution_of db (pr_id q) = None"
    using assms(3) open_proposals_in [of q db c] by simp_all
  have one: "x = q" if "x \<in> set (proposals db)" "pr_id x = pr_id q" for x
    using approval_okD(1) [OF system_okD(4) [OF ok]] that q(1) by (auto simp: distinct_map inj_on_def)
  have o: "open_proposal_to_resolve c (pr_id q) COMPLIANCE db = Inr q"
  proof -
    have "find (\<lambda>x. pr_id x = pr_id q \<and> pr_company x = c) (proposals db) = Some q"
    proof (cases "find (\<lambda>x. pr_id x = pr_id q \<and> pr_company x = c) (proposals db)")
      case None
      then show ?thesis using q by (auto simp: find_None_iff)
    next
      case (Some x)
      then show ?thesis using find_filter_Some [OF Some] one by simp
    qed
    then show ?thesis
      by (simp add: open_proposal_to_resolve_def CHECKER_ROLES_def get_proposal_for_company_def q(3))
  qed
  obtain why where why: "staleness env p q db = Inr why"
    and pr: "pr = make_proposal_response (proposal_view q None) why a perms (reviewer_id p) (rm_user_id p)"
    using offered_on_proposal [OF assms(1-4)] assms(6) by auto
  obtain inputs where inp: "company_inputs c db = Inr inputs"
    using company_inputs_eq_Inr [of c db] assms(2) by (auto simp: returns_iff)
  have risk: "pr_to q = CLEAR \<longrightarrow> pr_risk q \<noteq> None"
    using approval_okD(3) [OF system_okD(4) [OF ok] q(1)] by (auto simp: proposal_checks_def)
  have ready: "clear_ready inputs (pr_risk q) (select_evidence inputs (company_documents db c)) CLEAR_POLICY \<longleftrightarrow>
      clear_prerequisites c db = Inr []" if "pr_risk q \<noteq> None"
    using that by (auto simp: clear_prerequisites_def inp evaluate_clear_prerequisites_Nil clear_ready_def)
  have "returns (approve_background_check_proposal env c (pr_id q) a COMPLIANCE perms db) \<longleftrightarrow>
      returns (approve env c (pr_id q) a COMPLIANCE perms db)"
    by (simp add: approve_background_check_proposal_def decide_route(2) [OF assms(5)])
  also have "\<dots> \<longleftrightarrow> a \<noteq> pr_created_by q \<and> checker_conflict a (reviewer_id p) (rm_user_id p) = None \<and>
      (needs_senior_checker (pr_to q) (pr_risk q) \<longrightarrow> APPROVE_HIGH_RISK \<in> set perms) \<and> why = None \<and>
      (pr_to q = CLEAR \<longrightarrow> clear_prerequisites c db = Inr [] \<and> 1 \<le> env_clear_validity_days env)"
    unfolding approve_accepted [OF assms(1)] assms(2) o inp
    using why reachable_reasons [OF assms(1) q(1)] risk ready by auto
  finally have ap: "returns (approve_background_check_proposal env c (pr_id q) a COMPLIANCE perms db) \<longleftrightarrow> \<dots>" .
  have "returns (reject_background_check_proposal env c (pr_id q) reason a COMPLIANCE perms db) \<longleftrightarrow>
      returns (reject env c (pr_id q) reason a COMPLIANCE db)"
    by (simp add: reject_background_check_proposal_def decide_route(2) [OF assms(5)])
  also have "\<dots> \<longleftrightarrow> a \<noteq> pr_created_by q \<and> checker_conflict a (reviewer_id p) (rm_user_id p) = None \<and>
      \<not> no_text (strip_if_given reason)"
    unfolding reject_returns assms(2) o checker_conflict_None by auto
  finally have rj: "returns (reject_background_check_proposal env c (pr_id q) reason a COMPLIANCE perms db) \<longleftrightarrow> \<dots>" .
  have view: "proposal_is_open (proposal_view q None)" "pv_proposal (proposal_view q None) = q"
    by (simp_all add: proposal_is_open_def proposal_view_def)
  have may: "has_permission perms COMPLIANCE_APPROVE"
    using assms(5) by (simp add: has_permission_def COMPLIANCE_APPROVE_def)
  show ?thesis
    unfolding ap rj pr make_proposal_response_def
    using may
    by (auto simp: view Let_def proposal_actions_def approval_eligibility_def holds_def
        split: option.splits if_splits prod.splits)
qed

theorem proposal_actions_are_accepted_witness:
  "\<exists>resp pr. background_check_standing sample_env 30 company officer_b COMPLIANCE [(''compliance'', ''approve'')]
       run_proposed = Inr resp \<and> bgr_open_proposal resp = Some pr \<and>
     PROPOSAL_APPROVE \<in> set (prs_allowed_actions pr)"
proof -
  let ?perms = "[(''compliance'', ''approve'')]"
  obtain resp where resp: "background_check_standing sample_env 30 company officer_b COMPLIANCE ?perms run_proposed = Inr resp"
    using read_returns [OF reachable_proposed, of 30 sample_env company officer_b COMPLIANCE ?perms] run_proposed_tables(1)
    by (auto simp: returns_iff)
  obtain pr where pr: "bgr_open_proposal resp = Some pr"
    using offered_on_proposal [OF reachable_proposed run_proposed_tables(1,7) resp] by auto
  have "pr_id clear_proposal = 2" by (simp add: clear_proposal_def)
  moreover have "\<exists>v. approve sample_env company 2 officer_b COMPLIANCE ?perms run_proposed = Inr v"
    using approve_accepted [OF reachable_proposed, of sample_env company 2 officer_b COMPLIANCE "[]"]
      approve_accepted [OF reachable_proposed, of sample_env company 2 officer_b COMPLIANCE ?perms] run_approved_returns
    by (auto simp: returns_iff)
  ultimately have "returns (approve_background_check_proposal sample_env company (pr_id clear_proposal) officer_b COMPLIANCE ?perms run_proposed)"
    by (auto simp: approve_background_check_proposal_def decide_route(2) returns_iff)
  with proposal_actions_are_accepted [OF reachable_proposed run_proposed_tables(1,7) resp _ pr, of None] resp pr
  show ?thesis by auto
qed

section \<open>An offer that is refused\<close>

text \<open>
  C28. A holder of \<open>compliance:assign\<close> who reads somebody else's open proposal is always offered to
  withdraw it, and while its proposer is still an active compliance officer the service always
  refuses: here alone the screen offers what is not accepted.
\<close>

theorem withdrawal_offered_but_refused:
  assumes "reachable policy db" and "profiles db c = Some p" and "open_proposals db c = [q]"
    and "background_check_standing env w c a COMPLIANCE perms db = Inr resp"
    and "bgr_open_proposal resp = Some pr" and "a \<noteq> pr_created_by q"
    and "(''compliance'', ''decide'') \<in> set perms" and "(''compliance'', ''assign'') \<in> set perms"
    and "staff db (pr_created_by q) = Some m" and "sm_active m" and "sm_role m = COMPLIANCE"
  shows "PROPOSAL_WITHDRAW \<in> set (prs_allowed_actions pr) \<and>
     \<not> returns (withdraw_background_check_proposal env c (pr_id q) reason a COMPLIANCE perms db)"
proof -
  obtain why where pr: "pr = make_proposal_response (proposal_view q None) why a perms (reviewer_id p) (rm_user_id p)"
    using offered_on_proposal [OF assms(1-4)] assms(5) by auto
  have view: "proposal_is_open (proposal_view q None)" "pv_proposal (proposal_view q None) = q"
    by (simp_all add: proposal_is_open_def proposal_view_def)
  have "PROPOSAL_WITHDRAW \<in> set (prs_allowed_actions pr)"
    unfolding pr make_proposal_response_def
    using assms(6-8)
    by (auto simp: view Let_def has_permission_def COMPLIANCE_DECIDE_def holds_def ASSIGN_REVIEWS_def
        split: prod.splits)
  moreover have "\<not> returns (withdraw env c (pr_id q) reason a COMPLIANCE perms db)"
  proof
    assume "returns (withdraw env c (pr_id q) reason a COMPLIANCE perms db)"
    then obtain x where o: "open_proposal_to_resolve c (pr_id q) COMPLIANCE db = Inr x"
      and or: "a = pr_created_by x \<or> (case staff db (pr_created_by x) of None \<Rightarrow> True
         | Some m \<Rightarrow> \<not> (sm_active m \<and> sm_role m \<in> set REVIEWER_ROLES))"
      unfolding withdraw_returns by blast
    have "x \<in> set (open_proposals db c)"
      using open_proposal_to_resolve_Inr [OF o] by (simp add: open_proposals_in)
    then have "x = q" using assms(3) by simp
    with or assms(6,9-11) show False by (simp add: REVIEWER_ROLES_def)
  qed
  ultimately show ?thesis
    by (simp add: withdraw_background_check_proposal_def decide_route(1) [OF assms(7)])
qed

theorem withdrawal_offered_but_refused_witness:
  "\<exists>resp pr. background_check_standing sample_env 30 company officer_b COMPLIANCE
       [(''compliance'', ''decide''), (''compliance'', ''assign'')] run_proposed = Inr resp \<and>
     bgr_open_proposal resp = Some pr \<and> PROPOSAL_WITHDRAW \<in> set (prs_allowed_actions pr) \<and>
     \<not> returns (withdraw_background_check_proposal sample_env company 2 (Some ''lead'') officer_b COMPLIANCE
         [(''compliance'', ''decide''), (''compliance'', ''assign'')] run_proposed)"
proof -
  let ?perms = "[(''compliance'', ''decide''), (''compliance'', ''assign'')]"
  obtain resp where resp: "background_check_standing sample_env 30 company officer_b COMPLIANCE ?perms run_proposed = Inr resp"
    using read_returns [OF reachable_proposed, of 30 sample_env company officer_b COMPLIANCE ?perms] run_proposed_tables(1)
    by (auto simp: returns_iff)
  obtain pr where pr: "bgr_open_proposal resp = Some pr"
    using offered_on_proposal [OF reachable_proposed run_proposed_tables(1,7) resp] by auto
  have c: "officer_b \<noteq> pr_created_by clear_proposal" "pr_id clear_proposal = 2"
    "staff run_proposed (pr_created_by clear_proposal) =
       Some \<lparr>sm_id = officer_a, sm_name = ''A'', sm_role = COMPLIANCE, sm_active = True\<rparr>"
    by (simp_all add: clear_proposal_def sample_ids run_proposed_tables sample_staff_def)
  from withdrawal_offered_but_refused [OF reachable_proposed run_proposed_tables(1,7) resp pr c(1) _ _ c(3), of "Some ''lead''"]
    resp pr c(2) show ?thesis by auto
qed

end
