(* ===== verification/Rekyc_List.thy ===== *)
theory Rekyc_List
  imports Proposal_Offers
begin

text \<open>
  The list of companies whose clearance has expired or soon will, and the badge on a company's own
  screen, which agree but for one instant.
\<close>

section \<open>The list\<close>

lemma set_of_map_filter: "set (List.map_filter f xs) = {y. \<exists>x \<in> set xs. f x = Some y}"
  by (induction xs) (auto simp: List.map_filter_simps split: option.splits)

lemma rekyc_rows_set:
  "set (rekyc_rows ids cutoff db) = {(e, p). \<exists>c \<in> set ids. profiles db c = Some p \<and>
     background_check p = CLEAR \<and> bc_expires_at p = Some e \<and> e < cutoff}"
  unfolding rekyc_rows_def set_sort set_of_map_filter
  by (auto split: option.splits if_splits)

lemma rekyc_listed:
  assumes "keyed db" and "\<forall>c. profiles db c \<noteq> None \<longrightarrow> c \<in> set ids"
  shows "c \<in> (customer_id \<circ> snd) ` set (rekyc_rows ids cutoff db) \<longleftrightarrow>
    (\<exists>p e. profiles db c = Some p \<and> background_check p = CLEAR \<and> bc_expires_at p = Some e \<and> e < cutoff)"
    (is "?l \<longleftrightarrow> ?r")
proof
  assume ?l
  then obtain e p c' where "c = customer_id p" "profiles db c' = Some p" "background_check p = CLEAR"
      "bc_expires_at p = Some e" "e < cutoff"
    unfolding rekyc_rows_set by auto
  with keyedD [OF assms(1)] show ?r by auto
next
  assume ?r
  then obtain p e where p: "profiles db c = Some p" "background_check p = CLEAR" "bc_expires_at p = Some e" "e < cutoff"
    by blast
  then have "(e, p) \<in> set (rekyc_rows ids cutoff db)" unfolding rekyc_rows_set using assms(2) by auto
  moreover have "c = (customer_id \<circ> snd) (e, p)" using keyedD [OF assms(1) p(1)] by simp
  ultimately show ?l by blast
qed

lemma clear_expires:
  assumes "reachable policy db" and "profiles db c = Some p" and "background_check p = CLEAR"
  shows "\<exists>d e. latest_for_company c db = Inr (Some d) \<and> dn_to d = CLEAR \<and> dn_expires_at d = Some e \<and>
     bc_expires_at p = Some e"
proof -
  note ok = system_okD(1) [OF reachable_ok [OF assms(1)]]
  obtain d where d: "latest_for_company c db = Inr (Some d)" "dn_to d = CLEAR"
    and e: "bc_expires_at p = dn_expires_at d"
    using chain_ok_latest [OF ok, of c] chain_okD(8,9) [OF ok assms(2)] assms(3)
    by (auto simp: gauge_after_def expiry_after_def split: if_splits)
  have "dn_expires_at d \<noteq> None"
    using reachable_decisions [OF assms(1) latest_for_company_in(1) [OF d(1)]] d(2)
    by (auto simp: decision_terms_def)
  with d e show ?thesis by auto
qed

text \<open>
  C29. The list holds a company exactly when its last decision cleared it and that clearance expires
  before the cutoff, once each, the soonest first; so a company whose Re-KYC has started, whose last
  decision is then a re-opening, is not listed. Reading the list page by page reads it whole.
\<close>

theorem rekyc_list_is_exact:
  assumes "reachable policy db" and "distinct ids" and "\<forall>c. profiles db c \<noteq> None \<longrightarrow> c \<in> set ids"
  shows "(c \<in> (customer_id \<circ> snd) ` set (rekyc_rows ids cutoff db) \<longleftrightarrow>
       profiles db c \<noteq> None \<and> (\<exists>d e. latest_for_company c db = Inr (Some d) \<and> dn_to d = CLEAR \<and>
         dn_expires_at d = Some e \<and> e < cutoff)) \<and>
     distinct (map (customer_id \<circ> snd) (rekyc_rows ids cutoff db)) \<and>
     sorted (map fst (rekyc_rows ids cutoff db)) \<and>
     fst (rekyc_due ids cutoff now n 0 db) @ fst (rekyc_due ids cutoff now (snd (rekyc_due ids cutoff now n 0 db)) n db)
       = fst (rekyc_due ids cutoff now (snd (rekyc_due ids cutoff now n 0 db)) 0 db)"
proof -
  note ok = reachable_ok [OF assms(1)]
  note key = keyedD [OF system_okD(5) [OF ok]]
  have "c \<in> (customer_id \<circ> snd) ` set (rekyc_rows ids cutoff db) \<longleftrightarrow>
      (\<exists>p e. profiles db c = Some p \<and> background_check p = CLEAR \<and> bc_expires_at p = Some e \<and> e < cutoff)"
    by (rule rekyc_listed [OF system_okD(5) [OF ok] assms(3)])
  also have "\<dots> \<longleftrightarrow> profiles db c \<noteq> None \<and> (\<exists>d e. latest_for_company c db = Inr (Some d) \<and> dn_to d = CLEAR \<and>
         dn_expires_at d = Some e \<and> e < cutoff)"
  proof (cases "profiles db c")
    case (Some p)
    have "background_check p = CLEAR" "bc_expires_at p = dn_expires_at d"
      if "latest_for_company c db = Inr (Some d)" "dn_to d = CLEAR" for d
      using that chain_ok_latest [OF system_okD(1) [OF ok], of c] chain_okD(8,9) [OF system_okD(1) [OF ok] Some]
      by (auto simp: gauge_after_def expiry_after_def split: if_splits)
    with clear_expires [OF assms(1) Some] Some show ?thesis by auto
  qed simp
  finally have mem: "c \<in> (customer_id \<circ> snd) ` set (rekyc_rows ids cutoff db) \<longleftrightarrow> \<dots>" .
  let ?f = "\<lambda>c. case profiles db c of None \<Rightarrow> None
          | Some p \<Rightarrow> if background_check p = CLEAR
              then (case bc_expires_at p of None \<Rightarrow> None
                    | Some e \<Rightarrow> if e < cutoff then Some (e, p) else None)
              else None"
  have ids: "map (customer_id \<circ> snd) (List.map_filter ?f xs) = filter (\<lambda>c. ?f c \<noteq> None) xs" for xs
    by (induction xs) (auto simp: List.map_filter_simps key split: option.splits)
  have d: "distinct (map (customer_id \<circ> snd) (List.map_filter ?f ids))"
    unfolding ids using assms(2) by simp
  have m: "mset (map (customer_id \<circ> snd) (rekyc_rows ids cutoff db)) =
      mset (map (customer_id \<circ> snd) (List.map_filter ?f ids))"
    by (simp add: rekyc_rows_def mset_map)
  have dist: "distinct (map (customer_id \<circ> snd) (rekyc_rows ids cutoff db))"
    using mset_eq_imp_distinct_iff [OF m] d by simp
  have "sorted (map (\<lambda>(e, p). (e, customer_id p)) (rekyc_rows ids cutoff db))"
    by (simp add: rekyc_rows_def)
  then have srt: "sorted (map fst (rekyc_rows ids cutoff db))"
    by (auto simp: sorted_iff_nth_mono split_beta less_eq_prod_def) (meson order.order_iff_strict)
  show ?thesis
    using mem dist srt
    by (simp add: rekyc_due_def Let_def flip: map_append)
qed

theorem rekyc_list_is_exact_witness:
  "company \<in> (customer_id \<circ> snd) ` set (rekyc_rows [company] (5001 + days 365) run_approved)"
proof -
  obtain h where e: "run_approved = approved_db h" using run_approved_eq by blast
  have all: "\<forall>c. profiles run_approved c \<noteq> None \<longrightarrow> c \<in> set [company]"
    by (simp add: e sample_dbs)
  have "latest_for_company company run_approved = Inr (Some clear_decision)"
    by (simp add: latest_for_company_def unsuperseded_def run_approved_tables start_decision_def
        clear_decision_def)
  moreover have "dn_to clear_decision = CLEAR" "dn_expires_at clear_decision = Some (5000 + days 365)"
    by (simp_all add: clear_decision_def)
  ultimately show ?thesis
    using rekyc_list_is_exact [OF reachable_approved _ all, of company "5001 + days 365"]
      run_approved_tables(1) by auto
qed

text \<open>
  C30. The badge and the list disagree at one instant only: the company's screen shows "Re-KYC due"
  exactly when the list with the same window holds the company, or its clearance expires at the very
  cutoff, which the badge counts and the list does not.
\<close>

theorem rekyc_badge_against_list:
  assumes "reachable policy db" and "profiles db c = Some p" and "0 \<le> window_days"
    and "distinct ids" and "\<forall>c. profiles db c \<noteq> None \<longrightarrow> c \<in> set ids"
    and "background_check_standing env window_days c a role perms db = Inr resp"
  shows "bgr_rekyc_due resp \<longleftrightarrow>
     c \<in> (customer_id \<circ> snd) ` set (rekyc_rows ids (env_now env + days window_days) db) \<or>
     background_check p = CLEAR \<and> bc_expires_at p = Some (env_now env + days window_days)"
proof -
  obtain s facts where s: "standing c db = Inr s"
    and f: "facts_for_company c (env_now env) db = Inr facts"
    and due: "is_rekyc_due facts (env_now env) window_days = Inr (bgr_rekyc_due resp)"
    using assms(6,2) by (auto simp: background_check_standing_def Let_def bindE_eq_Inr lock_profile_eq_Inr)
  have pf: "pf_is_clear facts \<longleftrightarrow> background_check p = CLEAR"
    "background_check p = CLEAR \<Longrightarrow> pf_clear_expires_at facts = bc_expires_at p"
  proof -
    have v: "st_value s = background_check p" using s assms(2) by (auto simp: standing_def Let_def bindE_eq_Inr)
    have fs: "pf_is_clear facts = st_is_clear s" "pf_clear_expires_at facts = st_expires_at s"
      using f s by (auto simp: facts_for_company_def bindE_eq_Inr)
    show "pf_is_clear facts \<longleftrightarrow> background_check p = CLEAR" by (simp add: fs st_is_clear_def v)
    assume cl: "background_check p = CLEAR"
    from clear_expires [OF assms(1,2) cl] obtain d e where "latest_for_company c db = Inr (Some d)"
      "dn_to d = CLEAR" "dn_expires_at d = Some e" "bc_expires_at p = Some e" by blast
    with s cl assms(2) show "pf_clear_expires_at facts = bc_expires_at p"
      by (auto simp: fs standing_def Let_def clear_expiry_def)
  qed
  have listed: "c \<in> (customer_id \<circ> snd) ` set (rekyc_rows ids cutoff db) \<longleftrightarrow>
      background_check p = CLEAR \<and> (\<exists>e. bc_expires_at p = Some e \<and> e < cutoff)" for cutoff
    unfolding rekyc_listed [OF system_okD(5) [OF reachable_ok [OF assms(1)]] assms(5)] assms(2) by auto
  show ?thesis
  proof (cases "background_check p = CLEAR")
    case True
    then obtain e where "bc_expires_at p = Some e" using clear_expires [OF assms(1,2)] by blast
    with due pf True assms(3) show ?thesis
      unfolding listed by (auto simp: is_rekyc_due_def rekyc_due_window_def)
  next
    case False
    with due pf(1) show ?thesis unfolding listed by (simp add: is_rekyc_due_def)
  qed
qed

theorem rekyc_badge_against_list_witness:
  "\<exists>resp. background_check_standing sample_env 365 company officer_b COMPLIANCE [] run_approved = Inr resp \<and>
     bgr_rekyc_due resp \<and>
     company \<notin> (customer_id \<circ> snd) ` set (rekyc_rows [company] (env_now sample_env + days 365) run_approved)"
proof -
  obtain h where e: "run_approved = approved_db h" using run_approved_eq by blast
  have all: "\<forall>c. profiles run_approved c \<noteq> None \<longrightarrow> c \<in> set [company]"
    by (simp add: e sample_dbs)
  obtain resp where resp: "background_check_standing sample_env 365 company officer_b COMPLIANCE [] run_approved = Inr resp"
    using read_returns [OF reachable_approved, of 365 sample_env company officer_b COMPLIANCE "[]"] run_approved_tables(1)
    by (auto simp: returns_iff)
  have "background_check cleared_company = CLEAR"
    "bc_expires_at cleared_company = Some (env_now sample_env + days 365)"
    by (simp_all add: cleared_company_def sample_env_def)
  with rekyc_badge_against_list [OF reachable_approved run_approved_tables(1) _ _ all resp] resp
  show ?thesis by (auto simp: rekyc_rows_set run_approved_tables(1))
qed

end
