(* ===== verification/Protocol.thy ===== *)
theory Protocol
  imports Rekyc_List
begin

text \<open>
  The maker-checker protocol, stated without tables: a company has a gauge, at most one proposal
  awaiting approval, and a log of verdicts. Every transaction of the CRM, seen through the
  abstraction, is one step of the protocol or none, for every company at once; so what the protocol
  guarantees the service does too.
\<close>

section \<open>The protocol\<close>

text \<open>An entry of the log: from, to, maker and, if a second person approved, the checker.\<close>

record verdict =
  ve_from :: bc_state
  ve_to :: bc_state
  ve_maker :: uuid
  ve_checker :: "uuid option"

record protocol_state =
  ps_gauge :: bc_state
  ps_awaiting :: "(uuid \<times> bc_state) option"
  ps_log :: "verdict list"

inductive protocol_step :: "bool \<Rightarrow> protocol_state \<Rightarrow> protocol_state \<Rightarrow> bool" for two_people where
  decide: "ps_awaiting s = None \<Longrightarrow> map_of MOVES (ps_gauge s, t) \<noteq> None \<Longrightarrow>
    \<not> (two_people \<and> (ps_gauge s, t) \<in> set APPROVAL_MOVES) \<Longrightarrow>
    protocol_step two_people s (s\<lparr>ps_gauge := t, ps_log := ps_log s @
      [\<lparr>ve_from = ps_gauge s, ve_to = t, ve_maker = a, ve_checker = None\<rparr>]\<rparr>)"
| propose: "ps_awaiting s = None \<Longrightarrow> (ps_gauge s, t) \<in> set APPROVAL_MOVES \<Longrightarrow>
    protocol_step two_people s (s\<lparr>ps_awaiting := Some (a, t)\<rparr>)"
| approve: "ps_awaiting s = Some (a, t) \<Longrightarrow> b \<noteq> a \<Longrightarrow>
    protocol_step two_people s (s\<lparr>ps_gauge := t, ps_awaiting := None, ps_log := ps_log s @
      [\<lparr>ve_from = ps_gauge s, ve_to = t, ve_maker = a, ve_checker = Some b\<rparr>]\<rparr>)"
| close: "ps_awaiting s = Some (a, t) \<Longrightarrow> protocol_step two_people s (s\<lparr>ps_awaiting := None\<rparr>)"

definition protocol_start :: protocol_state where
  "protocol_start = \<lparr>ps_gauge = NOT_STARTED, ps_awaiting = None, ps_log = []\<rparr>"

inductive protocol_run :: "bool \<Rightarrow> protocol_state \<Rightarrow> bool" for two_people where
  begin_at: "protocol_run two_people protocol_start"
| extend: "protocol_run two_people s \<Longrightarrow> protocol_step two_people s s' \<Longrightarrow> protocol_run two_people s'"

inductive_cases protocol_stepE: "protocol_step two_people s s'"

section \<open>A company seen as a protocol state\<close>

definition verdict_of :: "bc_decision \<Rightarrow> verdict" where
  "verdict_of d = \<lparr>ve_from = dn_from d, ve_to = dn_to d, ve_maker = dn_decided_by d, ve_checker = dn_approved_by d\<rparr>"

definition protocol_of :: "crm_db \<Rightarrow> uuid \<Rightarrow> protocol_state" where
  "protocol_of db c =
     \<lparr>ps_gauge = (case profiles db c of None \<Rightarrow> NOT_STARTED | Some p \<Rightarrow> background_check p),
      ps_awaiting = (case open_proposals db c of [] \<Rightarrow> None | q # _ \<Rightarrow> Some (pr_created_by q, pr_to q)),
      ps_log = map verdict_of (decisions_of db c)\<rparr>"

definition same_gauge :: "crm_db \<Rightarrow> crm_db \<Rightarrow> bool" where
  "same_gauge db db' \<longleftrightarrow> (\<forall>c. ps_gauge (protocol_of db' c) = ps_gauge (protocol_of db c))"

lemma protocol_of_cong:
  assumes "same_gauge db db'" and "decisions db' = decisions db"
    and "proposals db' = proposals db" and "resolutions db' = resolutions db"
  shows "protocol_of db' c = protocol_of db c"
  using assms decisions_of_cong [OF assms(2), of c] open_proposals_cong [OF assms(3,4), of c]
  by (simp add: same_gauge_def protocol_of_def)

lemma same_gauge_upd:
  "profiles db c = Some p \<Longrightarrow> profiles db' = (profiles db)(c \<mapsto> p') \<Longrightarrow> background_check p' = background_check p \<Longrightarrow>
   same_gauge db db'"
  by (simp add: same_gauge_def protocol_of_def)

lemma same_gauge_profiles: "profiles db' = profiles db \<Longrightarrow> same_gauge db db'"
  by (simp add: same_gauge_def protocol_of_def)

lemma resolve_closes:
  assumes "resolve env q oc a reason did src db = Inr (rs, db')"
  shows "open_proposals db' c = filter (\<lambda>x. pr_id x \<noteq> pr_id q) (open_proposals db c)"
proof -
  have "resolutions db' = resolutions db @ [rs]" "rs_proposal rs = pr_id q" "proposals db' = proposals db"
    using assms by (auto elim!: resolve_effect)
  then have "resolution_of db' i = None \<longleftrightarrow> resolution_of db i = None \<and> i \<noteq> pr_id q" for i
    by (auto simp: resolution_of_None)
  with \<open>proposals db' = proposals db\<close> show ?thesis
    by (simp add: open_proposals_def conj_ac)
qed

lemma resolved_view:
  assumes ok: "approval_ok db" and q: "q \<in> set (open_proposals db c0)"
    and rs: "resolve env q oc a reason did src db1 = Inr (rs, db')"
    and tb: "proposals db1 = proposals db" "resolutions db1 = resolutions db"
  shows "open_proposals db' c = (if c = c0 then [] else open_proposals db c)"
proof -
  have o: "open_proposals db' c = filter (\<lambda>x. pr_id x \<noteq> pr_id q) (open_proposals db c)"
    using resolve_closes [OF rs, of c] open_proposals_cong [OF tb, of c] by simp
  have qs: "q \<in> set (proposals db)" "pr_company q = c0" using q by (simp_all add: open_proposals_in)
  have only: "x = q" if "x \<in> set (proposals db)" "pr_id x = pr_id q" for x
    using approval_okD(1) [OF ok] that qs(1) by (auto simp: distinct_map inj_on_def)
  show ?thesis
  proof (cases "c = c0")
    case True
    have "length (open_proposals db c0) \<le> 1" by (rule approval_okD(7) [OF ok])
    with q have "open_proposals db c0 = [q]" by (cases "open_proposals db c0") auto
    then show ?thesis using o True by simp
  next
    case False
    have "pr_id x \<noteq> pr_id q" if "x \<in> set (open_proposals db c)" for x
      using that only [of x] qs(2) False by (auto simp: open_proposals_in)
    then show ?thesis using False by (simp add: o)
  qed
qed

text \<open>The parts of a move's decision the protocol sees.\<close>

lemma apply_move_parts:
  assumes p: "profiles db (customer_id p) = Some p" and am: "apply_move env p r db = Inr (res, p', db')"
  shows "map_of MOVES (background_check p, mr_to r) \<noteq> None"
    and "verdict_of (mv_decision res) = \<lparr>ve_from = background_check p, ve_to = mr_to r, ve_maker = mr_actor r,
      ve_checker = map_option snd (mr_approval r)\<rparr>"
    and "mr_approval r = None \<Longrightarrow> open_proposals db (customer_id p) = []"
    and "proposals db' = proposals db" "resolutions db' = resolutions db"
proof -
  obtain tx meth prev cy expires where cm: "check_move p r = Inr (tx, meth)" and g: "approval_gate env p r db = Inr ()"
    and d: "mv_decision res = decision_row env p r tx (dn_id (mv_decision res)) prev cy expires"
    and fr: "move_frame db db'"
    by (rule apply_move_effect [OF am p], rule that, assumption+)
  show "map_of MOVES (background_check p, mr_to r) \<noteq> None" using cm by (auto simp: check_move_Inr)
  show "verdict_of (mv_decision res) = \<lparr>ve_from = background_check p, ve_to = mr_to r, ve_maker = mr_actor r,
      ve_checker = map_option snd (mr_approval r)\<rparr>"
    by (subst d) (simp add: verdict_of_def decision_row_def)
  show "mr_approval r = None \<Longrightarrow> open_proposals db (customer_id p) = []"
    using g by (auto simp: approval_gate_def refuse_if_awaiting_approval_Inr split: if_splits)
  show "proposals db' = proposals db" "resolutions db' = resolutions db" using fr by (simp_all add: move_frame_def)
qed

lemma moved_view:
  assumes p: "profiles db c0 = Some p" and k: "customer_id p = c0"
    and am: "apply_move env p r db = Inr (res, p', db1)"
    and pr: "profiles db' = profiles db1" and ds: "decisions db' = decisions db1"
  shows "ps_gauge (protocol_of db' c) = (if c = c0 then mr_to r else ps_gauge (protocol_of db c))"
    and "ps_log (protocol_of db' c) = ps_log (protocol_of db c) @ (if c = c0
      then [\<lparr>ve_from = background_check p, ve_to = mr_to r, ve_maker = mr_actor r,
        ve_checker = map_option snd (mr_approval r)\<rparr>] else [])"
proof -
  have p2: "profiles db (customer_id p) = Some p" using p k by simp
  note st = apply_move_step [OF p2 am]
  show "ps_gauge (protocol_of db' c) = (if c = c0 then mr_to r else ps_gauge (protocol_of db c))"
    by (simp add: protocol_of_def pr st(8,10) k)
  have "decisions_of db' c = decisions_of db c @ (if c = c0 then [mv_decision res] else [])"
    using decisions_of_append [of db' db "mv_decision res" c] ds st(2,5) k by auto
  then show "ps_log (protocol_of db' c) = ps_log (protocol_of db c) @ (if c = c0
      then [\<lparr>ve_from = background_check p, ve_to = mr_to r, ve_maker = mr_actor r,
        ve_checker = map_option snd (mr_approval r)\<rparr>] else [])"
    by (simp add: protocol_of_def apply_move_parts(2) [OF p2 am])
qed

lemma plain_decide:
  assumes p: "profiles db c0 = Some p" and k: "customer_id p = c0" and ap: "mr_approval r = None"
    and am: "apply_move env p r db = Inr (res, p', db')"
  shows "protocol_of db' c = protocol_of db c \<or>
    protocol_step (env_maker_checker env) (protocol_of db c) (protocol_of db' c)"
proof -
  have p2: "profiles db (customer_id p) = Some p" using p k by simp
  note pt = apply_move_parts [OF p2 am]
  have o: "open_proposals db' c = open_proposals db c" for c by (rule open_proposals_cong [OF pt(4,5)])
  have aw: "ps_awaiting (protocol_of db' c) = ps_awaiting (protocol_of db c)" for c
    by (simp add: protocol_of_def o)
  note v = moved_view [OF p k am refl refl]
  show ?thesis
  proof (cases "c = c0")
    case True
    let ?s = "protocol_of db c"
    have none: "ps_awaiting ?s = None" using pt(3) [OF ap] True k by (simp add: protocol_of_def)
    have g: "ps_gauge ?s = background_check p" using True p by (simp add: protocol_of_def)
    have "protocol_of db' c = ?s\<lparr>ps_gauge := mr_to r, ps_log := ps_log ?s @
      [\<lparr>ve_from = ps_gauge ?s, ve_to = mr_to r, ve_maker = mr_actor r, ve_checker = None\<rparr>]\<rparr>"
      using v(1,2) [of c] aw [of c] True g ap by (intro protocol_state.equality) simp_all
    moreover have "\<not> (env_maker_checker env \<and> (ps_gauge ?s, mr_to r) \<in> set APPROVAL_MOVES)"
      using apply_move_step(3) [OF p2 am] ap g by simp
    ultimately show ?thesis
      using protocol_step.decide [of ?s "mr_to r" "env_maker_checker env" "mr_actor r"] none pt(1) g by simp
  next
    case False
    then have "protocol_of db' c = protocol_of db c"
      using v(1,2) [of c] aw [of c] by (intro protocol_state.equality) simp_all
    then show ?thesis ..
  qed
qed

section \<open>The service refines the protocol\<close>

lemma proposed_view:
  assumes ok: "system_ok db" and pr: "propose env c0 t reason risk a role seen db = Inr (v, db')"
  shows "protocol_of db' c = protocol_of db c \<or>
    protocol_step (env_maker_checker env) (protocol_of db c) (protocol_of db' c)"
proof -
  note k = system_okD(5) [OF ok]
  obtain p q and pr :: bc_proposal where p: "profiles db c0 = Some p"
    and am: "(background_check p, t) \<in> set APPROVAL_MOVES" and none: "open_proposals db c0 = []"
    and q: "q = p \<and> ((background_check p, t) \<in> set REVIEWER_MOVES \<longrightarrow> reviewer_id p = Some a) \<or>
      (background_check p, t) \<in> set REVIEWER_MOVES \<and> reviewer_id p = None \<and> rm_user_id p \<noteq> Some a \<and>
      q = reviewer_set env p (Some a)"
    and pd: "pr_company pr = c0" "pr_to pr = t" "pr_created_by pr = a" and i: "next_uuid db \<le> pr_id pr"
    and tb: "proposals db' = proposals db @ [pr]" "resolutions db' = resolutions db"
      "decisions db' = decisions db" "profiles db' = (profiles db)(c0 \<mapsto> q)"
    by (rule propose_effect [OF pr k], rule that, assumption+)
  have "background_check q = background_check p" using q by (auto simp: reviewer_set_def)
  then have g: "ps_gauge (protocol_of db' c) = ps_gauge (protocol_of db c)" for c
    using same_gauge_upd [OF p tb(4)] by (simp add: same_gauge_def)
  have lg: "ps_log (protocol_of db' c) = ps_log (protocol_of db c)" for c
    using decisions_of_cong [OF tb(3), of c] by (simp add: protocol_of_def)
  note aok = system_okD(4) [OF ok]
  have "pr_id pr \<notin> pr_id ` set (proposals db)" using approval_okD(2) [OF aok] i by fastforce
  then have "resolution_of db (pr_id pr) = None"
    using approval_okD(5) [OF aok] by (auto simp: resolution_of_None)
  then have o: "open_proposals db' c = open_proposals db c @ (if c = c0 then [pr] else [])" for c
    using pd(1) by (simp add: open_proposals_def tb resolution_of_def)
  show ?thesis
  proof (cases "c = c0")
    case True
    let ?s = "protocol_of db c"
    have "ps_awaiting ?s = None" "ps_gauge ?s = background_check p"
      using True none p by (simp_all add: protocol_of_def)
    moreover have "protocol_of db' c = ?s\<lparr>ps_awaiting := Some (a, t)\<rparr>"
      using g [of c] lg [of c] o [of c] True none pd
      by (intro protocol_state.equality) (simp_all add: protocol_of_def)
    ultimately show ?thesis using protocol_step.propose [of ?s t "env_maker_checker env" a] am by simp
  next
    case False
    then have "protocol_of db' c = protocol_of db c"
      using g [of c] lg [of c] o [of c] by (intro protocol_state.equality) (simp_all add: protocol_of_def)
    then show ?thesis ..
  qed
qed

lemma closed_view:
  assumes ok: "system_ok db" and q: "q \<in> set (open_proposals db c0)"
    and rs: "resolve env q oc a reason did src db = Inr (rs, db')"
  shows "protocol_of db' c = protocol_of db c \<or>
    protocol_step (env_maker_checker env) (protocol_of db c) (protocol_of db' c)"
proof -
  note o = resolved_view [OF system_okD(4) [OF ok] q rs refl refl, of c]
  note f = resolve_step(2,3) [OF rs]
  have g: "ps_gauge (protocol_of db' c) = ps_gauge (protocol_of db c)"
    "ps_log (protocol_of db' c) = ps_log (protocol_of db c)"
    using decisions_of_cong [OF f(1), of c] f(2) by (simp_all add: protocol_of_def)
  show ?thesis
  proof (cases "c = c0")
    case True
    from q obtain x xs where "open_proposals db c = x # xs" using True by (cases "open_proposals db c") auto
    then have aw: "ps_awaiting (protocol_of db c) = Some (pr_created_by x, pr_to x)" by (simp add: protocol_of_def)
    have "protocol_of db' c = (protocol_of db c)\<lparr>ps_awaiting := None\<rparr>"
      using g o True by (intro protocol_state.equality) (simp_all add: protocol_of_def)
    then show ?thesis using protocol_step.close [OF aw] by simp
  next
    case False
    then have "protocol_of db' c = protocol_of db c"
      using g o by (intro protocol_state.equality) (simp_all add: protocol_of_def)
    then show ?thesis ..
  qed
qed

lemma approved_view:
  assumes ok: "system_ok db" and ap: "approve env c0 pid a role perms db = Inr (w, db')"
  shows "protocol_of db' c = protocol_of db c \<or>
    protocol_step (env_maker_checker env) (protocol_of db c) (protocol_of db' c)"
proof -
  note k = system_okD(5) [OF ok]
  obtain p q res p' db1 rs where p: "profiles db c0 = Some p"
    and oq: "open_proposal_to_resolve c0 pid role db = Inr q" and ne: "a \<noteq> pr_created_by q"
    and am: "apply_move env p ((plain_move (pr_to q) [pr_from q] (pr_created_by q) role (pr_reason q)
         (pr_risk q) None)\<lparr>mr_approval := Some (q, a)\<rparr>) db = Inr (res, p', db1)"
    and rs: "resolve env q APPROVED a None (Some (dn_id (mv_decision res)))
         ''background_check_service.approve'' db1 = Inr (rs, db')"
    using ap by (elim approve_effect)
  let ?r = "(plain_move (pr_to q) [pr_from q] (pr_created_by q) role (pr_reason q)
         (pr_risk q) None)\<lparr>mr_approval := Some (q, a)\<rparr>"
  have kc: "customer_id p = c0" by (rule keyedD [OF k p])
  have p2: "profiles db (customer_id p) = Some p" using p kc by simp
  note pt = apply_move_parts [OF p2 am] and f = resolve_step(2,3) [OF rs]
  have q: "q \<in> set (open_proposals db c0)"
    using open_proposal_to_resolve_Inr [OF oq] by (simp add: open_proposals_in)
  note o = resolved_view [OF system_okD(4) [OF ok] q rs pt(4,5), of c]
  note v = moved_view [OF p kc am f(2,1), of c]
  have r: "mr_to ?r = pr_to q" "mr_actor ?r = pr_created_by q" "map_option snd (mr_approval ?r) = Some a"
    by (simp_all add: plain_move_def)
  show ?thesis
  proof (cases "c = c0")
    case True
    let ?s = "protocol_of db c"
    have "length (open_proposals db c0) \<le> 1" by (rule approval_okD(7) [OF system_okD(4) [OF ok]])
    with q have "open_proposals db c0 = [q]" by (cases "open_proposals db c0") auto
    then have aw: "ps_awaiting ?s = Some (pr_created_by q, pr_to q)" using True by (simp add: protocol_of_def)
    have g: "ps_gauge ?s = background_check p" using True p by (simp add: protocol_of_def)
    have "protocol_of db' c = ?s\<lparr>ps_gauge := pr_to q, ps_awaiting := None, ps_log := ps_log ?s @
      [\<lparr>ve_from = ps_gauge ?s, ve_to = pr_to q, ve_maker = pr_created_by q, ve_checker = Some a\<rparr>]\<rparr>"
      using v o True g r by (intro protocol_state.equality) (simp_all add: protocol_of_def)
    then show ?thesis using protocol_step.approve [OF aw ne] by simp
  next
    case False
    then have "protocol_of db' c = protocol_of db c"
      using v o by (intro protocol_state.equality) (simp_all add: protocol_of_def)
    then show ?thesis ..
  qed
qed

lemma step_refines:
  assumes ok: "system_ok db" and st: "crm_step env db db'"
  shows "protocol_of db' c = protocol_of db c \<or>
    protocol_step (env_maker_checker env) (protocol_of db c) (protocol_of db' c)"
proof -
  note k = system_okD(5) [OF ok]
  have written: "protocol_of db2 c = protocol_of db c"
    if "profile_write c0 p' db db2" "profiles db c0 = Some p" "background_check p' = background_check p" for c0 p p' db2
    using protocol_of_cong [OF same_gauge_upd [OF that(2) profile_write_frame(1) [OF that(1)] that(3)]]
      profile_write_frame [OF that(1)] by simp
  from st show ?thesis
  proof (cases rule: crm_step_cases)
    case (move c0 r x)
    then obtain p res p' where p: "profiles db c0 = Some p" and am: "apply_move env p r db = Inr (res, p', db')"
      by (auto simp: move_def bindE_eq_Inr lock_profile_eq_Inr)
    have "mr_approval r = None" using move(1) by (simp add: public_request_def)
    from plain_decide [OF p keyedD [OF k p] this am] show ?thesis .
  next
    case (cycle c0 kind reason a role y)
    let ?src = "''background_check_service.start_cycle''"
    obtain p prev db1 cy db2 where p: "profiles db c0 = Some p"
      and ci: "current_or_initial c0 a (Some ?src) (env_now env) db = (prev, db1)"
      and d2: "\<exists>rows n. db2 = db1\<lparr>cycles := cycles db1 @ [cy], history := history db1 @ rows, next_uuid := n\<rparr>"
      and fin: "background_check p \<noteq> CLEAR \<and> db' = db2 \<and> sc_reopen y = None \<or>
        background_check p = CLEAR \<and> (\<exists>i res p'. next_uuid db1 \<le> i \<and> i < next_uuid db2 \<and>
          apply_move env p (reopen_request cy i a role kind (the (strip_if_given reason))) db2
            = Inr (res, p', db') \<and> sc_reopen y = Some (to_view (mv_decision res) (mv_evidence res)))"
      by (rule start_cycle_effect [OF cycle], rule that, assumption+)
    note f = current_or_initial_frame [OF ci]
    have same: "protocol_of db2 c = protocol_of db c"
      by (rule protocol_of_cong) (use d2 f in \<open>auto intro: same_gauge_profiles\<close>)
    show ?thesis
    proof (cases "background_check p = CLEAR")
      case False
      then show ?thesis using fin same by simp
    next
      case True
      then obtain i res p' where am: "apply_move env p (reopen_request cy i a role kind (the (strip_if_given reason))) db2
            = Inr (res, p', db')" using fin by blast
      have "profiles db2 c0 = Some p" using d2 f p by auto
      from plain_decide [OF this keyedD [OF k p] _ am, of c] same show ?thesis
        by (simp add: reopen_request_def plain_move_def)
    qed
  next
    case (propose c0 t reason risk a role seen v)
    from proposed_view [OF ok propose] show ?thesis .
  next
    case (approve c0 pid a role perms w)
    from approved_view [OF ok approve] show ?thesis .
  next
    case (reject c0 pid reason a role v)
    then obtain q rs where o: "open_proposal_to_resolve c0 pid role db = Inr q"
      and r: "resolve env q REJECTED a (strip_if_given reason) None ''background_check_service.reject'' db = Inr (rs, db')"
      by (elim reject_effect)
    have "q \<in> set (open_proposals db c0)" using open_proposal_to_resolve_Inr [OF o] by (simp add: open_proposals_in)
    from closed_view [OF ok this r] show ?thesis .
  next
    case (withdraw c0 pid reason a role perms v)
    then obtain q rs t where o: "open_proposal_to_resolve c0 pid role db = Inr q"
      and r: "resolve env q WITHDRAWN a t None ''background_check_service.withdraw'' db = Inr (rs, db')"
      by (elim withdraw_effect)
    have "q \<in> set (open_proposals db c0)" using open_proposal_to_resolve_Inr [OF o] by (simp add: open_proposals_in)
    from closed_view [OF ok this r] show ?thesis .
  next
    case (claim c0 a role p')
    then show ?thesis by (elim claim_review_effect [OF _ k]) (auto simp: written reviewer_set_def)
  next
    case (assign c0 u reason a role perms p')
    then show ?thesis by (elim assign_review_effect [OF _ k]) (auto simp: written reviewer_set_def)
  next
    case (release c0 msg a role perms p')
    then show ?thesis by (elim release_review_effect [OF _ k]) (auto simp: written reviewer_set_def)
  next
    case (columns c0 p p')
    then show ?thesis by (auto simp: written other_columns_def)
  next
    case (company c0 p)
    have "same_gauge db db'" using company by (auto simp: same_gauge_def protocol_of_def new_company_def)
    then show ?thesis using protocol_of_cong [of db db' c] company(3) by simp
  next
    case inputs
    then show ?thesis using protocol_of_cong [OF same_gauge_profiles, of db db' c] by simp
  next
    case first_input
    then show ?thesis
      using protocol_of_cong [OF same_gauge_profiles, of db db' c] current_or_initial_frame [OF first_input] by simp
  qed
qed

text \<open>
  C31. The service refines the maker-checker protocol: in a reachable state every transaction is, for
  each company, one step of the protocol or leaves it where it was.
\<close>

theorem service_refines_protocol:
  assumes "reachable policy db" and "crm_step env db db'"
  shows "protocol_of db' c = protocol_of db c \<or>
    protocol_step (env_maker_checker env) (protocol_of db c) (protocol_of db' c)"
  by (rule step_refines [OF reachable_ok [OF assms(1)] assms(2)])

theorem service_refines_protocol_witness:
  "protocol_step True (protocol_of run_proposed company) (protocol_of run_approved company)"
proof -
  have "ps_gauge (protocol_of run_proposed company) \<noteq> ps_gauge (protocol_of run_approved company)"
    by (simp add: protocol_of_def run_proposed_tables run_approved_tables proposed_company_def cleared_company_def)
  then show ?thesis
    using service_refines_protocol [OF reachable_proposed approve_step, of company] by (auto simp: sample_env_def)
qed

lemma protocol_run_log:
  "protocol_run True s \<Longrightarrow> e \<in> set (ps_log s) \<Longrightarrow> (ve_from e, ve_to e) \<in> set APPROVAL_MOVES \<Longrightarrow>
   \<exists>b. ve_checker e = Some b \<and> b \<noteq> ve_maker e"
  by (induction rule: protocol_run.induct) (auto simp: protocol_start_def elim!: protocol_stepE)

lemma reachable_protocol_run: "reachable env_maker_checker db \<Longrightarrow> protocol_run True (protocol_of db c)"
proof (induction rule: reachable.induct)
  case (initial st)
  have "protocol_of (empty_db st) c = protocol_start"
    by (simp add: protocol_of_def protocol_start_def empty_db_def open_proposals_def decisions_of_def)
  then show ?case using protocol_run.begin_at by simp
next
  case (step db env db')
  from step_refines [OF reachable_ok [OF step.hyps(1)] step.hyps(3), of c] step.IH step.hyps(2)
  show ?case by (auto intro: protocol_run.extend)
qed

text \<open>
  C32. So every history of the service, seen company by company, is a run of the protocol; and what
  holds of all runs of the protocol (with maker-checker on, an entry for \<open>CLEAR\<close>, \<open>FLAGGED\<close> or
  \<open>ON_HOLD\<close> has a checker who is not its maker) holds of the stored decisions.
\<close>

theorem histories_are_protocol_runs:
  assumes "reachable env_maker_checker db"
  shows "protocol_run True (protocol_of db c) \<and>
     (\<forall>e \<in> set (map verdict_of (decisions_of db c)). (ve_from e, ve_to e) \<in> set APPROVAL_MOVES \<longrightarrow>
        (\<exists>b. ve_checker e = Some b \<and> b \<noteq> ve_maker e))"
proof -
  have r: "protocol_run True (protocol_of db c)" by (rule reachable_protocol_run [OF assms])
  have "ps_log (protocol_of db c) = map verdict_of (decisions_of db c)" by (simp add: protocol_of_def)
  with protocol_run_log [OF r] r show ?thesis by metis
qed

theorem histories_are_protocol_runs_witness:
  "protocol_run True (protocol_of run_recycled company)"
  using histories_are_protocol_runs [OF reachable_recycled] by blast

end
