(* ===== verification/Progress.thy ===== *)
theory Progress
  imports Protocol
begin

text \<open>
  What can still happen: a company whose checks are answered is never stuck. Two officers, one to
  propose and one to approve, take it to \<open>CLEAR\<close> from every reachable state.
\<close>

text \<open>The tables behind the inputs are those of the proposal's transaction.\<close>

lemma decided_has_cycle:
  assumes "reachable policy db" and "profiles db c = Some p" and "background_check p \<noteq> NOT_STARTED"
  shows "has_cycle db c"
proof -
  note ok = system_okD(1) [OF reachable_ok [OF assms(1)]]
  have "decisions_of db c \<noteq> []"
    using chain_okD(8) [OF ok assms(2)] assms(3) by (auto simp: gauge_after_def)
  then have "hd (decisions_of db c) \<in> set (decisions_of db c)" by simp
  then obtain d where "d \<in> set (decisions db)" "dn_company d = c" by (auto simp: decisions_of_def)
  with reachable_cycle [OF assms(1)] show ?thesis by blast
qed

lemma new_proposal_open:
  assumes ok: "approval_ok db" and ps: "proposals db' = proposals db @ [q]"
    and rs: "resolutions db' = resolutions db" and n: "next_uuid db \<le> pr_id q"
  shows "open_proposal_to_resolve (pr_company q) (pr_id q) COMPLIANCE db' = Inr q"
proof -
  have old: "pr_id x \<noteq> pr_id q" if "x \<in> set (proposals db)" for x
    using approval_okD(2) [OF ok that] n by simp
  have found: "find P (xs @ [q]) = Some q" if "\<forall>x \<in> set xs. \<not> P x" "P q" for P and xs :: "bc_proposal list"
    using that by (induction xs) auto
  have "find (\<lambda>x. pr_id x = pr_id q \<and> pr_company x = pr_company q) (proposals db @ [q]) = Some q"
    by (rule found) (use old in auto)
  moreover have "rs_proposal s \<noteq> pr_id q" if "s \<in> set (resolutions db)" for s
    using approval_okD(5) [OF ok that] old by (metis imageE)
  then have "resolution_of db' (pr_id q) = None" by (simp add: resolution_of_def rs find_None_iff)
  ultimately show ?thesis
    by (simp add: open_proposal_to_resolve_def CHECKER_ROLES_def get_proposal_for_company_def ps)
qed

lemma approval_clears:
  assumes k: "keyed db" and q: "open_proposal_to_resolve c pid role db = Inr q"
    and ap: "approve env c pid a role perms db = Inr (x, db')"
  shows "\<exists>p'. profiles db' c = Some p' \<and> background_check p' = pr_to q"
proof -
  from ap q obtain p res p' db1 rs where p: "profiles db c = Some p"
    and am: "apply_move env p ((plain_move (pr_to q) [pr_from q] (pr_created_by q) role (pr_reason q)
         (pr_risk q) None)\<lparr>mr_approval := Some (q, a)\<rparr>) db = Inr (res, p', db1)"
    and rs: "resolve env q APPROVED a None (Some (dn_id (mv_decision res)))
         ''background_check_service.approve'' db1 = Inr (rs, db')"
    by (elim approve_effect) auto
  have p2: "profiles db (customer_id p) = Some p" using p keyedD [OF k p] by simp
  show ?thesis
    using apply_move_step(8,10) [OF p2 am] resolve_step(3) [OF rs] keyedD [OF k p]
    by (auto simp: plain_move_def)
qed

theorem two_officers_clear:
  assumes r: "reachable policy db" and env: "policy env" and p: "profiles db c = Some p"
    and move: "(background_check p, CLEAR) \<in> set APPROVAL_MOVES"
    and ready: "clear_prerequisites c db = Inr []" and none: "open_proposals db c = []"
    and maker: "reviewer_id p = Some a \<or> reviewer_id p = None \<and> rm_user_id p \<noteq> Some a"
    and checker: "b \<noteq> a" "reviewer_id p \<noteq> Some b" "rm_user_id p \<noteq> Some b"
    and senior: "needs_senior_checker CLEAR (Some risk) \<Longrightarrow> APPROVE_HIGH_RISK \<in> set perms"
    and reason: "\<not> no_text (strip_if_given (Some reason))" and days: "1 \<le> env_clear_validity_days env"
  shows "\<exists>v db1 x db2 p'. propose env c CLEAR (Some reason) (Some risk) a COMPLIANCE None db = Inr (v, db1) \<and>
     approve env c (pr_id (pv_proposal v)) b COMPLIANCE perms db1 = Inr (x, db2) \<and>
     reachable policy db2 \<and> profiles db2 c = Some p' \<and> background_check p' = CLEAR"
proof -
  note ok = reachable_ok [OF r]
  note k = system_okD(5) [OF ok]
  have "returns (propose env c CLEAR (Some reason) (Some risk) a COMPLIANCE None db)"
    unfolding propose_accepted [OF r] using assms by auto
  then obtain v db1 where pr: "propose env c CLEAR (Some reason) (Some risk) a COMPLIANCE None db = Inr (v, db1)"
    by (auto simp: returns_iff)
  obtain p' inputs ev head cy q pr where p': "profiles db c = Some p'" and inp: "company_inputs c db = Inr inputs"
    and ev: "ev = select_evidence inputs (company_documents db c)"
    and cr: "CLEAR = CLEAR \<longrightarrow> clear_ready inputs (Some risk) ev CLEAR_POLICY"
    and tx: "\<exists>m. check_move p' ((plain_move CLEAR [background_check p'] a COMPLIANCE (Some reason) (Some risk) None)
        \<lparr>mr_seen := None\<rparr>) = Inr (pr_reason pr, m)"
    and q': "q = p' \<and> ((background_check p', CLEAR) \<in> set REVIEWER_MOVES \<longrightarrow> reviewer_id p' = Some a) \<or>
      (background_check p', CLEAR) \<in> set REVIEWER_MOVES \<and> reviewer_id p' = None \<and> rm_user_id p' \<noteq> Some a \<and>
      q = reviewer_set env p' (Some a)"
    and pc: "pr_company pr = c" "pr_to pr = CLEAR" "pr_risk pr = Some risk" "pr_created_by pr = a"
      "pr_fingerprint pr = inputs_fingerprint env inputs ev"
    and n: "next_uuid db \<le> pr_id pr"
    and tb: "proposals db1 = proposals db @ [pr]" "resolutions db1 = resolutions db"
      "profiles db1 = (profiles db)(c \<mapsto> q)" "verifications db1 = verifications db"
      "reviews db1 = reviews db" "screenings db1 = screenings db" "documents db1 = documents db"
    and cs: "cycles db1 = cycles db @ (if current_cycle db c = None then [cy] else [])"
    and v: "v = proposal_view pr None"
    by (rule propose_effect [OF pr k], rule that, assumption+)
  have q: "q = p \<or> q = reviewer_set env p (Some a)" using q' p p' by auto
  have r1: "reachable policy db1" by (rule reachable.step [OF r env crm_step.proposed [OF pr]])
  have "current_cycle db c \<noteq> None"
    using decided_has_cycle [OF r p] has_current_cycle [of db c] move by (auto simp: APPROVAL_MOVES_def)
  then have inp1: "company_inputs c db1 = Inr inputs"
    using inp p by (subst company_inputs_cong [of db1 c db]) (simp_all add: tb cs)
  have ev1: "select_evidence inputs (company_documents db1 c) = ev"
    using ev company_documents_cong [OF tb(7)] by simp
  have op: "open_proposal_to_resolve c (pr_id pr) COMPLIANCE db1 = Inr pr"
    using new_proposal_open [OF system_okD(4) [OF ok] tb(1,2) n] pc(1) by simp
  have p1: "profiles db1 c = Some q" by (simp add: tb)
  have st: "staleness env q pr db1 = Inr None"
    by (simp add: staleness_of_open(1) [OF reachable_ok [OF r1] p1 op inp1] ev1 pc)
  have "\<not> no_text (strip_if_given (pr_reason pr))"
    using tx reason by (auto simp: check_move_Inr plain_move_def strip_if_given_def py_strip_idem split: if_splits)
  moreover have "checker_conflict b (reviewer_id q) (rm_user_id q) = None"
    using q checker by (auto simp: checker_conflict_def reviewer_set_def)
  ultimately have "returns (approve env c (pr_id pr) b COMPLIANCE perms db1)"
    unfolding approve_accepted [OF r1]
    using p1 op inp1 st senior checker(1) days cr ev1 pc by auto
  then obtain x db2 where ap: "approve env c (pr_id pr) b COMPLIANCE perms db1 = Inr (x, db2)"
    by (auto simp: returns_iff)
  have r2: "reachable policy db2" by (rule reachable.step [OF r1 env crm_step.approved [OF ap]])
  from approval_clears [OF system_okD(5) [OF reachable_ok [OF r1]] op ap] pr ap r2 show ?thesis
    by (auto simp: v proposal_view_def pc)
qed

end
