(* ===== verification/Sample_World.thy ===== *)
theory Sample_World
  imports Handover_Gate Progress
begin

text \<open>
  Small runs of the whole CRM for the properties to be applied at: a company recorded, qualified,
  with a deal opened and withdrawn; a screening whose true match two officers stand behind; and a
  deal handed over from the state the sample background check ends in.
\<close>

section \<open>The policy\<close>

definition two_person_rule :: "crm_env \<Rightarrow> true_match_approval \<Rightarrow> bool" where
  "two_person_rule env mode \<longleftrightarrow> env_maker_checker env \<and> mode \<noteq> SINGLE"

lemma two_person_check: "check_policy two_person_rule env \<longleftrightarrow> env_maker_checker env"
  by (auto simp: check_policy_def two_person_rule_def intro: exI [of _ SECOND_OFFICER])

lemma sample_world_step:
  "world_reachable two_person_rule w \<Longrightarrow> world_step sample_env SECOND_OFFICER w w' \<Longrightarrow>
   world_reachable two_person_rule w'"
  by (rule world_next [where env = sample_env and mode = SECOND_OFFICER])
    (simp_all add: two_person_rule_def sample_env_def)

section \<open>A company recorded\<close>

definition lead_company :: exporter_profile where
  "lead_company = sample_company\<lparr>journey_of := LEAD, qualification_of := NOT_YET_REVIEWED,
     conversation_of := NOT_CONTACTED\<rparr>"

definition world_entered :: crm_world where
  "world_entered = (empty_world sample_staff)\<lparr>crm := save_profile lead_company (empty_db sample_staff)\<rparr>"

lemma reachable_world_entered: "world_reachable two_person_rule world_entered"
proof -
  let ?db = "empty_db sample_staff" and ?db' = "save_profile lead_company (empty_db sample_staff)"
  have c: "crm (empty_world sample_staff) = ?db" by (simp add: empty_world_def)
  have "crm_step sample_env ?db ?db'"
    by (rule crm_step.company [where c = company])
      (simp_all add: empty_db_def new_company_def lead_company_def sample_company_def)
  moreover have "governed ?db ?db'"
    by (auto simp: governed_def qualification_kept_def conversation_kept_def empty_db_def save_profile_def
        lead_company_def sample_company_def)
  moreover have "checks_kept ?db ?db'" by (simp add: checks_kept_def save_profile_def)
  ultimately have "world_step sample_env SECOND_OFFICER (empty_world sample_staff) world_entered"
    unfolding world_entered_def by (intro world_step.recorded) (simp_all only: c)
  then show ?thesis by (rule sample_world_step [OF world_initial])
qed

section \<open>Qualified, a deal opened and withdrawn\<close>

lemma run_of:
  "(case m of Inl e \<Rightarrow> False | Inr (x, w) \<Rightarrow> P x w) \<longleftrightarrow> (\<exists>x w. m = Inr (x, w) \<and> P x w)"
  by (cases m) auto

text \<open>The three operations, run one on the result of the other.\<close>

lemma deal_run_evaluates:
  "case record_outcome sample_env company OUTCOME_QUALIFIED [] None (Some rm_one) QS_MANUAL MANUAL_KIND
       (Some OPERATIONS) [] (Some rm_one) world_entered of
     Inl e \<Rightarrow> False
   | Inr (x, w1) \<Rightarrow> map_option journey_of (profiles (crm w1) company) = Some PROSPECT \<and>
     (case open_deal sample_env company (Some ''D-1'') (Some rm_one) None w1 of
       Inl e \<Rightarrow> False
     | Inr (y, w2) \<Rightarrow>
       (case transition_stage sample_env 5000 1 DEAL_WITHDRAWN (Some ''lost'') (Some rm_one) w2 of
         Inl e \<Rightarrow> False
       | Inr (z, w3) \<Rightarrow> map dl_id (deals w3) = [1] \<and> map dl_stage (deals w3) = [DEAL_WITHDRAWN]))"
  by code_simp

lemma deal_run:
  obtains w1 w2 w3 x y z p d where "world_reachable two_person_rule w1"
    and "profiles (crm w1) company = Some p" and "journey_of p = PROSPECT"
    and "record_outcome sample_env company OUTCOME_QUALIFIED [] None (Some rm_one) QS_MANUAL MANUAL_KIND
       (Some OPERATIONS) [] (Some rm_one) world_entered = Inr (x, w1)"
    and "open_deal sample_env company (Some ''D-1'') (Some rm_one) None w1 = Inr (y, w2)"
    and "transition_stage sample_env 5000 1 DEAL_WITHDRAWN (Some ''lost'') (Some rm_one) w2 = Inr (z, w3)"
    and "world_reachable two_person_rule w3" and "deals w3 = [d]" and "dl_stage d = DEAL_WITHDRAWN"
proof -
  from deal_run_evaluates [unfolded run_of] obtain x w1 y w2 z w3 where
    1: "record_outcome sample_env company OUTCOME_QUALIFIED [] None (Some rm_one) QS_MANUAL MANUAL_KIND
       (Some OPERATIONS) [] (Some rm_one) world_entered = Inr (x, w1)"
    and 2: "open_deal sample_env company (Some ''D-1'') (Some rm_one) None w1 = Inr (y, w2)"
    and 3: "transition_stage sample_env 5000 1 DEAL_WITHDRAWN (Some ''lost'') (Some rm_one) w2 = Inr (z, w3)"
    and p: "map_option journey_of (profiles (crm w1) company) = Some PROSPECT"
    and d: "map dl_stage (deals w3) = [DEAL_WITHDRAWN]"
    by (elim exE conjE) (rule that)
  have r1: "world_reachable two_person_rule w1"
    by (rule sample_world_step [OF reachable_world_entered world_step.assessed [OF 1]])
  have r2: "world_reachable two_person_rule w2" by (rule sample_world_step [OF r1 world_step.opened [OF 2]])
  have r3: "world_reachable two_person_rule w3"
    by (rule sample_world_step [OF r2 world_step.staged [OF 3]])
  from p obtain q where "profiles (crm w1) company = Some q" "journey_of q = PROSPECT" by auto
  moreover from d obtain r where "deals w3 = [r]" "dl_stage r = DEAL_WITHDRAWN" by auto
  ultimately show thesis using that r1 r3 1 2 3 by blast
qed

section \<open>A true match, confirmed by a second officer\<close>

definition screener :: "uuid \<Rightarrow> screening_actor" where
  "screener u = \<lparr>sa_id = u, sa_name = None, sa_permissions = [RECORD_PERMISSION]\<rparr>"

definition sample_list :: sanctions_list where
  "sample_list = \<lparr>sl_id = 860, sl_code = ''UN'', sl_name = ''UN list'', sl_active = True, sl_mandatory = True,
     sl_version_date = 100, sl_is_current = True\<rparr>"

definition sample_hit :: hit_input where
  "sample_hit = \<lparr>hi_list_code = ''un'', hi_matched_name = ''ACME'', hi_list_entry = None, hi_score = None,
     hi_disposition = TRUE_MATCH, hi_reason = Some ''same''\<rparr>"

definition world_listed :: crm_world where
  "world_listed = world_entered\<lparr>registrations := [], contacts := [], payment_terms := [],
     sanctions_lists := [sample_list]\<rparr>"

lemma screening_evaluates:
  "case record_run sample_env SECOND_OFFICER company SUBJECT_COMPANY None None [''un''] [sample_hit] None ''MANUAL''
       None None (screener officer_a) world_listed of
     Inl e \<Rightarrow> False
   | Inr (x, w1) \<Rightarrow>
     (case confirm_true_match sample_env SECOND_OFFICER 1 (screener officer_b) w1 of
       Inl e \<Rightarrow> False
     | Inr (y, w2) \<Rightarrow> map hd_disposition (dispositions w2) = [TRUE_MATCH_PROPOSED, TRUE_MATCH])"
  by code_simp

lemma screening_run:
  obtains w q d where "world_reachable two_person_rule w" and "dispositions w = [q, d]"
    and "hd_disposition d = TRUE_MATCH"
proof -
  have "world_step sample_env SECOND_OFFICER world_entered world_listed"
    unfolding world_listed_def
    by (rule world_step.settings) (simp add: world_entered_def empty_world_def)
  from sample_world_step [OF reachable_world_entered this]
  have r0: "world_reachable two_person_rule world_listed" .
  from screening_evaluates [unfolded run_of] obtain x w1 y w2 where
    1: "record_run sample_env SECOND_OFFICER company SUBJECT_COMPANY None None [''un''] [sample_hit] None ''MANUAL''
       None None (screener officer_a) world_listed = Inr (x, w1)"
    and 2: "confirm_true_match sample_env SECOND_OFFICER 1 (screener officer_b) w1 = Inr (y, w2)"
    and d: "map hd_disposition (dispositions w2) = [TRUE_MATCH_PROPOSED, TRUE_MATCH]"
    by (elim exE conjE) (rule that)
  have "world_reachable two_person_rule w2"
    by (rule sample_world_step [OF sample_world_step [OF r0 world_step.screened [OF 1]]
          world_step.match_confirmed [OF 2]])
  moreover from d obtain q t where "dispositions w2 = [q, t]" "hd_disposition t = TRUE_MATCH" by auto
  ultimately show thesis using that by blast
qed

section \<open>A criterion, and a result that passes it\<close>

definition sample_criterion :: criterion_definition where
  "sample_criterion = \<lparr>cd_label = ''IEC'', cd_kind = YES_NO, cd_required = True, cd_active = True,
     cd_comparison = None, cd_threshold = None, cd_unit = None, cd_allowed_values = None, cd_auto_source = None\<rparr>"

definition sample_entry :: result_entry where
  "sample_entry = \<lparr>re_key = ''iec'', re_result = RESULT_PASS, re_observed = None, re_evidence_note = Some ''seen'',
     re_evidence_refs = [], re_reason = None, re_confidence = None, re_decided_by_kind = None\<rparr>"

lemma results_evaluate:
  "case create_criterion ''iec'' sample_criterion (Some rm_one) world_entered of
     Inl e \<Rightarrow> False
   | Inr (x, w1) \<Rightarrow>
     (case record_results sample_env company [sample_entry] (Some rm_one) QS_MANUAL MANUAL_KIND w1 of
       Inl e \<Rightarrow> False
     | Inr (y, w2) \<Rightarrow> fst (suggest_with_reason (standings w2 company)) = OUTCOME_QUALIFIED)"
  by code_simp

lemma results_run:
  obtains w where "world_reachable two_person_rule w"
    and "fst (suggest_with_reason (standings w company)) = OUTCOME_QUALIFIED"
proof -
  from results_evaluate [unfolded run_of] obtain x w1 y w2 where
    1: "create_criterion ''iec'' sample_criterion (Some rm_one) world_entered = Inr (x, w1)"
    and 2: "record_results sample_env company [sample_entry] (Some rm_one) QS_MANUAL MANUAL_KIND w1 = Inr (y, w2)"
    and s: "fst (suggest_with_reason (standings w2 company)) = OUTCOME_QUALIFIED"
    by (elim exE conjE) (rule that)
  have "world_reachable two_person_rule w1"
    by (rule sample_world_step [OF reachable_world_entered world_step.criterion]) (use 1 in blast)
  from sample_world_step [OF this world_step.resulted [OF 2]] s show thesis by (rule that)
qed

section \<open>A deal handed over\<close>

definition buyer_result :: "uuid \<Rightarrow> verification_type \<Rightarrow> verification_row" where
  "buyer_result i t = (sample_result i t)\<lparr>vr_entity_type := BUYER, vr_entity_reference := 730\<rparr>"

definition bought_results :: "verification_row list" where
  "bought_results = [sample_result 701 KYB, sample_result 702 AML, sample_result 703 SANCTIONS,
     buyer_result 704 AML, buyer_result 705 SANCTIONS]"

definition run_bought :: crm_db where
  "run_bought = run_approved\<lparr>verifications := bought_results, reviews := [], screenings := sample_screening,
     documents := [sample_document], buyers := [730], staff := sample_staff, history := history run_approved @ []\<rparr>"

definition sample_buyer :: deal_buyer where
  "sample_buyer = \<lparr>db_id = 730, db_name = ''Globex'', db_country = None, db_registration_number = None,
     db_tax_id = None, db_contact_email = None, db_contact_phone = None\<rparr>"

definition sample_deal :: deal_row where
  "sample_deal = \<lparr>dl_id = 740, dl_company = company, dl_reference = ''D-1'', dl_stage = GATHERING_PAPERWORK,
     dl_withdrawal_reason = None, dl_handed_over_at = None, dl_buyer_company = None, dl_snapshot = None,
     dl_branch = None, dl_value = None, dl_currency = None, dl_term = None, dl_override_reason = None,
     dl_buyer = Some sample_buyer\<rparr>"

definition sample_contact :: contact_row where
  "sample_contact = \<lparr>ct_id = 850, ct_company = company, ct_name = ''C'', ct_is_director = True, ct_is_ubo = False,
     ct_is_primary = True, ct_status = CONTACT_ACTIVE\<rparr>"

definition handover_world :: crm_world where
  "handover_world = (empty_world sample_staff)\<lparr>crm := run_bought, deals := [sample_deal],
     contacts := [sample_contact]\<rparr>"

lemma reachable_bought: "reachable env_maker_checker run_bought"
proof -
  have "db\<lparr>verifications := vs, reviews := rs, screenings := ss, documents := ds, buyers := bs,
      staff := st, history := hs, next_uuid := next_uuid db\<rparr> = db\<lparr>verifications := vs, reviews := rs,
      screenings := ss, documents := ds, buyers := bs, staff := st, history := hs\<rparr>"
    for db vs rs ss ds bs st hs
    by (cases db) simp
  from sample_step [OF reachable_approved crm_step.inputs [OF order_refl], unfolded this] show ?thesis
    unfolding run_bought_def .
qed

lemma bought_reads:
  "company_inputs company ((answered_db [])\<lparr>verifications := bought_results\<rparr>) = Inr answered_inputs"
  "case buyer_checks 730 ((answered_db [])\<lparr>verifications := bought_results, buyers := [730]\<rparr>) of
     Inl e \<Rightarrow> False
   | Inr checks \<Rightarrow> check_state checks SANCTIONS = CHECK_PASSED \<and> check_state checks AML = CHECK_PASSED"
  "check_state (ci_verifications answered_inputs) SANCTIONS = CHECK_PASSED"
  "check_state (ci_verifications answered_inputs) AML = CHECK_PASSED"
  by code_simp+

lemma sample_deal_ready: "handover_ready sample_env sample_deal handover_world"
proof -
  obtain h where a: "run_approved = approved_db h" using run_approved_eq by blast
  have tabs: "profiles run_bought company = Some cleared_company" "cycles run_bought = [first_cycle]"
    "decisions run_bought = [start_decision, clear_decision]" "verifications run_bought = bought_results"
    "reviews run_bought = []" "screenings run_bought = sample_screening" "buyers run_bought = [730]"
    by (simp_all add: run_bought_def run_approved_tables)
  have "company_inputs company run_bought = company_inputs company ((answered_db [])\<lparr>verifications := bought_results\<rparr>)"
    by (rule company_inputs_cong) (simp_all add: tabs answered_db_def started_db_def)
  then have inp: "company_inputs company run_bought = Inr answered_inputs" by (simp only: bought_reads(1))
  have "buyer_checks 730 run_bought = buyer_checks 730 ((answered_db [])\<lparr>verifications := bought_results, buyers := [730]\<rparr>)"
    by (simp add: buyer_checks_def tabs verification_inputs_def head_by_result_def review_heads_def answered_db_def
        started_db_def)
  then have buy: "buyer_ready run_bought sample_deal"
    using bought_reads(2) by (auto simp: buyer_ready_def sample_deal_def sample_buyer_def both_checks_def
      split: sum.splits)
  have "latest_for_company company run_bought = Inr (Some clear_decision)"
    by (simp add: latest_for_company_def unsuperseded_def tabs start_decision_def clear_decision_def)
  then have now: "clear_now run_bought company (env_now sample_env)"
    by (simp add: clear_now_def clear_decision_def clear_expiry_def sample_env_def days_def)
  have c: "crm handover_world = run_bought" "dl_company sample_deal = company" "dl_id sample_deal = 740"
    by (simp_all add: handover_world_def sample_deal_def)
  have "is_flagged company handover_world = Inr False"
    by (simp add: is_flagged_def company_sanctions_def c tabs runs_newest_first_def handover_world_def
        empty_world_def Let_def)
  moreover have "missing_for_deal handover_world 740 = []"
    by (simp add: missing_for_deal_def active_requirements_def current_requirements_def handover_world_def empty_world_def Let_def)
  moreover have "branch_ready handover_world sample_deal"
    by (simp add: branch_ready_def sample_deal_def has_active_registrations_def handover_world_def empty_world_def)
  moreover have "has_active_primary_contact handover_world company"
    by (simp add: has_active_primary_contact_def handover_world_def sample_contact_def)
  ultimately show ?thesis
    using inp buy now tabs(1) by (simp add: handover_ready_def c both_checks_def bought_reads(3,4) cleared_company_def)
qed

lemma sample_handover:
  obtains v ev w where "transition_stage sample_env 5001 740 HANDED_OVER None (Some rm_one) handover_world
    = Inr ((v, ev), w)"
proof -
  have f: "find_deal handover_world 740 = Some sample_deal" and c: "crm handover_world = run_bought"
    by (simp_all add: handover_world_def find_deal_def sample_deal_def)
  have "chain_ok (crm handover_world)"
    using system_okD(1) [OF reachable_ok [OF reachable_bought]] by (simp only: c)
  moreover have "dl_stage sample_deal = GATHERING_PAPERWORK" "dl_buyer sample_deal \<noteq> None"
    "clean_text None = None" by (simp_all add: sample_deal_def clean_text_def)
  ultimately have "returns (transition_stage sample_env 5001 740 HANDED_OVER None (Some rm_one) handover_world)"
    using handover_returns f sample_deal_ready by blast
  then show thesis using that by (auto simp: returns_iff)
qed

section \<open>The sample company under review\<close>

lemma run_answered_fields:
  obtains p where "profiles run_answered company = Some p" and "background_check p = IN_REVIEW"
    and "reviewer_id p = None" and "rm_user_id p = Some rm_one" and "open_proposals run_answered company = []"
proof -
  obtain h where a: "run_answered = answered_db h" using run_answered_eq by blast
  let ?p = "sample_company\<lparr>rm_user_id := Some rm_one, background_check := IN_REVIEW\<rparr>"
  show thesis
    by (rule that [of ?p])
      (simp_all add: a answered_db_def started_db_def sample_company_def open_proposals_def)
qed

end
