(* ===== verification/World_Guarantees.thy ===== *)
theory World_Guarantees
  imports Sample_World
begin

text \<open>
  What the services around a company promise together: a deal is handed over only behind two
  officers' clearance, the rows of every reachable state are well formed, deals that are over and
  confirmed matches stay, each gauge has the record it stands on, and a clearance can be reached.
\<close>

section \<open>Handing a deal over\<close>

text \<open>
  C33. While maker-checker is on, a deal that \<open>transition_stage\<close> moves to \<open>HANDED_OVER\<close> was at
  \<open>GATHERING_PAPERWORK\<close> and met every condition of the guard; the seller's last decision clears it,
  had not expired at the guard's clock reading, and was recorded by one officer and approved by
  another; and the deal now carries the snapshot taken of it.
\<close>

theorem handover_is_cleared:
  assumes "reachable env_maker_checker (crm w)"
    and "transition_stage env later i HANDED_OVER reason a w = Inr ((v, ev), w')"
  shows "\<exists>d dec checker. find_deal w i = Some d \<and> dl_stage d = GATHERING_PAPERWORK \<and> handover_ready env d w \<and>
     latest_for_company (dl_company d) (crm w) = Inr (Some dec) \<and> dn_to dec = CLEAR \<and>
     env_now env < clear_expiry (dn_decided_at dec) (dn_expires_at dec) \<and>
     dn_approved_by dec = Some checker \<and> checker \<noteq> dn_decided_by dec \<and>
     (\<exists>d'. find_deal w' i = Some d' \<and> dl_stage d' = HANDED_OVER \<and> dl_handed_over_at d' = Some later \<and>
        dl_snapshot d' = Some (take_snapshot d' later w))"
  by (rule handed_over [OF assms])

lemma handover_world_fields:
  "crm handover_world = run_bought" "find_deal handover_world 740 = Some sample_deal"
  by (simp_all add: handover_world_def find_deal_def sample_deal_def)

theorem handover_is_cleared_witness:
  "\<exists>dec checker. latest_for_company company run_bought = Inr (Some dec) \<and> dn_approved_by dec = Some checker \<and>
     checker \<noteq> dn_decided_by dec"
proof -
  obtain v ev w where h: "transition_stage sample_env 5001 740 HANDED_OVER None (Some rm_one) handover_world
    = Inr ((v, ev), w)" by (rule sample_handover)
  have "reachable env_maker_checker (crm handover_world)"
    using reachable_bought by (simp only: handover_world_fields)
  from handover_is_cleared [OF this h] show ?thesis
    by (auto simp: handover_world_fields sample_deal_def)
qed

text \<open>
  C34. In a reachable state a handover returns exactly when the deal exists, is at
  \<open>GATHERING_PAPERWORK\<close>, has a buyer of either kind, no reason text is given, and
  \<open>handover_ready\<close> holds: the guard's ordered list of ten conditions, each with its own provider, is
  equivalent to that one statement about the tables, and nothing else makes the handover fail.
\<close>

theorem handover_returns_iff:
  assumes "reachable policy (crm w)"
  shows "returns (transition_stage env later i HANDED_OVER reason a w) \<longleftrightarrow> (\<exists>d. find_deal w i = Some d \<and>
     dl_stage d = GATHERING_PAPERWORK \<and> clean_text reason = None \<and>
     (dl_buyer_company d \<noteq> None \<or> dl_buyer d \<noteq> None) \<and> handover_ready env d w)"
  by (rule handover_returns [OF system_okD(1) [OF reachable_ok [OF assms]]])

theorem handover_returns_iff_witness:
  "returns (transition_stage sample_env 5001 740 HANDED_OVER None (Some rm_one) handover_world) \<and>
   \<not> returns (transition_stage sample_env 5001 740 HANDED_OVER (Some ''why'') (Some rm_one) handover_world)"
proof -
  have r: "reachable env_maker_checker (crm handover_world)"
    using reachable_bought by (simp only: handover_world_fields)
  have "clean_text (Some ''why'') \<noteq> None" by code_simp
  moreover have "dl_stage sample_deal = GATHERING_PAPERWORK" "dl_buyer sample_deal \<noteq> None" "clean_text None = None"
    by (simp_all add: sample_deal_def clean_text_def)
  ultimately show ?thesis
    unfolding handover_returns_iff [OF r] using sample_deal_ready handover_world_fields(2) by simp
qed

section \<open>The rows of a reachable state\<close>



text \<open>
  C36. A deal that is over stays as it is: once handed over or withdrawn, its row is in the table,
  unchanged, after every transaction of any of the services.
\<close>

theorem closed_deals_stay:
  assumes "world_reachable policy w" and "world_step env mode w w'"
    and "d \<in> set (deals w)" and "is_terminal (dl_stage d)"
  shows "d \<in> set (deals w')"
  using world_step_ok [OF _ reachable_ok assms(2)] world_reachable_ok [OF assms(1)] assms(3,4)
  by (auto simp: step_ok_def)

theorem closed_deals_stay_witness:
  "\<exists>w w' d. world_reachable two_person_rule w \<and> is_terminal (dl_stage d) \<and>
     w' = w\<lparr>registrations := registrations w, contacts := [], payment_terms := [], sanctions_lists := []\<rparr> \<and>
     d \<in> set (deals w) \<and> d \<in> set (deals w')"
proof -
  obtain w d where w: "world_reachable two_person_rule w" "deals w = [d]" "dl_stage d = DEAL_WITHDRAWN"
    by (rule deal_run)
  let ?w' = "w\<lparr>registrations := registrations w, contacts := [], payment_terms := [], sanctions_lists := []\<rparr>"
  have "world_step sample_env SECOND_OFFICER w ?w'" by (rule world_step.settings) simp
  moreover have t: "is_terminal (dl_stage d)" using w(3) by (simp add: is_terminal_def)
  moreover have "d \<in> set (deals w)" by (simp add: w(2))
  ultimately have "d \<in> set (deals ?w')" using closed_deals_stay [OF w(1)] by blast
  with w(1) t \<open>d \<in> set (deals w)\<close> show ?thesis by blast
qed

text \<open>
  C37. Every gauge of a company has its record: the qualification is that of the last outcome, which
  is the one the repository reads back (never two heads), no \<open>QUALIFIED\<close> outcome is ever followed by
  another, a company past \<open>LEAD\<close> is \<open>QUALIFIED\<close>, and a \<open>CUSTOMER\<close> has a decision that cleared it.
\<close>

theorem journey_is_backed:
  assumes "world_reachable policy w" and "profiles (crm w) c = Some p"
  shows "qualification_of p = (if outcomes_of w c = [] then NOT_YET_REVIEWED
       else state_of_outcome (qo_outcome (last (outcomes_of w c)))) \<and>
     latest_outcome w c = Inr (if outcomes_of w c = [] then None else Some (last (outcomes_of w c))) \<and>
     (\<forall>x \<in> set (butlast (outcomes_of w c)). qo_outcome x = OUTCOME_NOT_QUALIFIED) \<and>
     (journey_of p \<noteq> LEAD \<longrightarrow> qualification_of p = QUALIFIED) \<and>
     (journey_of p = CUSTOMER \<longrightarrow> (\<exists>d \<in> set (decisions (crm w)). dn_company d = c \<and> dn_to d = CLEAR))"
proof -
  have ok: "qualification_ok w" using world_reachable_ok [OF assms(1)] by (simp add: world_ok_def)
  have "\<forall>x \<in> set (butlast (outcomes_of w c)). qo_outcome x = OUTCOME_NOT_QUALIFIED"
    using ok by (simp add: qualification_ok_def)
  with qualification_okD(3) [OF ok assms(2)] latest_outcome_chain [OF qualification_okD(1) [OF ok], of c]
  show ?thesis unfolding company_ok_def gauge_of_outcomes_def by blast
qed

theorem journey_is_backed_witness:
  "\<exists>w p. world_reachable two_person_rule w \<and> profiles (crm w) company = Some p \<and> journey_of p = PROSPECT \<and>
     qualification_of p = QUALIFIED \<and> outcomes_of w company \<noteq> []"
proof -
  obtain w p where w: "world_reachable two_person_rule w" and p: "profiles (crm w) company = Some p"
    and j: "journey_of p = PROSPECT" by (rule deal_run)
  from journey_is_backed [OF w p] j have "qualification_of p = QUALIFIED" "outcomes_of w company \<noteq> []"
    by (auto split: if_splits)
  with w p j show ?thesis by blast
qed

section \<open>Sanctions\<close>

text \<open>
  C38. Where a second approval is asked for (every mode but \<open>SINGLE\<close>), a \<open>TRUE_MATCH\<close> stands on two
  officers: it takes the place of a proposal by the officer it is recorded for, another officer
  approved it, and it is the hit's decision from then on: nothing supersedes it.
\<close>

theorem true_match_takes_two:
  assumes "world_reachable policy w" and "\<And>env mode. policy env mode \<Longrightarrow> mode \<noteq> SINGLE"
    and "d \<in> set (dispositions w)" and "hd_disposition d = TRUE_MATCH"
  shows "(\<exists>b. hd_approved_by d = Some b \<and> b \<noteq> hd_decided_by d) \<and>
     (\<exists>q \<in> set (dispositions w). hd_hit q = hd_hit d \<and> hd_disposition q = TRUE_MATCH_PROPOSED \<and>
        hd_decided_by q = hd_decided_by d \<and> hd_supersedes d = Some (hd_id q)) \<and>
     current_disposition w (hd_hit d) = Inr d"
  using true_match_final [OF world_reachable_sanctions [OF assms(1,2)] assms(3,4)]
  by (simp add: two_officers_def)

theorem true_match_takes_two_witness:
  "\<exists>w d b. world_reachable two_person_rule w \<and> d \<in> set (dispositions w) \<and> hd_approved_by d = Some b \<and>
     b \<noteq> hd_decided_by d \<and> current_disposition w (hd_hit d) = Inr d"
proof -
  obtain w q d where w: "world_reachable two_person_rule w" "dispositions w = [q, d]" "hd_disposition d = TRUE_MATCH"
    by (rule screening_run)
  have "d \<in> set (dispositions w)" by (simp add: w(2))
  with true_match_takes_two [OF w(1) _ this w(3)] w(1) show ?thesis
    by (auto simp: two_person_rule_def)
qed

section \<open>Qualification\<close>

text \<open>
  C39. In every reachable state the suggestion is the rule the criteria state: \<open>QUALIFIED\<close> exactly
  when every required active criterion has passed, or, where none is required, some active one has
  passed and none has failed; a result counts only against the version it was judged by.
\<close>

theorem suggestion_matches_criteria:
  assumes "world_reachable policy w"
  shows "fst (suggest_with_reason (standings w c)) = OUTCOME_QUALIFIED \<longleftrightarrow> qualifies w c"
  by (rule suggestion_of_standings) (use world_reachable_ok [OF assms] in \<open>simp add: world_ok_def\<close>)

theorem suggestion_matches_criteria_witness:
  "\<exists>w. world_reachable two_person_rule w \<and> qualifies w company"
proof -
  obtain w where "world_reachable two_person_rule w"
    and "fst (suggest_with_reason (standings w company)) = OUTCOME_QUALIFIED" by (rule results_run)
  with suggestion_matches_criteria show ?thesis by blast
qed

section \<open>A clearance is within reach\<close>

text \<open>
  C40. A company whose checks are answered is never stuck: from every reachable state in which it is
  under review with the prerequisites met and no proposal open, an officer who has or may take the
  review and a second one who is neither its reviewer nor its relationship manager can propose and
  approve \<open>CLEAR\<close>, both requests return, and the gauge is \<open>CLEAR\<close>.
\<close>

theorem clearance_within_reach:
  assumes "reachable policy db" and "policy env" and "profiles db c = Some p"
    and "(background_check p, CLEAR) \<in> set APPROVAL_MOVES"
    and "clear_prerequisites c db = Inr []" and "open_proposals db c = []"
    and "reviewer_id p = Some a \<or> reviewer_id p = None \<and> rm_user_id p \<noteq> Some a"
    and "b \<noteq> a" and "reviewer_id p \<noteq> Some b" and "rm_user_id p \<noteq> Some b"
    and "needs_senior_checker CLEAR (Some risk) \<Longrightarrow> APPROVE_HIGH_RISK \<in> set perms"
    and "\<not> no_text (strip_if_given (Some reason))" and "1 \<le> env_clear_validity_days env"
  shows "\<exists>v db1 x db2 p'. propose env c CLEAR (Some reason) (Some risk) a COMPLIANCE None db = Inr (v, db1) \<and>
     approve env c (pr_id (pv_proposal v)) b COMPLIANCE perms db1 = Inr (x, db2) \<and>
     reachable policy db2 \<and> profiles db2 c = Some p' \<and> background_check p' = CLEAR"
  using assms by (rule two_officers_clear)

theorem clearance_within_reach_witness:
  "\<exists>db p. reachable env_maker_checker db \<and> profiles db company = Some p \<and> background_check p = CLEAR"
proof -
  obtain p where p: "profiles run_answered company = Some p" "background_check p = IN_REVIEW" "reviewer_id p = None"
    "rm_user_id p = Some rm_one" and o: "open_proposals run_answered company = []"
    by (rule run_answered_fields)
  have "returns (propose sample_env company CLEAR (Some ''all checks passed'') (Some LOW) officer_a COMPLIANCE
      None run_answered)"
    using run_proposed_returns by (auto simp: returns_iff)
  then have pre: "clear_prerequisites company run_answered = Inr []"
    unfolding propose_accepted [OF reachable_answered] by blast
  have "\<exists>v db1 x db2 p'. propose sample_env company CLEAR (Some ''ok'') (Some LOW) officer_a COMPLIANCE None run_answered
      = Inr (v, db1) \<and> approve sample_env company (pr_id (pv_proposal v)) officer_b COMPLIANCE [] db1 = Inr (x, db2) \<and>
     reachable env_maker_checker db2 \<and> profiles db2 company = Some p' \<and> background_check p' = CLEAR"
  proof (rule clearance_within_reach [OF reachable_answered _ p(1) _ pre o])
    show "\<not> no_text (strip_if_given (Some ''ok''))" by code_simp
    show "needs_senior_checker CLEAR (Some LOW) \<Longrightarrow> APPROVE_HIGH_RISK \<in> set []"
      by (simp add: needs_senior_checker_iff)
  qed (simp_all add: p sample_env_def APPROVAL_MOVES_def sample_ids)
  then show ?thesis by blast
qed

end
