(* ===== verification/Verification_Guarantees.thy ===== *)
theory Verification_Guarantees
  imports Sample_World
begin

text \<open>
  What verification promises the background check that reads it: a result's reviews are one line, a
  reviewed result stays as it is, two reviewers cannot both answer the same review, and a stored
  result is about what it says it is about.
\<close>

section \<open>A check recorded and reviewed\<close>

definition sample_registry :: adapter_registry where
  "sample_registry name = (if name = ''manual'' then Some (manual_adapter (\<lambda>_. False)) else None)"

definition sample_request :: verification_request where
  "sample_request = \<lparr>vq_type = KYB, vq_entity_type = EXPORTER, vq_entity_reference = company,
     vq_payload = [(''status'', PyText ''REVIEW'')], vq_evidence = None\<rparr>"

lemma review_run_evaluates:
  "case trigger_verification sample_env (\<lambda>_. False) sample_registry sample_request ''manual'' (Some rm_one) world_entered of
     Inl e \<Rightarrow> False
   | Inr (r, w1) \<Rightarrow> vr_id r = 0 \<and> vr_status r = V_REVIEW \<and> verifications (crm w1) = [r] \<and>
     (case record_review sample_env 0 officer_a R_ACCEPTED None None w1 of
       Inl e \<Rightarrow> False
     | Inr (v, w2) \<Rightarrow> rv_result v = 0 \<and> reviews (crm w2) = [v] \<and> verifications (crm w2) = [r])"
  by code_simp

lemma review_run:
  obtains w1 w2 r v where "world_reachable two_person_rule w1" and "world_reachable two_person_rule w2"
    and "record_review sample_env 0 officer_a R_ACCEPTED None None w1 = Inr (v, w2)"
    and "world_step sample_env SECOND_OFFICER w1 w2" and "vr_id r = 0" and "verifications (crm w2) = [r]"
    and "rv_result v = 0" and "reviews (crm w2) = [v]"
proof -
  from review_run_evaluates [unfolded run_of] obtain r w1 v w2 where
    1: "trigger_verification sample_env (\<lambda>_. False) sample_registry sample_request ''manual'' (Some rm_one) world_entered
      = Inr (r, w1)"
    and 2: "record_review sample_env 0 officer_a R_ACCEPTED None None w1 = Inr (v, w2)"
    and f: "vr_id r = 0" "rv_result v = 0" "reviews (crm w2) = [v]" "verifications (crm w2) = [r]"
    by (elim exE conjE) (rule that)
  have s1: "world_reachable two_person_rule w1"
    by (rule sample_world_step [OF reachable_world_entered world_step.checked [OF 1]])
  have s2: "world_step sample_env SECOND_OFFICER w1 w2" by (rule world_step.reviewed [OF 2])
  show thesis by (rule that [OF s1 sample_world_step [OF s1 s2] 2 s2 f(1,4,2,3)])
qed

section \<open>One line of reviews\<close>

text \<open>
  C19. In every reachable state a result's reviews form one line: \<open>chain_for\<close> returns each of them
  once, from the first, every later one superseding the one before and saying why; its last is the
  one the compliance inputs read; and only a result that is no longer \<open>PENDING\<close> has any.
\<close>

theorem reviews_form_a_line:
  assumes "world_reachable policy w"
  shows "linked rv_id rv_supersedes None (chain_for (crm w) i) \<and> distinct (chain_for (crm w) i) \<and>
     set (chain_for (crm w) i) = {v \<in> set (reviews (crm w)). rv_result v = i} \<and>
     (\<forall>v \<in> set (chain_for (crm w) i). rv_supersedes v \<noteq> None \<longrightarrow> rv_note v \<noteq> None) \<and>
     head_by_result (crm w) i = chain_head (chain_for (crm w) i) \<and>
     (chain_for (crm w) i \<noteq> [] \<longrightarrow> (\<exists>r. find_result (crm w) i = Some r \<and> vr_status r \<noteq> V_PENDING))"
proof -
  have ok: "checks_ok (crm w)" using world_reachable_ok [OF assms] by (simp add: world_ok_def)
  then have ch: "reviews_chained (reviews (crm w))" by (simp add: checks_ok_def)
  have "\<exists>r. find_result (crm w) i = Some r \<and> vr_status r \<noteq> V_PENDING" if "chain_for (crm w) i \<noteq> []"
    by (rule reviewed_result [OF ok that])
  then show ?thesis
    using chain_for_line(2,3) [OF ch, of i] chain_head_read [OF ch, of i] ok
    by (auto simp: chain_for_line(1) [OF ch] checks_ok_def distinct_map)
qed

theorem reviews_form_a_line_witness:
  "\<exists>w v. world_reachable two_person_rule w \<and> chain_for (crm w) 0 = [v] \<and> rv_supersedes v = None \<and>
     head_by_result (crm w) 0 = Some v"
proof -
  obtain w v where w: "world_reachable two_person_rule w" "rv_result v = 0" "reviews (crm w) = [v]" by (rule review_run)
  note l = reviews_form_a_line [OF w(1), of 0]
  from l w(2,3) have "set (chain_for (crm w) 0) = {v}" "distinct (chain_for (crm w) 0)" by auto
  then have "chain_for (crm w) 0 = [v]" by (cases "chain_for (crm w) 0"; cases "tl (chain_for (crm w) 0)") auto
  with l w(1) show ?thesis by (intro exI [of _ w] exI [of _ v]) (auto simp: chain_head_def)
qed

section \<open>Results stay\<close>

text \<open>
  C21. No operation of any of the services takes a result or a review away or changes what a result is
  about: its kind, subject, evidence, buyer snapshot, provider and cycle stay, its status, risk, answer
  and validity may change while nobody has reviewed it, and once it is reviewed nothing of it does.
\<close>

theorem reviewed_results_stay:
  assumes "world_reachable policy w" and "world_step env mode w w'"
  shows "(\<exists>vs. reviews (crm w') = reviews (crm w) @ vs) \<and>
     (\<forall>r \<in> set (verifications (crm w)). \<exists>r' \<in> set (verifications (crm w')). same_check r r' \<and>
        ((\<exists>v \<in> set (reviews (crm w)). rv_result v = vr_id r) \<longrightarrow> r' = r))"
  using world_step_ok [OF _ reachable_ok assms(2)] world_reachable_ok [OF assms(1)]
  by (auto simp: step_ok_def checks_grow_def)

theorem reviewed_results_stay_witness:
  "\<exists>w w' r. world_reachable two_person_rule w \<and> (\<exists>x. poll_apply 0 x w = Inr (r, w')) \<and>
     verifications (crm w) = [r] \<and> r \<in> set (verifications (crm w'))"
proof -
  obtain w r v where w: "world_reachable two_person_rule w" and r: "vr_id r = 0" "verifications (crm w) = [r]"
    and v: "rv_result v = 0" "reviews (crm w) = [v]" by (rule review_run)
  let ?oc = "\<lparr>vo_provider = ''manual'', vo_provider_reference = None, vo_status = V_FAILED, vo_normalized = PyNone,
     vo_risk_level = None, vo_valid_until = None\<rparr>"
  have "chain_for (crm w) 0 \<noteq> []"
    using v chain_for_line(1) [of "crm w" 0] world_reachable_ok [OF w]
    by (simp add: world_ok_def checks_ok_def)
  then have p: "poll_apply 0 ?oc w = Inr (r, w)" using r by (simp add: poll_apply_def find_result_def)
  from reviewed_results_stay [OF w world_step.polled [OF p]] r v have "r \<in> set (verifications (crm w))" by auto
  with w p r show ?thesis by blast
qed

section \<open>Two reviewers\<close>

text \<open>
  C26. Two officers cannot both answer the same review: once one is recorded that names \<open>prior\<close> as
  what it supersedes, any later request naming the same is refused as stale, and told the review it
  should have named, whatever all the services did in between.
\<close>

theorem same_answer_is_stale:
  assumes "world_reachable policy w" and "policy env mode"
    and "record_review env i u st note prior w = Inr (v, w1)" and "world_run policy w1 w2"
  shows "\<exists>h. record_review env' i u' st' note' prior w2 = Inl (VerificationReviewStaleError i (Some h))"
proof -
  have ok: "checks_ok (crm w)" using world_reachable_ok [OF assms(1)] by (simp add: world_ok_def)
  from record_review_effect [OF assms(3) ok] have v: "v \<in> set (reviews (crm w1))" "rv_result v = i" by auto
  have p: "rv_supersedes v = prior" using record_review_prior [OF assms(3)] .
  have "world_reachable policy w1" by (rule world_next [OF assms(1,2) world_step.reviewed [OF assms(3)]])
  from world_run_keeps [OF assms(4) this] have w2: "world_reachable policy w2" "v \<in> set (reviews (crm w2))"
    using v by auto
  have "checks_ok (crm w2)" using world_reachable_ok [OF w2(1)] by (simp add: world_ok_def)
  from stale_review [OF this w2(2) v(2) p] show ?thesis .
qed

theorem same_answer_is_stale_witness:
  "\<exists>w v. world_reachable two_person_rule w \<and> reviews (crm w) = [v] \<and>
     record_review sample_env 0 officer_b R_REJECTED None None w = Inl (VerificationReviewStaleError 0 (Some (rv_id v)))"
proof -
  obtain w1 w2 r v where w1: "world_reachable two_person_rule w1" and w2: "world_reachable two_person_rule w2"
    and rr: "record_review sample_env 0 officer_a R_ACCEPTED None None w1 = Inr (v, w2)"
    and v: "reviews (crm w2) = [v]" and i: "rv_result v = 0" by (rule review_run)
  have "world_run two_person_rule w2 w2" by (simp add: world_run_def)
  moreover have "two_person_rule sample_env SECOND_OFFICER" by (simp add: two_person_rule_def sample_env_def)
  ultimately obtain h where h: "record_review sample_env 0 officer_b R_REJECTED None None w2
      = Inl (VerificationReviewStaleError 0 (Some h))"
    using same_answer_is_stale [OF w1 _ rr] by blast
  have "chain_for (crm w2) 0 = [v]"
    using world_reachable_ok [OF w2] chain_for_line(1) [of "crm w2" 0] v i by (simp add: world_ok_def checks_ok_def)
  with h have "h = rv_id v"
    by (auto simp: record_review_def chain_head_def err_simps require_def split: option.splits if_splits)
  with h w2 v show ?thesis by auto
qed

end
