(* ===== verification/Screening_Sync.thy ===== *)
theory Screening_Sync
  imports Sanctions_Log Verification_Log
begin

text \<open>
  The rest of \<open>application/sanctions_screening_service.py\<close>: the subjects of a company with their
  latest runs and why each needs screening again, the companies due for it, the true matches that
  wait for a second officer, and \<open>_sync_company_result\<close>, which writes the company's standing where
  the background check reads it.
\<close>

section \<open>Who must be screened\<close>

definition people_of :: "crm_world \<Rightarrow> uuid \<Rightarrow> contact_row list" where
  "people_of w company_id = sort_key (\<lambda>p. (ct_name p, ct_id p)) (filter (\<lambda>p. ct_company p = company_id \<and>
     (ct_is_director p \<or> ct_is_ubo p) \<and> ct_status p = CONTACT_ACTIVE) (contacts w))"

definition person_roles :: "contact_row \<Rightarrow> subject_type list" where
  "person_roles p = (if ct_is_director p then [SUBJECT_DIRECTOR] else []) @ (if ct_is_ubo p then [SUBJECT_UBO] else [])"

definition person_subject :: "contact_row \<Rightarrow> subject_type" where
  "person_subject p = (if ct_is_ubo p then SUBJECT_UBO else SUBJECT_DIRECTOR)"

text \<open>The name searched for; the API sends a text.\<close>

definition searched_name :: "sanctions_run \<Rightarrow> string" where
  "searched_name run = (case map_of (sr_search_terms run) ''name'' of
     Some (PyText t) \<Rightarrow> if t = [] then sr_subject_name run else t | _ \<Rightarrow> sr_subject_name run)"

definition list_reason :: "(string \<times> int) list \<Rightarrow> sanctions_list \<Rightarrow> string list" where
  "list_reason covered listed = (case map_of covered (sl_code listed) of
     None \<Rightarrow> if sl_mandatory listed then [''not screened against '' @ sl_name listed] else []
   | Some used \<Rightarrow> if used < sl_version_date listed
       then [sl_name listed @ '' has a newer version ('' @ iso_date (sl_version_date listed) @ '')''] else [])"

definition run_reasons :: "sanctions_run \<Rightarrow> sanctions_list list \<Rightarrow> string option \<Rightarrow> string list" where
  "run_reasons run current_lists current_name =
     concat (map (list_reason (sr_lists run)) current_lists) @
     (case current_name of None \<Rightarrow> [] | Some name \<Rightarrow>
        if name \<noteq> [] \<and> normalised_name (searched_name run) \<noteq> normalised_name name
        then [''the company's name changed (screened as '' @ searched_name run @ '')''] else [])"

definition reasons_for :: "sanctions_run option \<Rightarrow> sanctions_list list \<Rightarrow> string option \<Rightarrow> string list" where
  "reasons_for run current_lists current_name = (case run of None \<Rightarrow> [''never screened'']
     | Some r \<Rightarrow> run_reasons r current_lists current_name)"

definition active_lists :: "crm_world \<Rightarrow> sanctions_list list" where
  "active_lists w = filter sl_active (filter sl_is_current (sanctions_lists w))"

section \<open>The page of a company\<close>

record subject_coverage =
  sv_type :: subject_type
  sv_name :: string
  sv_reference :: "uuid option"
  sv_latest :: "run_view option"
  sv_reasons :: "string list"
  sv_roles :: "subject_type list"

definition text_or_empty :: "string option \<Rightarrow> string" where
  "text_or_empty t = (case t of None \<Rightarrow> [] | Some s \<Rightarrow> s)"

definition company_subject ::
  "crm_world \<Rightarrow> exporter_profile \<Rightarrow> (subject_key \<times> run_view) list \<Rightarrow> subject_coverage" where
  "company_subject w company views = (let view = map_of views CompanyKey in
     \<lparr>sv_type = SUBJECT_COMPANY, sv_name = text_or_empty (ep_name company), sv_reference = None, sv_latest = view,
      sv_reasons = reasons_for (map_option rn_run view) (active_lists w) (ep_name company), sv_roles = []\<rparr>)"

definition person_coverage :: "crm_world \<Rightarrow> (subject_key \<times> run_view) list \<Rightarrow> contact_row \<Rightarrow> subject_coverage" where
  "person_coverage w views p = (let view = map_of views (subject_key (person_subject p) (Some (ct_id p)) []) in
     \<lparr>sv_type = person_subject p, sv_name = ct_name p, sv_reference = Some (ct_id p), sv_latest = view,
      sv_reasons = reasons_for (map_option rn_run view) (active_lists w) None, sv_roles = person_roles p\<rparr>)"

definition named_coverage :: "crm_world \<Rightarrow> run_view \<Rightarrow> subject_coverage" where
  "named_coverage w view =
     \<lparr>sv_type = sr_subject_type (rn_run view), sv_name = sr_subject_name (rn_run view),
      sv_reference = sr_subject_reference (rn_run view), sv_latest = Some view,
      sv_reasons = run_reasons (rn_run view) (active_lists w) None, sv_roles = []\<rparr>"

definition seen_keys :: "contact_row list \<Rightarrow> subject_key list" where
  "seen_keys people = CompanyKey # map (\<lambda>p. subject_key (person_subject p) (Some (ct_id p)) []) people"

definition company_coverage :: "uuid \<Rightarrow> crm_world \<Rightarrow> crm_error + subject_coverage list" where
  "company_coverage company_id w = (case profiles (crm w) company_id of
     None \<Rightarrow> Inl (ExporterProfileNotFoundError company_id)
   | Some company \<Rightarrow>
     let latest = latest_by_subject (filter (\<lambda>r. run_in_cycle r (current_cycle (crm w) company_id))
           (runs_newest_first w company_id));
         people = people_of w company_id
     in bindE (run_views w (map snd latest)) (\<lambda>vs.
        let views = zip (map fst latest) vs
        in Inr (company_subject w company views # map (person_coverage w views) people @
           map (named_coverage w \<circ> snd) (filter (\<lambda>(k, v). k \<notin> set (seen_keys people)) views))))"

definition runs_for :: "uuid \<Rightarrow> crm_world \<Rightarrow> crm_error + run_view list" where
  "runs_for company_id w = run_views w (runs_newest_first w company_id)"

section \<open>Companies to screen again\<close>

record rescreen_row =
  rd_company :: uuid
  rd_name :: "string option"
  rd_reasons :: "string list"

definition labelled :: "string \<Rightarrow> string list \<Rightarrow> string list" where
  "labelled subject reasons = map (\<lambda>reason. (if subject = [] then ''The company'' else subject) @ '': '' @ reason) reasons"

text \<open>Every company's subjects from the same reads, without their hits.\<close>

definition due_reasons :: "crm_world \<Rightarrow> uuid \<Rightarrow> exporter_profile \<Rightarrow> string list" where
  "due_reasons w company_id company =
    (let subjects = latest_by_subject (filter (\<lambda>r. run_in_cycle r (current_cycle (crm w) company_id))
           (runs_newest_first w company_id));
         people = people_of w company_id; lists = active_lists w;
         found = (text_or_empty (ep_name company), reasons_for (map_of subjects CompanyKey) lists (ep_name company)) #
           map (\<lambda>p. (ct_name p, reasons_for (map_of subjects (subject_key (person_subject p) (Some (ct_id p)) [])) lists None))
             people @
           map (\<lambda>(k, r). (sr_subject_name r, reasons_for (Some r) lists None))
             (filter (\<lambda>(k, r). k \<notin> set (seen_keys people)) subjects)
     in concat (map (\<lambda>(subject, reasons). labelled subject reasons) found))"

text \<open>Rows of one name come in the order of the set of ids, which is not fixed.\<close>

definition rescreen_due :: "nat \<Rightarrow> crm_world \<Rightarrow> rescreen_row list" where
  "rescreen_due limit w = take limit (sort_key (\<lambda>r. py_lower (text_or_empty (rd_name r)))
     (concat (map (\<lambda>c. case profiles (crm w) c of None \<Rightarrow> []
        | Some company \<Rightarrow> (let reasons = due_reasons w c company in
            if reasons = [] then [] else [\<lparr>rd_company = c, rd_name = ep_name company, rd_reasons = reasons\<rparr>]))
       (remdups (map sr_company (sanctions_runs w))))))"

section \<open>True matches that wait\<close>

record pending_match =
  pm_company :: uuid
  pm_name :: "string option"
  pm_run :: sanctions_run
  pm_hit :: sanctions_hit
  pm_proposal :: hit_disposition

definition pending_match_of :: "crm_world \<Rightarrow> hit_disposition \<Rightarrow> pending_match list" where
  "pending_match_of w d = (case find (\<lambda>h. sh_id h = hd_hit d) (sanctions_hits w) of None \<Rightarrow> [] | Some h \<Rightarrow>
     case find (\<lambda>r. sr_id r = sh_run h) (sanctions_runs w) of None \<Rightarrow> [] | Some run \<Rightarrow>
     case profiles (crm w) (sr_company run) of None \<Rightarrow> [] | Some p \<Rightarrow>
       [\<lparr>pm_company = sr_company run, pm_name = ep_name p, pm_run = run, pm_hit = h, pm_proposal = d\<rparr>])"

definition pending_true_matches :: "crm_world \<Rightarrow> pending_match list" where
  "pending_true_matches w = concat (map (pending_match_of w) (sort_key hd_decided_at
     (filter (\<lambda>d. hd_disposition d = TRUE_MATCH_PROPOSED \<and> (\<forall>x \<in> set (dispositions w). hd_supersedes x \<noteq> Some (hd_id d)))
       (dispositions w))))"

section \<open>The company's result\<close>

definition RESULT_REFERENCE :: string where "RESULT_REFERENCE = ''sanctions-screening:''"

definition standing_status :: "sanctions_outcome \<Rightarrow> verification_status" where
  "standing_status result = (case result of RUN_PASSED \<Rightarrow> V_PASSED | RUN_FAILED \<Rightarrow> V_FAILED | RUN_REVIEW \<Rightarrow> V_REVIEW)"

definition is_screening_result :: "uuid \<Rightarrow> crm_db \<Rightarrow> verification_row \<Rightarrow> bool" where
  "is_screening_result company_id db r \<longleftrightarrow> about_company company_id r \<and> vr_type r = SANCTIONS \<and>
     (case vr_provider_reference r of None \<Rightarrow> False | Some t \<Rightarrow> take (length RESULT_REFERENCE) t = RESULT_REFERENCE) \<and>
     in_cycle (current_cycle db company_id) (vr_cycle r)"

definition screening_result :: "uuid \<Rightarrow> crm_db \<Rightarrow> verification_row option" where
  "screening_result company_id db =
    (case sort_key (\<lambda>r. (- vr_performed_at r, - vr_created_at r)) (filter (is_screening_result company_id db) (verifications db)) of
       [] \<Rightarrow> None | r # _ \<Rightarrow> Some r)"

definition is_reviewed :: "crm_db \<Rightarrow> verification_row \<Rightarrow> bool" where
  "is_reviewed db r \<longleftrightarrow> (\<exists>v \<in> set (reviews db). rv_result v = vr_id r)"

definition sync_settled :: "sanctions_outcome \<Rightarrow> crm_db \<Rightarrow> verification_row option \<Rightarrow> bool" where
  "sync_settled result db latest = (case latest of None \<Rightarrow> False
     | Some r \<Rightarrow> vr_status r = standing_status result \<and> \<not> is_reviewed db r)"

definition sync_concludes :: "sanctions_outcome \<Rightarrow> crm_db \<Rightarrow> verification_row option \<Rightarrow> bool" where
  "sync_concludes result db latest = (case latest of None \<Rightarrow> False
     | Some r \<Rightarrow> vr_status r = V_REVIEW \<and> \<not> is_reviewed db r \<and> result \<noteq> RUN_REVIEW)"

definition summary_entry :: "(uuid \<Rightarrow> string) \<Rightarrow> subject_coverage \<Rightarrow> run_view \<Rightarrow> py_value" where
  "summary_entry show_uuid s view = PyDict
     [(''subject_type'', PyText (subject_type_value (sv_type s))), (''name'', PyText (sv_name s)),
      (''outcome'', PyText (sanctions_outcome_value (rn_outcome view))),
      (''run_id'', PyText (show_uuid (sr_id (rn_run view)))),
      (''lists'', PyList (map (\<lambda>(code, d). PyText (code @ '' '' @ iso_date d)) (sr_lists (rn_run view))))]"

definition summary_line :: "subject_coverage \<Rightarrow> run_view \<Rightarrow> string" where
  "summary_line s view = sv_name s @ '' '' @ sanctions_outcome_value (rn_outcome view) @ '' ('' @
     py_join '', '' (map (\<lambda>(code, d). code @ '' '' @ iso_date d) (sr_lists (rn_run view))) @ '')''"

definition screened_subjects :: "subject_coverage list \<Rightarrow> (subject_coverage \<times> run_view) list" where
  "screened_subjects ss = concat (map (\<lambda>s. case sv_latest s of None \<Rightarrow> [] | Some v \<Rightarrow> [(s, v)]) ss)"

text \<open>The text of an id and of an instant only make the reference unlike any other: parameters.\<close>

definition sync_request ::
  "(uuid \<Rightarrow> string) \<Rightarrow> (instant \<Rightarrow> string) \<Rightarrow> instant \<Rightarrow> uuid \<Rightarrow> sanctions_outcome \<Rightarrow> subject_coverage list \<Rightarrow> verification_request" where
  "sync_request show_uuid show_instant now company_id result subjects =
     \<lparr>vq_type = SANCTIONS, vq_entity_type = EXPORTER, vq_entity_reference = company_id,
      vq_payload = [(''status'', PyText (sanctions_outcome_value result)),
        (''provider_reference'', PyText (RESULT_REFERENCE @ show_uuid company_id @ '':'' @ show_instant now)),
        (''normalized_result'', PyDict [(''source'', PyText ''sanctions_screening''),
           (''subjects'', PyList (map (\<lambda>(s, v). summary_entry show_uuid s v) (screened_subjects subjects)))])],
      vq_evidence = Some \<lparr>eg_note = Some (''Structured sanctions screening: '' @
          py_join ''; '' (map (\<lambda>(s, v). summary_line s v) (screened_subjects subjects))), eg_refs = []\<rparr>\<rparr>"

definition sync_company_result ::
  "crm_env \<Rightarrow> (uuid \<Rightarrow> string) \<Rightarrow> (instant \<Rightarrow> string) \<Rightarrow> (string \<Rightarrow> bool) \<Rightarrow> adapter_registry \<Rightarrow> uuid \<Rightarrow> screening_actor \<Rightarrow>
   crm_world \<Rightarrow> crm_error + crm_world" where
  "sync_company_result env show_uuid show_instant ip_literal registry company_id actor w =
     bindE (company_sanctions company_id w) (\<lambda>s. case cs_standing s of None \<Rightarrow> Inr w
     | Some result \<Rightarrow>
       let latest = screening_result company_id (crm w)
       in if sync_settled result (crm w) latest then Inr w
       else bindE (if sync_concludes result (crm w) latest
            then bindE (record_review env (vr_id (the latest)) (sa_id actor)
                  (if result = RUN_PASSED then R_ACCEPTED else R_REJECTED)
                  (Some ''Concluded by the sanctions screening'') None w) (\<lambda>(_, w). Inr w)
            else Inr w) (\<lambda>w.
          bindE (company_coverage company_id w) (\<lambda>subjects.
          bindE (trigger_verification env ip_literal registry
             (sync_request show_uuid show_instant (env_now env) company_id result subjects) ''manual'' (Some (sa_id actor)) w)
             (\<lambda>(_, w). Inr w))))"

end
