(* ===== verification/Screening_Standing.thy ===== *)
theory Screening_Standing
  imports Screening_Sync World_System
begin

text \<open>
  What the screening service owes its readers: the list of companies to screen again agrees with the
  company's page, and after a screening the result the background check reads carries the standing.
\<close>

section \<open>Screening again\<close>

lemma run_view_of_run: "run_view_of w r = Inr v \<Longrightarrow> rn_run v = r"
  by (auto simp: run_view_of_def err_simps)

lemma run_views_runs: "run_views w rs = Inr vs \<Longrightarrow> map rn_run vs = rs"
  by (induction rs arbitrary: vs) (auto simp: err_simps dest: run_view_of_run)

text \<open>A subject's run is the run of its view.\<close>

lemma zip_views:
  assumes "run_views w (map snd latest) = Inr vs"
  shows "map (\<lambda>(k, v). (k, rn_run v)) (zip (map fst latest) vs) = latest"
proof -
  from run_views_runs [OF assms] have m: "map rn_run vs = map snd latest" .
  then have "length vs = length latest" by (metis length_map)
  then have "map (\<lambda>(k, v). (k, rn_run v)) (zip (map fst latest) vs) = zip (map fst latest) (map rn_run vs)"
    by (simp add: zip_map2)
  then show ?thesis by (simp add: m zip_map_fst_snd)
qed

lemma map_of_runs: "map_of (map (\<lambda>(k, v). (k, f v)) xs) k = map_option f (map_of xs k)"
  by (induction xs) auto

definition coverage_reasons :: "subject_coverage list \<Rightarrow> string list" where
  "coverage_reasons ss = concat (map (\<lambda>s. labelled (sv_name s) (sv_reasons s)) ss)"

lemma due_reasons_of_page:
  assumes "profiles (crm w) c = Some p" and "company_coverage c w = Inr ss"
  shows "due_reasons w c p = coverage_reasons ss"
proof -
  define latest where "latest = latest_by_subject (filter (\<lambda>r. run_in_cycle r (current_cycle (crm w) c)) (runs_newest_first w c))"
  define people where "people = people_of w c"
  from assms obtain vs where vs: "run_views w (map snd latest) = Inr vs"
    and ss: "ss = company_subject w p (zip (map fst latest) vs) # map (person_coverage w (zip (map fst latest) vs)) people @
           map (named_coverage w \<circ> snd) (filter (\<lambda>(k, v). k \<notin> set (seen_keys people)) (zip (map fst latest) vs))"
    by (auto simp: company_coverage_def err_simps Let_def latest_def people_def)
  define views where "views = zip (map fst latest) vs"
  have l: "latest = map (\<lambda>(k, v). (k, rn_run v)) views" using zip_views [OF vs] by (simp add: views_def)
  have f: "filter (\<lambda>(k, r). k \<notin> K) latest = map (\<lambda>(k, v). (k, rn_run v)) (filter (\<lambda>(k, v). k \<notin> K) views)" for K
    unfolding l by (induction views) auto
  have m: "map_of latest k = map_option rn_run (map_of views k)" for k unfolding l by (rule map_of_runs)
  have "due_reasons w c p = labelled (text_or_empty (ep_name p))
        (reasons_for (map_option rn_run (map_of views CompanyKey)) (active_lists w) (ep_name p)) @
      concat (map (\<lambda>q. labelled (ct_name q) (reasons_for (map_option rn_run
        (map_of views (subject_key (person_subject q) (Some (ct_id q)) []))) (active_lists w) None)) people) @
      concat (map (\<lambda>(k, v). labelled (sr_subject_name (rn_run v)) (reasons_for (Some (rn_run v)) (active_lists w) None))
        (filter (\<lambda>(k, v). k \<notin> set (seen_keys people)) views))"
    unfolding due_reasons_def latest_def [symmetric] people_def [symmetric] Let_def f m
    by (simp add: comp_def case_prod_unfold)
  also have "\<dots> = coverage_reasons ss"
    unfolding ss views_def [symmetric] coverage_reasons_def
    by (simp add: company_subject_def person_coverage_def named_coverage_def reasons_for_def Let_def comp_def case_prod_unfold)
  finally show ?thesis .
qed

lemma rescreen_rows:
  assumes "length (remdups (map sr_company (sanctions_runs w))) \<le> limit"
  shows "row \<in> set (rescreen_due limit w) \<longleftrightarrow> (\<exists>p. profiles (crm w) (rd_company row) = Some p \<and>
     rd_company row \<in> sr_company ` set (sanctions_runs w) \<and> rd_name row = ep_name p \<and>
     rd_reasons row = due_reasons w (rd_company row) p \<and> rd_reasons row \<noteq> [])"
proof -
  define f where "f c = (case profiles (crm w) c of None \<Rightarrow> []
        | Some company \<Rightarrow> (let reasons = due_reasons w c company in
            if reasons = [] then [] else [\<lparr>rd_company = c, rd_name = ep_name company, rd_reasons = reasons\<rparr>]))" for c
  have "length (f c) \<le> 1" for c by (simp add: f_def Let_def split: option.split)
  note one = this
  have "length (concat (map f cs)) \<le> length cs" for cs
  proof (induction cs)
    case (Cons c cs)
    with one [of c] show ?case by simp
  qed simp
  then have "length (concat (map f (remdups (map sr_company (sanctions_runs w))))) \<le> limit"
    using assms order_trans by blast
  then have "set (rescreen_due limit w) = (\<Union>c \<in> sr_company ` set (sanctions_runs w). set (f c))"
    by (simp add: rescreen_due_def f_def [symmetric])
  then have 1: "row \<in> set (rescreen_due limit w) \<longleftrightarrow> (\<exists>c \<in> sr_company ` set (sanctions_runs w). row \<in> set (f c))" by simp
  have 2: "row \<in> set (f c) \<longleftrightarrow> (\<exists>p. profiles (crm w) c = Some p \<and> rd_company row = c \<and> rd_name row = ep_name p \<and>
      rd_reasons row = due_reasons w c p \<and> rd_reasons row \<noteq> [])" for c
    by (cases "profiles (crm w) c"; cases row) (auto simp: f_def Let_def)
  show ?thesis
  proof
    assume "row \<in> set (rescreen_due limit w)"
    with 1 obtain c where "c \<in> sr_company ` set (sanctions_runs w)" "row \<in> set (f c)" by blast
    then show "\<exists>p. profiles (crm w) (rd_company row) = Some p \<and> rd_company row \<in> sr_company ` set (sanctions_runs w) \<and>
      rd_name row = ep_name p \<and> rd_reasons row = due_reasons w (rd_company row) p \<and> rd_reasons row \<noteq> []"
      unfolding 2 by (elim exE conjE) (rule exI, simp)
  next
    assume "\<exists>p. profiles (crm w) (rd_company row) = Some p \<and> rd_company row \<in> sr_company ` set (sanctions_runs w) \<and>
      rd_name row = ep_name p \<and> rd_reasons row = due_reasons w (rd_company row) p \<and> rd_reasons row \<noteq> []"
    then show "row \<in> set (rescreen_due limit w)"
      unfolding 1 2 by (elim exE conjE) (rule bexI [of _ "rd_company row"], rule exI, simp_all)
  qed
qed

section \<open>Writing the standing\<close>

lemma verification_fits:
  "fits ''verification'' None (HText (verification_status_value st)) ''verification_service.trigger_verification''"
  "fits ''verification'' None (HText (review_status_value rs)) ''verification_service.record_review''"
  by (induction st; code_simp) (induction rs; code_simp)

lemma store_result_returns:
  "returns (store_result env q oc s a ''verification_service.trigger_verification'' w)"
  using record_history_fits [OF verification_fits(1)]
  by (auto simp: store_result_def record_check_history_def world_history_def Let_def split: prod.split option.split)

lemma record_review_returns:
  assumes "find_result (crm w) i = Some r" and "vr_status r \<noteq> V_PENDING" and "chain_for (crm w) i = []"
  shows "\<exists>v w'. record_review env i u st note None w = Inr (v, w') \<and> rv_status v = st"
  using assms record_history_fits [OF verification_fits(2)]
  by (auto simp: record_review_def record_check_history_def world_history_def chain_head_def Let_def require_def
      split: prod.split option.split)

text \<open>What the manual adapter answers to the service's own request.\<close>

definition sync_outcome :: "verification_request \<Rightarrow> sanctions_outcome \<Rightarrow> verification_outcome" where
  "sync_outcome q result = \<lparr>vo_provider = MANUAL_PROVIDER,
     vo_provider_reference = (case py_get (vq_payload q) ''provider_reference'' of PyText t \<Rightarrow> Some t | _ \<Rightarrow> None),
     vo_status = standing_status result, vo_normalized = py_get (vq_payload q) ''normalized_result'',
     vo_risk_level = None, vo_valid_until = None\<rparr>"

lemma clean_text_word: "\<not> py_space c \<Longrightarrow> clean_text (Some (c # s)) \<noteq> None"
  by (auto simp: clean_text_def Let_def py_strip_eq_Nil)

lemma sync_request_answered:
  "manual_verify ip (sync_request su si now c result ss) = Inr (sync_outcome (sync_request su si now c result ss) result)"
proof -
  have 1: "status_of_value (PyText (sanctions_outcome_value result)) = Some (standing_status result)"
    by (cases result) (simp_all add: status_of_value_def standing_status_def)
  have 2: "standing_status result \<noteq> V_PENDING" by (cases result) (simp_all add: standing_status_def)
  define q where "q = sync_request su si now c result ss"
  have "cleaned_note \<lparr>eg_note = Some (''Structured sanctions screening: '' @ x), eg_refs = []\<rparr> \<noteq> None" for x
    using clean_text_word [of "CHR ''S''"] by (simp add: cleaned_note_def py_space_def)
  then have 3: "check_manual_outcome ip (standing_status result) (vq_evidence q) = Inr ()"
    using 2 by (simp add: check_manual_outcome_def check_evidence_shape_def sync_request_def evidence_is_empty_def
        require_def q_def)
  obtain x y where p: "py_get (vq_payload q) ''status'' = PyText (sanctions_outcome_value result)"
    "py_get (vq_payload q) ''risk_level'' = PyNone" "py_get (vq_payload q) ''valid_until'' = PyNone"
    "py_get (vq_payload q) ''provider_reference'' = PyText x" "py_get (vq_payload q) ''normalized_result'' = PyDict y"
    by (simp add: q_def sync_request_def py_get_def)
  show ?thesis
    unfolding manual_verify_def Let_def q_def [symmetric] p
    by (simp add: 1 3 p require_def text_or_none_def dict_or_empty_def sync_outcome_def)
qed

lemma screening_result_newest:
  assumes "is_screening_result c db r" and "r \<in> set (verifications db)"
    and "\<And>x. x \<in> set (verifications db) \<Longrightarrow> x \<noteq> r \<Longrightarrow> (- vr_performed_at r, - vr_created_at r) < (- vr_performed_at x, - vr_created_at x)"
  shows "screening_result c db = Some r"
proof -
  let ?f = "\<lambda>r. (- vr_performed_at r, - vr_created_at r)" and ?l = "filter (is_screening_result c db) (verifications db)"
  have r: "r \<in> set (sort_key ?f ?l)" using assms(1,2) by simp
  then obtain h t where e: "sort_key ?f ?l = h # t" by (cases "sort_key ?f ?l") auto
  have "h = r"
  proof (rule ccontr)
    assume n: "h \<noteq> r"
    have "set (h # t) = set ?l" unfolding e [symmetric] by simp
    then have "h \<in> set (verifications db)" by auto
    from assms(3) [OF this n] have "?f r < ?f h" .
    moreover have "?f h \<le> ?f r"
      using sorted_sort_key [of ?f ?l] r n unfolding e by auto
    ultimately show False using leD by blast
  qed
  with e show ?thesis by (simp add: screening_result_def)
qed

lemma screening_result_in:
  assumes "screening_result c db = Some r"
  shows "r \<in> set (verifications db)"
proof -
  let ?s = "sort_key (\<lambda>r. (- vr_performed_at r, - vr_created_at r)) (filter (is_screening_result c db) (verifications db))"
  from assms obtain t where "?s = r # t" by (auto simp: screening_result_def split: list.splits)
  then have "r \<in> set ?s" by simp
  then show ?thesis by simp
qed

text \<open>The result that is written is the newest of its kind and carries the standing.\<close>

lemma sync_trigger:
  assumes p: "profiles (crm w) c \<noteq> None" and reg: "reg ''manual'' = Some (manual_adapter ip)"
    and old: "\<And>x. x \<in> set (verifications (crm w)) \<Longrightarrow>
      vr_performed_at x < env_now env \<or> vr_performed_at x = env_now env \<and> vr_created_at x < env_db_now env"
    and ids: "checks_ok (crm w)"
  obtains r w' where "trigger_verification env ip reg (sync_request su si now c result ss) ''manual'' (Some u) w = Inr (r, w')"
    and "screening_result c (crm w') = Some r" and "vr_status r = standing_status result"
    and "\<not> is_reviewed (crm w') r" and "verifications (crm w') = verifications (crm w) @ [r]"
    and "reviews (crm w') = reviews (crm w)"
proof -
  let ?q = "sync_request su si now c result ss" and ?s = "no_subject\<lparr>sb_company := Some c, sb_subject_company := Some c\<rparr>"
    and ?src = "''verification_service.trigger_verification''"
  have c: "check_request ip ?q w = Inr ?s"
    using p by (simp add: check_request_def sync_request_def validate_type_pair_def require_def resolve_subject_def
        check_evidence_documents_def check_evidence_shape_def)
  have a: "get_adapter reg ''manual'' = Inr (manual_adapter ip)" by (simp add: get_adapter_def reg)
  have v: "va_verify (manual_adapter ip) ?q = Inr (sync_outcome ?q result)"
    by (simp add: manual_adapter_def sync_request_answered)
  from store_result_returns [of env ?q "sync_outcome ?q result" ?s "Some u" w] obtain r w' where
    st: "store_result env ?q (sync_outcome ?q result) ?s (Some u) ?src w = Inr (r, w')"
    by (auto simp: returns_iff)
  note f = store_result_writes [OF st]
  from f(7) obtain x where r: "r = (result_from_outcome env (next_uuid (crm w)) ?q (sync_outcome ?q result) ?s)\<lparr>vr_cycle := x\<rparr>" ..
  have fields: "vr_status r = standing_status result" "vr_performed_at r = env_now env" "vr_created_at r = env_db_now env"
    "vr_type r = SANCTIONS" "vr_subject_company r = Some c"
    "\<exists>t. vr_provider_reference r = Some (RESULT_REFERENCE @ t)"
    by (simp_all add: r result_from_outcome_def sync_outcome_def sync_request_def py_get_def no_subject_def)
  from f(8) obtain cy where cy: "current_cycle (crm w') c = Some cy" "vr_cycle r = Some (cc_id cy)"
    by (auto simp: no_subject_def)
  have isr: "is_screening_result c (crm w') r"
    using fields(4-6) by (auto simp: is_screening_result_def cy in_cycle_def about_company_def)
  have "screening_result c (crm w') = Some r"
  proof (rule screening_result_newest [OF isr])
    fix x assume "x \<in> set (verifications (crm w'))" "x \<noteq> r"
    then have "x \<in> set (verifications (crm w))" by (simp add: f(3))
    from old [OF this] fields(2,3)
    show "(- vr_performed_at r, - vr_created_at r) < (- vr_performed_at x, - vr_created_at x)" by auto
  qed (simp add: f(3))
  moreover have "\<not> is_reviewed (crm w') r"
  proof
    assume "is_reviewed (crm w') r"
    then obtain v where "v \<in> set (reviews (crm w))" "rv_result v = next_uuid (crm w)" by (auto simp: is_reviewed_def f(4,5))
    then show False using ids unfolding checks_ok_def by fastforce
  qed
  moreover have "trigger_verification env ip reg ?q ''manual'' (Some u) w = Inr (r, w')"
    unfolding trigger_verification_def c a v bindE_simps st by simp
  ultimately show thesis using that fields(1) f(3,4) by blast
qed

text \<open>A result that waits for a decision is concluded first.\<close>

lemma sync_review:
  assumes ok: "checks_ok (crm w)" and r: "r \<in> set (verifications (crm w))" "vr_status r = V_REVIEW" "\<not> is_reviewed (crm w) r"
  obtains v w' where "record_review env (vr_id r) u st note None w = Inr (v, w')" and "checks_ok (crm w')"
    and "verifications (crm w') = verifications (crm w)" and "head_by_result (crm w') (vr_id r) = Some v"
    and "rv_status v = st" and "w' = w\<lparr>crm := crm w'\<rparr>" and "profiles (crm w') = profiles (crm w)"
    and "cycles (crm w') = cycles (crm w)"
proof -
  have ch: "reviews_chained (reviews (crm w))" using ok by (simp add: checks_ok_def)
  have "chain_for (crm w) (vr_id r) = []"
    using r(3) by (auto simp: chain_for_line(1) [OF ch] is_reviewed_def filter_empty_conv)
  from record_review_returns [OF checks_ok_result [OF ok r(1)] _ this] r(2) obtain v w' where
    rr: "record_review env (vr_id r) u st note None w = Inr (v, w')" "rv_status v = st" by fastforce
  note e = record_review_effect [OF rr(1) ok] and ok' = record_review_ok [OF rr(1) ok]
  from e(1) have f: "verifications (crm w') = verifications (crm w)" "w' = w\<lparr>crm := crm w'\<rparr>"
    "reviews (crm w') = reviews (crm w) @ [v]" "profiles (crm w') = profiles (crm w)" "cycles (crm w') = cycles (crm w)" by auto
  have ch': "reviews_chained (reviews (crm w'))" using ok' by (simp add: checks_ok_def)
  have "head_by_result (crm w') (vr_id r) = Some v"
    using e(3) by (simp add: chain_head_read [OF ch'] chain_head_def chain_for_line(1) [OF ch'] f(3))
  with that [OF rr(1) ok' f(1) _ rr(2) f(2,4,5)] show thesis by blast
qed

text \<open>The page reads the screenings, the company and its cycles.\<close>

lemma run_views_crm: "run_views (w\<lparr>crm := db\<rparr>) rs = run_views w rs"
proof -
  have "hit_views (w\<lparr>crm := db\<rparr>) hs = hit_views w hs" for hs
    by (induction hs) (simp_all add: current_disposition_def chain_of_def)
  then show ?thesis by (induction rs) (simp_all add: run_view_of_def)
qed

lemma company_coverage_returns:
  assumes "company_sanctions c w = Inr s" and "profiles db = profiles (crm w)" and "cycles db = cycles (crm w)"
  shows "returns (company_coverage c (w\<lparr>crm := db\<rparr>))"
  using assms
  by (auto simp: company_sanctions_def company_coverage_def err_simps returns_bindE Let_def run_views_crm
      runs_newest_first_def current_cycle_def cycles_of_def split: option.splits)

lemma sync_result:
  assumes w: "world_reachable policy w" and pol: "policy env mode"
    and cs: "company_sanctions c w = Inr s" "cs_standing s = Some result"
    and reg: "reg ''manual'' = Some (manual_adapter ip)"
    and old: "\<forall>x \<in> set (verifications (crm w)).
      vr_performed_at x < env_now env \<or> vr_performed_at x = env_now env \<and> vr_created_at x < env_db_now env"
  obtains w' r where "sync_company_result env su si ip reg c actor w = Inr w'" and "world_reachable policy w'"
    and "screening_result c (crm w') = Some r" and "vr_status r = standing_status result" and "\<not> is_reviewed (crm w') r"
    and "\<And>r0. sync_concludes result (crm w) (Some r0) \<Longrightarrow> screening_result c (crm w) = Some r0 \<Longrightarrow>
      \<exists>v. head_by_result (crm w') (vr_id r0) = Some v \<and> rv_status v = (if result = RUN_PASSED then R_ACCEPTED else R_REJECTED)"
proof -
  note finish = that
  let ?l = "screening_result c (crm w)"
  have ok: "checks_ok (crm w)" using world_reachable_ok [OF w] by (simp add: world_ok_def)
  have p: "profiles (crm w) c \<noteq> None" using cs(1) by (auto simp: company_sanctions_def split: option.splits)
  have trig: thesis
    if w1: "world_reachable policy w1" "w1 = w\<lparr>crm := crm w1\<rparr>" "profiles (crm w1) = profiles (crm w)"
        "cycles (crm w1) = cycles (crm w)" "verifications (crm w1) = verifications (crm w)" "\<not> sync_settled result (crm w) ?l"
      and go: "(if sync_concludes result (crm w) ?l
            then bindE (record_review env (vr_id (the ?l)) (sa_id actor) (if result = RUN_PASSED then R_ACCEPTED else R_REJECTED)
                  (Some ''Concluded by the sanctions screening'') None w) (\<lambda>(_, w). Inr w) else Inr w) = Inr w1"
      and con: "\<And>r0. sync_concludes result (crm w) (Some r0) \<Longrightarrow> ?l = Some r0 \<Longrightarrow>
      \<exists>v. head_by_result (crm w1) (vr_id r0) = Some v \<and> rv_status v = (if result = RUN_PASSED then R_ACCEPTED else R_REJECTED)"
    for w1
  proof -
    have "returns (company_coverage c w1)" using company_coverage_returns [OF cs(1) w1(3,4)] w1(2) by simp
    then obtain ss where ss: "company_coverage c w1 = Inr ss" by (auto simp: returns_iff)
    have ok1: "checks_ok (crm w1)" using world_reachable_ok [OF w1(1)] by (simp add: world_ok_def)
    obtain r w' where t: "trigger_verification env ip reg (sync_request su si (env_now env) c result ss) ''manual''
        (Some (sa_id actor)) w1 = Inr (r, w')"
      and r: "screening_result c (crm w') = Some r" "vr_status r = standing_status result" "\<not> is_reviewed (crm w') r"
      and rv: "reviews (crm w') = reviews (crm w1)"
      by (rule sync_trigger [of w1 c reg ip env, OF _ reg _ ok1]) (use p old w1(3,5) in auto)
    have s: "sync_company_result env su si ip reg c actor w = Inr w'"
      using w1(6) go ss t by (simp add: sync_company_result_def cs)
    have h: "head_by_result (crm w') i = head_by_result (crm w1) i" for i
      by (simp add: head_by_result_def review_heads_def rv)
    show thesis
      by (rule finish [OF s world_next [OF w1(1) pol world_step.checked [OF t]] r]) (use con h in auto)
  qed
  show thesis
  proof (cases "sync_settled result (crm w) ?l")
    case True
    then obtain r where r: "?l = Some r" "vr_status r = standing_status result" "\<not> is_reviewed (crm w) r"
      by (auto simp: sync_settled_def split: option.splits)
    have s: "sync_company_result env su si ip reg c actor w = Inr w" using True by (simp add: sync_company_result_def cs)
    show thesis
      by (rule finish [OF s w r])
        (use r(1,2) in \<open>auto simp: sync_concludes_def standing_status_def split: sanctions_outcome.splits\<close>)
  next
    case ns: False
    show thesis
    proof (cases "sync_concludes result (crm w) ?l")
      case False
      show thesis by (rule trig [OF w _ refl refl refl ns]) (use False in auto)
    next
      case True
      then obtain r0 where r0: "?l = Some r0" "vr_status r0 = V_REVIEW" "\<not> is_reviewed (crm w) r0"
        by (auto simp: sync_concludes_def split: option.splits)
      from r0(1) have "r0 \<in> set (verifications (crm w))" by (rule screening_result_in)
      then obtain v w1 where rr: "record_review env (vr_id r0) (sa_id actor) (if result = RUN_PASSED then R_ACCEPTED else R_REJECTED)
          (Some ''Concluded by the sanctions screening'') None w = Inr (v, w1)"
        and f: "verifications (crm w1) = verifications (crm w)" "head_by_result (crm w1) (vr_id r0) = Some v"
        "rv_status v = (if result = RUN_PASSED then R_ACCEPTED else R_REJECTED)" "w1 = w\<lparr>crm := crm w1\<rparr>"
        "profiles (crm w1) = profiles (crm w)" "cycles (crm w1) = cycles (crm w)"
        using sync_review [OF ok _ r0(2,3)] by blast
      show thesis
        by (rule trig [OF world_next [OF w pol world_step.reviewed [OF rr]] f(4-6,1) ns])
          (use True r0(1) rr f(2,3) in auto)
    qed
  qed
qed

end
