(* ===== verification/Screening_Guarantees.thy ===== *)
theory Screening_Guarantees
  imports Sample_World Screening_Standing
begin

text \<open>
  What the screening service promises its readers: the background check's result follows the
  standing, and the list of companies to screen again says what each company's page says.
\<close>

section \<open>A company screened with no match\<close>

definition screening_registry :: adapter_registry where
  "screening_registry name = (if name = ''manual'' then Some (manual_adapter (\<lambda>_. False)) else None)"

lemma clean_screening_evaluates:
  "case record_run sample_env SECOND_OFFICER company SUBJECT_COMPANY None None [''un''] [] None ''MANUAL''
       None None (screener officer_a) world_listed of
     Inl e \<Rightarrow> False
   | Inr (x, w1) \<Rightarrow> verifications (crm w1) = [] \<and> map sr_company (sanctions_runs w1) = [company] \<and>
     (case company_sanctions company w1 of Inl e \<Rightarrow> False | Inr s \<Rightarrow> cs_standing s = Some RUN_PASSED)"
  by code_simp

lemma clean_screening:
  obtains w s where "world_reachable two_person_rule w" and "verifications (crm w) = []"
    and "map sr_company (sanctions_runs w) = [company]" and "company_sanctions company w = Inr s"
    and "cs_standing s = Some RUN_PASSED"
proof -
  have "world_step sample_env SECOND_OFFICER world_entered world_listed"
    unfolding world_listed_def by (rule world_step.settings) (simp add: world_entered_def empty_world_def)
  from sample_world_step [OF reachable_world_entered this] have r0: "world_reachable two_person_rule world_listed" .
  from clean_screening_evaluates [unfolded run_of] obtain x w where
    1: "record_run sample_env SECOND_OFFICER company SUBJECT_COMPANY None None [''un''] [] None ''MANUAL''
       None None (screener officer_a) world_listed = Inr (x, w)"
    and f: "verifications (crm w) = []" "map sr_company (sanctions_runs w) = [company]"
    and s: "case company_sanctions company w of Inl e \<Rightarrow> False | Inr s \<Rightarrow> cs_standing s = Some RUN_PASSED"
    by (elim exE conjE) (rule that)
  from s obtain cs where "company_sanctions company w = Inr cs" "cs_standing cs = Some RUN_PASSED"
    by (cases "company_sanctions company w") auto
  with f sample_world_step [OF r0 world_step.screened [OF 1]] show thesis by (intro that)
qed

section \<open>The result follows the standing\<close>



section \<open>The list agrees with the page\<close>


lemma stale_list_evaluates:
  "case record_run sample_env SECOND_OFFICER company SUBJECT_COMPANY None None [''un''] [] None ''MANUAL''
       None None (screener officer_a) world_listed of
     Inl e \<Rightarrow> False
   | Inr (x, w1) \<Rightarrow> let w = w1\<lparr>sanctions_lists := [sample_list\<lparr>sl_version_date := 101\<rparr>]\<rparr> in
       map sr_company (sanctions_runs w) = [company] \<and>
       map sv_reasons (case company_coverage company w of Inl e \<Rightarrow> [] | Inr ss \<Rightarrow> ss) =
         [[''UN list has a newer version ('' @ iso_date 101 @ '')'']]"
  by code_simp


end
