(* ===== verification/Spec2Isabelle.thy ===== *)
theory Spec2Isabelle
  imports World_Guarantees Verification_Guarantees Screening_Guarantees
begin

text \<open>
  The onboarding core of the exporter CRM (\<open>src/backend/app/modules/onboarding\<close>): how a company
  comes to be cleared, qualified, screened and sold for, and what the services around it promise
  together. Paths below are under that directory.

  \<^bold>\<open>How the program is modelled.\<close> The services are asynchronous Python over one database. A
  service method is a function from its arguments and the tables to an exception (\<open>Inl\<close> of a
  \<open>crm_error\<close>) or its result and the tables after its commit (\<open>Inr\<close>); every early return and raise
  is a branch, in the order of the code. The tables are lists in insertion order, and for the company
  row a map (\<open>Store.crm_db\<close>); \<open>World.crm_world\<close> adds those of deals, qualification and sanctions.
  Methods that end in a commit lock the company or the deal first, so a transaction is one atomic
  step; two of them do not interleave. What a method does after its commit is a transaction of its own:
  \<open>_sync_company_result\<close> of a screening is modelled as one (\<open>Screening_Sync\<close>), the announcements on
  the event bus and the automatic qualification criteria (\<open>_answer_deal_value\<close> of a deal) are not, and
  the step relations allow for what they write (\<open>resulted\<close>). A poll of a provider asks it with no lock
  held and writes under one, so its write is a step by itself (\<open>poll_apply\<close>). The clock, the settings
  and the digest \<open>sha256\<close> are fields of \<open>crm_env\<close> or parameters; parameters are also the document types
  a settings file configures, the registry of verification adapters with the vendors behind it, the test
  for an IP address in a link's brackets, and the text of an id and of an instant.

  \<^bold>\<open>Theories, in import order.\<close>
  \<^item> \<open>Prelude\<close> (error monad, \<open>err_simps\<close>, Python text helpers), \<open>Vocab\<close> (enumerations and
    exceptions), \<open>Calendar\<close> (joining, lower case, ISO dates), \<open>Chains\<close> (the locale \<open>version_log\<close> of an
    append-only table whose rows supersede one another), \<open>Store\<close> (tables and rows).
  \<^item> \<open>Compliance_Inputs\<close> (\<open>application/compliance_inputs.py\<close>, \<open>compliance_facts.py\<close> and their
    domain halves), \<open>Decision_Log\<close> (the three repositories), \<open>Clear_Rules\<close>
    (\<open>domain/background_check_views.py\<close>), \<open>Assignment\<close> (\<open>domain/assignment.py\<close>), \<open>History\<close>
    (\<open>application/history_service.py\<close>, the locale \<open>row_writer\<close>), \<open>Company_Record\<close>
    (\<open>application/exporter_profile_service.py\<close>), \<open>Review\<close>, \<open>Background_Check\<close>, \<open>Approval\<close>
    (\<open>application/background_check_service.py\<close>: who holds a review, the one move \<open>apply_move\<close> and the
    public moves, maker-checker), \<open>Background_Check_Api\<close> (\<open>api/background_check_router.py\<close>).
  \<^item> \<open>Integrity\<close> (the CHECK constraints and the well-formedness of the tables), \<open>System\<close> (the step
    relation \<open>crm_step\<close>, the states \<open>reachable\<close> under a settings policy, and \<open>system_ok\<close> of them),
    \<open>Completion\<close> (nothing unexpected is raised), \<open>Sample_Run\<close> (one company's whole check, evaluated).
  \<^item> \<open>Guarantees\<close>, \<open>Operations\<close>, \<open>Check_Cycles\<close>, \<open>Verdict_Inputs\<close>, \<open>Offers\<close>, \<open>Proposal_Offers\<close>,
    \<open>Rekyc_List\<close> (the rest of C1 to C30: what the background check promises), \<open>Protocol\<close> (C31 and C32: the
    abstract maker-checker machine it refines), \<open>Progress\<close> (two officers can always clear a company
    that is ready).
  \<^item> \<open>World\<close> (the wider tables), \<open>Conversation\<close> (\<open>application/conversation_service.py\<close>),
    \<open>Deal_Documents\<close> (\<open>application/deal_required_documents_service.py\<close>), \<open>Handover\<close>
    (\<open>domain/handover_conditions.py\<close>; the locales \<open>handover_reader\<close> and \<open>wired_reader\<close> are the contract
    of its providers), \<open>Sanctions\<close> (\<open>domain/sanctions.py\<close>,
    \<open>application/sanctions_screening_service.py\<close>), \<open>Deals\<close> (\<open>application/deal_service.py\<close>),
    \<open>Qualification\<close> (\<open>application/qualification_service.py\<close>), \<open>Verification\<close>
    (\<open>application/verification_service.py\<close>, the evidence rules, the manual adapter),
    \<open>Screening_Sync\<close> (the page of a company's screenings and the result the background check reads).
  \<^item> \<open>World_Writes\<close>, \<open>Deal_Lifecycle\<close>, \<open>Deal_Rows\<close>, \<open>Qualification_Log\<close>, \<open>Sanctions_Log\<close>,
    \<open>Verification_Log\<close> (what each operation writes and keeps), \<open>World_System\<close> (\<open>world_step\<close>, one rule
    per operation, and \<open>world_ok\<close> of every state it reaches), \<open>Screening_Standing\<close> (the result that
    follows the standing), \<open>Handover_Gate\<close> (the guard as one statement about the tables),
    \<open>Sample_World\<close> (evaluated runs), \<open>World_Guarantees\<close> (C33 to C40), \<open>Verification_Guarantees\<close> (C19,
    C21, C26), \<open>Screening_Guarantees\<close> (C12, C14).

  \<^bold>\<open>How the parts interact.\<close> A company's row carries four gauges. The background check moves one of
  them through \<open>apply_move\<close> only, which files a decision with its evidence, and promotes a cleared
  \<open>PROSPECT\<close> to \<open>CUSTOMER\<close>; qualification moves the second and takes a \<open>LEAD\<close> to \<open>PROSPECT\<close>; the
  conversation is moved by a person and by the opening of a deal; the journey follows. A deal's
  handover reads the seller's gauges, contact, sanctions flag and branch, the deal's documents, and both
  parties' compliance facts through the providers, and takes a snapshot. \<open>crm_step\<close> is the view of the
  background check: what other services write is any change of columns it does not own, so C1 to C32
  and C40 hold whatever those services do. \<open>world_step\<close> is the view of the whole record: there the other
  gauges have owners, and a \<open>crm_step\<close> is part of it when it leaves them to their owners
  (\<open>service_step_governed\<close>: every background-check operation does).

  \<^bold>\<open>What the lemmas show.\<close> Invariants of reachable states by rule induction (\<open>reachable_ok\<close>,
  \<open>world_reachable_ok\<close>), each operation's effect as an elimination rule (\<open>apply_move_effect\<close>,
  \<open>propose_effect\<close>, \<open>transition_effect\<close> and so on), when each operation returns (\<open>Completion\<close>,
  \<open>Operations\<close>, \<open>handover_returns\<close>), the interfaces' laws and their interpretation on the tables
  (\<open>decision_log\<close>, \<open>review_log\<close>, \<open>outcome_log\<close>, \<open>disposition_log\<close>, \<open>rm_writer\<close>, \<open>promoter\<close>,
  \<open>reviewer_writer\<close>, \<open>crm_reader\<close>), and the refinement of the protocol.

  \<^bold>\<open>Bounds.\<close> A history value has at most 64 characters, so the number of a cycle is bounded by
  \<open>10 ^ 60\<close> where C15 needs it to fit. \<open>company_documents\<close> reads pages of 200 and is proved to end
  (C17). Amounts are pairs of digits and places, stored with two places; thresholds and confidences are
  whole ten-thousandths. Text is the characters a \<open>char\<close> holds. Row ids are drawn from a counter
  where the program draws random UUIDs: a fresh id differs from every id before it, and nothing
  else is used of it.

  \<^bold>\<open>Not modelled.\<close> The listings, counts and searches (read models with no rule of their own); creating a
  company and editing its identity (\<open>new_company\<close> says what a new row holds) and \<open>create_buyer_company\<close>
  with it; the vendor calls, imports and spreadsheets; trade invoices and outcomes; bank accounts; registration edits (GSTIN parsing; the rows may change by
  the step \<open>settings\<close>); the earlier KYC onboarding and the cases and compliance-rules modules, which
  nothing modelled calls; file storage and scanning; the HTTP layer beyond the background-check routes
  (authentication, idempotent replay, middleware, schemas); messages, metrics, logs and configuration.
\<close>

end
